(* ===== verification/Finch_Prelude.thy ===== *)
theory Finch_Prelude
  imports Main
begin

text \<open>
  Shared vocabulary of the development: the result and polling types of the Rust code
  (\<open>Result\<close>, \<open>Async\<close>, \<open>Poll\<close>), a type for computations that may panic, and the string
  operations of the Rust standard library the program uses (\<open>str::find\<close>, \<open>str::split\<close>,
  \<open>str::trim\<close>, \<open>str::from_utf8\<close>), with their generic lemmas.

  A Rust \<open>str\<close> or \<open>[u8]\<close> is a \<open>string\<close> of HOL: a list of 8-bit characters, so that \<open>length\<close>
  and positions count bytes as the code does.
\<close>

named_theorems run_simps \<open>evaluation of computations that may panic\<close>
named_theorems action_defs \<open>unfolding of the preflight and poll functions of actions\<close>

section \<open>Results, polls and panics\<close>

text \<open>Rust's \<open>Result<T, E>\<close>.\<close>

datatype ('a, 'e) result = Ok (ok_of: 'a) | Err (err_of: 'e)

text \<open>The \<open>Async\<close> and \<open>Poll\<close> types of the futures interface.\<close>

datatype 'a async = Ready 'a | NotReady

type_synonym ('a, 'e) poll = "('a async, 'e) result"

text \<open>
  A call either returns or panics (\<open>panic!\<close>, \<open>unreachable!\<close>, a failed \<open>unwrap\<close> or \<open>expect\<close>,
  an out-of-range slice). The state of a panicked call is not observable.
\<close>

datatype 'a run = Ret 'a | Panic

text \<open>The one-element tuple \<open>(T,)\<close> of Rust, which HOL's products do not have.\<close>

datatype 'a one = One (the_one: 'a)

definition is_ok :: "('a, 'e) result \<Rightarrow> bool" where
  "is_ok r = (case r of Ok _ \<Rightarrow> True | Err _ \<Rightarrow> False)"

definition map_ok :: "('a \<Rightarrow> 'b) \<Rightarrow> ('a, 'e) result \<Rightarrow> ('b, 'e) result" where
  "map_ok f r = (case r of Ok x \<Rightarrow> Ok (f x) | Err e \<Rightarrow> Err e)"

definition map_err :: "('e \<Rightarrow> 'd) \<Rightarrow> ('a, 'e) result \<Rightarrow> ('a, 'd) result" where
  "map_err f r = (case r of Ok x \<Rightarrow> Ok x | Err e \<Rightarrow> Err (f e))"

definition ok_or :: "'e \<Rightarrow> 'a option \<Rightarrow> ('a, 'e) result" where
  "ok_or e x = (case x of Some v \<Rightarrow> Ok v | None \<Rightarrow> Err e)"

definition map_async :: "('a \<Rightarrow> 'b) \<Rightarrow> 'a async \<Rightarrow> 'b async" where
  "map_async f x = (case x of Ready v \<Rightarrow> Ready (f v) | NotReady \<Rightarrow> NotReady)"

definition map_poll :: "('a \<Rightarrow> 'b) \<Rightarrow> ('a, 'e) poll \<Rightarrow> ('b, 'e) poll" where
  "map_poll f p = map_ok (map_async f) p"

definition map_run :: "('a \<Rightarrow> 'b) \<Rightarrow> 'a run \<Rightarrow> 'b run" where
  "map_run f r = (case r of Ret x \<Rightarrow> Ret (f x) | Panic \<Rightarrow> Panic)"

lemma is_ok_simps [simp]: "is_ok (Ok x)" "\<not> is_ok (Err e)"
  by (simp_all add: is_ok_def)

lemma map_ok_simps [simp]: "map_ok f (Ok x) = Ok (f x)" "map_ok f (Err e) = Err e"
  by (simp_all add: map_ok_def)

lemma map_err_simps [simp]: "map_err f (Ok x) = Ok x" "map_err f (Err e) = Err (f e)"
  by (simp_all add: map_err_def)

lemma ok_or_simps [simp]: "ok_or e (Some x) = Ok x" "ok_or e None = Err e"
  by (simp_all add: ok_or_def)

lemma map_async_simps [simp]:
  "map_async f (Ready x) = Ready (f x)" "map_async f NotReady = NotReady"
  by (simp_all add: map_async_def)

lemma map_poll_simps [simp]:
  "map_poll f (Ok (Ready x)) = Ok (Ready (f x))"
  "map_poll f (Ok NotReady) = Ok NotReady"
  "map_poll f (Err e) = Err e"
  by (simp_all add: map_poll_def)

lemma map_run_simps [simp]: "map_run f (Ret x) = Ret (f x)" "map_run f Panic = Panic"
  by (simp_all add: map_run_def)

lemma map_ok_eq [simp]:
  "map_ok f r = Ok y \<longleftrightarrow> (\<exists>x. r = Ok x \<and> y = f x)"
  "map_ok f r = Err e \<longleftrightarrow> r = Err e"
  by (cases r; auto)+

lemma map_err_eq [simp]:
  "map_err f r = Err d \<longleftrightarrow> (\<exists>e. r = Err e \<and> d = f e)"
  "map_err f r = Ok x \<longleftrightarrow> r = Ok x"
  by (cases r; auto)+

lemma map_async_eq [simp]:
  "map_async f a = Ready y \<longleftrightarrow> (\<exists>x. a = Ready x \<and> y = f x)"
  "map_async f a = NotReady \<longleftrightarrow> a = NotReady"
  "Ready y = map_async f a \<longleftrightarrow> (\<exists>x. a = Ready x \<and> y = f x)"
  "NotReady = map_async f a \<longleftrightarrow> a = NotReady"
  by (auto simp: map_async_def split: async.splits)

lemma map_run_eq [simp]:
  "map_run f r = Ret y \<longleftrightarrow> (\<exists>x. r = Ret x \<and> y = f x)"
  "map_run f r = Panic \<longleftrightarrow> r = Panic"
  by (cases r; auto)+

lemma map_poll_eq [simp]:
  "map_poll f p = Ok (Ready y) \<longleftrightarrow> (\<exists>x. p = Ok (Ready x) \<and> y = f x)"
  "map_poll f p = Ok NotReady \<longleftrightarrow> p = Ok NotReady"
  "map_poll f p = Err e \<longleftrightarrow> p = Err e"
  by (cases p; auto simp: map_poll_def map_async_def split: async.splits)+

lemma map_eq_sym [simp]:
  "Ok y = map_ok f r \<longleftrightarrow> (\<exists>x. r = Ok x \<and> y = f x)"
  "Err e = map_ok f r \<longleftrightarrow> r = Err e"
  "Err d = map_err g q \<longleftrightarrow> (\<exists>e. q = Err e \<and> d = g e)"
  "Ok x = map_err g q \<longleftrightarrow> q = Ok x"
  "Ret v = map_run h m \<longleftrightarrow> (\<exists>u. m = Ret u \<and> v = h u)"
  "Panic = map_run h m \<longleftrightarrow> m = Panic"
  "Ok (Ready w) = map_poll k p \<longleftrightarrow> (\<exists>u. p = Ok (Ready u) \<and> w = k u)"
  "Ok NotReady = map_poll k p \<longleftrightarrow> p = Ok NotReady"
  "Err c = map_poll k p \<longleftrightarrow> p = Err c"
  by (metis map_ok_eq(1), metis map_ok_eq(2), metis map_err_eq(1), metis map_err_eq(2),
      metis map_run_eq(1), metis map_run_eq(2), metis map_poll_eq(1), metis map_poll_eq(2),
      metis map_poll_eq(3))

lemma map_ok_comp: "map_ok g (map_ok f r) = map_ok (g \<circ> f) r"
  by (cases r) auto

lemma map_poll_comp: "map_poll g (map_poll f p) = map_poll (g \<circ> f) p"
  by (cases p) (auto simp: map_poll_def map_async_def split: async.splits)

lemma map_run_comp: "map_run g (map_run f r) = map_run (g \<circ> f) r"
  by (cases r) auto

text \<open>Exhaustive case analysis on a poll result, as the code's \<open>try_ready!\<close> does it.\<close>

lemma poll_exhaust:
  obtains (ready) x where "p = Ok (Ready x)" | (not_ready) "p = Ok NotReady" | (err) e where "p = Err e"
proof (cases p)
  case (Ok a)
  then show ?thesis using ready not_ready by (cases a) auto
next
  case (Err e)
  then show ?thesis by (rule err)
qed

lemma not_panic_iff: "r \<noteq> Panic \<longleftrightarrow> (\<exists>x. r = Ret x)"
  by (cases r) auto

section \<open>Strings\<close>

text \<open>\<open>str::find\<close> for an ASCII character: the byte index of its first occurrence.\<close>

fun str_find :: "char \<Rightarrow> string \<Rightarrow> nat option" where
  "str_find c [] = None"
| "str_find c (x # xs) = (if x = c then Some 0 else map_option Suc (str_find c xs))"

lemma str_find_None: "str_find c s = None \<longleftrightarrow> c \<notin> set s"
  by (induction s) auto

lemma str_find_Some:
  "str_find c s = Some i \<Longrightarrow> i < length s \<and> s ! i = c \<and> c \<notin> set (take i s)"
  by (induction s arbitrary: i) (auto split: if_splits)

lemma str_find_split:
  "str_find c s = Some i \<Longrightarrow> s = take i s @ c # drop (Suc i) s"
  using id_take_nth_drop str_find_Some by metis

lemma str_find_append:
  "c \<notin> set p \<Longrightarrow> str_find c (p @ c # r) = Some (length p)"
  by (induction p) auto

text \<open>\<open>str::split\<close> for an ASCII character; the empty string splits into one empty piece.\<close>

fun str_split :: "char \<Rightarrow> string \<Rightarrow> string list" where
  "str_split c [] = [[]]"
| "str_split c (x # xs) =
     (if x = c then [] # str_split c xs
      else (case str_split c xs of [] \<Rightarrow> [[x]] | p # ps \<Rightarrow> (x # p) # ps))"

lemma str_split_nonempty [simp]: "str_split c s \<noteq> []"
  by (induction s) (auto split: list.splits)

lemma str_split_no_sep: "c \<notin> set s \<Longrightarrow> str_split c s = [s]"
  by (induction s) auto

lemma str_split_append:
  "c \<notin> set p \<Longrightarrow> str_split c (p @ c # r) = p # str_split c r"
  by (induction p) auto

lemma str_split_pieces: "p \<in> set (str_split c s) \<Longrightarrow> c \<notin> set p"
  by (induction s arbitrary: p) (auto split: if_splits list.splits)

definition starts_with :: "string \<Rightarrow> string \<Rightarrow> bool" where
  "starts_with s p = (take (length p) s = p)"

definition ends_with :: "string \<Rightarrow> string \<Rightarrow> bool" where
  "ends_with s p = (length p \<le> length s \<and> drop (length s - length p) s = p)"

lemma starts_with_append [simp]: "starts_with (p @ s) p"
  by (simp add: starts_with_def)

lemma starts_with_iff: "starts_with s p \<longleftrightarrow> (\<exists>r. s = p @ r)"
  by (metis append_eq_conv_conj append_take_drop_id starts_with_def)

lemma ends_with_append [simp]: "ends_with (s @ p) p"
  by (simp add: ends_with_def)

lemma ends_with_iff: "ends_with s p \<longleftrightarrow> (\<exists>r. s = r @ p)"
  unfolding ends_with_def
  by (metis append_take_drop_id diff_diff_cancel ends_with_append ends_with_def length_drop)

text \<open>The UTF-8 encodings of the characters with the \<open>White_Space\<close> property.\<close>

definition whitespace :: "string list" where
  "whitespace =
     map (\<lambda>n. [char_of (n::nat)]) ([9..<14] @ [32]) @
     [[CHR 0xC2, CHR 0x85], [CHR 0xC2, CHR 0xA0], [CHR 0xE1, CHR 0x9A, CHR 0x80]] @
     map (\<lambda>n. [CHR 0xE2, CHR 0x80, char_of (n::nat)]) ([0x80..<0x8B] @ [0xA8, 0xA9, 0xAF]) @
     [[CHR 0xE2, CHR 0x81, CHR 0x9F], [CHR 0xE3, CHR 0x80, CHR 0x80]]"

lemma whitespace_code [code]:
  "whitespace =
    [
     [CHR 0x09], [CHR 0x0A], [CHR 0x0B], [CHR 0x0C], [CHR 0x0D], [CHR 0x20], [CHR 0xC2, CHR 0x85], [CHR
     0xC2, CHR 0xA0], [CHR 0xE1, CHR 0x9A, CHR 0x80], [CHR 0xE2, CHR 0x80, CHR 0x80], [CHR 0xE2, CHR
     0x80, CHR 0x81], [CHR 0xE2, CHR 0x80, CHR 0x82], [CHR 0xE2, CHR 0x80, CHR 0x83], [CHR 0xE2, CHR
     0x80, CHR 0x84], [CHR 0xE2, CHR 0x80, CHR 0x85], [CHR 0xE2, CHR 0x80, CHR 0x86], [CHR 0xE2, CHR
     0x80, CHR 0x87], [CHR 0xE2, CHR 0x80, CHR 0x88], [CHR 0xE2, CHR 0x80, CHR 0x89], [CHR 0xE2, CHR
     0x80, CHR 0x8A], [CHR 0xE2, CHR 0x80, CHR 0xA8], [CHR 0xE2, CHR 0x80, CHR 0xA9], [CHR 0xE2, CHR
     0x80, CHR 0xAF], [CHR 0xE2, CHR 0x81, CHR 0x9F], [CHR 0xE3, CHR 0x80, CHR 0x80]]"
  by code_simp

fun trim_start_with :: "string list \<Rightarrow> string \<Rightarrow> string" where
  "trim_start_with ws [] = []"
| "trim_start_with ws (x # xs) =
     (case find (\<lambda>w. w \<noteq> [] \<and> starts_with (x # xs) w) ws of
        None \<Rightarrow> x # xs
      | Some w \<Rightarrow> trim_start_with ws (drop (length w - 1) xs))"

definition str_trim :: "string \<Rightarrow> string" where
  "str_trim s =
     rev (trim_start_with (map rev whitespace) (rev (trim_start_with whitespace s)))"

text \<open>\<open>str::is_ascii\<close>.\<close>

definition str_is_ascii :: "string \<Rightarrow> bool" where
  "str_is_ascii s = (\<forall>c \<in> set s. of_char c < (128::nat))"

text \<open>The decimal digits of a number, as the formatting of integers prints them.\<close>

fun show_nat :: "nat \<Rightarrow> string" where
  "show_nat n =
     (if n < 10 then [char_of (48 + n)] else show_nat (n div 10) @ [char_of (48 + n mod 10)])"

declare show_nat.simps [simp del]

text \<open>
  \<open>std::str::from_utf8\<close>: validation byte by byte. A failure reports how many bytes were
  valid and how long the offending sequence is (\<open>None\<close> when the input ended in its middle).
\<close>

datatype utf8_error = Utf8Error (valid_up_to: nat) (error_len: "nat option")

definition utf8_cont :: "nat \<Rightarrow> bool" where
  "utf8_cont b = (0x80 \<le> b \<and> b \<le> 0xBF)"

definition utf8_second :: "nat \<Rightarrow> nat \<Rightarrow> bool" where
  "utf8_second b c =
     (if b = 0xE0 then 0xA0 \<le> c \<and> c \<le> 0xBF
      else if b = 0xED then 0x80 \<le> c \<and> c \<le> 0x9F
      else if b = 0xF0 then 0x90 \<le> c \<and> c \<le> 0xBF
      else if b = 0xF4 then 0x80 \<le> c \<and> c \<le> 0x8F
      else utf8_cont c)"

fun utf8_check :: "nat \<Rightarrow> nat list \<Rightarrow> utf8_error option" where
  "utf8_check i [] = None"
| "utf8_check i (b # bs) =
    (if b < 0x80 then utf8_check (i + 1) bs
     else if 0xC2 \<le> b \<and> b \<le> 0xF4 then
       (case bs of
          [] \<Rightarrow> Some (Utf8Error i None)
        | c # r \<Rightarrow>
            if \<not> utf8_second b c then Some (Utf8Error i (Some 1))
            else if b < 0xE0 then utf8_check (i + 2) r
            else (case r of
              [] \<Rightarrow> Some (Utf8Error i None)
            | d # r \<Rightarrow>
                if \<not> utf8_cont d then Some (Utf8Error i (Some 2))
                else if b < 0xF0 then utf8_check (i + 3) r
                else (case r of
                  [] \<Rightarrow> Some (Utf8Error i None)
                | e # r \<Rightarrow>
                    if \<not> utf8_cont e then Some (Utf8Error i (Some 3))
                    else utf8_check (i + 4) r)))
     else Some (Utf8Error i (Some 1)))"

definition from_utf8 :: "string \<Rightarrow> (string, utf8_error) result" where
  "from_utf8 s =
     (case utf8_check 0 (map of_char s) of None \<Rightarrow> Ok s | Some e \<Rightarrow> Err e)"

definition utf8_error_to_string :: "utf8_error \<Rightarrow> string" where
  "utf8_error_to_string e =
     (case error_len e of
        Some n \<Rightarrow> ''invalid utf-8 sequence of '' @ show_nat n @ '' bytes from index '' @
          show_nat (valid_up_to e)
      | None \<Rightarrow> ''incomplete utf-8 byte sequence from index '' @ show_nat (valid_up_to e))"

lemma utf8_check_ascii: "\<forall>b \<in> set bs. b < 0x80 \<Longrightarrow> utf8_check i bs = None"
  by (induction bs arbitrary: i) auto

lemma from_utf8_ascii: "str_is_ascii s \<Longrightarrow> from_utf8 s = Ok s"
  by (auto simp: from_utf8_def str_is_ascii_def utf8_check_ascii)

lemma from_utf8_Ok: "from_utf8 s = Ok t \<Longrightarrow> t = s"
  by (auto simp: from_utf8_def split: option.splits)

section \<open>Requests one after the other\<close>

fun serve :: "('w \<Rightarrow> 'r \<times> 'w) list \<Rightarrow> 'w \<Rightarrow> 'r list \<times> 'w" where
  "serve [] w = ([], w)"
| "serve (rq # rqs) w =
     (case rq w of (r, w') \<Rightarrow> (case serve rqs w' of (rs, w'') \<Rightarrow> (r # rs, w'')))"

text \<open>When each request simulates its specification, so does the sequence.\<close>

lemma serve_simulates:
  assumes step: "\<And>x w a. R w a \<Longrightarrow> \<exists>w'. f x w = (fst (g x a), w') \<and> R w' (snd (g x a))"
    and start: "R w a"
  shows "\<exists>w'. serve (map f xs) w = (fst (serve (map g xs) a), w') \<and> R w' (snd (serve (map g xs) a))"
  using start
proof (induction xs arbitrary: w a)
  case (Cons x xs)
  from step[OF Cons.prems, of x] obtain w1 where w1: "f x w = (fst (g x a), w1)" "R w1 (snd (g x a))" by blast
  from Cons.IH[OF w1(2)] w1(1) show ?case by (auto simp: split_beta)
qed auto

lemma serve_Cons_Ok:
  assumes "serve (rq # rqs) w = (map Ok xs, w')"
  shows "\<exists>x xs' w1. xs = x # xs' \<and> rq w = (Ok x, w1) \<and> serve rqs w1 = (map Ok xs', w')"
proof -
  obtain r w1 where r: "rq w = (r, w1)" by (cases "rq w")
  obtain rs w2 where rs: "serve rqs w1 = (rs, w2)" by (cases "serve rqs w1")
  from assms r rs have "r # rs = map Ok xs" "w2 = w'" by simp_all
  with r rs show ?thesis by (cases xs) auto
qed

end
