(* ===== verification/Finch_Http.thy ===== *)
theory Finch_Http
  imports Finch_Prelude
begin

text \<open>
  The HTTP data the program handles. The \<open>http\<close> crate is not part of the repository: a
  \<open>Method\<close>, a \<open>StatusCode\<close> and the parts of a \<open>Request\<close> the code reads are plain data here,
  while the operations of \<open>HeaderMap\<close> and \<open>HeaderValue\<close> are the fields of a record
  \<open>http_api\<close> that every definition using them takes as an argument. What the code relies on
  of those operations is the predicate \<open>http_laws\<close>.
\<close>

section \<open>Methods and status codes\<close>

datatype http_method =
    GET | POST | PUT | DELETE | HEAD | OPTIONS | CONNECT | PATCH | TRACE | Extension string

type_synonym status_code = nat

abbreviation SWITCHING_PROTOCOLS :: status_code where "SWITCHING_PROTOCOLS \<equiv> 101"
abbreviation STATUS_OK :: status_code where "STATUS_OK \<equiv> 200"
abbreviation CREATED :: status_code where "CREATED \<equiv> 201"
abbreviation NO_CONTENT :: status_code where "NO_CONTENT \<equiv> 204"
abbreviation MOVED_PERMANENTLY :: status_code where "MOVED_PERMANENTLY \<equiv> 301"
abbreviation FOUND :: status_code where "FOUND \<equiv> 302"
abbreviation SEE_OTHER :: status_code where "SEE_OTHER \<equiv> 303"
abbreviation NOT_MODIFIED :: status_code where "NOT_MODIFIED \<equiv> 304"
abbreviation TEMPORARY_REDIRECT :: status_code where "TEMPORARY_REDIRECT \<equiv> 307"
abbreviation PERMANENT_REDIRECT :: status_code where "PERMANENT_REDIRECT \<equiv> 308"
abbreviation BAD_REQUEST :: status_code where "BAD_REQUEST \<equiv> 400"
abbreviation UNAUTHORIZED :: status_code where "UNAUTHORIZED \<equiv> 401"
abbreviation FORBIDDEN :: status_code where "FORBIDDEN \<equiv> 403"
abbreviation NOT_FOUND :: status_code where "NOT_FOUND \<equiv> 404"
abbreviation METHOD_NOT_ALLOWED :: status_code where "METHOD_NOT_ALLOWED \<equiv> 405"
abbreviation INTERNAL_SERVER_ERROR :: status_code where "INTERNAL_SERVER_ERROR \<equiv> 500"

section \<open>Header maps\<close>

text \<open>
  The operations of \<open>http::HeaderMap\<close> and \<open>http::HeaderValue\<close> the program calls. Header names
  are the normalised (lower-case) names, header values are byte strings.
\<close>

record 'h http_api =
  hm_empty :: 'h
  hm_get :: "'h \<Rightarrow> string \<Rightarrow> string option"
  hm_get_all :: "'h \<Rightarrow> string \<Rightarrow> string list"
  hm_insert :: "'h \<Rightarrow> string \<Rightarrow> string \<Rightarrow> 'h"
  hm_append :: "'h \<Rightarrow> string \<Rightarrow> string \<Rightarrow> 'h"
  hm_drain :: "'h \<Rightarrow> (string \<times> string list) list"
  hv_to_str :: "string \<Rightarrow> (string, string) result"

text \<open>The documented behaviour of those operations: a multimap that keeps the order of the
  values of one name.\<close>

definition drained :: "(string \<times> string list) list \<Rightarrow> string \<Rightarrow> string list" where
  "drained xs n = concat (map snd (filter (\<lambda>p. fst p = n) xs))"

definition http_laws :: "'h http_api \<Rightarrow> bool" where
  "http_laws H \<longleftrightarrow>
     (\<forall>n. hm_get_all H (hm_empty H) n = []) \<and>
     (\<forall>m n. hm_get H m n = (case hm_get_all H m n of [] \<Rightarrow> None | v # _ \<Rightarrow> Some v)) \<and>
     (\<forall>m n v k. hm_get_all H (hm_insert H m n v) k = (if k = n then [v] else hm_get_all H m k)) \<and>
     (\<forall>m n v k. hm_get_all H (hm_append H m n v) k =
        (if k = n then hm_get_all H m k @ [v] else hm_get_all H m k)) \<and>
     (\<forall>m n. drained (hm_drain H m) n = hm_get_all H m n) \<and>
     (\<forall>v s. hv_to_str H v = Ok s \<longrightarrow> s = v)"

lemma http_lawsD:
  assumes "http_laws H"
  shows "hm_get_all H (hm_empty H) n = []"
    and "hm_get H m n = (case hm_get_all H m n of [] \<Rightarrow> None | v # _ \<Rightarrow> Some v)"
    and "hm_get_all H (hm_insert H m n v) k = (if k = n then [v] else hm_get_all H m k)"
    and "hm_get_all H (hm_append H m n v) k =
      (if k = n then hm_get_all H m k @ [v] else hm_get_all H m k)"
    and "drained (hm_drain H m) n = hm_get_all H m n"
    and "hv_to_str H v = Ok s \<Longrightarrow> s = v"
  using assms unfolding http_laws_def by blast+

lemma http_get_insert:
  "http_laws H \<Longrightarrow> hm_get H (hm_insert H m n v) k = (if k = n then Some v else hm_get H m k)"
  by (simp add: http_lawsD)

lemma http_get_empty: "http_laws H \<Longrightarrow> hm_get H (hm_empty H) n = None"
  by (simp add: http_lawsD)

text \<open>A header map that satisfies the laws: a list of entries. Witnesses use it.\<close>

definition list_http :: "(string \<times> string) list http_api" where
  "list_http = \<lparr>
     hm_empty = [],
     hm_get = map_of,
     hm_get_all = (\<lambda>m n. map snd (filter (\<lambda>p. fst p = n) m)),
     hm_insert = (\<lambda>m n v. filter (\<lambda>p. fst p \<noteq> n) m @ [(n, v)]),
     hm_append = (\<lambda>m n v. m @ [(n, v)]),
     hm_drain = (\<lambda>m. map (\<lambda>p. (fst p, [snd p])) m),
     hv_to_str = (\<lambda>v. if \<forall>c \<in> set v. 32 \<le> (of_char c :: nat) \<and> of_char c < (127::nat)
                       then Ok v else Err ''failed to convert header to a str'')\<rparr>"

lemma list_http_sel [simp]:
  "hm_empty list_http = []"
  "hm_get list_http = map_of"
  "hm_get_all list_http m n = map snd (filter (\<lambda>p. fst p = n) m)"
  "hm_insert list_http m n v = filter (\<lambda>p. fst p \<noteq> n) m @ [(n, v)]"
  "hm_append list_http m n v = m @ [(n, v)]"
  "hm_drain list_http m = map (\<lambda>p. (fst p, [snd p])) m"
  by (simp_all add: list_http_def)

lemma map_of_first:
  "map_of m n = (case map snd (filter (\<lambda>p. fst p = n) m) of [] \<Rightarrow> None | v # _ \<Rightarrow> Some v)"
  by (induction m) auto

lemma list_http_laws: "http_laws list_http"
proof -
  have drain: "drained (map (\<lambda>p. (fst p, [snd p])) m) n = map snd (filter (\<lambda>p. fst p = n) m)"
    for m :: "(string \<times> string) list" and n
    by (induction m) (auto simp: drained_def)
  have ins: "k \<noteq> n \<Longrightarrow> filter (\<lambda>p. fst p \<noteq> n \<and> fst p = k) m = filter (\<lambda>p. fst p = k) m"
    for m :: "(string \<times> string) list" and n k
    by (induction m) auto
  show ?thesis
    unfolding http_laws_def
    by (auto simp: drain ins map_of_first list_http_def split: if_splits)
qed

section \<open>Requests\<close>

text \<open>
  The parts of \<open>http::Request<()>\<close> the program reads: the method, the path and the query of the
  URI, and the headers.
\<close>

record 'h request =
  rq_method :: http_method
  rq_path :: string
  rq_query :: "string option"
  rq_headers :: 'h

end
