(* ===== verification/Finch_Errors.thy ===== *)
theory Finch_Errors
  imports Finch_Http
begin

text \<open>
  \<open>src/error.rs\<close> and \<open>src/endpoint/ext.rs\<close> (the \<open>NotMatched\<close> error): the type-erased
  \<open>Error\<close>, the implementors of \<open>HttpError\<close> it can hold, the constructors, downcasting and the
  conversion into an HTTP response.
\<close>

section \<open>Responses\<close>

text \<open>
  \<open>http::Response<T>\<close>: status, headers, body, and the one extension the code stores in it
  (the \<open>Error\<close> an error response was made from).
\<close>

datatype io_error_kind = NotFound | PermissionDenied | OtherKind string

text \<open>
  The implementors of \<open>HttpError\<close>: the private \<open>ErrorMessage\<close> and \<open>Failure\<close> structs, the
  foreign error types with an instance in \<open>error.rs\<close> (the uninhabited \<open>Never\<close> has no
  constructor), the errors of the other modules of the crate, and \<open>UserError\<close> for an
  implementor of another crate: its type name, \<open>status_code()\<close> and \<open>Display\<close> text. Causes are
  carried by their \<open>Display\<close> text.
\<close>

datatype http_error =
    ErrorMessage (em_msg: string) (em_status: status_code)
  | Failure (fl_error: string) (fl_status: status_code)
  | IoError io_error_kind string
  | FailureError string
  | SyncFailure string
  | NotMatched (nm_left: http_error) (nm_right: http_error)
  | DecodeEncodedStrError utf8_error
  | ParseEncodedStrError string
  | UserError (ue_type: string) (ue_status: status_code) (ue_display: string)

record ('h, 'b) response =
  rs_status :: status_code
  rs_headers :: 'h
  rs_body :: 'b
  rs_error :: "http_error option"

definition response_new :: "'h http_api \<Rightarrow> 'b \<Rightarrow> ('h, 'b) response" where
  "response_new H b =
     \<lparr>rs_status = STATUS_OK, rs_headers = hm_empty H, rs_body = b, rs_error = None\<rparr>"

definition response_map :: "('a \<Rightarrow> 'b) \<Rightarrow> ('h, 'a) response \<Rightarrow> ('h, 'b) response" where
  "response_map f r = \<lparr>rs_status = rs_status r, rs_headers = rs_headers r,
     rs_body = f (rs_body r), rs_error = rs_error r\<rparr>"

lemma response_new_sel [simp]:
  "rs_status (response_new H b) = STATUS_OK"
  "rs_headers (response_new H b) = hm_empty H"
  "rs_body (response_new H b) = b"
  "rs_error (response_new H b) = None"
  by (simp_all add: response_new_def)

lemma response_map_sel [simp]:
  "rs_status (response_map f r) = rs_status r"
  "rs_headers (response_map f r) = rs_headers r"
  "rs_body (response_map f r) = f (rs_body r)"
  "rs_error (response_map f r) = rs_error r"
  by (simp_all add: response_map_def)

section \<open>Status codes and messages of errors\<close>

definition io_status_code :: "io_error_kind \<Rightarrow> status_code" where
  "io_status_code k =
     (case k of NotFound \<Rightarrow> NOT_FOUND
      | PermissionDenied \<Rightarrow> FORBIDDEN
      | _ \<Rightarrow> INTERNAL_SERVER_ERROR)"

text \<open>\<open>HttpError::status_code\<close>, whose default is 500.\<close>

fun status_code_of :: "http_error \<Rightarrow> status_code" where
  "status_code_of (ErrorMessage msg status) = status"
| "status_code_of (Failure e status) = status"
| "status_code_of (IoError k msg) = io_status_code k"
| "status_code_of (FailureError e) = INTERNAL_SERVER_ERROR"
| "status_code_of (SyncFailure e) = INTERNAL_SERVER_ERROR"
| "status_code_of (NotMatched l r) = NOT_FOUND"
| "status_code_of (DecodeEncodedStrError e) = BAD_REQUEST"
| "status_code_of (ParseEncodedStrError e) = BAD_REQUEST"
| "status_code_of (UserError t status msg) = status"

text \<open>The \<open>Display\<close> text, which \<open>to_string\<close> returns.\<close>

fun error_to_string :: "http_error \<Rightarrow> string" where
  "error_to_string (ErrorMessage msg status) = msg"
| "error_to_string (Failure e status) = e"
| "error_to_string (IoError k msg) = msg"
| "error_to_string (FailureError e) = e"
| "error_to_string (SyncFailure e) = e"
| "error_to_string (NotMatched l r) = ''not matched''"
| "error_to_string (DecodeEncodedStrError e) =
     ''failed to decode a percent encoded string to UTF-8''"
| "error_to_string (ParseEncodedStrError e) = e"
| "error_to_string (UserError t status msg) = msg"

section \<open>Constructors\<close>

definition err_msg :: "string \<Rightarrow> status_code \<Rightarrow> http_error" where
  "err_msg msg status = ErrorMessage msg status"

definition bad_request :: "string \<Rightarrow> http_error" where
  "bad_request msg = err_msg msg BAD_REQUEST"

definition unauthorized :: "string \<Rightarrow> http_error" where
  "unauthorized msg = err_msg msg UNAUTHORIZED"

definition forbidden :: "string \<Rightarrow> http_error" where
  "forbidden msg = err_msg msg FORBIDDEN"

definition not_found :: "string \<Rightarrow> http_error" where
  "not_found msg = err_msg msg NOT_FOUND"

definition method_not_allowed :: "string \<Rightarrow> http_error" where
  "method_not_allowed msg = err_msg msg METHOD_NOT_ALLOWED"

definition internal_server_error :: "string \<Rightarrow> http_error" where
  "internal_server_error msg = err_msg msg INTERNAL_SERVER_ERROR"

definition error_fail :: "string \<Rightarrow> status_code \<Rightarrow> http_error" where
  "error_fail e status = Failure e status"

lemmas error_ctor_defs =
  err_msg_def bad_request_def unauthorized_def forbidden_def not_found_def
  method_not_allowed_def internal_server_error_def error_fail_def

lemma error_ctor_status [simp]:
  "status_code_of (bad_request m) = BAD_REQUEST"
  "status_code_of (unauthorized m) = UNAUTHORIZED"
  "status_code_of (forbidden m) = FORBIDDEN"
  "status_code_of (not_found m) = NOT_FOUND"
  "status_code_of (method_not_allowed m) = METHOD_NOT_ALLOWED"
  "status_code_of (internal_server_error m) = INTERNAL_SERVER_ERROR"
  by (simp_all add: error_ctor_defs)

section \<open>Downcasting\<close>

text \<open>
  \<open>__private_type_id__\<close>: the type of the boxed value. Two values are of the same type when
  they are built by the same constructor, and for foreign types when the type name agrees.
\<close>

datatype type_id =
    TErrorMessage | TFailure | TIoError | TFailureError | TSyncFailure | TNotMatched
  | TDecodeEncodedStrError | TParseEncodedStrError | TUser string

fun private_type_id :: "http_error \<Rightarrow> type_id" where
  "private_type_id (ErrorMessage _ _) = TErrorMessage"
| "private_type_id (Failure _ _) = TFailure"
| "private_type_id (IoError _ _) = TIoError"
| "private_type_id (FailureError _) = TFailureError"
| "private_type_id (SyncFailure _) = TSyncFailure"
| "private_type_id (NotMatched _ _) = TNotMatched"
| "private_type_id (DecodeEncodedStrError _) = TDecodeEncodedStrError"
| "private_type_id (ParseEncodedStrError _) = TParseEncodedStrError"
| "private_type_id (UserError t _ _) = TUser t"

definition error_is :: "type_id \<Rightarrow> http_error \<Rightarrow> bool" where
  "error_is t e = (private_type_id e = t)"

definition downcast_ref :: "type_id \<Rightarrow> http_error \<Rightarrow> http_error option" where
  "downcast_ref t e = (if error_is t e then Some e else None)"

definition error_downcast :: "type_id \<Rightarrow> http_error \<Rightarrow> (http_error, http_error) result" where
  "error_downcast t e = (if error_is t e then Ok e else Err e)"

section \<open>Conversion into responses\<close>

definition error_to_response :: "'h http_api \<Rightarrow> http_error \<Rightarrow> 'h request \<Rightarrow> ('h, unit) response" where
  "error_to_response H e rq = (response_new H ())\<lparr>rs_status := status_code_of e\<rparr>"

text \<open>
  \<open>Error::into_response_with\<close>: the callback computes the body and may change the response;
  the error itself is stored in the extensions.
\<close>

definition into_response_with ::
  "'h http_api \<Rightarrow> http_error \<Rightarrow> 'h request
    \<Rightarrow> (http_error \<Rightarrow> 'h request \<Rightarrow> ('h, unit) response \<Rightarrow> 'b \<times> ('h, unit) response)
    \<Rightarrow> ('h, 'b) response" where
  "into_response_with H e rq f =
     (case f e rq (error_to_response H e rq) of
        (body, response) \<Rightarrow> response_map (\<lambda>_. body) (response\<lparr>rs_error := Some e\<rparr>))"

definition error_into_response :: "'h http_api \<Rightarrow> http_error \<Rightarrow> 'h request \<Rightarrow> ('h, string) response" where
  "error_into_response H e rq =
     into_response_with H e rq (\<lambda>err _ response. (error_to_string err, response))"

lemma error_into_response_sel [simp]:
  "rs_status (error_into_response H e rq) = status_code_of e"
  "rs_headers (error_into_response H e rq) = hm_empty H"
  "rs_body (error_into_response H e rq) = error_to_string e"
  "rs_error (error_into_response H e rq) = Some e"
  by (simp_all add: error_into_response_def into_response_with_def error_to_response_def)

text \<open>Downcasting to the type of the value succeeds and loses nothing; to any other type it
  hands the value back.\<close>

lemma error_downcast_cases:
  "error_downcast (private_type_id e) e = Ok e"
  "t \<noteq> private_type_id e \<Longrightarrow> error_downcast t e = Err e"
  by (auto simp: error_downcast_def error_is_def)

end
