(* ===== verification/Finch_Context.thy ===== *)
theory Finch_Context
  imports Finch_Errors
begin

text \<open>
  The request context of \<open>src/service.rs\<close>: the \<open>Context\<close> struct, its lazily parsed cookie
  jar, the supplemental response headers, and the thread-local pointer through which futures
  reach the context (\<open>set_task_cx\<close>, \<open>get_task_cx\<close> and the guard \<open>ResetOnDrop\<close>).
\<close>

section \<open>The cookie crate\<close>

text \<open>The operations of the \<open>cookie\<close> crate the program calls, on jars \<open>'j\<close> and cookies \<open>'k\<close>.\<close>

record ('j, 'k) cookie_api =
  jar_new :: 'j
  jar_get :: "'j \<Rightarrow> string \<Rightarrow> 'k option"
  jar_add_original :: "'j \<Rightarrow> 'k \<Rightarrow> 'j"
  jar_add :: "'j \<Rightarrow> 'k \<Rightarrow> 'j"
  jar_remove :: "'j \<Rightarrow> 'k \<Rightarrow> 'j"
  jar_delta :: "'j \<Rightarrow> 'k list"
  cookie_parse_encoded :: "string \<Rightarrow> ('k, string) result"
  cookie_new :: "string \<Rightarrow> string \<Rightarrow> 'k"
  cookie_named :: "string \<Rightarrow> 'k"
  cookie_name :: "'k \<Rightarrow> string"
  cookie_val :: "'k \<Rightarrow> string"
  cookie_encoded :: "'k \<Rightarrow> string"

section \<open>The context of a request\<close>

record ('h, 'j) context_state =
  cx_request :: "'h request"
  cx_cookies :: "'j option"
  cx_response_headers :: "'h option"

definition context_new :: "'h request \<Rightarrow> ('h, 'j) context_state" where
  "context_new rq = \<lparr>cx_request = rq, cx_cookies = None, cx_response_headers = None\<rparr>"

abbreviation cx_path :: "('h, 'j) context_state \<Rightarrow> string" where
  "cx_path cx \<equiv> rq_path (cx_request cx)"

abbreviation cx_headers :: "('h, 'j) context_state \<Rightarrow> 'h" where
  "cx_headers cx \<equiv> rq_headers (cx_request cx)"

text \<open>
  \<open>Context::cookies\<close>: the jar is created on the first call, before the \<open>Cookie\<close> headers are
  parsed into it, and stays in the context when one of them is rejected.
\<close>

fun add_original_cookies ::
  "('j, 'k) cookie_api \<Rightarrow> string list \<Rightarrow> 'j \<Rightarrow> (unit, http_error) result \<times> 'j" where
  "add_original_cookies K [] jar = (Ok (), jar)"
| "add_original_cookies K (s # ss) jar =
     (case cookie_parse_encoded K s of
        Err e \<Rightarrow> (Err (bad_request e), jar)
      | Ok cookie \<Rightarrow> add_original_cookies K ss (jar_add_original K jar cookie))"

fun add_cookie_headers ::
  "'h http_api \<Rightarrow> ('j, 'k) cookie_api \<Rightarrow> string list \<Rightarrow> 'j
    \<Rightarrow> (unit, http_error) result \<times> 'j" where
  "add_cookie_headers H K [] jar = (Ok (), jar)"
| "add_cookie_headers H K (raw_cookie # rest) jar =
     (case hv_to_str H raw_cookie of
        Err e \<Rightarrow> (Err (bad_request e), jar)
      | Ok raw_cookie_str \<Rightarrow>
          (case add_original_cookies K (map str_trim (str_split (CHR '';'') raw_cookie_str)) jar of
             (Err e, jar') \<Rightarrow> (Err e, jar')
           | (Ok _, jar') \<Rightarrow> add_cookie_headers H K rest jar'))"

definition context_cookies ::
  "'h http_api \<Rightarrow> ('j, 'k) cookie_api \<Rightarrow> ('h, 'j) context_state
    \<Rightarrow> ('j, http_error) result \<times> ('h, 'j) context_state" where
  "context_cookies H K cx =
     (case cx_cookies cx of
        Some cookies \<Rightarrow> (Ok cookies, cx)
      | None \<Rightarrow>
          (case add_cookie_headers H K (hm_get_all H (cx_headers cx) ''cookie'') (jar_new K) of
             (r, jar) \<Rightarrow> (map_ok (\<lambda>_. jar) r, cx\<lparr>cx_cookies := Some jar\<rparr>)))"

text \<open>\<open>Context::response_headers\<close>: created empty on the first call.\<close>

definition context_response_headers ::
  "'h http_api \<Rightarrow> ('h, 'j) context_state \<Rightarrow> 'h \<times> ('h, 'j) context_state" where
  "context_response_headers H cx =
     (case cx_response_headers cx of
        Some hs \<Rightarrow> (hs, cx)
      | None \<Rightarrow> (hm_empty H, cx\<lparr>cx_response_headers := Some (hm_empty H)\<rparr>))"

lemma context_cookies_frame:
  "context_cookies H K cx = (r, cx') \<Longrightarrow>
     cx_request cx' = cx_request cx \<and> cx_response_headers cx' = cx_response_headers cx"
  by (auto simp: context_cookies_def split: option.splits prod.splits)

text \<open>
  C39: Whatever the first call of cookies returned, also the rejection of a malformed cookie, every
  later call succeeds with the jar that was built so far and changes nothing.
\<close>

lemma context_cookies_again:
  "context_cookies H K cx = (r, cx') \<Longrightarrow>
     \<exists>jar. cx_cookies cx' = Some jar \<and> context_cookies H K cx' = (Ok jar, cx')"
  by (auto simp: context_cookies_def split: option.splits prod.splits)

lemma add_original_cookies_ok:
  "list_all2 (\<lambda>s c. cookie_parse_encoded K s = Ok c) ss cs \<Longrightarrow>
     add_original_cookies K ss jar = (Ok (), foldl (jar_add_original K) jar cs)"
  by (induction ss cs arbitrary: jar rule: list_all2_induct) auto

section \<open>The thread-local context\<close>

text \<open>
  The thread-local cell holds a pointer to a context. A computation that runs on the thread
  takes and returns the cell and the contexts in memory, and may panic; the destructor of
  \<open>ResetOnDrop\<close> runs in both cases.
\<close>

record 'c tls =
  tls_cx :: "nat option"
  tls_mem :: "nat \<Rightarrow> 'c"

type_synonym ('c, 'r) tls_fn = "'c tls \<Rightarrow> 'r run \<times> 'c tls"

definition reset_on_drop :: "nat option \<Rightarrow> 'c tls \<Rightarrow> 'c tls" where
  "reset_on_drop old w = w\<lparr>tls_cx := old\<rparr>"

definition is_set_task_cx :: "'c tls \<Rightarrow> bool" where
  "is_set_task_cx w = (tls_cx w \<noteq> None)"

definition set_task_cx :: "nat \<Rightarrow> ('c, 'r) tls_fn \<Rightarrow> ('c, 'r) tls_fn" where
  "set_task_cx p f w =
     (case f (w\<lparr>tls_cx := Some p\<rparr>) of (r, w') \<Rightarrow> (r, reset_on_drop (tls_cx w) w'))"

definition get_task_cx :: "(nat \<Rightarrow> ('c, 'r) tls_fn) \<Rightarrow> ('c, 'r option) tls_fn" where
  "get_task_cx f w =
     (case tls_cx w of
        None \<Rightarrow> (Ret None, reset_on_drop None (w\<lparr>tls_cx := None\<rparr>))
      | Some p \<Rightarrow>
          (case f p (w\<lparr>tls_cx := None\<rparr>) of
             (r, w') \<Rightarrow> (map_run Some r, reset_on_drop (Some p) w')))"

text \<open>\<open>Context::with\<close> panics when no context is set, \<open>Context::try_with\<close> returns \<open>None\<close>.\<close>

definition context_with :: "(nat \<Rightarrow> ('c, 'r) tls_fn) \<Rightarrow> ('c, 'r) tls_fn" where
  "context_with f w =
     (case get_task_cx f w of
        (Ret (Some r), w') \<Rightarrow> (Ret r, w')
      | (_, w') \<Rightarrow> (Panic, w'))"

definition context_try_with :: "(nat \<Rightarrow> ('c, 'r) tls_fn) \<Rightarrow> ('c, 'r option) tls_fn" where
  "context_try_with f w = get_task_cx f w"

lemmas tls_defs = set_task_cx_def get_task_cx_def context_with_def context_try_with_def
  is_set_task_cx_def reset_on_drop_def

lemma set_task_cx_restores: "tls_cx (snd (set_task_cx p f w)) = tls_cx w"
  by (simp add: tls_defs split: prod.splits)

lemma get_task_cx_restores: "tls_cx (snd (get_task_cx f w)) = tls_cx w"
  by (simp add: tls_defs split: prod.splits option.splits)

text \<open>
  C40: Borrowing the context of the running task always puts the thread-local pointer back to what
  it was, also when the closure panics or nests further borrows.
\<close>

lemma context_with_restores: "tls_cx (snd (context_with f w)) = tls_cx w"
  by (auto simp: tls_defs split: prod.splits option.splits run.splits)

section \<open>A rejected cookie\<close>

text \<open>A cookie crate that rejects every cookie: the jar stays, and the second call succeeds.\<close>

definition rejecting_cookies :: "(string list, string) cookie_api" where
  "rejecting_cookies =
     \<lparr>jar_new = [], jar_get = (\<lambda>j n. find (\<lambda>c. c = n) j), jar_add_original = (\<lambda>j c. c # j), jar_add = (\<lambda>j c. c # j),
      jar_remove = (\<lambda>j c. removeAll c j), jar_delta = (\<lambda>j. j), cookie_parse_encoded = (\<lambda>s. Err ''invalid cookie''),
      cookie_new = (\<lambda>n v. n), cookie_named = (\<lambda>n. n), cookie_name = (\<lambda>c. c), cookie_val = (\<lambda>c. []), cookie_encoded = (\<lambda>c. c)\<rparr>"

lemma context_cookies_again_witness:
  "\<exists>cx'. context_cookies list_http rejecting_cookies
       (context_new \<lparr>rq_method = GET, rq_path = ''/'', rq_query = None, rq_headers = [(''cookie'', ''a'')]\<rparr>) =
       (Err (bad_request ''invalid cookie''), cx') \<and>
     context_cookies list_http rejecting_cookies cx' = (Ok [], cx')"
proof -
  let ?cx = "context_new \<lparr>rq_method = GET, rq_path = ''/'', rq_query = None, rq_headers = [(''cookie'', ''a'')]\<rparr>"
  have *: "context_cookies list_http rejecting_cookies ?cx =
      (Err (bad_request ''invalid cookie''), ?cx\<lparr>cx_cookies := Some []\<rparr>)"
    by code_simp
  with context_cookies_again[OF *] show ?thesis by auto
qed

end
