(* ===== verification/Finch_Cursor.thy ===== *)
theory Finch_Cursor
  imports Finch_Prelude
begin

text \<open>
  The path cursor of \<open>src/action.rs\<close>: \<open>CursorInner\<close>, \<open>Cursor::next_segment\<close>,
  \<open>Cursor::remaining_path\<close>, \<open>Cursor::num_popped_segments\<close> and the \<open>count\<close> of the iterator.
  The specification is the list of segments of the path; every cursor operation is shown to
  be an operation on that list.
\<close>

section \<open>The cursor\<close>

record cursor =
  cur_pos :: nat
  cur_popped :: nat

text \<open>\<open>PreflightContext::new\<close> starts after the leading slash.\<close>

definition cursor_new :: cursor where
  "cursor_new = \<lparr>cur_pos = 1, cur_popped = 0\<rparr>"

definition num_popped_segments :: "cursor \<Rightarrow> nat" where
  "num_popped_segments cur = cur_popped cur"

text \<open>
  Slicing a string from a position behind its end panics. The slices start at the leading
  slash, at the end of the path or right after a slash, so never inside a character.
\<close>

definition next_segment :: "string \<Rightarrow> cursor \<Rightarrow> (string option \<times> cursor) run" where
  "next_segment path cur =
     (if cur_pos cur = length path then Ret (None, cur)
      else if length path < cur_pos cur then Panic
      else (case str_find (CHR ''/'') (drop (cur_pos cur) path) of
              Some offset \<Rightarrow>
                Ret (Some (take offset (drop (cur_pos cur) path)),
                     \<lparr>cur_pos = cur_pos cur + (offset + 1), cur_popped = cur_popped cur + 1\<rparr>)
            | None \<Rightarrow>
                Ret (Some (drop (cur_pos cur) path),
                     \<lparr>cur_pos = length path, cur_popped = cur_popped cur + 1\<rparr>)))"

definition remaining_path :: "string \<Rightarrow> cursor \<Rightarrow> string run" where
  "remaining_path path cur =
     (if length path < cur_pos cur then Panic else Ret (drop (cur_pos cur) path))"

lemma str_find_drop_bound:
  assumes "str_find c (drop p s) = Some i"
  shows "p + i < length s"
  using str_find_Some[OF assms] by (simp only: length_drop less_diff_conv) (simp add: add.commute)

lemma next_segment_progress:
  assumes "next_segment path cur = Ret (Some s, cur')"
  shows "cur_pos cur < cur_pos cur'" and "cur_pos cur' \<le> length path"
    and "cur_popped cur' = Suc (cur_popped cur)"
proof -
  have "cur_pos cur < length path"
    using assms by (auto simp: next_segment_def split: if_splits)
  then show "cur_pos cur < cur_pos cur'" "cur_pos cur' \<le> length path"
    "cur_popped cur' = Suc (cur_popped cur)"
    using assms by (fastforce simp: next_segment_def split: if_splits option.splits
      dest: str_find_drop_bound)+
qed

lemma next_segment_measure:
  "next_segment path cur = Ret (Some s, cur') \<Longrightarrow>
     length path - cur_pos cur' < length path - cur_pos cur"
  using next_segment_progress(1,2) by (meson diff_less_mono2 less_le_trans)

text \<open>
  \<open>Iterator::count\<close> runs the iterator to its end. The loop ends because every segment moves the
  position towards the end of the path.
\<close>

function count_segments :: "string \<Rightarrow> cursor \<Rightarrow> (nat \<times> cursor) run" where
  "count_segments path cur =
     (case next_segment path cur of
        Panic \<Rightarrow> Panic
      | Ret (None, cur') \<Rightarrow> Ret (0, cur')
      | Ret (Some s, cur') \<Rightarrow> map_run (\<lambda>(n, c). (Suc n, c)) (count_segments path cur'))"
  by pat_completeness auto
termination
  by (relation "measure (\<lambda>(path, cur). length path - cur_pos cur)")
     (auto dest: next_segment_measure)

declare count_segments.simps [simp del]

section \<open>The segments of a path\<close>

text \<open>
  What the cursor enumerates: the pieces between the slashes, where a final slash does not
  start another segment.
\<close>

definition segments_of :: "string \<Rightarrow> string list" where
  "segments_of s =
     (let ps = str_split (CHR ''/'') s in if last ps = [] then butlast ps else ps)"

lemma segments_of_Nil [simp]: "segments_of [] = []"
  by (simp add: segments_of_def)

lemma segments_of_last: "CHR ''/'' \<notin> set s \<Longrightarrow> s \<noteq> [] \<Longrightarrow> segments_of s = [s]"
  by (simp add: segments_of_def str_split_no_sep)

lemma segments_of_Cons:
  "CHR ''/'' \<notin> set p \<Longrightarrow> segments_of (p @ CHR ''/'' # r) = p # segments_of r"
  by (simp add: segments_of_def str_split_append Let_def)

definition cursor_ok :: "string \<Rightarrow> cursor \<Rightarrow> bool" where
  "cursor_ok path cur \<longleftrightarrow> cur_pos cur \<le> length path"

text \<open>The segments the cursor has not returned yet.\<close>

definition pending :: "string \<Rightarrow> cursor \<Rightarrow> string list" where
  "pending path cur = segments_of (drop (cur_pos cur) path)"

lemma next_segment_no_panic:
  "cursor_ok path cur \<Longrightarrow> next_segment path cur \<noteq> Panic"
  by (auto simp: next_segment_def cursor_ok_def split: option.splits)

lemma next_segment_cases:
  assumes "cursor_ok path cur"
  obtains (at_end) "pending path cur = []" "next_segment path cur = Ret (None, cur)"
  | (segment) s ss cur' where "pending path cur = s # ss"
      "next_segment path cur = Ret (Some s, cur')" "pending path cur' = ss"
      "cursor_ok path cur'" "cur_popped cur' = Suc (cur_popped cur)"
      "cur_pos cur < cur_pos cur'"
proof (cases "cur_pos cur = length path")
  case True
  then show ?thesis using at_end by (simp add: pending_def next_segment_def)
next
  case False
  with assms have lt: "cur_pos cur < length path" by (simp add: cursor_ok_def)
  let ?s = "drop (cur_pos cur) path"
  have nonempty: "?s \<noteq> []" using lt by simp
  show ?thesis
  proof (cases "str_find (CHR ''/'') ?s")
    case None
    then have "next_segment path cur =
        Ret (Some ?s, \<lparr>cur_pos = length path, cur_popped = cur_popped cur + 1\<rparr>)"
      using lt by (simp add: next_segment_def)
    moreover have "segments_of ?s = [?s]"
      using None nonempty by (simp add: str_find_None segments_of_last)
    ultimately show ?thesis
      by (intro segment) (auto simp: pending_def cursor_ok_def lt)
  next
    case (Some i)
    from str_find_split[OF Some] str_find_Some[OF Some]
    have eq: "segments_of ?s = take i ?s # segments_of (drop (Suc i) ?s)"
      by (metis segments_of_Cons)
    have i: "cur_pos cur + i < length path" by (rule str_find_drop_bound[OF Some])
    from Some lt have "next_segment path cur = Ret (Some (take i ?s),
        \<lparr>cur_pos = cur_pos cur + (i + 1), cur_popped = cur_popped cur + 1\<rparr>)"
      by (simp add: next_segment_def)
    with eq i show ?thesis
      by (intro segment) (auto simp: pending_def cursor_ok_def add.commute)
  qed
qed

lemma next_segment_ok:
  "cursor_ok path cur \<Longrightarrow> next_segment path cur = Ret (x, cur') \<Longrightarrow>
     cursor_ok path cur' \<and> cur_popped cur \<le> cur_popped cur'"
  by (rule next_segment_cases[of path cur]) auto

lemma remaining_path_ok: "cursor_ok path cur \<Longrightarrow> remaining_path path cur = Ret (drop (cur_pos cur) path)"
  by (simp add: remaining_path_def cursor_ok_def)

text \<open>Counting to the end returns the number of pending segments and leaves none.\<close>

lemma count_segments_pending:
  assumes "cursor_ok path cur"
  shows "count_segments path cur =
    Ret (length (pending path cur),
         \<lparr>cur_pos = length path, cur_popped = cur_popped cur + length (pending path cur)\<rparr>)"
  using assms
proof (induction path cur rule: count_segments.induct)
  case (1 path cur)
  from "1.prems" show ?case
  proof (cases rule: next_segment_cases)
    case at_end
    then have "cur_pos cur = length path"
      using "1.prems" by (auto simp: next_segment_def cursor_ok_def split: if_splits option.splits)
    with at_end show ?thesis by (simp add: count_segments.simps[of path cur])
  next
    case (segment s ss cur')
    with "1.IH"[of "(Some s, cur')" "Some s" cur' s] show ?thesis
      by (simp add: count_segments.simps[of path cur])
  qed
qed

text \<open>Popped and pending segments always add up to the segments of the whole path.\<close>

definition cursor_balanced :: "string \<Rightarrow> cursor \<Rightarrow> bool" where
  "cursor_balanced path cur \<longleftrightarrow>
     cursor_ok path cur \<and>
     cur_popped cur + length (pending path cur) = length (segments_of (drop 1 path))"

lemma cursor_new_ok: "path \<noteq> [] \<Longrightarrow> cursor_ok path cursor_new"
  by (cases path) (simp_all add: cursor_ok_def cursor_new_def)

lemma cursor_new_balanced: "path \<noteq> [] \<Longrightarrow> cursor_balanced path cursor_new"
  using cursor_new_ok by (simp add: cursor_balanced_def pending_def cursor_new_def)

lemma next_segment_balanced:
  "cursor_balanced path cur \<Longrightarrow> next_segment path cur = Ret (x, cur') \<Longrightarrow> cursor_balanced path cur'"
  unfolding cursor_balanced_def by (elim conjE, rule next_segment_cases[of path cur]) auto

lemma count_segments_balanced:
  "cursor_balanced path cur \<Longrightarrow> count_segments path cur = Ret (n, cur') \<Longrightarrow>
     cursor_balanced path cur' \<and> pending path cur' = []"
  by (auto simp: cursor_balanced_def count_segments_pending) (auto simp: pending_def cursor_ok_def)

text \<open>One step of the cursor, and counting to the end, from a balanced cursor.\<close>

lemma next_segment_step:
  assumes "cursor_balanced path cur"
  obtains (at_end) "pending path cur = []" "next_segment path cur = Ret (None, cur)"
      "cursor_balanced path cur"
  | (segment) s ss cur' where "pending path cur = s # ss"
      "next_segment path cur = Ret (Some s, cur')" "pending path cur' = ss"
      "cursor_balanced path cur'" "cur_popped cur' = Suc (cur_popped cur)"
proof -
  from assms have ok: "cursor_ok path cur" by (simp add: cursor_balanced_def)
  show ?thesis
  proof (rule next_segment_cases[OF ok], goal_cases)
    case 1
    then show ?thesis using assms by (intro at_end)
  next
    case (2 s ss cur')
    then show ?thesis using next_segment_balanced[OF assms 2(2)] by (intro segment)
  qed
qed

lemma count_segments_step:
  assumes "cursor_balanced path cur"
  obtains cur' where "count_segments path cur = Ret (length (pending path cur), cur')"
    "cursor_balanced path cur'" "pending path cur' = []" "cur_popped cur \<le> cur_popped cur'"
    "remaining_path path cur = Ret (drop (cur_pos cur) path)"
proof -
  from assms have ok: "cursor_ok path cur" by (simp add: cursor_balanced_def)
  note c = count_segments_pending[OF ok]
  from count_segments_balanced[OF assms c] show ?thesis
    by (intro that[OF c]) (simp_all add: remaining_path_ok[OF ok])
qed


section \<open>Iterating the cursor\<close>

text \<open>At most \<open>n\<close> calls of \<open>next\<close>, stopping at the first \<open>None\<close>.\<close>

fun take_segments :: "nat \<Rightarrow> string \<Rightarrow> cursor \<Rightarrow> (string list \<times> cursor) run" where
  "take_segments 0 path cur = Ret ([], cur)"
| "take_segments (Suc n) path cur =
     (case next_segment path cur of
        Panic \<Rightarrow> Panic
      | Ret (None, cur') \<Rightarrow> Ret ([], cur')
      | Ret (Some s, cur') \<Rightarrow> map_run (\<lambda>(ss, c). (s # ss, c)) (take_segments n path cur'))"

lemma take_segments_pending:
  "cursor_balanced path cur \<Longrightarrow>
     \<exists>c. take_segments n path cur = Ret (take n (pending path cur), c) \<and>
         cur_popped c = cur_popped cur + min n (length (pending path cur))"
proof (induction n arbitrary: cur)
  case (Suc n)
  from Suc.prems show ?case
  proof (cases rule: next_segment_step)
    case (segment s ss cur')
    with Suc.IH[OF segment(4)] show ?thesis by auto
  qed auto
qed auto

text \<open>
  C14: Iterating the cursor of a path that starts with a slash from its start yields the pieces
  between the slashes in order, without a final empty piece, never panics, and counts what it has
  popped.
\<close>

lemma cursor_enumerates_segments:
  "\<exists>c. take_segments n (CHR ''/'' # rest) cursor_new = Ret (take n (segments_of rest), c) \<and>
       num_popped_segments c = min n (length (segments_of rest))"
  using take_segments_pending[OF cursor_new_balanced, of "CHR ''/'' # rest" n]
  by (simp add: pending_def cursor_new_def num_popped_segments_def)

end
