(* ===== verification/Finch_Action.thy ===== *)
theory Finch_Action
  imports Finch_Context Finch_Cursor
begin

text \<open>
  \<open>src/action.rs\<close> and the core of \<open>src/endpoint.rs\<close>: the result of a preflight, the trait
  \<open>EndpointAction\<close> as a record of its two methods over the action's state, oneshot actions,
  futures used as actions, the context of a running action, and endpoints.

  A preflight reads the request context (a shared reference in the code, so it is an argument
  that is not returned) and advances the path cursor; polling may change the context and take
  the body. Both return the new state of the action.
\<close>

section \<open>Preflight\<close>

datatype 'o preflight = Completed 'o | Incomplete

definition is_completed :: "'o preflight \<Rightarrow> bool" where
  "is_completed p = (case p of Completed _ \<Rightarrow> True | Incomplete \<Rightarrow> False)"

definition is_incomplete :: "'o preflight \<Rightarrow> bool" where
  "is_incomplete p = (\<not> is_completed p)"

definition preflight_map :: "('o \<Rightarrow> 'u) \<Rightarrow> 'o preflight \<Rightarrow> 'u preflight" where
  "preflight_map op p = (case p of Completed x \<Rightarrow> Completed (op x) | Incomplete \<Rightarrow> Incomplete)"

lemma is_completed_simps [simp]: "is_completed (Completed x)" "\<not> is_completed Incomplete"
  by (simp_all add: is_completed_def)

lemma preflight_map_simps [simp]:
  "preflight_map f (Completed x) = Completed (f x)" "preflight_map f Incomplete = Incomplete"
  by (simp_all add: preflight_map_def)

lemma preflight_map_eq [simp]:
  "preflight_map f p = Incomplete \<longleftrightarrow> p = Incomplete"
  "preflight_map f p = Completed y \<longleftrightarrow> (\<exists>x. p = Completed x \<and> y = f x)"
  "Incomplete = preflight_map f p \<longleftrightarrow> p = Incomplete"
  "Completed y = preflight_map f p \<longleftrightarrow> (\<exists>x. p = Completed x \<and> y = f x)"
  by (cases p; auto)+

section \<open>The context of a running action\<close>

record ('h, 'j, 'bd) action_context =
  ac_context :: "('h, 'j) context_state"
  ac_body :: "'bd option"

text \<open>\<open>ActionContext::take_body\<close>: the body can be taken once.\<close>

definition take_body ::
  "('h, 'j, 'bd) action_context \<Rightarrow> ('bd, http_error) result \<times> ('h, 'j, 'bd) action_context" where
  "take_body ac =
     (ok_or (internal_server_error ''the request body has already been stolen by someone'')
        (ac_body ac),
      ac\<lparr>ac_body := None\<rparr>)"

section \<open>Actions\<close>

text \<open>The trait \<open>EndpointAction<Bd>\<close> for a type \<open>'s\<close> with output \<open>'o\<close>.\<close>

record ('s, 'h, 'j, 'bd, 'o) action =
  act_preflight :: "'s \<Rightarrow> ('h, 'j) context_state \<Rightarrow> cursor
    \<Rightarrow> (('o preflight, http_error) result \<times> 's \<times> cursor) run"
  act_poll :: "'s \<Rightarrow> ('h, 'j, 'bd) action_context
    \<Rightarrow> (('o, http_error) poll \<times> 's \<times> ('h, 'j, 'bd) action_context) run"

text \<open>The default implementation of \<open>EndpointAction::preflight\<close>.\<close>

definition default_preflight ::
  "'s \<Rightarrow> ('h, 'j) context_state \<Rightarrow> cursor
    \<Rightarrow> (('o preflight, http_error) result \<times> 's \<times> cursor) run" where
  "default_preflight s cx cur = Ret (Ok Incomplete, s, cur)"

text \<open>
  \<open>OneshotAction\<close> and its wrapper \<open>Oneshot\<close>: the preflight consumes the action and completes
  it; a second preflight panics, and so does polling.
\<close>

type_synonym ('a, 'h, 'j, 'o) oneshot_fn =
  "'a \<Rightarrow> ('h, 'j) context_state \<Rightarrow> cursor \<Rightarrow> (('o, http_error) result \<times> cursor) run"

datatype 'a oneshot = Oneshot "'a option"

definition into_action :: "'a \<Rightarrow> 'a oneshot" where
  "into_action a = Oneshot (Some a)"

definition oneshot_preflight ::
  "('a, 'h, 'j, 'o) oneshot_fn \<Rightarrow> 'a oneshot \<Rightarrow> ('h, 'j) context_state \<Rightarrow> cursor
    \<Rightarrow> (('o preflight, http_error) result \<times> 'a oneshot \<times> cursor) run" where
  "oneshot_preflight f s cx cur =
     (case s of
        Oneshot None \<Rightarrow> Panic
      | Oneshot (Some a) \<Rightarrow>
          map_run (\<lambda>(r, cur'). (map_ok Completed r, Oneshot None, cur')) (f a cx cur))"

definition oneshot_poll ::
  "'a oneshot \<Rightarrow> ('h, 'j, 'bd) action_context
    \<Rightarrow> (('o, http_error) poll \<times> 'a oneshot \<times> ('h, 'j, 'bd) action_context) run" where
  "oneshot_poll s ac = Panic"

definition oneshot_action ::
  "('a, 'h, 'j, 'o) oneshot_fn \<Rightarrow> ('a oneshot, 'h, 'j, 'bd, 'o) action" where
  "oneshot_action f = \<lparr>act_preflight = oneshot_preflight f, act_poll = oneshot_poll\<rparr>"

text \<open>
  A future as an action: it is polled with the thread-local pointer set to the request
  context, which is therefore reachable from \<open>Context::with\<close> while it runs.
\<close>

definition future_poll ::
  "('s \<Rightarrow> (('h, 'j) context_state, ('o, 'e) poll \<times> 's) tls_fn) \<Rightarrow> ('e \<Rightarrow> http_error)
    \<Rightarrow> 's \<Rightarrow> ('h, 'j, 'bd) action_context
    \<Rightarrow> (('o, http_error) poll \<times> 's \<times> ('h, 'j, 'bd) action_context) run" where
  "future_poll poll_fn into s ac =
     (case set_task_cx 0 (poll_fn s) \<lparr>tls_cx = None, tls_mem = (\<lambda>_. ac_context ac)\<rparr> of
        (Panic, _) \<Rightarrow> Panic
      | (Ret (p, s'), w) \<Rightarrow> Ret (map_err into p, s', ac\<lparr>ac_context := tls_mem w 0\<rparr>))"

definition future_action ::
  "('s \<Rightarrow> (('h, 'j) context_state, ('o, 'e) poll \<times> 's) tls_fn) \<Rightarrow> ('e \<Rightarrow> http_error)
    \<Rightarrow> ('s, 'h, 'j, 'bd, 'o) action" where
  "future_action poll_fn into =
     \<lparr>act_preflight = default_preflight, act_poll = future_poll poll_fn into\<rparr>"

lemma oneshot_action_sel [simp]:
  "act_preflight (oneshot_action f) = oneshot_preflight f"
  "act_poll (oneshot_action f) = oneshot_poll"
  by (simp_all add: oneshot_action_def)

lemma future_action_sel [simp]:
  "act_preflight (future_action p i) = default_preflight"
  "act_poll (future_action p i) = future_poll p i"
  by (simp_all add: future_action_def)

lemma oneshot_preflight_into [simp]:
  "oneshot_preflight f (into_action a) cx cur =
     map_run (\<lambda>(r, cur'). (map_ok Completed r, Oneshot None, cur')) (f a cx cur)"
  by (simp add: oneshot_preflight_def into_action_def)

section \<open>Endpoints\<close>

text \<open>
  The trait \<open>Endpoint<Bd>\<close>: \<open>action(&self)\<close> spawns the action, and the associated type
  \<open>Action\<close> brings its implementation.
\<close>

record ('s, 'h, 'j, 'bd, 'o) endpoint =
  ep_action :: 's
  ep_impl :: "('s, 'h, 'j, 'bd, 'o) action"

text \<open>The implementations of \<open>Endpoint\<close> for \<open>&E\<close>, \<open>Box<E>\<close>, \<open>Rc<E>\<close> and \<open>Arc<E>\<close> forward.\<close>

definition endpoint_deref :: "('s, 'h, 'j, 'bd, 'o) endpoint \<Rightarrow> ('s, 'h, 'j, 'bd, 'o) endpoint" where
  "endpoint_deref e = \<lparr>ep_action = ep_action e, ep_impl = ep_impl e\<rparr>"

text \<open>\<open>endpoint(f)\<close>: the closure spawns the action.\<close>

definition apply_endpoint ::
  "(unit \<Rightarrow> 's) \<Rightarrow> ('s, 'h, 'j, 'bd, 'o) action \<Rightarrow> ('s, 'h, 'j, 'bd, 'o) endpoint" where
  "apply_endpoint f A = \<lparr>ep_action = f (), ep_impl = A\<rparr>"

datatype unit_action = UnitAction

definition unit_action_preflight :: "(unit_action, 'h, 'j, unit) oneshot_fn" where
  "unit_action_preflight a cx cur = Ret (Ok (), cur)"

definition unit_endpoint :: "(unit_action oneshot, 'h, 'j, 'bd, unit) endpoint" where
  "unit_endpoint = apply_endpoint (\<lambda>_. into_action UnitAction) (oneshot_action unit_action_preflight)"

datatype 'a value_action = ValueAction 'a

definition value_action_preflight :: "('a value_action, 'h, 'j, 'a one) oneshot_fn" where
  "value_action_preflight a cx cur = (case a of ValueAction x \<Rightarrow> Ret (Ok (One x), cur))"

definition value_endpoint :: "'a \<Rightarrow> ('a value_action oneshot, 'h, 'j, 'bd, 'a one) endpoint" where
  "value_endpoint x =
     apply_endpoint (\<lambda>_. into_action (ValueAction x)) (oneshot_action value_action_preflight)"

end
