(* ===== verification/Finch_Protocol.thy ===== *)
theory Finch_Protocol
  imports Finch_Action
begin

text \<open>
  The contract between an \<open>EndpointAction\<close> and its caller, as the documentation of
  \<open>EndpointAction::preflight\<close> states it: the preflight is called once, on a fresh action; only
  an action whose preflight was incomplete is polled, until it returns a value or an error.
  Under that protocol an action neither panics nor breaks the cursor. The contract is the
  locale \<open>endpoint_action\<close>; every action of the crate and every combinator keeps it.
\<close>

locale endpoint_action =
  fixes act :: "('s, 'h, 'j, 'bd, 'o) action"
    and start :: 's
    and live :: "'s \<Rightarrow> bool"
  assumes preflight_returns:
      "cursor_balanced (cx_path cx) cur \<Longrightarrow> act_preflight act start cx cur \<noteq> Panic"
    and preflight_cursor:
      "cursor_balanced (cx_path cx) cur \<Longrightarrow> act_preflight act start cx cur = Ret (r, s, cur') \<Longrightarrow>
         cursor_balanced (cx_path cx) cur' \<and> cur_popped cur \<le> cur_popped cur'"
    and preflight_live:
      "cursor_balanced (cx_path cx) cur \<Longrightarrow>
         act_preflight act start cx cur = Ret (Ok Incomplete, s, cur') \<Longrightarrow> live s"
    and poll_returns: "live s \<Longrightarrow> act_poll act s ac \<noteq> Panic"
    and poll_live: "live s \<Longrightarrow> act_poll act s ac = Ret (Ok NotReady, s', ac') \<Longrightarrow> live s'"

text \<open>A caller that polls at most \<open>n\<close> times and stops at the first value or error.\<close>

fun poll_times ::
  "('s, 'h, 'j, 'bd, 'o) action \<Rightarrow> nat \<Rightarrow> 's \<Rightarrow> ('h, 'j, 'bd) action_context
    \<Rightarrow> (('o, http_error) poll \<times> 's \<times> ('h, 'j, 'bd) action_context) run" where
  "poll_times A 0 s ac = Ret (Ok NotReady, s, ac)"
| "poll_times A (Suc n) s ac =
     (case act_poll A s ac of
        Ret (Ok NotReady, s', ac') \<Rightarrow> poll_times A n s' ac'
      | r \<Rightarrow> r)"

context endpoint_action begin

lemma preflight_cases:
  assumes "cursor_balanced (cx_path cx) cur"
  obtains r s cur' where "act_preflight act start cx cur = Ret (r, s, cur')"
    "cursor_balanced (cx_path cx) cur'" "cur_popped cur \<le> cur_popped cur'"
    "r = Ok Incomplete \<Longrightarrow> live s"
proof -
  from preflight_returns[OF assms] obtain r s cur' where
    *: "act_preflight act start cx cur = Ret (r, s, cur')"
    by (cases "act_preflight act start cx cur") auto
  show ?thesis
    by (rule that[OF *]) (use preflight_cursor[OF assms *] preflight_live[OF assms] * in auto)
qed

lemma poll_cases:
  assumes "live s"
  obtains p s' ac' where "act_poll act s ac = Ret (p, s', ac')" "p = Ok NotReady \<Longrightarrow> live s'"
proof -
  from poll_returns[OF assms, of ac] obtain p s' ac' where
    *: "act_poll act s ac = Ret (p, s', ac')"
    by (cases "act_poll act s ac") auto
  show ?thesis
    by (rule that[OF *]) (use poll_live[OF assms] * in auto)
qed

lemma poll_times_safe:
  "live s \<Longrightarrow> \<exists>p s' ac'. poll_times act n s ac = Ret (p, s', ac') \<and> (p = Ok NotReady \<longrightarrow> live s')"
proof (induction n arbitrary: s ac)
  case 0
  then show ?case by simp
next
  case (Suc n)
  from Suc.prems show ?case
  proof (rule poll_cases[of _ ac])
    fix p s' ac'
    assume *: "act_poll act s ac = Ret (p, s', ac')" and l: "p = Ok NotReady \<Longrightarrow> live s'"
    show ?thesis
      by (cases p rule: poll_exhaust) (use * l Suc.IH[of s' ac'] in auto)
  qed
qed

end

text \<open>The contract from one statement about the preflight and one about polling.\<close>

lemma endpoint_actionI:
  fixes A :: "('s, 'h, 'j, 'bd, 'o) action"
  assumes pre: "\<And>cx cur. cursor_balanced (cx_path cx) cur \<Longrightarrow>
      \<exists>r s cur'. act_preflight A start cx cur = Ret (r, s, cur') \<and>
        cursor_balanced (cx_path cx) cur' \<and> cur_popped cur \<le> cur_popped cur' \<and>
        (r = Ok Incomplete \<longrightarrow> live s)"
    and poll: "\<And>s ac. live s \<Longrightarrow>
      \<exists>p s' ac'. act_poll A s ac = Ret (p, s', ac') \<and> (p = Ok NotReady \<longrightarrow> live s')"
  shows "endpoint_action A start live"
proof
  fix cx :: "('h, 'j) context_state" and cur
  assume "cursor_balanced (cx_path cx) cur"
  from pre[OF this] obtain r s cur' where
    *: "act_preflight A start cx cur = Ret (r, s, cur')" "cursor_balanced (cx_path cx) cur'"
      "cur_popped cur \<le> cur_popped cur'" "r = Ok Incomplete \<longrightarrow> live s"
    by blast
  then show "act_preflight A start cx cur \<noteq> Panic" by simp
  show "cursor_balanced (cx_path cx) c \<and> cur_popped cur \<le> cur_popped c"
    if "act_preflight A start cx cur = Ret (q, t, c)" for q t c
    using that * by simp
  show "live t" if "act_preflight A start cx cur = Ret (Ok Incomplete, t, c)" for t c
    using that * by simp
next
  fix s and ac :: "('h, 'j, 'bd) action_context"
  assume "live s"
  from poll[OF this, of ac] obtain p s' ac' where
    *: "act_poll A s ac = Ret (p, s', ac')" "p = Ok NotReady \<longrightarrow> live s'"
    by blast
  then show "act_poll A s ac \<noteq> Panic" by simp
  show "live t" if "act_poll A s ac = Ret (Ok NotReady, t, ac'')" for t ac''
    using that * by simp
qed

section \<open>The primitive actions\<close>

text \<open>A oneshot action never reaches polling: no state is live.\<close>

lemma oneshot_endpoint_action:
  fixes f :: "('a, 'h, 'j, 'o) oneshot_fn"
  assumes "\<And>cx cur. cursor_balanced (cx_path cx) cur \<Longrightarrow>
      \<exists>r cur'. f a cx cur = Ret (r, cur') \<and> cursor_balanced (cx_path cx) cur'
        \<and> cur_popped cur \<le> cur_popped cur'"
  shows "endpoint_action (oneshot_action f) (into_action a) (\<lambda>_. False)"
proof
  fix cx :: "('h, 'j) context_state" and cur
  assume b: "cursor_balanced (cx_path cx) cur"
  from assms[OF b] obtain r cur' where
    *: "f a cx cur = Ret (r, cur')" "cursor_balanced (cx_path cx) cur'"
       "cur_popped cur \<le> cur_popped cur'"
    by blast
  show "act_preflight (oneshot_action f) (into_action a) cx cur \<noteq> Panic"
    using * by simp
  fix q s c
  assume "act_preflight (oneshot_action f) (into_action a) cx cur = Ret (q, s, c)"
  with * show "cursor_balanced (cx_path cx) c \<and> cur_popped cur \<le> cur_popped c"
    by simp
next
  fix cx :: "('h, 'j) context_state" and cur s c
  assume "act_preflight (oneshot_action f) (into_action a) cx cur = Ret (Ok Incomplete, s, c)"
  then show False by auto
qed simp_all

text \<open>An action that keeps the default preflight.\<close>

lemma default_endpoint_action:
  assumes "act_preflight A = default_preflight" and "live start"
    and "\<And>s ac. live s \<Longrightarrow> act_poll A s ac \<noteq> Panic"
    and "\<And>s ac s' ac'. live s \<Longrightarrow> act_poll A s ac = Ret (Ok NotReady, s', ac') \<Longrightarrow> live s'"
  shows "endpoint_action A start live"
  by unfold_locales (use assms in \<open>auto simp: default_preflight_def\<close>)

text \<open>A future that does not panic before it is ready, whatever context it runs in.\<close>

definition future_safe :: "('s \<Rightarrow> ('c, ('o, 'e) poll \<times> 's) tls_fn) \<Rightarrow> ('s \<Rightarrow> bool) \<Rightarrow> bool" where
  "future_safe poll_fn live \<longleftrightarrow>
     (\<forall>s w. live s \<longrightarrow> (\<exists>p s' w'. poll_fn s w = (Ret (p, s'), w') \<and> (p = Ok NotReady \<longrightarrow> live s')))"

lemma future_endpoint_action:
  fixes poll_fn :: "'s \<Rightarrow> (('h, 'j) context_state, ('o, 'e) poll \<times> 's) tls_fn"
  assumes "future_safe poll_fn live" and "live start"
  shows "endpoint_action (future_action poll_fn into) start live"
proof (rule default_endpoint_action)
  fix s and ac :: "('h, 'j, 'bd) action_context"
  assume l: "live s"
  let ?w = "\<lparr>tls_cx = Some 0, tls_mem = (\<lambda>_. ac_context ac)\<rparr>"
  from assms(1) l obtain p s' w' where
    *: "poll_fn s ?w = (Ret (p, s'), w')" and nr: "p = Ok NotReady \<longrightarrow> live s'"
    unfolding future_safe_def by blast
  then show "act_poll (future_action poll_fn into) s ac \<noteq> Panic"
    by (simp add: future_poll_def set_task_cx_def)
  fix t ac'
  assume "act_poll (future_action poll_fn into) s ac = Ret (Ok NotReady, t, ac')"
  with * nr show "live t"
    by (simp add: future_poll_def set_task_cx_def)
qed (use assms(2) in simp_all)

interpretation unit_act: endpoint_action
  "ep_impl unit_endpoint" "ep_action unit_endpoint" "\<lambda>_. False"
  unfolding unit_endpoint_def apply_endpoint_def
  by (simp, rule oneshot_endpoint_action) (simp add: unit_action_preflight_def)

lemma value_endpoint_action:
  "endpoint_action (ep_impl (value_endpoint x)) (ep_action (value_endpoint x)) (\<lambda>_. False)"
  unfolding value_endpoint_def apply_endpoint_def
  by (simp, rule oneshot_endpoint_action) (simp add: value_action_preflight_def)

interpretation value_act: endpoint_action
  "ep_impl (value_endpoint x)" "ep_action (value_endpoint x)" "\<lambda>_. False" for x
  by (rule value_endpoint_action)

end
