(* ===== verification/Finch_Resolve.thy ===== *)
theory Finch_Resolve
  imports Finch_Protocol
begin

text \<open>
  An abstract account of what an action does to a request, independent of how often it is
  polled: \<open>polls_to\<close> relates a state to the value or error its polls end with, \<open>resolves\<close> adds
  the preflight. The behaviour of every combinator is stated as an equation for \<open>resolves\<close> in
  the theory of the combinator.
\<close>

inductive polls_to ::
  "('s, 'h, 'j, 'bd, 'o) action \<Rightarrow> 's \<Rightarrow> ('h, 'j, 'bd) action_context
    \<Rightarrow> ('o, http_error) result \<Rightarrow> ('h, 'j, 'bd) action_context \<Rightarrow> bool"
  for A where
  polled_ready: "act_poll A s ac = Ret (Ok (Ready x), s', ac') \<Longrightarrow> polls_to A s ac (Ok x) ac'"
| polled_err: "act_poll A s ac = Ret (Err e, s', ac') \<Longrightarrow> polls_to A s ac (Err e) ac'"
| polled_later: "act_poll A s ac = Ret (Ok NotReady, s', ac') \<Longrightarrow> polls_to A s' ac' r ac''
    \<Longrightarrow> polls_to A s ac r ac''"

inductive_cases polls_toE: "polls_to A s ac r ac'"

lemma polls_to_unfold:
  "polls_to A s ac r ac' \<longleftrightarrow>
     (case act_poll A s ac of
        Panic \<Rightarrow> False
      | Ret (p, s', a) \<Rightarrow>
          (case p of
             Err e \<Rightarrow> r = Err e \<and> ac' = a
           | Ok (Ready x) \<Rightarrow> r = Ok x \<and> ac' = a
           | Ok NotReady \<Rightarrow> polls_to A s' a r ac'))"
  by (subst polls_to.simps) (auto split: run.splits result.splits async.splits)

lemma polls_to_ready:
  "act_poll A s ac = Ret (Ok (Ready x), s', a) \<Longrightarrow> polls_to A s ac r ac' \<longleftrightarrow> r = Ok x \<and> ac' = a"
  by (simp add: polls_to_unfold)

lemma polls_to_err:
  "act_poll A s ac = Ret (Err e, s', a) \<Longrightarrow> polls_to A s ac r ac' \<longleftrightarrow> r = Err e \<and> ac' = a"
  by (simp add: polls_to_unfold)

lemma polls_to_later:
  "act_poll A s ac = Ret (Ok NotReady, s', a) \<Longrightarrow> polls_to A s ac r ac' \<longleftrightarrow> polls_to A s' a r ac'"
  by (subst polls_to_unfold) simp

lemma polls_to_panic: "act_poll A s ac = Panic \<Longrightarrow> \<not> polls_to A s ac r ac'"
  by (simp add: polls_to_unfold)

lemmas polls_to_rules = polls_to_ready polls_to_err polls_to_later polls_to_panic

text \<open>Actions are deterministic: polling ends with one result at most.\<close>

lemma polls_to_deterministic:
  "polls_to A s ac r1 ac1 \<Longrightarrow> polls_to A s ac r2 ac2 \<Longrightarrow> r1 = r2 \<and> ac1 = ac2"
  by (induction rule: polls_to.induct) (auto simp: polls_to_rules)

text \<open>The relation is what a caller that polls often enough observes.\<close>

text \<open>
  The relation between a state and the result of polling is what a caller observes that polls
  a bounded number of times: some number of polls ends with the result exactly when the relation
  holds.
\<close>

lemma polls_to_poll_times:
  "polls_to A s ac r ac' \<longleftrightarrow>
     (\<exists>n p s'. poll_times A n s ac = Ret (p, s', ac') \<and> p = map_ok Ready r)"
proof
  assume "polls_to A s ac r ac'"
  then show "\<exists>n p s'. poll_times A n s ac = Ret (p, s', ac') \<and> p = map_ok Ready r"
  proof induction
    case (polled_ready s ac x s' ac')
    then show ?case by (intro exI[of _ 1]) simp
  next
    case (polled_err s ac e s' ac')
    then show ?case by (intro exI[of _ 1]) simp
  next
    case (polled_later s ac s' ac' r ac'')
    then obtain n p t where "poll_times A n s' ac' = Ret (p, t, ac'')" "p = map_ok Ready r" by blast
    with polled_later.hyps show ?case by (intro exI[of _ "Suc n"]) simp
  qed
next
  assume "\<exists>n p s'. poll_times A n s ac = Ret (p, s', ac') \<and> p = map_ok Ready r"
  then obtain n s' where "poll_times A n s ac = Ret (map_ok Ready r, s', ac')" by blast
  then show "polls_to A s ac r ac'"
  proof (induction n arbitrary: s ac)
    case 0
    then show ?case by (auto simp: map_ok_def split: result.splits)
  next
    case (Suc n)
    show ?case
    proof (cases "act_poll A s ac")
      case (Ret x)
      then obtain p t a where *: "act_poll A s ac = Ret (p, t, a)" by (cases x) auto
      show ?thesis
        by (cases p rule: poll_exhaust)
           (use Suc * in \<open>auto simp: polls_to_rules map_ok_def split: result.splits\<close>)
    next
      case Panic
      with Suc.prems show ?thesis by simp
    qed
  qed
qed

text \<open>
  The combinators that poll an inner action \<open>A\<close> to its end and then go on are instances of one
  lemma: \<open>g\<close> embeds the states of \<open>A\<close>, and \<open>C\<close> says what follows the result of \<open>A\<close>.
\<close>

lemma polls_to_chain:
  assumes panic: "\<And>s ac. act_poll A s ac = Panic \<Longrightarrow> act_poll B (g s) ac = Panic"
    and later: "\<And>s ac s' a. act_poll A s ac = Ret (Ok NotReady, s', a) \<Longrightarrow>
      act_poll B (g s) ac = Ret (Ok NotReady, g s', a)"
    and ready: "\<And>s ac x s' a r ac'. act_poll A s ac = Ret (Ok (Ready x), s', a) \<Longrightarrow>
      polls_to B (g s) ac r ac' \<longleftrightarrow> C (Ok x) a r ac'"
    and err: "\<And>s ac e s' a r ac'. act_poll A s ac = Ret (Err e, s', a) \<Longrightarrow>
      polls_to B (g s) ac r ac' \<longleftrightarrow> C (Err e) a r ac'"
  shows "polls_to B (g s) ac r ac' \<longleftrightarrow> (\<exists>r0 ac1. polls_to A s ac r0 ac1 \<and> C r0 ac1 r ac')"
proof
  have step: "\<exists>r0 ac1. polls_to A s ac r0 ac1 \<and> C r0 ac1 r ac'"
    if B: "polls_to B (g s) ac r ac'"
      and IH: "\<And>s' a. act_poll B (g s) ac = Ret (Ok NotReady, g s', a) \<Longrightarrow>
        \<exists>r0 ac1. polls_to A s' a r0 ac1 \<and> C r0 ac1 r ac'" for s ac r ac'
  proof (cases "act_poll A s ac")
    case Panic
    with panic B show ?thesis by (simp add: polls_to_panic)
  next
    case (Ret q)
    then obtain p s' a where q: "act_poll A s ac = Ret (p, s', a)" by (cases q) auto
    show ?thesis
    proof (cases p rule: poll_exhaust)
      case (ready x)
      with q have *: "act_poll A s ac = Ret (Ok (Ready x), s', a)" by simp
      with B have "C (Ok x) a r ac'" by (simp only: assms(3))
      with * show ?thesis by (blast intro: polls_to.polled_ready)
    next
      case not_ready
      with q have *: "act_poll A s ac = Ret (Ok NotReady, s', a)" by simp
      with IH later show ?thesis by (blast intro: polls_to.polled_later)
    next
      case (err e)
      with q have *: "act_poll A s ac = Ret (Err e, s', a)" by simp
      with B have "C (Err e) a r ac'" by (simp only: assms(4))
      with * show ?thesis by (blast intro: polls_to.polled_err)
    qed
  qed
  have "polls_to B st ac r ac' \<Longrightarrow> st = g s \<Longrightarrow> \<exists>r0 ac1. polls_to A s ac r0 ac1 \<and> C r0 ac1 r ac'"
    for st
  proof (induction arbitrary: s rule: polls_to.induct)
    case (polled_ready st ac x st' ac' s)
    then have *: "act_poll B (g s) ac = Ret (Ok (Ready x), st', ac')" by simp
    show ?case by (rule step[OF polls_to.polled_ready[OF *]]) (simp add: *)
  next
    case (polled_err st ac e st' ac' s)
    then have *: "act_poll B (g s) ac = Ret (Err e, st', ac')" by simp
    show ?case by (rule step[OF polls_to.polled_err[OF *]]) (simp add: *)
  next
    case (polled_later st ac st' ac1 r ac' s)
    then have *: "act_poll B (g s) ac = Ret (Ok NotReady, st', ac1)" by simp
    show ?case
      by (rule step[OF polls_to.polled_later[OF * polled_later.hyps(2)]])
         (use * polled_later.IH in simp)
  qed
  then show "polls_to B (g s) ac r ac' \<Longrightarrow> \<exists>r0 ac1. polls_to A s ac r0 ac1 \<and> C r0 ac1 r ac'" by blast
next
  have "polls_to A s ac r0 ac1 \<Longrightarrow> C r0 ac1 r ac' \<Longrightarrow> polls_to B (g s) ac r ac'" for s ac r0 ac1
    by (induction rule: polls_to.induct) (auto simp: ready err intro: polls_to.polled_later later)
  then show "\<exists>r0 ac1. polls_to A s ac r0 ac1 \<and> C r0 ac1 r ac' \<Longrightarrow> polls_to B (g s) ac r ac'" by blast
qed

text \<open>The polls of a wrapper that only changes the result.\<close>

lemma polls_to_mapped:
  assumes "\<And>s ac. act_poll B (g s) ac =
      map_run (\<lambda>(p, s', a). case p of
          Ok NotReady \<Rightarrow> (Ok NotReady, g s', a)
        | Ok (Ready x) \<Rightarrow> (map_ok Ready (h (Ok x)), d (Ok x) s', a)
        | Err e \<Rightarrow> (map_ok Ready (h (Err e)), d (Err e) s', a)) (act_poll A s ac)"
  shows "polls_to B (g s) ac r ac' \<longleftrightarrow> (\<exists>r0. polls_to A s ac r0 ac' \<and> r = h r0)"
proof -
  have "polls_to B (g s) ac r ac' \<longleftrightarrow>
      (\<exists>r0 ac1. polls_to A s ac r0 ac1 \<and> (r = h r0 \<and> ac' = ac1))"
  proof (rule polls_to_chain, goal_cases)
    case (3 s ac x s' a r ac')
    then show ?case
      by (cases "h (Ok x)") (auto simp: assms polls_to_rules)
  next
    case (4 s ac e s' a r ac')
    then show ?case
      by (cases "h (Err e)") (auto simp: assms polls_to_rules)
  qed (simp_all add: assms)
  then show ?thesis by auto
qed

section \<open>Preflight and polls together\<close>

definition finishes ::
  "('s, 'h, 'j, 'bd, 'o) action \<Rightarrow> 'o preflight \<Rightarrow> 's \<Rightarrow> ('h, 'j, 'bd) action_context
    \<Rightarrow> ('o, http_error) result \<Rightarrow> ('h, 'j, 'bd) action_context \<Rightarrow> bool" where
  "finishes A p s ac r ac' \<longleftrightarrow>
     (case p of Completed x \<Rightarrow> r = Ok x \<and> ac' = ac | Incomplete \<Rightarrow> polls_to A s ac r ac')"

definition resolves ::
  "('s, 'h, 'j, 'bd, 'o) action \<Rightarrow> 's \<Rightarrow> cursor \<Rightarrow> ('h, 'j, 'bd) action_context
    \<Rightarrow> ('o, http_error) result \<Rightarrow> cursor \<Rightarrow> ('h, 'j, 'bd) action_context \<Rightarrow> bool" where
  "resolves A s cur ac r cur' ac' \<longleftrightarrow>
     (case act_preflight A s (ac_context ac) cur of
        Panic \<Rightarrow> False
      | Ret (q, s', c) \<Rightarrow>
          cur' = c \<and>
          (case q of Err e \<Rightarrow> r = Err e \<and> ac' = ac | Ok p \<Rightarrow> finishes A p s' ac r ac'))"

lemma finishes_simps [simp]:
  "finishes A (Completed x) s ac r ac' \<longleftrightarrow> r = Ok x \<and> ac' = ac"
  "finishes A Incomplete s ac r ac' \<longleftrightarrow> polls_to A s ac r ac'"
  by (simp_all add: finishes_def)

lemma finishes_deterministic:
  "finishes A p s ac r1 ac1 \<Longrightarrow> finishes A p s ac r2 ac2 \<Longrightarrow> r1 = r2 \<and> ac1 = ac2"
  by (cases p) (auto dest: polls_to_deterministic)

lemma resolves_deterministic:
  assumes "resolves A s cur ac r1 cur1 ac1" and "resolves A s cur ac r2 cur2 ac2"
  shows "r1 = r2 \<and> cur1 = cur2 \<and> ac1 = ac2"
  using assms unfolding resolves_def
  by (auto split: run.splits result.splits dest: finishes_deterministic)

text \<open>A oneshot action resolves in its preflight and leaves context and body alone.\<close>

lemma resolves_oneshot:
  "resolves (oneshot_action f) (into_action a) cur ac r cur' ac' \<longleftrightarrow>
     f a (ac_context ac) cur = Ret (r, cur') \<and> ac' = ac"
  by (cases "f a (ac_context ac) cur")
     (auto simp: resolves_def split: result.splits)

lemma resolves_default:
  "act_preflight A = default_preflight \<Longrightarrow>
     resolves A s cur ac r cur' ac' \<longleftrightarrow> cur' = cur \<and> polls_to A s ac r ac'"
  by (simp add: resolves_def default_preflight_def)

section \<open>Wrappers\<close>

text \<open>
  An action that forwards to another one and changes only the results. Its resolution is the
  changed resolution of the inner action, and it keeps the contract.
\<close>

definition preflight_result ::
  "(('o, http_error) result \<Rightarrow> ('u, http_error) result) \<Rightarrow> ('o preflight, http_error) result
    \<Rightarrow> ('u preflight, http_error) result" where
  "preflight_result h p =
     (case p of
        Ok Incomplete \<Rightarrow> Ok Incomplete
      | Ok (Completed x) \<Rightarrow> map_ok Completed (h (Ok x))
      | Err e \<Rightarrow> map_ok Completed (h (Err e)))"

definition poll_result ::
  "(('o, http_error) result \<Rightarrow> ('u, http_error) result) \<Rightarrow> ('o, http_error) poll
    \<Rightarrow> ('u, http_error) poll" where
  "poll_result h p =
     (case p of
        Ok NotReady \<Rightarrow> Ok NotReady
      | Ok (Ready x) \<Rightarrow> map_ok Ready (h (Ok x))
      | Err e \<Rightarrow> map_ok Ready (h (Err e)))"

definition wraps ::
  "(('o, http_error) result \<Rightarrow> ('u, http_error) result) \<Rightarrow> ('s \<Rightarrow> 't)
    \<Rightarrow> ('s, 'h, 'j, 'bd, 'o) action \<Rightarrow> ('t, 'h, 'j, 'bd, 'u) action \<Rightarrow> bool" where
  "wraps h g A B \<longleftrightarrow>
     (\<forall>s cx cur. act_preflight B (g s) cx cur =
        map_run (\<lambda>(p, s', c). (preflight_result h p, g s', c)) (act_preflight A s cx cur)) \<and>
     (\<forall>s ac. act_poll B (g s) ac =
        map_run (\<lambda>(p, s', a). (poll_result h p, g s', a)) (act_poll A s ac))"

lemma poll_result_simps [simp]:
  "poll_result h (Ok NotReady) = Ok NotReady"
  "poll_result h (Ok (Ready x)) = map_ok Ready (h (Ok x))"
  "poll_result h (Err e) = map_ok Ready (h (Err e))"
  by (simp_all add: poll_result_def)

lemma preflight_result_simps [simp]:
  "preflight_result h (Ok Incomplete) = Ok Incomplete"
  "preflight_result h (Ok (Completed x)) = map_ok Completed (h (Ok x))"
  "preflight_result h (Err e) = map_ok Completed (h (Err e))"
  by (simp_all add: preflight_result_def)

lemma poll_result_pending [simp]: "poll_result h p = Ok NotReady \<longleftrightarrow> p = Ok NotReady"
  by (cases p rule: poll_exhaust) (auto simp: map_ok_def split: result.splits)

lemma preflight_result_pending [simp]: "preflight_result h p = Ok Incomplete \<longleftrightarrow> p = Ok Incomplete"
  by (auto simp: preflight_result_def map_ok_def split: result.splits preflight.splits)

lemma wraps_preflight:
  "wraps h g A B \<Longrightarrow> act_preflight B (g s) cx cur =
     map_run (\<lambda>(p, s', c). (preflight_result h p, g s', c)) (act_preflight A s cx cur)"
  by (simp add: wraps_def)

lemma wraps_poll:
  "wraps h g A B \<Longrightarrow> act_poll B (g s) ac =
     map_run (\<lambda>(p, s', a). (poll_result h p, g s', a)) (act_poll A s ac)"
  by (simp add: wraps_def)

lemma polls_to_wraps:
  assumes "wraps h g A B"
  shows "polls_to B (g s) ac r ac' \<longleftrightarrow> (\<exists>r0. polls_to A s ac r0 ac' \<and> r = h r0)"
proof (rule polls_to_mapped[where d = "\<lambda>_. g"])
  show "act_poll B (g s) ac = map_run (\<lambda>(p, s', a). case p of
          Ok NotReady \<Rightarrow> (Ok NotReady, g s', a)
        | Ok (Ready x) \<Rightarrow> (map_ok Ready (h (Ok x)), g s', a)
        | Err e \<Rightarrow> (map_ok Ready (h (Err e)), g s', a)) (act_poll A s ac)" for s ac
    unfolding wraps_poll[OF assms] poll_result_def
    by (rule arg_cong[where f = "\<lambda>f. map_run f (act_poll A s ac)"])
       (auto split: result.splits async.splits)
qed

lemma resolves_wraps:
  assumes "wraps h g A B"
  shows "resolves B (g s) cur ac r cur' ac' \<longleftrightarrow>
    (\<exists>r0. resolves A s cur ac r0 cur' ac' \<and> r = h r0)"
proof (cases "act_preflight A s (ac_context ac) cur")
  case Panic
  then show ?thesis by (simp add: resolves_def wraps_preflight[OF assms])
next
  case (Ret q)
  then obtain p s' c where q: "act_preflight A s (ac_context ac) cur = Ret (p, s', c)"
    by (cases q) auto
  show ?thesis
  proof (cases p)
    case (Ok pr)
    show ?thesis
    proof (cases pr)
      case (Completed x)
      with q Ok show ?thesis
        by (cases "h (Ok x)") (auto simp: resolves_def wraps_preflight[OF assms])
    qed (use q Ok in \<open>simp add: resolves_def wraps_preflight[OF assms] polls_to_wraps[OF assms]\<close>)
  next
    case (Err e)
    with q show ?thesis
      by (cases "h (Err e)") (auto simp: resolves_def wraps_preflight[OF assms])
  qed
qed

lemma wraps_endpoint_action:
  assumes A: "endpoint_action A s0 L" and w: "wraps h g A B"
  shows "endpoint_action B (g s0) (\<lambda>t. \<exists>s. t = g s \<and> L s)"
proof (rule endpoint_actionI, goal_cases)
  case (1 cx cur)
  then show ?case
    by (rule endpoint_action.preflight_cases[OF A]) (auto simp: wraps_preflight[OF w])
next
  case (2 t ac)
  then obtain s where t: "t = g s" and "L s" by blast
  from this(2) show ?case
    by (rule endpoint_action.poll_cases[OF A, of _ ac]) (auto simp: wraps_poll[OF w] t)
qed

end
