(* ===== verification/Finch_Tuples.thy ===== *)
theory Finch_Tuples
  imports Finch_Prelude
begin

text \<open>
  \<open>src/common\<close>: heterogeneous lists (\<open>hlist.rs\<close>), their concatenation (\<open>combine.rs\<close>) and the
  application of a closure to a tuple of arguments (\<open>func.rs\<close>). A Rust trait implementation is
  a definition per instance; the instances the macro \<open>generics!\<close> generates for up to 16
  components are written out for up to four.
\<close>

section \<open>Heterogeneous lists and tuples\<close>

datatype hnil = HNil

lemma hnil_unique [simp]: "HNil = l" "l = HNil"
  by (cases l; simp)+

datatype ('h, 't) hcons = HCons (hcons_head: 'h) (hcons_tail: 't)

fun hlist0 :: "unit \<Rightarrow> hnil" where
  "hlist0 () = HNil"

fun hlist1 :: "'a one \<Rightarrow> ('a, hnil) hcons" where
  "hlist1 (One a) = HCons a HNil"

fun hlist2 :: "'a \<times> 'b \<Rightarrow> ('a, ('b, hnil) hcons) hcons" where
  "hlist2 (a, b) = HCons a (HCons b HNil)"

fun hlist3 :: "'a \<times> 'b \<times> 'c \<Rightarrow> ('a, ('b, ('c, hnil) hcons) hcons) hcons" where
  "hlist3 (a, b, c) = HCons a (HCons b (HCons c HNil))"

fun hlist4 :: "'a \<times> 'b \<times> 'c \<times> 'd \<Rightarrow> ('a, ('b, ('c, ('d, hnil) hcons) hcons) hcons) hcons" where
  "hlist4 (a, b, c, d) = HCons a (HCons b (HCons c (HCons d HNil)))"

fun tuple0 :: "hnil \<Rightarrow> unit" where
  "tuple0 HNil = ()"

fun tuple1 :: "('a, hnil) hcons \<Rightarrow> 'a one" where
  "tuple1 (HCons a HNil) = One a"

fun tuple2 :: "('a, ('b, hnil) hcons) hcons \<Rightarrow> 'a \<times> 'b" where
  "tuple2 (HCons a (HCons b HNil)) = (a, b)"

fun tuple3 :: "('a, ('b, ('c, hnil) hcons) hcons) hcons \<Rightarrow> 'a \<times> 'b \<times> 'c" where
  "tuple3 (HCons a (HCons b (HCons c HNil))) = (a, b, c)"

fun tuple4 :: "('a, ('b, ('c, ('d, hnil) hcons) hcons) hcons) hcons \<Rightarrow> 'a \<times> 'b \<times> 'c \<times> 'd" where
  "tuple4 (HCons a (HCons b (HCons c (HCons d HNil)))) = (a, b, c, d)"

section \<open>Concatenation\<close>

text \<open>The two implementations of \<open>CombineList\<close>; the one for \<open>HCons\<close> takes the
  implementation for the tail.\<close>

fun combine_hnil :: "hnil \<Rightarrow> 'u \<Rightarrow> 'u" where
  "combine_hnil HNil other = other"

lemma combine_hnil_left [simp]: "combine_hnil l other = other"
  using combine_hnil.simps hnil.exhaust by metis

fun combine_hcons :: "('t \<Rightarrow> 'u \<Rightarrow> 'o) \<Rightarrow> ('h, 't) hcons \<Rightarrow> 'u \<Rightarrow> ('h, 'o) hcons" where
  "combine_hcons combine_tail (HCons x xs) other = HCons x (combine_tail xs other)"

text \<open>\<open>Combine::combine\<close>: through the heterogeneous lists and back.\<close>

definition combine ::
  "('a \<Rightarrow> 'l) \<Rightarrow> ('b \<Rightarrow> 'm) \<Rightarrow> ('l \<Rightarrow> 'm \<Rightarrow> 'n) \<Rightarrow> ('n \<Rightarrow> 'c) \<Rightarrow> 'a \<Rightarrow> 'b \<Rightarrow> 'c" where
  "combine hlist_a hlist_b combine_list tuple_c x y = tuple_c (combine_list (hlist_a x) (hlist_b y))"

text \<open>The interface of \<open>Tuple\<close> and \<open>HList\<close>: the two conversions are inverse.\<close>

locale tuple_hlist =
  fixes hlist :: "'a \<Rightarrow> 'l"
    and tuple :: "'l \<Rightarrow> 'a"
  assumes tuple_hlist: "tuple (hlist x) = x"
    and hlist_tuple: "hlist (tuple l) = l"
begin

lemma hlist_inject: "hlist x = hlist y \<longleftrightarrow> x = y"
  using tuple_hlist by metis

lemma combine_unit_left: "combine hlist0 hlist combine_hnil tuple () x = x"
  by (simp add: combine_def tuple_hlist)

end

lemma tuple_roundtrip [simp]:
  "tuple0 (hlist0 t0) = t0" "tuple1 (hlist1 t1) = t1" "tuple2 (hlist2 t2) = t2"
  "tuple3 (hlist3 t3) = t3" "tuple4 (hlist4 t4) = t4"
  by (cases t0, simp, cases t1, simp, cases t2, simp, cases t3, simp, cases t4, simp)

lemma hlist_roundtrip [simp]:
  "hlist0 (tuple0 l0) = l0" "hlist1 (tuple1 l1) = l1" "hlist2 (tuple2 l2) = l2"
  "hlist3 (tuple3 l3) = l3" "hlist4 (tuple4 l4) = l4"
proof -
  show "hlist0 (tuple0 l0) = l0" by (cases l0) simp
  show "hlist1 (tuple1 l1) = l1" by (cases l1 rule: tuple1.cases) simp
  show "hlist2 (tuple2 l2) = l2" by (cases l2 rule: tuple2.cases) simp
  show "hlist3 (tuple3 l3) = l3" by (cases l3 rule: tuple3.cases) simp
  show "hlist4 (tuple4 l4) = l4" by (cases l4 rule: tuple4.cases) simp
qed

interpretation unit_tuple: tuple_hlist hlist0 tuple0
  by unfold_locales simp_all

interpretation single_tuple: tuple_hlist hlist1 tuple1
  by unfold_locales simp_all

interpretation pair_tuple: tuple_hlist hlist2 tuple2
  by unfold_locales simp_all

interpretation triple_tuple: tuple_hlist hlist3 tuple3
  by unfold_locales simp_all

interpretation quad_tuple: tuple_hlist hlist4 tuple4
  by unfold_locales simp_all

text \<open>
  Concatenation of heterogeneous lists is associative and has the empty list as its unit,
  whatever the number of components: the two laws are closed under \<open>HCons\<close>.
\<close>

definition combine_assoc ::
  "('l \<Rightarrow> 'm \<Rightarrow> 'lm) \<Rightarrow> ('lm \<Rightarrow> 'n \<Rightarrow> 'r) \<Rightarrow> ('m \<Rightarrow> 'n \<Rightarrow> 'mn) \<Rightarrow> ('l \<Rightarrow> 'mn \<Rightarrow> 'r) \<Rightarrow> bool" where
  "combine_assoc lm lm_n mn l_mn \<longleftrightarrow> (\<forall>l m n. lm_n (lm l m) n = l_mn l (mn m n))"

definition combine_unit_right :: "('l \<Rightarrow> hnil \<Rightarrow> 'l) \<Rightarrow> bool" where
  "combine_unit_right c \<longleftrightarrow> (\<forall>l. c l HNil = l)"

lemma combine_assoc_hnil [intro]: "combine_assoc combine_hnil c c combine_hnil"
  by (simp add: combine_assoc_def)

lemma combine_assoc_hcons [intro]:
  assumes "combine_assoc lm lm_n mn l_mn"
  shows "combine_assoc (combine_hcons lm) (combine_hcons lm_n) mn (combine_hcons l_mn)"
  unfolding combine_assoc_def
proof (intro allI)
  fix l m n
  show "combine_hcons lm_n (combine_hcons lm l m) n = combine_hcons l_mn l (mn m n)"
    using assms by (cases l) (simp add: combine_assoc_def)
qed

lemma combine_unit_right_hnil [intro]: "combine_unit_right combine_hnil"
  by (simp add: combine_unit_right_def)

lemma combine_unit_right_hcons [intro]:
  assumes "combine_unit_right c"
  shows "combine_unit_right (combine_hcons c)"
  unfolding combine_unit_right_def
proof
  fix l
  show "combine_hcons c l HNil = l"
    using assms by (cases l) (simp add: combine_unit_right_def)
qed

text \<open>The instances the rest of the development uses.\<close>

abbreviation combine_0_0 :: "unit \<Rightarrow> unit \<Rightarrow> unit" where
  "combine_0_0 \<equiv> combine hlist0 hlist0 combine_hnil tuple0"

abbreviation combine_0_1 :: "unit \<Rightarrow> 'a one \<Rightarrow> 'a one" where
  "combine_0_1 \<equiv> combine hlist0 hlist1 combine_hnil tuple1"

abbreviation combine_1_0 :: "'a one \<Rightarrow> unit \<Rightarrow> 'a one" where
  "combine_1_0 \<equiv> combine hlist1 hlist0 (combine_hcons combine_hnil) tuple1"

abbreviation combine_1_1 :: "'a one \<Rightarrow> 'b one \<Rightarrow> 'a \<times> 'b" where
  "combine_1_1 \<equiv> combine hlist1 hlist1 (combine_hcons combine_hnil) tuple2"

abbreviation combine_1_2 :: "'a one \<Rightarrow> 'b \<times> 'c \<Rightarrow> 'a \<times> 'b \<times> 'c" where
  "combine_1_2 \<equiv> combine hlist1 hlist2 (combine_hcons combine_hnil) tuple3"

abbreviation combine_2_1 :: "'a \<times> 'b \<Rightarrow> 'c one \<Rightarrow> 'a \<times> 'b \<times> 'c" where
  "combine_2_1 \<equiv> combine hlist2 hlist1 (combine_hcons (combine_hcons combine_hnil)) tuple3"

abbreviation combine_2_2 :: "'a \<times> 'b \<Rightarrow> 'c \<times> 'd \<Rightarrow> 'a \<times> 'b \<times> 'c \<times> 'd" where
  "combine_2_2 \<equiv> combine hlist2 hlist2 (combine_hcons (combine_hcons combine_hnil)) tuple4"

lemma combine_instances [simp]:
  "combine_0_0 () () = ()"
  "combine_0_1 () (One a) = One a"
  "combine_1_0 (One a) () = One a"
  "combine_1_1 (One a) (One b) = (a, b)"
  "combine_1_2 (One a) (b, c) = (a, b, c)"
  "combine_2_1 (a, b) (One c) = (a, b, c)"
  "combine_2_2 (a, b) (c, d) = (a, b, c, d)"
  by (simp_all add: combine_def)

section \<open>Calling closures\<close>

text \<open>\<open>Func::call\<close> for closures of zero to four arguments.\<close>

fun func_call0 :: "(unit \<Rightarrow> 'r) \<Rightarrow> unit \<Rightarrow> 'r" where
  "func_call0 f () = f ()"

fun func_call1 :: "('a \<Rightarrow> 'r) \<Rightarrow> 'a one \<Rightarrow> 'r" where
  "func_call1 f (One a) = f a"

fun func_call2 :: "('a \<Rightarrow> 'b \<Rightarrow> 'r) \<Rightarrow> 'a \<times> 'b \<Rightarrow> 'r" where
  "func_call2 f (a, b) = f a b"

fun func_call3 :: "('a \<Rightarrow> 'b \<Rightarrow> 'c \<Rightarrow> 'r) \<Rightarrow> 'a \<times> 'b \<times> 'c \<Rightarrow> 'r" where
  "func_call3 f (a, b, c) = f a b c"

fun func_call4 :: "('a \<Rightarrow> 'b \<Rightarrow> 'c \<Rightarrow> 'd \<Rightarrow> 'r) \<Rightarrow> 'a \<times> 'b \<times> 'c \<times> 'd \<Rightarrow> 'r" where
  "func_call4 f (a, b, c, d) = f a b c d"

end
