(* ===== verification/Finch_Ext_And.thy ===== *)
theory Finch_Ext_And
  imports Finch_Resolve Finch_Tuples
begin

text \<open>
  \<open>src/endpoint/ext/and.rs\<close>: the endpoint \<open>e1.and(e2)\<close> and its \<open>MaybeDone\<close> state. Both
  preflights run in order, the polls run the first action to its end before the second, and
  the two outputs are concatenated.
\<close>

section \<open>MaybeDone\<close>

datatype ('f, 'o) maybe_done = MInit "'f option" | MInFlight 'f | MReady 'o | MGone

definition maybe_done_take_item :: "('f, 'o) maybe_done \<Rightarrow> 'o option \<times> ('f, 'o) maybe_done" where
  "maybe_done_take_item m = (case m of MReady output \<Rightarrow> (Some output, MGone) | _ \<Rightarrow> (None, MGone))"

definition maybe_done_preflight ::
  "('f, 'h, 'j, 'bd, 'o) action \<Rightarrow> ('f, 'o) maybe_done \<Rightarrow> ('h, 'j) context_state \<Rightarrow> cursor
    \<Rightarrow> ((unit preflight, http_error) result \<times> ('f, 'o) maybe_done \<times> cursor) run" where
  "maybe_done_preflight A m cx cur =
     (case m of
        MInit (Some a) \<Rightarrow>
          (case act_preflight A a cx cur of
             Panic \<Rightarrow> Panic
           | Ret (Err e, a', cur') \<Rightarrow> Ret (Err e, MInit None, cur')
           | Ret (Ok (Completed output), a', cur') \<Rightarrow> Ret (Ok Incomplete, MReady output, cur')
           | Ret (Ok Incomplete, a', cur') \<Rightarrow> Ret (Ok Incomplete, MInFlight a', cur'))
      | MInit None \<Rightarrow> Panic
      | _ \<Rightarrow> Panic)"

text \<open>The loop of \<open>poll_action\<close> goes round once more after the action got ready.\<close>

definition maybe_done_poll ::
  "('f, 'h, 'j, 'bd, 'o) action \<Rightarrow> ('f, 'o) maybe_done \<Rightarrow> ('h, 'j, 'bd) action_context
    \<Rightarrow> ((unit, http_error) poll \<times> ('f, 'o) maybe_done \<times> ('h, 'j, 'bd) action_context) run" where
  "maybe_done_poll A m ac =
     (case m of
        MInit _ \<Rightarrow> Panic
      | MReady output \<Rightarrow> Ret (Ok (Ready ()), MReady output, ac)
      | MInFlight a \<Rightarrow>
          (case act_poll A a ac of
             Panic \<Rightarrow> Panic
           | Ret (Err e, a', ac') \<Rightarrow> Ret (Err e, MInFlight a', ac')
           | Ret (Ok NotReady, a', ac') \<Rightarrow> Ret (Ok NotReady, MInFlight a', ac')
           | Ret (Ok (Ready output), a', ac') \<Rightarrow> Ret (Ok (Ready ()), MReady output, ac'))
      | MGone \<Rightarrow> Panic)"

section \<open>And\<close>

type_synonym ('f1, 'o1, 'f2, 'o2) and_state = "('f1, 'o1) maybe_done \<times> ('f2, 'o2) maybe_done"

definition and_take_item ::
  "('o1 \<Rightarrow> 'o2 \<Rightarrow> 'o) \<Rightarrow> ('f1, 'o1, 'f2, 'o2) and_state \<Rightarrow> 'o option \<times> ('f1, 'o1, 'f2, 'o2) and_state" where
  "and_take_item comb st =
     (case st of (f1, f2) \<Rightarrow>
       (case maybe_done_take_item f1 of
          (None, f1') \<Rightarrow> (None, (f1', f2))
        | (Some v1, f1') \<Rightarrow>
            (case maybe_done_take_item f2 of
               (None, f2') \<Rightarrow> (None, (f1', f2'))
             | (Some v2, f2') \<Rightarrow> (Some (comb v1 v2), (f1', f2')))))"

definition and_preflight ::
  "('o1 \<Rightarrow> 'o2 \<Rightarrow> 'o) \<Rightarrow> ('f1, 'h, 'j, 'bd, 'o1) action \<Rightarrow> ('f2, 'h, 'j, 'bd, 'o2) action
    \<Rightarrow> ('f1, 'o1, 'f2, 'o2) and_state \<Rightarrow> ('h, 'j) context_state \<Rightarrow> cursor
    \<Rightarrow> (('o preflight, http_error) result \<times> ('f1, 'o1, 'f2, 'o2) and_state \<times> cursor) run" where
  "and_preflight comb A1 A2 st cx cur =
     (case st of (f1, f2) \<Rightarrow>
       (case maybe_done_preflight A1 f1 cx cur of
          Panic \<Rightarrow> Panic
        | Ret (Err e, f1', cur1) \<Rightarrow> Ret (Err e, (f1', f2), cur1)
        | Ret (Ok x1, f1', cur1) \<Rightarrow>
            (case maybe_done_preflight A2 f2 cx cur1 of
               Panic \<Rightarrow> Panic
             | Ret (Err e, f2', cur2) \<Rightarrow> Ret (Err e, (f1', f2'), cur2)
             | Ret (Ok x2, f2', cur2) \<Rightarrow>
                 if is_completed x1 \<and> is_completed x2 then
                   (case and_take_item comb (f1', f2') of
                      (None, st') \<Rightarrow> Panic
                    | (Some out, st') \<Rightarrow> Ret (Ok (Completed out), st', cur2))
                 else Ret (Ok Incomplete, (f1', f2'), cur2))))"

definition and_poll ::
  "('o1 \<Rightarrow> 'o2 \<Rightarrow> 'o) \<Rightarrow> ('f1, 'h, 'j, 'bd, 'o1) action \<Rightarrow> ('f2, 'h, 'j, 'bd, 'o2) action
    \<Rightarrow> ('f1, 'o1, 'f2, 'o2) and_state \<Rightarrow> ('h, 'j, 'bd) action_context
    \<Rightarrow> (('o, http_error) poll \<times> ('f1, 'o1, 'f2, 'o2) and_state \<times> ('h, 'j, 'bd) action_context) run" where
  "and_poll comb A1 A2 st ac =
     (case st of (f1, f2) \<Rightarrow>
       (case maybe_done_poll A1 f1 ac of
          Panic \<Rightarrow> Panic
        | Ret (Err e, f1', ac1) \<Rightarrow> Ret (Err e, (f1', f2), ac1)
        | Ret (Ok NotReady, f1', ac1) \<Rightarrow> Ret (Ok NotReady, (f1', f2), ac1)
        | Ret (Ok (Ready _), f1', ac1) \<Rightarrow>
            (case maybe_done_poll A2 f2 ac1 of
               Panic \<Rightarrow> Panic
             | Ret (Err e, f2', ac2) \<Rightarrow> Ret (Err e, (f1', f2'), ac2)
             | Ret (Ok NotReady, f2', ac2) \<Rightarrow> Ret (Ok NotReady, (f1', f2'), ac2)
             | Ret (Ok (Ready _), f2', ac2) \<Rightarrow>
                 (case and_take_item comb (f1', f2') of
                    (None, st') \<Rightarrow> Panic
                  | (Some out, st') \<Rightarrow> Ret (Ok (Ready out), st', ac2)))))"

definition and_action ::
  "('o1 \<Rightarrow> 'o2 \<Rightarrow> 'o) \<Rightarrow> ('f1, 'h, 'j, 'bd, 'o1) action \<Rightarrow> ('f2, 'h, 'j, 'bd, 'o2) action
    \<Rightarrow> (('f1, 'o1, 'f2, 'o2) and_state, 'h, 'j, 'bd, 'o) action" where
  "and_action comb A1 A2 =
     \<lparr>act_preflight = and_preflight comb A1 A2, act_poll = and_poll comb A1 A2\<rparr>"

definition and_start :: "'f1 \<Rightarrow> 'f2 \<Rightarrow> ('f1, 'o1, 'f2, 'o2) and_state" where
  "and_start s1 s2 = (MInit (Some s1), MInit (Some s2))"

definition ep_and ::
  "('o1 \<Rightarrow> 'o2 \<Rightarrow> 'o) \<Rightarrow> ('f1, 'h, 'j, 'bd, 'o1) endpoint \<Rightarrow> ('f2, 'h, 'j, 'bd, 'o2) endpoint
    \<Rightarrow> (('f1, 'o1, 'f2, 'o2) and_state, 'h, 'j, 'bd, 'o) endpoint" where
  "ep_and comb e1 e2 =
     \<lparr>ep_action = and_start (ep_action e1) (ep_action e2),
      ep_impl = and_action comb (ep_impl e1) (ep_impl e2)\<rparr>"

lemma and_action_sel [simp]:
  "act_preflight (and_action comb A1 A2) = and_preflight comb A1 A2"
  "act_poll (and_action comb A1 A2) = and_poll comb A1 A2"
  by (simp_all add: and_action_def)

lemma ep_and_sel [simp]:
  "ep_action (ep_and comb e1 e2) = and_start (ep_action e1) (ep_action e2)"
  "ep_impl (ep_and comb e1 e2) = and_action comb (ep_impl e1) (ep_impl e2)"
  by (simp_all add: ep_and_def)

text \<open>The state a sub-action is in after its preflight passed.\<close>

definition passed_state :: "'o preflight \<Rightarrow> 'f \<Rightarrow> ('f, 'o) maybe_done" where
  "passed_state p a = (case p of Completed x \<Rightarrow> MReady x | Incomplete \<Rightarrow> MInFlight a)"

lemma passed_state_simps [simp]:
  "passed_state (Completed x) a = MReady x" "passed_state Incomplete a = MInFlight a"
  by (simp_all add: passed_state_def)

lemma maybe_done_preflight_start:
  "maybe_done_preflight A (MInit (Some a)) cx cur =
     (case act_preflight A a cx cur of
        Panic \<Rightarrow> Panic
      | Ret (Err e, a', c) \<Rightarrow> Ret (Err e, MInit None, c)
      | Ret (Ok p, a', c) \<Rightarrow> Ret (Ok Incomplete, passed_state p a', c))"
  by (auto simp: maybe_done_preflight_def split: run.splits result.splits preflight.splits)

text \<open>The preflight of \<open>And\<close>, from the preflights of its parts. It never completes, even when
  both parts did.\<close>

lemma and_preflight_start:
  "and_preflight comb A1 A2 (and_start s1 s2) cx cur =
     (case act_preflight A1 s1 cx cur of
        Panic \<Rightarrow> Panic
      | Ret (Err e, s1', c1) \<Rightarrow> Ret (Err e, (MInit None, MInit (Some s2)), c1)
      | Ret (Ok p1, s1', c1) \<Rightarrow>
          (case act_preflight A2 s2 cx c1 of
             Panic \<Rightarrow> Panic
           | Ret (Err e, s2', c2) \<Rightarrow> Ret (Err e, (passed_state p1 s1', MInit None), c2)
           | Ret (Ok p2, s2', c2) \<Rightarrow>
               Ret (Ok Incomplete, (passed_state p1 s1', passed_state p2 s2'), c2)))"
  by (auto simp: and_preflight_def and_start_def maybe_done_preflight_start
           split: run.splits result.splits preflight.splits)

section \<open>Polling And is polling its parts in sequence\<close>

definition md_finishes ::
  "('f, 'h, 'j, 'bd, 'o) action \<Rightarrow> ('f, 'o) maybe_done \<Rightarrow> ('h, 'j, 'bd) action_context
    \<Rightarrow> ('o, http_error) result \<Rightarrow> ('h, 'j, 'bd) action_context \<Rightarrow> bool" where
  "md_finishes A m ac r ac' \<longleftrightarrow>
     (case m of
        MReady x \<Rightarrow> r = Ok x \<and> ac' = ac
      | MInFlight s \<Rightarrow> polls_to A s ac r ac'
      | _ \<Rightarrow> False)"

definition and_sequence ::
  "('o1 \<Rightarrow> 'o2 \<Rightarrow> 'o) \<Rightarrow> (('o1, http_error) result \<Rightarrow> 'ac \<Rightarrow> bool)
    \<Rightarrow> ('ac \<Rightarrow> ('o2, http_error) result \<Rightarrow> 'ac \<Rightarrow> bool)
    \<Rightarrow> ('o, http_error) result \<Rightarrow> 'ac \<Rightarrow> bool" where
  "and_sequence comb R1 R2 r ac' \<longleftrightarrow>
     (\<exists>r1 ac1. R1 r1 ac1 \<and>
        (case r1 of
           Err e \<Rightarrow> r = Err e \<and> ac' = ac1
         | Ok x \<Rightarrow> (\<exists>r2. R2 ac1 r2 ac' \<and> r = map_ok (comb x) r2)))"

lemma md_finishes_passed [simp]:
  "md_finishes A (passed_state p s) ac r ac' \<longleftrightarrow> finishes A p s ac r ac'"
  by (cases p) (simp_all add: md_finishes_def)

lemma and_poll_ready_left:
  "act_poll A1 s ac = Ret (Ok (Ready x), s', ac1) \<Longrightarrow>
     and_poll comb A1 A2 (MInFlight s, m2) ac = and_poll comb A1 A2 (MReady x, m2) ac1"
  by (simp add: and_poll_def maybe_done_poll_def)

lemma and_polls_right:
  "polls_to (and_action comb A1 A2) (MReady x, MInFlight s) ac r ac' \<longleftrightarrow>
     (\<exists>r2. polls_to A2 s ac r2 ac' \<and> r = map_ok (comb x) r2)"
  by (rule polls_to_mapped[where g = "\<lambda>s. (MReady x, MInFlight s)" and h = "map_ok (comb x)"
      and d = "\<lambda>r s. case r of Ok _ \<Rightarrow> (MGone, MGone) | Err _ \<Rightarrow> (MReady x, MInFlight s)"])
     (auto simp: and_poll_def maybe_done_poll_def and_take_item_def maybe_done_take_item_def
           split: run.splits result.splits async.splits)

lemma and_polls_ready_right:
  "polls_to (and_action comb A1 A2) (MReady x, MReady y) ac r ac' \<longleftrightarrow> r = Ok (comb x y) \<and> ac' = ac"
  by (subst polls_to_unfold)
     (simp add: and_poll_def maybe_done_poll_def and_take_item_def maybe_done_take_item_def)

lemma and_polls_second:
  "polls_to (and_action comb A1 A2) (MReady x, passed_state p2 s2) ac r ac' \<longleftrightarrow>
     (\<exists>r2. finishes A2 p2 s2 ac r2 ac' \<and> r = map_ok (comb x) r2)"
  by (cases p2) (auto simp: and_polls_right and_polls_ready_right)

lemma and_polls_first:
  "polls_to (and_action comb A1 A2) (MInFlight s, passed_state p2 s2) ac r ac' \<longleftrightarrow>
     and_sequence comb (polls_to A1 s ac) (finishes A2 p2 s2) r ac'"
  unfolding and_sequence_def
proof (rule polls_to_chain[where g = "\<lambda>s. (MInFlight s, passed_state p2 s2)"], goal_cases)
  case (3 s ac x s' a r ac')
  then have "polls_to (and_action comb A1 A2) (MInFlight s, passed_state p2 s2) ac r ac' \<longleftrightarrow>
      polls_to (and_action comb A1 A2) (MReady x, passed_state p2 s2) a r ac'"
    unfolding polls_to_unfold[of "and_action comb A1 A2" "(MInFlight s, passed_state p2 s2)"]
      polls_to_unfold[of "and_action comb A1 A2" "(MReady x, passed_state p2 s2)"]
    by (simp add: and_poll_ready_left)
  then show ?case by (simp add: and_polls_second)
next
  case (4 s ac e s' a r ac')
  then show ?case by (simp add: polls_to_unfold[of "and_action comb A1 A2"] and_poll_def maybe_done_poll_def)
qed (simp_all add: and_poll_def maybe_done_poll_def)

lemma and_polls:
  "polls_to (and_action comb A1 A2) (passed_state p1 s1, passed_state p2 s2) ac r ac' \<longleftrightarrow>
     and_sequence comb (finishes A1 p1 s1 ac) (finishes A2 p2 s2) r ac'"
  by (cases p1) (auto simp: and_polls_first and_polls_second and_sequence_def)

text \<open>
  What \<open>And\<close> resolves to: an error of either preflight, the first one first and before
  anything is polled, otherwise the results of the two actions in sequence.
\<close>

text \<open>
  C4: The conjunction runs both preflights in order on the same cursor and stops at the first
  error; then it finishes the left action before the right one, each exactly once, hands the
  context of the left action to the right one, and combines the two values.
\<close>

lemma resolves_and:
  "resolves (and_action comb A1 A2) (and_start s1 s2) cur ac r cur' ac' \<longleftrightarrow>
     (case act_preflight A1 s1 (ac_context ac) cur of
        Panic \<Rightarrow> False
      | Ret (Err e, _, c1) \<Rightarrow> r = Err e \<and> cur' = c1 \<and> ac' = ac
      | Ret (Ok p1, s1', c1) \<Rightarrow>
          (case act_preflight A2 s2 (ac_context ac) c1 of
             Panic \<Rightarrow> False
           | Ret (Err e, _, c2) \<Rightarrow> r = Err e \<and> cur' = c2 \<and> ac' = ac
           | Ret (Ok p2, s2', c2) \<Rightarrow>
               cur' = c2 \<and> and_sequence comb (finishes A1 p1 s1' ac) (finishes A2 p2 s2') r ac'))"
  by (auto simp: resolves_def and_preflight_start and_polls split: run.splits result.splits)

section \<open>And keeps the contract\<close>

definition md_live :: "('f \<Rightarrow> bool) \<Rightarrow> ('f, 'o) maybe_done \<Rightarrow> bool" where
  "md_live L m = (case m of MInFlight s \<Rightarrow> L s | MReady _ \<Rightarrow> True | _ \<Rightarrow> False)"

definition and_live :: "('f1 \<Rightarrow> bool) \<Rightarrow> ('f2 \<Rightarrow> bool) \<Rightarrow> ('f1, 'o1, 'f2, 'o2) and_state \<Rightarrow> bool" where
  "and_live L1 L2 st \<longleftrightarrow> md_live L1 (fst st) \<and> md_live L2 (snd st)"

lemma maybe_done_poll_live:
  assumes "endpoint_action A s0 L" and "md_live L m"
  obtains q m' ac' where "maybe_done_poll A m ac = Ret (q, m', ac')"
    "q = Ok NotReady \<Longrightarrow> md_live L m'" "\<And>u. q = Ok (Ready u) \<Longrightarrow> \<exists>x. m' = MReady x"
proof (cases m)
  case (MInFlight s)
  with assms(2) have "L s" by (simp add: md_live_def)
  then obtain q s' ac' where q: "act_poll A s ac = Ret (q, s', ac')" "q = Ok NotReady \<Longrightarrow> L s'"
    using endpoint_action.poll_cases[OF assms(1)] by metis
  show ?thesis
    by (cases q rule: poll_exhaust)
       (use q MInFlight in \<open>auto simp: maybe_done_poll_def md_live_def intro: that\<close>)
next
  case (MReady x)
  then show ?thesis by (intro that) (auto simp: maybe_done_poll_def)
qed (use assms in \<open>auto simp: md_live_def\<close>)

lemma passed_state_live: "(p = Incomplete \<Longrightarrow> L s) \<Longrightarrow> md_live L (passed_state p s)"
  by (cases p) (auto simp: md_live_def)

lemma and_preflight_contract:
  fixes A1 :: "('f1, 'h, 'j, 'bd, 'o1) action" and A2 :: "('f2, 'h, 'j, 'bd, 'o2) action"
  assumes A1: "endpoint_action A1 s1 L1" and A2: "endpoint_action A2 s2 L2"
    and b: "cursor_balanced (cx_path cx) cur"
  shows "\<exists>r st cur'. act_preflight (and_action comb A1 A2) (and_start s1 s2) cx cur = Ret (r, st, cur') \<and>
      cursor_balanced (cx_path cx) cur' \<and> cur_popped cur \<le> cur_popped cur' \<and>
      (r = Ok Incomplete \<longrightarrow> and_live L1 L2 st)"
proof (rule endpoint_action.preflight_cases[OF A1 b])
  fix r1 t1 c1
  assume 1: "act_preflight A1 s1 cx cur = Ret (r1, t1, c1)" "cursor_balanced (cx_path cx) c1"
    "cur_popped cur \<le> cur_popped c1" "r1 = Ok Incomplete \<Longrightarrow> L1 t1"
  show ?thesis
  proof (rule endpoint_action.preflight_cases[OF A2 1(2)])
    fix r2 t2 c2
    assume 2: "act_preflight A2 s2 cx c1 = Ret (r2, t2, c2)" "cursor_balanced (cx_path cx) c2"
      "cur_popped c1 \<le> cur_popped c2" "r2 = Ok Incomplete \<Longrightarrow> L2 t2"
    show ?thesis
      by (cases r1; cases r2)
         (use 1 2 in \<open>auto simp: and_preflight_start and_live_def passed_state_live\<close>)
  qed
qed

lemma and_poll_contract:
  fixes ac :: "('h, 'j, 'bd) action_context"
  assumes A1: "endpoint_action A1 s1 L1" and A2: "endpoint_action A2 s2 L2" and l: "and_live L1 L2 st"
  shows "\<exists>q st' ac'. act_poll (and_action comb A1 A2) st ac = Ret (q, st', ac') \<and>
      (q = Ok NotReady \<longrightarrow> and_live L1 L2 st')"
proof -
  obtain m1 m2 where st: "st = (m1, m2)" by (cases st)
  from l st have l1: "md_live L1 m1" and l2: "md_live L2 m2" by (auto simp: and_live_def)
  show ?thesis
  proof (rule maybe_done_poll_live[OF A1 l1, of ac])
    fix q1 m1' ac1
    assume 1: "maybe_done_poll A1 m1 ac = Ret (q1, m1', ac1)"
      "q1 = Ok NotReady \<Longrightarrow> md_live L1 m1'" "\<And>u. q1 = Ok (Ready u) \<Longrightarrow> \<exists>x. m1' = MReady x"
    show ?thesis
    proof (cases q1 rule: poll_exhaust)
      case (ready u)
      with 1(3) obtain x where m1': "m1' = MReady x" by blast
      show ?thesis
      proof (rule maybe_done_poll_live[OF A2 l2, of ac1])
        fix q2 m2' ac2
        assume 2: "maybe_done_poll A2 m2 ac1 = Ret (q2, m2', ac2)"
          "q2 = Ok NotReady \<Longrightarrow> md_live L2 m2'" "\<And>u. q2 = Ok (Ready u) \<Longrightarrow> \<exists>x. m2' = MReady x"
        show ?thesis
          by (cases q2 rule: poll_exhaust)
             (use 1 2 ready m1' st in \<open>auto simp: and_poll_def and_live_def md_live_def
               and_take_item_def maybe_done_take_item_def\<close>)
      qed
    qed (use 1 st l2 in \<open>auto simp: and_poll_def and_live_def\<close>)
  qed
qed

lemma and_keeps_contract:
  assumes "endpoint_action A1 s1 L1" and "endpoint_action A2 s2 L2"
  shows "endpoint_action (and_action comb A1 A2) (and_start s1 s2) (and_live L1 L2)"
  by (rule endpoint_actionI[OF and_preflight_contract[OF assms] and_poll_contract[OF assms]])

text \<open>
  C9: The conjunction of two endpoints that keep the contract keeps it: its preflight does not
  panic and moves the cursor forward only, and no poll panics before the value is ready.
\<close>

lemma and_endpoint_action:
  assumes "endpoint_action A1 s1 L1" and "endpoint_action A2 s2 L2"
  shows "endpoint_action (and_action comb A1 A2) (and_start s1 s2) (and_live L1 L2)"
  using assms by (rule and_keeps_contract)

lemma and_endpoint_action_witness:
  "endpoint_action (ep_impl (ep_and combine_1_1 (value_endpoint (1::nat)) (value_endpoint ''x'')))
     (ep_action (ep_and combine_1_1 (value_endpoint (1::nat)) (value_endpoint ''x'')))
     (and_live (\<lambda>_. False) (\<lambda>_. False))"
  using and_endpoint_action[OF value_endpoint_action[of "1::nat"] value_endpoint_action[of "''x''"], of combine_1_1]
  by (simp add: ep_and_def)

end
