(* ===== verification/Finch_Ext_Map.thy ===== *)
theory Finch_Ext_Map
  imports Finch_Resolve
begin

text \<open>
  The combinators that wrap one endpoint and change its results: \<open>src/endpoint/ext/map.rs\<close>,
  \<open>src/endpoint/ext/map_err.rs\<close> and the type-erased endpoints of \<open>src/endpoint/boxed.rs\<close>.
\<close>

section \<open>Map\<close>

record ('e, 'f) map_endpoint =
  mp_endpoint :: 'e
  mp_f :: 'f

record ('a, 'f) map_act =
  ma_action :: 'a
  ma_f :: 'f

definition map_action_preflight ::
  "('s, 'h, 'j, 'bd, 'o) action \<Rightarrow> ('s, 'o \<Rightarrow> 'u) map_act \<Rightarrow> ('h, 'j) context_state \<Rightarrow> cursor
    \<Rightarrow> (('u one preflight, http_error) result \<times> ('s, 'o \<Rightarrow> 'u) map_act \<times> cursor) run" where
  "map_action_preflight A m cx cur =
     (case act_preflight A (ma_action m) cx cur of
        Panic \<Rightarrow> Panic
      | Ret (r, a, cur') \<Rightarrow>
          Ret (map_ok (preflight_map (\<lambda>args. One (ma_f m args))) r, m\<lparr>ma_action := a\<rparr>, cur'))"

definition map_action_poll ::
  "('s, 'h, 'j, 'bd, 'o) action \<Rightarrow> ('s, 'o \<Rightarrow> 'u) map_act \<Rightarrow> ('h, 'j, 'bd) action_context
    \<Rightarrow> (('u one, http_error) poll \<times> ('s, 'o \<Rightarrow> 'u) map_act \<times> ('h, 'j, 'bd) action_context) run" where
  "map_action_poll A m ac =
     (case act_poll A (ma_action m) ac of
        Panic \<Rightarrow> Panic
      | Ret (r, a, ac') \<Rightarrow>
          Ret (map_ok (map_async (\<lambda>args. One (ma_f m args))) r, m\<lparr>ma_action := a\<rparr>, ac'))"

definition map_action ::
  "('s, 'h, 'j, 'bd, 'o) action \<Rightarrow> (('s, 'o \<Rightarrow> 'u) map_act, 'h, 'j, 'bd, 'u one) action" where
  "map_action A = \<lparr>act_preflight = map_action_preflight A, act_poll = map_action_poll A\<rparr>"

definition map_start :: "('o \<Rightarrow> 'u) \<Rightarrow> 's \<Rightarrow> ('s, 'o \<Rightarrow> 'u) map_act" where
  "map_start f s = \<lparr>ma_action = s, ma_f = f\<rparr>"

definition ep_map ::
  "(('s, 'h, 'j, 'bd, 'o) endpoint, 'o \<Rightarrow> 'u) map_endpoint
    \<Rightarrow> (('s, 'o \<Rightarrow> 'u) map_act, 'h, 'j, 'bd, 'u one) endpoint" where
  "ep_map m =
     \<lparr>ep_action = map_start (mp_f m) (ep_action (mp_endpoint m)),
      ep_impl = map_action (ep_impl (mp_endpoint m))\<rparr>"

lemma map_wraps: "wraps (map_ok (\<lambda>x. One (f x))) (map_start f) A (map_action A)"
  unfolding wraps_def
proof (intro conjI allI)
  fix s cx cur
  show "act_preflight (map_action A) (map_start f s) cx cur =
      map_run (\<lambda>(p, s', c). (preflight_result (map_ok (\<lambda>x. One (f x))) p, map_start f s', c))
        (act_preflight A s cx cur)"
    by (auto simp: map_action_def map_action_preflight_def map_start_def preflight_result_def
             split: run.splits result.splits preflight.splits)
next
  fix s ac
  show "act_poll (map_action A) (map_start f s) ac =
      map_run (\<lambda>(p, s', a). (poll_result (map_ok (\<lambda>x. One (f x))) p, map_start f s', a)) (act_poll A s ac)"
    by (auto simp: map_action_def map_action_poll_def map_start_def poll_result_def
             split: run.splits result.splits async.splits)
qed

lemmas resolves_map = resolves_wraps[OF map_wraps]
lemmas map_endpoint_action = wraps_endpoint_action[OF _ map_wraps]

section \<open>MapErr\<close>

record ('e, 'f) map_err_endpoint =
  mep_endpoint :: 'e
  mep_f :: 'f

record ('a, 'f) map_err_act =
  me_action :: 'a
  me_f :: 'f

text \<open>\<open>f\<close> returns an \<open>R: Into<Error>\<close>; \<open>into\<close> is that conversion.\<close>

definition map_err_action_preflight ::
  "('r \<Rightarrow> http_error) \<Rightarrow> ('s, 'h, 'j, 'bd, 'o) action \<Rightarrow> ('s, http_error \<Rightarrow> 'r) map_err_act
    \<Rightarrow> ('h, 'j) context_state \<Rightarrow> cursor
    \<Rightarrow> (('o preflight, http_error) result \<times> ('s, http_error \<Rightarrow> 'r) map_err_act \<times> cursor) run" where
  "map_err_action_preflight into A m cx cur =
     (case act_preflight A (me_action m) cx cur of
        Panic \<Rightarrow> Panic
      | Ret (r, a, cur') \<Rightarrow> Ret (map_err (\<lambda>e. into (me_f m e)) r, m\<lparr>me_action := a\<rparr>, cur'))"

definition map_err_action_poll ::
  "('r \<Rightarrow> http_error) \<Rightarrow> ('s, 'h, 'j, 'bd, 'o) action \<Rightarrow> ('s, http_error \<Rightarrow> 'r) map_err_act
    \<Rightarrow> ('h, 'j, 'bd) action_context
    \<Rightarrow> (('o, http_error) poll \<times> ('s, http_error \<Rightarrow> 'r) map_err_act \<times> ('h, 'j, 'bd) action_context) run"
  where
  "map_err_action_poll into A m ac =
     (case act_poll A (me_action m) ac of
        Panic \<Rightarrow> Panic
      | Ret (r, a, ac') \<Rightarrow> Ret (map_err (\<lambda>e. into (me_f m e)) r, m\<lparr>me_action := a\<rparr>, ac'))"

definition map_err_action ::
  "('r \<Rightarrow> http_error) \<Rightarrow> ('s, 'h, 'j, 'bd, 'o) action
    \<Rightarrow> (('s, http_error \<Rightarrow> 'r) map_err_act, 'h, 'j, 'bd, 'o) action" where
  "map_err_action into A =
     \<lparr>act_preflight = map_err_action_preflight into A, act_poll = map_err_action_poll into A\<rparr>"

definition map_err_start :: "(http_error \<Rightarrow> 'r) \<Rightarrow> 's \<Rightarrow> ('s, http_error \<Rightarrow> 'r) map_err_act" where
  "map_err_start f s = \<lparr>me_action = s, me_f = f\<rparr>"

definition ep_map_err ::
  "('r \<Rightarrow> http_error) \<Rightarrow> (('s, 'h, 'j, 'bd, 'o) endpoint, http_error \<Rightarrow> 'r) map_err_endpoint
    \<Rightarrow> (('s, http_error \<Rightarrow> 'r) map_err_act, 'h, 'j, 'bd, 'o) endpoint" where
  "ep_map_err into m =
     \<lparr>ep_action = map_err_start (mep_f m) (ep_action (mep_endpoint m)),
      ep_impl = map_err_action into (ep_impl (mep_endpoint m))\<rparr>"

lemma map_err_wraps:
  "wraps (map_err (\<lambda>e. into (f e))) (map_err_start f) A (map_err_action into A)"
  unfolding wraps_def
proof (intro conjI allI)
  fix s cx cur
  show "act_preflight (map_err_action into A) (map_err_start f s) cx cur =
      map_run (\<lambda>(p, s', c). (preflight_result (map_err (\<lambda>e. into (f e))) p, map_err_start f s', c))
        (act_preflight A s cx cur)"
    by (auto simp: map_err_action_def map_err_action_preflight_def map_err_start_def
                   preflight_result_def split: run.splits result.splits preflight.splits)
next
  fix s ac
  show "act_poll (map_err_action into A) (map_err_start f s) ac =
      map_run (\<lambda>(p, s', a). (poll_result (map_err (\<lambda>e. into (f e))) p, map_err_start f s', a))
        (act_poll A s ac)"
    by (auto simp: map_err_action_def map_err_action_poll_def map_err_start_def poll_result_def
             split: run.splits result.splits async.splits)
qed

lemmas resolves_map_err = resolves_wraps[OF map_err_wraps]
lemmas map_err_endpoint_action = wraps_endpoint_action[OF _ map_err_wraps]

section \<open>Boxed endpoints\<close>

text \<open>
  \<open>EndpointObj\<close> and \<open>LocalEndpointObj\<close> hold the endpoint behind a trait object, and so do the
  actions they spawn. The two differ in thread-safety bounds only, which the model does not have.
\<close>

datatype 'a endpoint_obj = EndpointObj 'a
datatype 'a endpoint_action_obj = EndpointActionObj 'a

definition obj_preflight ::
  "('s, 'h, 'j, 'bd, 'o) action \<Rightarrow> 's endpoint_action_obj \<Rightarrow> ('h, 'j) context_state \<Rightarrow> cursor
    \<Rightarrow> (('o preflight, http_error) result \<times> 's endpoint_action_obj \<times> cursor) run" where
  "obj_preflight A b cx cur =
     (case b of EndpointActionObj inner \<Rightarrow>
        map_run (\<lambda>(r, a, cur'). (r, EndpointActionObj a, cur')) (act_preflight A inner cx cur))"

definition obj_poll ::
  "('s, 'h, 'j, 'bd, 'o) action \<Rightarrow> 's endpoint_action_obj \<Rightarrow> ('h, 'j, 'bd) action_context
    \<Rightarrow> (('o, http_error) poll \<times> 's endpoint_action_obj \<times> ('h, 'j, 'bd) action_context) run" where
  "obj_poll A b ac =
     (case b of EndpointActionObj inner \<Rightarrow>
        map_run (\<lambda>(r, a, ac'). (r, EndpointActionObj a, ac')) (act_poll A inner ac))"

definition obj_action ::
  "('s, 'h, 'j, 'bd, 'o) action \<Rightarrow> ('s endpoint_action_obj, 'h, 'j, 'bd, 'o) action" where
  "obj_action A = \<lparr>act_preflight = obj_preflight A, act_poll = obj_poll A\<rparr>"

definition ep_boxed ::
  "('s, 'h, 'j, 'bd, 'o) endpoint endpoint_obj \<Rightarrow> ('s endpoint_action_obj, 'h, 'j, 'bd, 'o) endpoint" where
  "ep_boxed b =
     (case b of EndpointObj e \<Rightarrow>
        \<lparr>ep_action = EndpointActionObj (ep_action e), ep_impl = obj_action (ep_impl e)\<rparr>)"

text \<open>The local variants, for endpoints and actions that are not thread safe.\<close>

datatype 'a local_endpoint_obj = LocalEndpointObj 'a
datatype 'a local_endpoint_action_obj = LocalEndpointActionObj 'a

definition local_obj_preflight ::
  "('s, 'h, 'j, 'bd, 'o) action \<Rightarrow> 's local_endpoint_action_obj \<Rightarrow> ('h, 'j) context_state \<Rightarrow> cursor
    \<Rightarrow> (('o preflight, http_error) result \<times> 's local_endpoint_action_obj \<times> cursor) run" where
  "local_obj_preflight A b cx cur =
     (case b of LocalEndpointActionObj inner \<Rightarrow>
        map_run (\<lambda>(r, a, cur'). (r, LocalEndpointActionObj a, cur')) (act_preflight A inner cx cur))"

definition local_obj_poll ::
  "('s, 'h, 'j, 'bd, 'o) action \<Rightarrow> 's local_endpoint_action_obj \<Rightarrow> ('h, 'j, 'bd) action_context
    \<Rightarrow> (('o, http_error) poll \<times> 's local_endpoint_action_obj \<times> ('h, 'j, 'bd) action_context) run" where
  "local_obj_poll A b ac =
     (case b of LocalEndpointActionObj inner \<Rightarrow>
        map_run (\<lambda>(r, a, ac'). (r, LocalEndpointActionObj a, ac')) (act_poll A inner ac))"

definition local_obj_action ::
  "('s, 'h, 'j, 'bd, 'o) action \<Rightarrow> ('s local_endpoint_action_obj, 'h, 'j, 'bd, 'o) action" where
  "local_obj_action A = \<lparr>act_preflight = local_obj_preflight A, act_poll = local_obj_poll A\<rparr>"

definition ep_boxed_local ::
  "('s, 'h, 'j, 'bd, 'o) endpoint local_endpoint_obj
    \<Rightarrow> ('s local_endpoint_action_obj, 'h, 'j, 'bd, 'o) endpoint" where
  "ep_boxed_local b =
     (case b of LocalEndpointObj e \<Rightarrow>
        \<lparr>ep_action = LocalEndpointActionObj (ep_action e), ep_impl = local_obj_action (ep_impl e)\<rparr>)"

lemma poll_result_ident [simp]: "poll_result (\<lambda>r. r) p = p"
  by (cases p rule: poll_exhaust) simp_all

lemma preflight_result_ident [simp]: "preflight_result (\<lambda>r. r) p = p"
  by (auto simp: preflight_result_def split: result.splits preflight.splits)

lemma obj_wraps: "wraps (\<lambda>r. r) EndpointActionObj A (obj_action A)"
  by (simp add: wraps_def obj_action_def obj_preflight_def obj_poll_def)

lemma local_obj_wraps: "wraps (\<lambda>r. r) LocalEndpointActionObj A (local_obj_action A)"
  by (simp add: wraps_def local_obj_action_def local_obj_preflight_def local_obj_poll_def)

lemmas resolves_local_obj = resolves_wraps[OF local_obj_wraps]
lemmas local_obj_endpoint_action = wraps_endpoint_action[OF _ local_obj_wraps]
lemmas resolves_obj = resolves_wraps[OF obj_wraps]
lemmas obj_endpoint_action = wraps_endpoint_action[OF _ obj_wraps]

section \<open>Map is a functor on what an endpoint resolves to\<close>

text \<open>Mapping twice is mapping once with the composed closure, up to the 1-tuple in between.\<close>

lemma resolves_map_map:
  "resolves (map_action (map_action A)) (map_start g (map_start f s)) cur ac r cur' ac' \<longleftrightarrow>
     resolves (map_action A) (map_start (\<lambda>x. g (One (f x))) s) cur ac r cur' ac'"
proof -
  have "map_ok (\<lambda>x. One (g x)) (map_ok (\<lambda>x. One (f x)) r0) = map_ok (\<lambda>x. One (g (One (f x)))) r0"
    for r0
    by (cases r0) simp_all
  then show ?thesis by (auto simp: resolves_map)
qed

lemma resolves_map_err_map:
  "resolves (map_err_action into (map_action A)) (map_err_start g (map_start f s)) cur ac r cur' ac' \<longleftrightarrow>
     resolves (map_action (map_err_action into A)) (map_start f (map_err_start g s)) cur ac r cur' ac'"
proof -
  have "map_err (\<lambda>e. into (g e)) (map_ok (\<lambda>x. One (f x)) r0) =
      map_ok (\<lambda>x. One (f x)) (map_err (\<lambda>e. into (g e)) r0)" for r0
    by (cases r0) simp_all
  then show ?thesis by (auto simp: resolves_map resolves_map_err)
qed

end
