(* ===== verification/Finch_Ext_Then.thy ===== *)
theory Finch_Ext_Then
  imports Finch_Resolve Finch_Tuples
begin

text \<open>
  The combinators that continue with a future of the user: \<open>src/endpoint/ext/and_then.rs\<close> runs
  one on the value of the endpoint, \<open>src/endpoint/ext/recover.rs\<close> on its error. The futures are
  polled without the thread-local context, so they are functions of their own state.
\<close>

section \<open>Futures\<close>

type_synonym ('t, 'i, 'e) future_fn = "'t \<Rightarrow> (('i, 'e) poll \<times> 't) run"

inductive future_ends :: "('t, 'i, 'e) future_fn \<Rightarrow> 't \<Rightarrow> ('i, 'e) result \<Rightarrow> bool" for fp where
  ends_ready: "fp t = Ret (Ok (Ready x), t') \<Longrightarrow> future_ends fp t (Ok x)"
| ends_err: "fp t = Ret (Err e, t') \<Longrightarrow> future_ends fp t (Err e)"
| ends_later: "fp t = Ret (Ok NotReady, t') \<Longrightarrow> future_ends fp t' r \<Longrightarrow> future_ends fp t r"

lemma future_ends_unfold:
  "future_ends fp t r \<longleftrightarrow>
     (case fp t of
        Panic \<Rightarrow> False
      | Ret (p, t') \<Rightarrow>
          (case p of
             Err e \<Rightarrow> r = Err e
           | Ok (Ready x) \<Rightarrow> r = Ok x
           | Ok NotReady \<Rightarrow> future_ends fp t' r))"
  by (subst future_ends.simps) (auto split: run.splits result.splits async.splits)

text \<open>A future that does not panic before it is ready.\<close>

definition plain_future_safe :: "('t, 'i, 'e) future_fn \<Rightarrow> ('t \<Rightarrow> bool) \<Rightarrow> bool" where
  "plain_future_safe fp live \<longleftrightarrow>
     (\<forall>t. live t \<longrightarrow> (\<exists>p t'. fp t = Ret (p, t') \<and> (p = Ok NotReady \<longrightarrow> live t')))"

text \<open>\<open>Result::into_future\<close>, the future the crate's tests and examples use most.\<close>

definition result_future :: "(('i, 'e) result, 'i, 'e) future_fn" where
  "result_future t = Ret (map_ok Ready t, t)"

lemma result_future_ends [simp]: "future_ends result_future t r \<longleftrightarrow> r = t"
  by (subst future_ends_unfold) (auto simp: result_future_def map_ok_def split: result.splits)

lemma result_future_safe: "plain_future_safe result_future (\<lambda>_. True)"
  by (simp add: plain_future_safe_def result_future_def)

text \<open>The tail of both loops: the poll of the future in flight, its value made a 1-tuple.\<close>

definition in_flight_result :: "('e \<Rightarrow> http_error) \<Rightarrow> ('i, 'e) poll \<Rightarrow> ('i one, http_error) poll" where
  "in_flight_result into p = map_err into (map_ok (map_async One) p)"

lemma in_flight_result_simps [simp]:
  "in_flight_result into (Ok NotReady) = Ok NotReady"
  "in_flight_result into (Ok (Ready x)) = Ok (Ready (One x))"
  "in_flight_result into (Err e) = Err (into e)"
  by (simp_all add: in_flight_result_def)

definition in_flight_value :: "('e \<Rightarrow> http_error) \<Rightarrow> ('i, 'e) result \<Rightarrow> ('i one, http_error) result" where
  "in_flight_value into r = map_err into (map_ok One r)"

lemma in_flight_value_simps [simp]:
  "in_flight_value into (Ok x) = Ok (One x)" "in_flight_value into (Err e) = Err (into e)"
  by (simp_all add: in_flight_value_def)

text \<open>An action that is in the tail ends as its future does and leaves the context alone.\<close>

lemma polls_to_in_flight:
  assumes "\<And>t ac. act_poll B (g t) ac =
      map_run (\<lambda>(p, t'). (in_flight_result into p, g t', ac)) (fp t)"
  shows "polls_to B (g t) ac r ac' \<longleftrightarrow>
    (\<exists>r0. future_ends fp t r0 \<and> r = in_flight_value into r0) \<and> ac' = ac"
proof
  have "polls_to B st ac r ac' \<Longrightarrow> st = g t \<Longrightarrow>
      (\<exists>r0. future_ends fp t r0 \<and> r = in_flight_value into r0) \<and> ac' = ac" for st
  proof (induction arbitrary: t rule: polls_to.induct)
    case (polled_ready st ac x st' ac' t)
    with assms obtain y t' where "fp t = Ret (Ok (Ready y), t')" "x = One y" "ac' = ac"
      by (auto simp: in_flight_result_def)
    then show ?case by (intro conjI exI[of _ "Ok y"]) (auto intro: future_ends.intros)
  next
    case (polled_err st ac e st' ac' t)
    with assms obtain e' t' where "fp t = Ret (Err e', t')" "e = into e'" "ac' = ac"
      by (auto simp: in_flight_result_def)
    then show ?case by (intro conjI exI[of _ "Err e'"]) (auto intro: future_ends.intros)
  next
    case (polled_later st ac st' ac1 r ac' t)
    with assms obtain t' where "fp t = Ret (Ok NotReady, t')" "st' = g t'" "ac1 = ac"
      by (auto simp: in_flight_result_def)
    with polled_later.IH[of t'] show ?case by (auto intro: future_ends.intros)
  qed
  then show "polls_to B (g t) ac r ac' \<Longrightarrow>
      (\<exists>r0. future_ends fp t r0 \<and> r = in_flight_value into r0) \<and> ac' = ac" by blast
next
  have "future_ends fp t r0 \<Longrightarrow> polls_to B (g t) ac (in_flight_value into r0) ac" for t r0
  proof (induction rule: future_ends.induct)
    case (ends_later t t' r)
    then show ?case by (intro polls_to.polled_later[of B "g t" ac "g t'" ac]) (simp_all add: assms)
  next
    case (ends_ready t x t')
    then show ?case
      using polls_to.polled_ready[of B "g t" ac "One x" "g t'" ac] by (simp add: assms)
  next
    case (ends_err t e t')
    then show ?case
      using polls_to.polled_err[of B "g t" ac "into e" "g t'" ac] by (simp add: assms)
  qed
  then show "(\<exists>r0. future_ends fp t r0 \<and> r = in_flight_value into r0) \<and> ac' = ac \<Longrightarrow>
      polls_to B (g t) ac r ac'" by blast
qed

section \<open>AndThen\<close>

record ('e, 'f) and_then_endpoint =
  ate_endpoint :: 'e
  ate_f :: 'f

record ('a, 'f, 't) and_then_act =
  at_action :: 'a
  at_f :: 'f
  at_in_flight :: "'t option"

text \<open>The \<open>debug_assert!\<close> is modelled as a build with debug assertions runs it.\<close>

definition and_then_preflight ::
  "('s, 'h, 'j, 'bd, 'o) action \<Rightarrow> ('s, 'o \<Rightarrow> 't, 't) and_then_act \<Rightarrow> ('h, 'j) context_state \<Rightarrow> cursor
    \<Rightarrow> (('i one preflight, http_error) result \<times> ('s, 'o \<Rightarrow> 't, 't) and_then_act \<times> cursor) run" where
  "and_then_preflight A m cx cur =
     (if at_in_flight m \<noteq> None then Panic
      else (case act_preflight A (at_action m) cx cur of
          Panic \<Rightarrow> Panic
        | Ret (Err e, a, cur') \<Rightarrow> Ret (Err e, m\<lparr>at_action := a\<rparr>, cur')
        | Ret (Ok (Completed output), a, cur') \<Rightarrow>
            Ret (Ok Incomplete, m\<lparr>at_action := a, at_in_flight := Some (at_f m output)\<rparr>, cur')
        | Ret (Ok Incomplete, a, cur') \<Rightarrow> Ret (Ok Incomplete, m\<lparr>at_action := a\<rparr>, cur')))"

definition and_then_poll_in_flight ::
  "('t, 'i, 'e) future_fn \<Rightarrow> ('e \<Rightarrow> http_error) \<Rightarrow> ('s, 'o \<Rightarrow> 't, 't) and_then_act \<Rightarrow> 't \<Rightarrow> 'ac
    \<Rightarrow> (('i one, http_error) poll \<times> ('s, 'o \<Rightarrow> 't, 't) and_then_act \<times> 'ac) run" where
  "and_then_poll_in_flight fp into m fut ac =
     (case fp fut of
        Panic \<Rightarrow> Panic
      | Ret (p, fut') \<Rightarrow> Ret (in_flight_result into p, m\<lparr>at_in_flight := Some fut'\<rparr>, ac))"

definition and_then_poll ::
  "('t, 'i, 'e) future_fn \<Rightarrow> ('e \<Rightarrow> http_error) \<Rightarrow> ('s, 'h, 'j, 'bd, 'o) action
    \<Rightarrow> ('s, 'o \<Rightarrow> 't, 't) and_then_act \<Rightarrow> ('h, 'j, 'bd) action_context
    \<Rightarrow> (('i one, http_error) poll \<times> ('s, 'o \<Rightarrow> 't, 't) and_then_act \<times> ('h, 'j, 'bd) action_context) run" where
  "and_then_poll fp into A m ac =
     (case at_in_flight m of
        Some fut \<Rightarrow> and_then_poll_in_flight fp into m fut ac
      | None \<Rightarrow>
          (case act_poll A (at_action m) ac of
             Panic \<Rightarrow> Panic
           | Ret (Err e, a, ac') \<Rightarrow> Ret (Err e, m\<lparr>at_action := a\<rparr>, ac')
           | Ret (Ok NotReady, a, ac') \<Rightarrow> Ret (Ok NotReady, m\<lparr>at_action := a\<rparr>, ac')
           | Ret (Ok (Ready args), a, ac') \<Rightarrow>
               and_then_poll_in_flight fp into (m\<lparr>at_action := a\<rparr>) (at_f m args) ac'))"

definition and_then_action ::
  "('t, 'i, 'e) future_fn \<Rightarrow> ('e \<Rightarrow> http_error) \<Rightarrow> ('s, 'h, 'j, 'bd, 'o) action
    \<Rightarrow> (('s, 'o \<Rightarrow> 't, 't) and_then_act, 'h, 'j, 'bd, 'i one) action" where
  "and_then_action fp into A =
     \<lparr>act_preflight = and_then_preflight A, act_poll = and_then_poll fp into A\<rparr>"

definition and_then_start :: "('o \<Rightarrow> 't) \<Rightarrow> 's \<Rightarrow> ('s, 'o \<Rightarrow> 't, 't) and_then_act" where
  "and_then_start f s = \<lparr>at_action = s, at_f = f, at_in_flight = None\<rparr>"

definition ep_and_then ::
  "('t, 'i, 'e) future_fn \<Rightarrow> ('e \<Rightarrow> http_error)
    \<Rightarrow> (('s, 'h, 'j, 'bd, 'o) endpoint, 'o \<Rightarrow> 't) and_then_endpoint
    \<Rightarrow> (('s, 'o \<Rightarrow> 't, 't) and_then_act, 'h, 'j, 'bd, 'i one) endpoint" where
  "ep_and_then fp into m =
     \<lparr>ep_action = and_then_start (ate_f m) (ep_action (ate_endpoint m)),
      ep_impl = and_then_action fp into (ep_impl (ate_endpoint m))\<rparr>"

lemma and_then_action_sel [simp]:
  "act_preflight (and_then_action fp into A) = and_then_preflight A"
  "act_poll (and_then_action fp into A) = and_then_poll fp into A"
  by (simp_all add: and_then_action_def)

lemma and_then_polls_in_flight:
  "polls_to (and_then_action fp into A) \<lparr>at_action = a, at_f = f, at_in_flight = Some fut\<rparr> ac r ac' \<longleftrightarrow>
     (\<exists>r0. future_ends fp fut r0 \<and> r = in_flight_value into r0) \<and> ac' = ac"
  by (rule polls_to_in_flight[where g = "\<lambda>t. \<lparr>at_action = a, at_f = f, at_in_flight = Some t\<rparr>"])
     (auto simp: and_then_poll_def and_then_poll_in_flight_def split: run.splits)

text \<open>A future that is started in the middle of a poll is polled in that poll already.\<close>

lemma and_then_poll_start:
  "act_poll A s ac = Ret (Ok (Ready x), s', ac1) \<Longrightarrow>
     and_then_poll fp into A (and_then_start f s) ac =
     and_then_poll fp into A \<lparr>at_action = s', at_f = f, at_in_flight = Some (f x)\<rparr> ac1"
  by (simp add: and_then_poll_def and_then_start_def and_then_poll_in_flight_def split: run.split)

definition and_then_sequence ::
  "('t, 'i, 'e) future_fn \<Rightarrow> ('e \<Rightarrow> http_error) \<Rightarrow> ('o \<Rightarrow> 't) \<Rightarrow> ('o, http_error) result
    \<Rightarrow> ('i one, http_error) result \<Rightarrow> bool" where
  "and_then_sequence fp into f r0 r \<longleftrightarrow>
     (case r0 of
        Ok x \<Rightarrow> \<exists>r1. future_ends fp (f x) r1 \<and> r = in_flight_value into r1
      | Err e \<Rightarrow> r = Err e)"

lemma and_then_polls:
  "polls_to (and_then_action fp into A) (and_then_start f s) ac r ac' \<longleftrightarrow>
     (\<exists>r0. polls_to A s ac r0 ac' \<and> and_then_sequence fp into f r0 r)"
proof -
  have "polls_to (and_then_action fp into A) (and_then_start f s) ac r ac' \<longleftrightarrow>
    (\<exists>r0 ac1. polls_to A s ac r0 ac1 \<and> (and_then_sequence fp into f r0 r \<and> ac' = ac1))"
  proof (rule polls_to_chain, goal_cases)
    case (3 s ac x s' a r ac')
    then have "polls_to (and_then_action fp into A) (and_then_start f s) ac r ac' \<longleftrightarrow>
        polls_to (and_then_action fp into A) \<lparr>at_action = s', at_f = f, at_in_flight = Some (f x)\<rparr> a r ac'"
      unfolding polls_to_unfold[of _ "and_then_start f s"]
        polls_to_unfold[of _ "\<lparr>at_action = s', at_f = f, at_in_flight = Some (f x)\<rparr>"]
      by (simp add: and_then_poll_start)
    then show ?case by (simp add: and_then_polls_in_flight and_then_sequence_def)
  next
    case (4 s ac e s' a r ac')
    then have "and_then_poll fp into A (and_then_start f s) ac = Ret (Err e, and_then_start f s', a)"
      by (simp add: and_then_poll_def and_then_start_def)
    then show ?case by (simp add: polls_to_err and_then_sequence_def)
  qed (simp_all add: and_then_poll_def and_then_start_def)
  then show ?thesis by auto
qed

text \<open>\<open>AndThen\<close> is the Kleisli composition of the endpoint and the future.\<close>

text \<open>
  C7: The combinator and_then resolves as its endpoint does and then as the future of the closure
  applied to the value, with cursor and context as the endpoint left them; an error of the
  endpoint passes through and the closure is not called.
\<close>

lemma resolves_and_then:
  "resolves (and_then_action fp into A) (and_then_start f s) cur ac r cur' ac' \<longleftrightarrow>
     (\<exists>r0. resolves A s cur ac r0 cur' ac' \<and> and_then_sequence fp into f r0 r)"
proof (cases "act_preflight A s (ac_context ac) cur")
  case Panic
  then show ?thesis by (simp add: resolves_def and_then_preflight_def and_then_start_def)
next
  case (Ret q)
  then obtain p s' c where q: "act_preflight A s (ac_context ac) cur = Ret (p, s', c)" by (cases q) auto
  show ?thesis
  proof (cases p)
    case (Err e)
    with q show ?thesis
      by (auto simp: resolves_def and_then_preflight_def and_then_start_def and_then_sequence_def)
  next
    case (Ok pr)
    show ?thesis
    proof (cases pr)
      case (Completed x)
      with q Ok show ?thesis
        by (auto simp: resolves_def and_then_preflight_def and_then_start_def and_then_sequence_def
              and_then_polls_in_flight)
    next
      case Incomplete
      with q Ok have "resolves (and_then_action fp into A) (and_then_start f s) cur ac r cur' ac' \<longleftrightarrow>
          cur' = c \<and> polls_to (and_then_action fp into A) (and_then_start f s') ac r ac'"
        by (simp add: resolves_def and_then_preflight_def and_then_start_def)
      with q Ok Incomplete show ?thesis by (auto simp: and_then_polls resolves_def)
    qed
  qed
qed

definition and_then_live ::
  "('s \<Rightarrow> bool) \<Rightarrow> ('t \<Rightarrow> bool) \<Rightarrow> ('o \<Rightarrow> 't) \<Rightarrow> ('s, 'o \<Rightarrow> 't, 't) and_then_act \<Rightarrow> bool" where
  "and_then_live L LF f m \<longleftrightarrow>
     at_f m = f \<and> (case at_in_flight m of None \<Rightarrow> L (at_action m) | Some fut \<Rightarrow> LF fut)"

lemma and_then_in_flight_contract:
  assumes "plain_future_safe fp LF" and "LF t" "at_f m = f"
  shows "\<exists>p m' ac'. and_then_poll_in_flight fp into m t ac = Ret (p, m', ac') \<and>
      (p = Ok NotReady \<longrightarrow> and_then_live L LF f m')"
proof -
  from assms(1,2) obtain p t' where "fp t = Ret (p, t')" "p = Ok NotReady \<longrightarrow> LF t'"
    unfolding plain_future_safe_def by blast
  with assms(3) show ?thesis
    by (cases p rule: poll_exhaust) (auto simp: and_then_poll_in_flight_def and_then_live_def)
qed

lemma and_then_preflight_contract:
  assumes A: "endpoint_action A s L" and start: "\<And>x. LF (f x)" and 1: "cursor_balanced (cx_path cx) cur"
  shows "\<exists>r s' cur'. act_preflight (and_then_action fp into A) (and_then_start f s) cx cur = Ret (r, s', cur') \<and>
      cursor_balanced (cx_path cx) cur' \<and> cur_popped cur \<le> cur_popped cur' \<and>
      (r = Ok Incomplete \<longrightarrow> and_then_live L LF f s')"
proof -
  show ?thesis
  proof (rule endpoint_action.preflight_cases[OF A 1])
    fix r t c
    assume *: "act_preflight A s cx cur = Ret (r, t, c)" "cursor_balanced (cx_path cx) c"
      "cur_popped cur \<le> cur_popped c" "r = Ok Incomplete \<Longrightarrow> L t"
    show ?thesis
    proof (cases r)
      case (Ok p)
      with * start show ?thesis
        by (cases p) (auto simp: and_then_preflight_def and_then_start_def and_then_live_def)
    qed (use * in \<open>auto simp: and_then_preflight_def and_then_start_def\<close>)
  qed
qed

lemma and_then_poll_contract:
  assumes A: "endpoint_action A s L" and fut: "plain_future_safe fp LF" and start: "\<And>x. LF (f x)"
    and 2: "and_then_live L LF f m"
  shows "\<exists>p m' ac'. act_poll (and_then_action fp into A) m ac = Ret (p, m', ac') \<and>
      (p = Ok NotReady \<longrightarrow> and_then_live L LF f m')"
proof -
  note tail = and_then_in_flight_contract[OF fut, where f = f and L = L and into = into]
  show ?thesis
  proof (cases "at_in_flight m")
    case (Some t)
    with 2 tail[of t m ac] show ?thesis by (simp add: and_then_poll_def and_then_live_def)
  next
    case None
    with 2 have l: "L (at_action m)" and f: "at_f m = f" by (simp_all add: and_then_live_def)
    show ?thesis
    proof (rule endpoint_action.poll_cases[OF A l, of ac])
      fix p a ac1
      assume *: "act_poll A (at_action m) ac = Ret (p, a, ac1)" "p = Ok NotReady \<Longrightarrow> L a"
      show ?thesis
      proof (cases p rule: poll_exhaust)
        case (ready x)
        with * None f start tail[of "f x" "m\<lparr>at_action := a\<rparr>" ac1] show ?thesis
          by (simp add: and_then_poll_def)
      qed (use * None f in \<open>auto simp: and_then_poll_def and_then_live_def\<close>)
    qed
  qed
qed

text \<open>
  The combinator and_then keeps the contract of its endpoint when the future of the closure
  does not panic before it is ready.
\<close>

lemma and_then_endpoint_action:
  assumes A: "endpoint_action A s L" and fut: "plain_future_safe fp LF" and start: "\<And>x. LF (f x)"
  shows "endpoint_action (and_then_action fp into A) (and_then_start f s) (and_then_live L LF f)"
  by (rule endpoint_actionI[OF and_then_preflight_contract[where f = f and LF = LF, OF A start] and_then_poll_contract[where f = f and LF = LF, OF A fut start]])

section \<open>Recover\<close>

record ('e, 'f) recover_endpoint =
  re_endpoint :: 'e
  re_f :: 'f

record ('a, 'f, 't) recover_act =
  ra_action :: 'a
  ra_f :: 'f
  ra_in_flight :: "'t option"

definition recover_preflight ::
  "('s, 'h, 'j, 'bd, 'i one) action \<Rightarrow> ('s, http_error \<Rightarrow> 't, 't) recover_act
    \<Rightarrow> ('h, 'j) context_state \<Rightarrow> cursor
    \<Rightarrow> (('i one preflight, http_error) result \<times> ('s, http_error \<Rightarrow> 't, 't) recover_act \<times> cursor) run" where
  "recover_preflight A m cx cur =
     (if ra_in_flight m \<noteq> None then Panic
      else (case act_preflight A (ra_action m) cx cur of
          Panic \<Rightarrow> Panic
        | Ret (Ok p, a, cur') \<Rightarrow> Ret (Ok p, m\<lparr>ra_action := a\<rparr>, cur')
        | Ret (Err err, a, cur') \<Rightarrow>
            Ret (Ok Incomplete, m\<lparr>ra_action := a, ra_in_flight := Some (ra_f m err)\<rparr>, cur')))"

definition recover_poll_in_flight ::
  "('t, 'i, 'e) future_fn \<Rightarrow> ('e \<Rightarrow> http_error) \<Rightarrow> ('s, http_error \<Rightarrow> 't, 't) recover_act \<Rightarrow> 't \<Rightarrow> 'ac
    \<Rightarrow> (('i one, http_error) poll \<times> ('s, http_error \<Rightarrow> 't, 't) recover_act \<times> 'ac) run" where
  "recover_poll_in_flight fp into m fut ac =
     (case fp fut of
        Panic \<Rightarrow> Panic
      | Ret (p, fut') \<Rightarrow> Ret (in_flight_result into p, m\<lparr>ra_in_flight := Some fut'\<rparr>, ac))"

definition recover_poll ::
  "('t, 'i, 'e) future_fn \<Rightarrow> ('e \<Rightarrow> http_error) \<Rightarrow> ('s, 'h, 'j, 'bd, 'i one) action
    \<Rightarrow> ('s, http_error \<Rightarrow> 't, 't) recover_act \<Rightarrow> ('h, 'j, 'bd) action_context
    \<Rightarrow> (('i one, http_error) poll \<times> ('s, http_error \<Rightarrow> 't, 't) recover_act
         \<times> ('h, 'j, 'bd) action_context) run" where
  "recover_poll fp into A m ac =
     (case ra_in_flight m of
        Some fut \<Rightarrow> recover_poll_in_flight fp into m fut ac
      | None \<Rightarrow>
          (case act_poll A (ra_action m) ac of
             Panic \<Rightarrow> Panic
           | Ret (Ok x, a, ac') \<Rightarrow> Ret (Ok x, m\<lparr>ra_action := a\<rparr>, ac')
           | Ret (Err err, a, ac') \<Rightarrow>
               recover_poll_in_flight fp into (m\<lparr>ra_action := a\<rparr>) (ra_f m err) ac'))"

definition recover_action ::
  "('t, 'i, 'e) future_fn \<Rightarrow> ('e \<Rightarrow> http_error) \<Rightarrow> ('s, 'h, 'j, 'bd, 'i one) action
    \<Rightarrow> (('s, http_error \<Rightarrow> 't, 't) recover_act, 'h, 'j, 'bd, 'i one) action" where
  "recover_action fp into A =
     \<lparr>act_preflight = recover_preflight A, act_poll = recover_poll fp into A\<rparr>"

definition recover_start :: "(http_error \<Rightarrow> 't) \<Rightarrow> 's \<Rightarrow> ('s, http_error \<Rightarrow> 't, 't) recover_act" where
  "recover_start f s = \<lparr>ra_action = s, ra_f = f, ra_in_flight = None\<rparr>"

definition ep_recover ::
  "('t, 'i, 'e) future_fn \<Rightarrow> ('e \<Rightarrow> http_error)
    \<Rightarrow> (('s, 'h, 'j, 'bd, 'i one) endpoint, http_error \<Rightarrow> 't) recover_endpoint
    \<Rightarrow> (('s, http_error \<Rightarrow> 't, 't) recover_act, 'h, 'j, 'bd, 'i one) endpoint" where
  "ep_recover fp into m =
     \<lparr>ep_action = recover_start (re_f m) (ep_action (re_endpoint m)),
      ep_impl = recover_action fp into (ep_impl (re_endpoint m))\<rparr>"

lemma recover_action_sel [simp]:
  "act_preflight (recover_action fp into A) = recover_preflight A"
  "act_poll (recover_action fp into A) = recover_poll fp into A"
  by (simp_all add: recover_action_def)

lemma recover_polls_in_flight:
  "polls_to (recover_action fp into A) \<lparr>ra_action = a, ra_f = f, ra_in_flight = Some fut\<rparr> ac r ac' \<longleftrightarrow>
     (\<exists>r0. future_ends fp fut r0 \<and> r = in_flight_value into r0) \<and> ac' = ac"
  by (rule polls_to_in_flight[where g = "\<lambda>t. \<lparr>ra_action = a, ra_f = f, ra_in_flight = Some t\<rparr>"])
     (auto simp: recover_poll_def recover_poll_in_flight_def split: run.splits)

lemma recover_poll_start:
  "act_poll A s ac = Ret (Err e, s', ac1) \<Longrightarrow>
     recover_poll fp into A (recover_start f s) ac =
     recover_poll fp into A \<lparr>ra_action = s', ra_f = f, ra_in_flight = Some (f e)\<rparr> ac1"
  by (simp add: recover_poll_def recover_start_def recover_poll_in_flight_def split: run.split)

definition recover_sequence ::
  "('t, 'i, 'e) future_fn \<Rightarrow> ('e \<Rightarrow> http_error) \<Rightarrow> (http_error \<Rightarrow> 't) \<Rightarrow> ('i one, http_error) result
    \<Rightarrow> ('i one, http_error) result \<Rightarrow> bool" where
  "recover_sequence fp into f r0 r \<longleftrightarrow>
     (case r0 of
        Ok x \<Rightarrow> r = Ok x
      | Err e \<Rightarrow> \<exists>r1. future_ends fp (f e) r1 \<and> r = in_flight_value into r1)"

lemma recover_polls:
  "polls_to (recover_action fp into A) (recover_start f s) ac r ac' \<longleftrightarrow>
     (\<exists>r0. polls_to A s ac r0 ac' \<and> recover_sequence fp into f r0 r)"
proof -
  have "polls_to (recover_action fp into A) (recover_start f s) ac r ac' \<longleftrightarrow>
    (\<exists>r0 ac1. polls_to A s ac r0 ac1 \<and> (recover_sequence fp into f r0 r \<and> ac' = ac1))"
  proof (rule polls_to_chain, goal_cases)
    case (3 s ac x s' a r ac')
    then have "recover_poll fp into A (recover_start f s) ac = Ret (Ok (Ready x), recover_start f s', a)"
      by (simp add: recover_poll_def recover_start_def)
    then show ?case by (simp add: polls_to_ready recover_sequence_def)
  next
    case (4 s ac e s' a r ac')
    then have "polls_to (recover_action fp into A) (recover_start f s) ac r ac' \<longleftrightarrow>
        polls_to (recover_action fp into A) \<lparr>ra_action = s', ra_f = f, ra_in_flight = Some (f e)\<rparr> a r ac'"
      unfolding polls_to_unfold[of _ "recover_start f s"]
        polls_to_unfold[of _ "\<lparr>ra_action = s', ra_f = f, ra_in_flight = Some (f e)\<rparr>"]
      by (simp add: recover_poll_start)
    then show ?case by (simp add: recover_polls_in_flight recover_sequence_def)
  qed (simp_all add: recover_poll_def recover_start_def)
  then show ?thesis by auto
qed

text \<open>\<open>Recover\<close> catches the errors of the preflight and of the polls alike.\<close>

text \<open>
  C8: The combinator recover passes a value of its endpoint through and replaces an error, of the
  preflight as well as of a poll, by the outcome of the future of the closure.
\<close>

lemma resolves_recover:
  "resolves (recover_action fp into A) (recover_start f s) cur ac r cur' ac' \<longleftrightarrow>
     (\<exists>r0. resolves A s cur ac r0 cur' ac' \<and> recover_sequence fp into f r0 r)"
proof (cases "act_preflight A s (ac_context ac) cur")
  case Panic
  then show ?thesis by (simp add: resolves_def recover_preflight_def recover_start_def)
next
  case (Ret q)
  then obtain p s' c where q: "act_preflight A s (ac_context ac) cur = Ret (p, s', c)" by (cases q) auto
  show ?thesis
  proof (cases p)
    case (Err e)
    with q show ?thesis
      by (auto simp: resolves_def recover_preflight_def recover_start_def recover_sequence_def
            recover_polls_in_flight)
  next
    case (Ok pr)
    with q have "resolves (recover_action fp into A) (recover_start f s) cur ac r cur' ac' \<longleftrightarrow>
        cur' = c \<and> finishes (recover_action fp into A) pr (recover_start f s') ac r ac'"
      by (simp add: resolves_def recover_preflight_def recover_start_def)
    with q Ok show ?thesis
      by (cases pr) (auto simp: recover_polls resolves_def recover_sequence_def)
  qed
qed

definition recover_live ::
  "('s \<Rightarrow> bool) \<Rightarrow> ('t \<Rightarrow> bool) \<Rightarrow> (http_error \<Rightarrow> 't) \<Rightarrow> ('s, http_error \<Rightarrow> 't, 't) recover_act \<Rightarrow> bool" where
  "recover_live L LF f m \<longleftrightarrow>
     ra_f m = f \<and> (case ra_in_flight m of None \<Rightarrow> L (ra_action m) | Some fut \<Rightarrow> LF fut)"

lemma recover_in_flight_contract:
  assumes "plain_future_safe fp LF" and "LF t" "ra_f m = f"
  shows "\<exists>p m' ac'. recover_poll_in_flight fp into m t ac = Ret (p, m', ac') \<and>
      (p = Ok NotReady \<longrightarrow> recover_live L LF f m')"
proof -
  from assms(1,2) obtain p t' where "fp t = Ret (p, t')" "p = Ok NotReady \<longrightarrow> LF t'"
    unfolding plain_future_safe_def by blast
  with assms(3) show ?thesis
    by (cases p rule: poll_exhaust) (auto simp: recover_poll_in_flight_def recover_live_def)
qed

lemma recover_preflight_contract:
  assumes A: "endpoint_action A s L" and start: "\<And>x. LF (f x)" and 1: "cursor_balanced (cx_path cx) cur"
  shows "\<exists>r s' cur'. act_preflight (recover_action fp into A) (recover_start f s) cx cur = Ret (r, s', cur') \<and>
      cursor_balanced (cx_path cx) cur' \<and> cur_popped cur \<le> cur_popped cur' \<and>
      (r = Ok Incomplete \<longrightarrow> recover_live L LF f s')"
proof -
  show ?thesis
  proof (rule endpoint_action.preflight_cases[OF A 1])
    fix r t c
    assume *: "act_preflight A s cx cur = Ret (r, t, c)" "cursor_balanced (cx_path cx) c"
      "cur_popped cur \<le> cur_popped c" "r = Ok Incomplete \<Longrightarrow> L t"
    then show ?thesis
      using start by (cases r) (auto simp: recover_preflight_def recover_start_def recover_live_def)
  qed
qed

lemma recover_poll_contract:
  assumes A: "endpoint_action A s L" and fut: "plain_future_safe fp LF" and start: "\<And>x. LF (f x)"
    and 2: "recover_live L LF f m"
  shows "\<exists>p m' ac'. act_poll (recover_action fp into A) m ac = Ret (p, m', ac') \<and>
      (p = Ok NotReady \<longrightarrow> recover_live L LF f m')"
proof -
  note tail = recover_in_flight_contract[OF fut, where f = f and L = L and into = into]
  show ?thesis
  proof (cases "ra_in_flight m")
    case (Some t)
    with 2 tail[of t m ac] show ?thesis by (simp add: recover_poll_def recover_live_def)
  next
    case None
    with 2 have l: "L (ra_action m)" and f: "ra_f m = f" by (simp_all add: recover_live_def)
    show ?thesis
    proof (rule endpoint_action.poll_cases[OF A l, of ac])
      fix p a ac1
      assume *: "act_poll A (ra_action m) ac = Ret (p, a, ac1)" "p = Ok NotReady \<Longrightarrow> L a"
      show ?thesis
      proof (cases p)
        case (Err e)
        with * None f start tail[of "f e" "m\<lparr>ra_action := a\<rparr>" ac1] show ?thesis
          by (simp add: recover_poll_def)
      qed (use * None f in \<open>auto simp: recover_poll_def recover_live_def\<close>)
    qed
  qed
qed

text \<open>
  The combinator recover keeps the contract of its endpoint when the future of the closure
  does not panic before it is ready.
\<close>

lemma recover_endpoint_action:
  assumes A: "endpoint_action A s L" and fut: "plain_future_safe fp LF" and start: "\<And>x. LF (f x)"
  shows "endpoint_action (recover_action fp into A) (recover_start f s) (recover_live L LF f)"
  by (rule endpoint_actionI[OF recover_preflight_contract[where f = f and LF = LF, OF A start] recover_poll_contract[where f = f and LF = LF, OF A fut start]])

lemma and_then_endpoint_action_witness:
  "endpoint_action (and_then_action result_future (\<lambda>e. e) (ep_impl (value_endpoint (1::nat))))
     (and_then_start (func_call1 (\<lambda>n. if n = 0 then Err (bad_request ''zero'') else Ok n))
       (ep_action (value_endpoint (1::nat))))
     (and_then_live (\<lambda>_. False) (\<lambda>_. True) (func_call1 (\<lambda>n. if n = 0 then Err (bad_request ''zero'') else Ok n)))"
  by (rule and_then_endpoint_action[OF value_endpoint_action result_future_safe]) simp

lemma recover_endpoint_action_witness:
  "endpoint_action (recover_action result_future (\<lambda>e. e) (ep_impl (value_endpoint (1::nat))))
     (recover_start (\<lambda>e. Err e :: (nat, http_error) result) (ep_action (value_endpoint (1::nat))))
     (recover_live (\<lambda>_. False) (\<lambda>_. True) (\<lambda>e. Err e :: (nat, http_error) result))"
  by (rule recover_endpoint_action[OF value_endpoint_action result_future_safe]) simp

end
