(* ===== verification/Finch_Ext_Or.thy ===== *)
theory Finch_Ext_Or
  imports Finch_Resolve
begin

text \<open>
  The combinators that choose between two endpoints: \<open>src/endpoint/ext/or.rs\<close> runs both
  preflights and takes the one that consumed more of the path, \<open>src/endpoint/ext/or_strict.rs\<close>
  takes the first that matches. \<open>Either\<close> is the sum type.
\<close>

section \<open>Or\<close>

datatype ('l, 'r) or_state = OrInit 'l 'r | OrLeft 'l | OrRight 'r | OrDone

definition either_left :: "'a one \<Rightarrow> ('a + 'b) one" where
  "either_left x = (case x of One out \<Rightarrow> One (Inl out))"

definition either_right :: "'b one \<Rightarrow> ('a + 'b) one" where
  "either_right x = (case x of One out \<Rightarrow> One (Inr out))"

text \<open>
  The context is cloned before the left preflight, so the right one starts from the same
  cursor. Every early return leaves the state \<open>Done\<close>.
\<close>

definition or_preflight ::
  "('l, 'h, 'j, 'bd, 'a one) action \<Rightarrow> ('r, 'h, 'j, 'bd, 'b one) action \<Rightarrow> ('l, 'r) or_state
    \<Rightarrow> ('h, 'j) context_state \<Rightarrow> cursor
    \<Rightarrow> ((('a + 'b) one preflight, http_error) result \<times> ('l, 'r) or_state \<times> cursor) run" where
  "or_preflight A1 A2 st cx cur =
     (case st of
        OrInit left right \<Rightarrow>
          (case act_preflight A1 left cx cur of
             Panic \<Rightarrow> Panic
           | Ret (left_output, left', cx1) \<Rightarrow>
               (case act_preflight A2 right cx cur of
                  Panic \<Rightarrow> Panic
                | Ret (right_output, right', cx2) \<Rightarrow>
                    (case (left_output, right_output) of
                       (Ok l, Ok r) \<Rightarrow>
                         if num_popped_segments cx1 \<ge> num_popped_segments cx2 then
                           (case l of
                              Completed out \<Rightarrow> Ret (Ok (Completed (either_left out)), OrDone, cx1)
                            | Incomplete \<Rightarrow> Ret (Ok Incomplete, OrLeft left', cx1))
                         else
                           (case r of
                              Completed out \<Rightarrow> Ret (Ok (Completed (either_right out)), OrDone, cx2)
                            | Incomplete \<Rightarrow> Ret (Ok Incomplete, OrRight right', cx2))
                     | (Ok l, Err _) \<Rightarrow>
                         (case l of
                            Completed out \<Rightarrow> Ret (Ok (Completed (either_left out)), OrDone, cx1)
                          | Incomplete \<Rightarrow> Ret (Ok Incomplete, OrLeft left', cx1))
                     | (Err _, Ok r) \<Rightarrow>
                         (case r of
                            Completed out \<Rightarrow> Ret (Ok (Completed (either_right out)), OrDone, cx2)
                          | Incomplete \<Rightarrow> Ret (Ok Incomplete, OrRight right', cx2))
                     | (Err e1, Err e2) \<Rightarrow> Ret (Err (NotMatched e1 e2), OrDone, cx2))))
      | _ \<Rightarrow> Panic)"

definition or_poll ::
  "('l, 'h, 'j, 'bd, 'a one) action \<Rightarrow> ('r, 'h, 'j, 'bd, 'b one) action \<Rightarrow> ('l, 'r) or_state
    \<Rightarrow> ('h, 'j, 'bd) action_context
    \<Rightarrow> ((('a + 'b) one, http_error) poll \<times> ('l, 'r) or_state \<times> ('h, 'j, 'bd) action_context) run" where
  "or_poll A1 A2 st ac =
     (case st of
        OrLeft t \<Rightarrow>
          (case act_poll A1 t ac of
             Panic \<Rightarrow> Panic
           | Ret (x, t', ac') \<Rightarrow> Ret (map_ok (map_async either_left) x, OrLeft t', ac'))
      | OrRight t \<Rightarrow>
          (case act_poll A2 t ac of
             Panic \<Rightarrow> Panic
           | Ret (x, t', ac') \<Rightarrow> Ret (map_ok (map_async either_right) x, OrRight t', ac'))
      | _ \<Rightarrow> Panic)"

definition or_action ::
  "('l, 'h, 'j, 'bd, 'a one) action \<Rightarrow> ('r, 'h, 'j, 'bd, 'b one) action
    \<Rightarrow> (('l, 'r) or_state, 'h, 'j, 'bd, ('a + 'b) one) action" where
  "or_action A1 A2 = \<lparr>act_preflight = or_preflight A1 A2, act_poll = or_poll A1 A2\<rparr>"

definition ep_or ::
  "('l, 'h, 'j, 'bd, 'a one) endpoint \<Rightarrow> ('r, 'h, 'j, 'bd, 'b one) endpoint
    \<Rightarrow> (('l, 'r) or_state, 'h, 'j, 'bd, ('a + 'b) one) endpoint" where
  "ep_or e1 e2 =
     \<lparr>ep_action = OrInit (ep_action e1) (ep_action e2), ep_impl = or_action (ep_impl e1) (ep_impl e2)\<rparr>"

lemma or_action_sel [simp]:
  "act_preflight (or_action A1 A2) = or_preflight A1 A2"
  "act_poll (or_action A1 A2) = or_poll A1 A2"
  by (simp_all add: or_action_def)

lemma ep_or_sel [simp]:
  "ep_action (ep_or e1 e2) = OrInit (ep_action e1) (ep_action e2)"
  "ep_impl (ep_or e1 e2) = or_action (ep_impl e1) (ep_impl e2)"
  by (simp_all add: ep_or_def)

text \<open>The side that the two results of the preflights select.\<close>

datatype side = LeftSide | RightSide

definition or_pick :: "('a, 'e) result \<Rightarrow> cursor \<Rightarrow> ('b, 'e) result \<Rightarrow> cursor \<Rightarrow> side option" where
  "or_pick r1 c1 r2 c2 =
     (case (r1, r2) of
        (Ok _, Ok _) \<Rightarrow> Some (if cur_popped c2 \<le> cur_popped c1 then LeftSide else RightSide)
      | (Ok _, Err _) \<Rightarrow> Some LeftSide
      | (Err _, Ok _) \<Rightarrow> Some RightSide
      | (Err _, Err _) \<Rightarrow> None)"

lemma or_pick_simps [simp]:
  "or_pick (Ok a) c1 (Err e) c2 = Some LeftSide"
  "or_pick (Err d) c1 (Ok b) c2 = Some RightSide"
  "or_pick (Err d) c1 (Err e) c2 = None"
  "cur_popped c2 \<le> cur_popped c1 \<Longrightarrow> or_pick (Ok a) c1 (Ok b) c2 = Some LeftSide"
  "cur_popped c1 < cur_popped c2 \<Longrightarrow> or_pick (Ok a) c1 (Ok b) c2 = Some RightSide"
  by (simp_all add: or_pick_def)

lemma or_polls_left:
  "polls_to (or_action A1 A2) (OrLeft t) ac r ac' \<longleftrightarrow>
     (\<exists>r0. polls_to A1 t ac r0 ac' \<and> r = map_ok either_left r0)"
  by (rule polls_to_mapped[where g = OrLeft and d = "\<lambda>_. OrLeft"])
     (auto simp: or_poll_def split: run.splits result.splits async.splits)

lemma or_polls_right:
  "polls_to (or_action A1 A2) (OrRight t) ac r ac' \<longleftrightarrow>
     (\<exists>r0. polls_to A2 t ac r0 ac' \<and> r = map_ok either_right r0)"
  by (rule polls_to_mapped[where g = OrRight and d = "\<lambda>_. OrRight"])
     (auto simp: or_poll_def split: run.splits result.splits async.splits)

text \<open>
  The preflight as a choice: the selected side decides result, cursor and state.
\<close>

lemma or_preflight_pick:
  "or_preflight A1 A2 (OrInit s1 s2) cx cur =
     (case act_preflight A1 s1 cx cur of
        Panic \<Rightarrow> Panic
      | Ret (r1, t1, c1) \<Rightarrow>
          (case act_preflight A2 s2 cx cur of
             Panic \<Rightarrow> Panic
           | Ret (r2, t2, c2) \<Rightarrow>
               (case or_pick r1 c1 r2 c2 of
                  Some LeftSide \<Rightarrow>
                    Ret (map_ok (preflight_map either_left) r1,
                         if r1 = Ok Incomplete then OrLeft t1 else OrDone, c1)
                | Some RightSide \<Rightarrow>
                    Ret (map_ok (preflight_map either_right) r2,
                         if r2 = Ok Incomplete then OrRight t2 else OrDone, c2)
                | None \<Rightarrow> Ret (Err (NotMatched (err_of r1) (err_of r2)), OrDone, c2))))"
  by (auto simp: or_preflight_def or_pick_def num_popped_segments_def
           split: run.splits result.splits preflight.splits)

text \<open>
  C5: The choice runs both preflights from the same cursor, takes the side whose preflight alone
  succeeds, or of two that succeed the one that popped more segments with ties going to the left,
  and then behaves as that side did alone, cursor included; when both fail it answers with the
  error that keeps both causes.
\<close>

lemma resolves_or:
  "resolves (or_action A1 A2) (OrInit s1 s2) cur ac r cur' ac' \<longleftrightarrow>
     (case act_preflight A1 s1 (ac_context ac) cur of
        Panic \<Rightarrow> False
      | Ret (r1, _, c1) \<Rightarrow>
          (case act_preflight A2 s2 (ac_context ac) cur of
             Panic \<Rightarrow> False
           | Ret (r2, _, c2) \<Rightarrow>
               (case or_pick r1 c1 r2 c2 of
                  Some LeftSide \<Rightarrow>
                    \<exists>r0. resolves A1 s1 cur ac r0 cur' ac' \<and> r = map_ok either_left r0
                | Some RightSide \<Rightarrow>
                    \<exists>r0. resolves A2 s2 cur ac r0 cur' ac' \<and> r = map_ok either_right r0
                | None \<Rightarrow>
                    r = Err (NotMatched (err_of r1) (err_of r2)) \<and> cur' = c2 \<and> ac' = ac)))"
proof (cases "act_preflight A1 s1 (ac_context ac) cur"; cases "act_preflight A2 s2 (ac_context ac) cur")
  fix q1 q2
  assume "act_preflight A1 s1 (ac_context ac) cur = Ret q1"
    and "act_preflight A2 s2 (ac_context ac) cur = Ret q2"
  then obtain r1 t1 c1 r2 t2 c2 where
    1: "act_preflight A1 s1 (ac_context ac) cur = Ret (r1, t1, c1)" and
    2: "act_preflight A2 s2 (ac_context ac) cur = Ret (r2, t2, c2)"
    by (cases q1; cases q2) auto
  show ?thesis
  proof (cases "or_pick r1 c1 r2 c2")
    case None
    with 1 2 show ?thesis by (auto simp: resolves_def or_preflight_pick)
  next
    case (Some w)
    show ?thesis
    proof (cases w)
      case LeftSide
      with Some obtain p where "r1 = Ok p" by (auto simp: or_pick_def split: result.splits)
      with 1 2 Some LeftSide show ?thesis
        by (cases p) (auto simp: resolves_def or_preflight_pick or_polls_left)
    next
      case RightSide
      with Some obtain p where "r2 = Ok p" by (auto simp: or_pick_def split: result.splits)
      with 1 2 Some RightSide show ?thesis
        by (cases p) (auto simp: resolves_def or_preflight_pick or_polls_right)
    qed
  qed
qed (simp_all add: resolves_def or_preflight_pick split: run.split)

definition or_live :: "('l \<Rightarrow> bool) \<Rightarrow> ('r \<Rightarrow> bool) \<Rightarrow> ('l, 'r) or_state \<Rightarrow> bool" where
  "or_live L1 L2 st = (case st of OrLeft s \<Rightarrow> L1 s | OrRight s \<Rightarrow> L2 s | _ \<Rightarrow> False)"

lemma or_keeps_contract:
  assumes A1: "endpoint_action A1 s1 L1" and A2: "endpoint_action A2 s2 L2"
  shows "endpoint_action (or_action A1 A2) (OrInit s1 s2) (or_live L1 L2)"
proof (rule endpoint_actionI, goal_cases)
  case (1 cx cur)
  show ?case
  proof (rule endpoint_action.preflight_cases[OF A1 1], rule endpoint_action.preflight_cases[OF A2 1])
    fix r1 t1 c1 r2 t2 c2
    assume 1: "act_preflight A1 s1 cx cur = Ret (r1, t1, c1)" "cursor_balanced (cx_path cx) c1"
        "cur_popped cur \<le> cur_popped c1" "r1 = Ok Incomplete \<Longrightarrow> L1 t1"
      and 2: "act_preflight A2 s2 cx cur = Ret (r2, t2, c2)" "cursor_balanced (cx_path cx) c2"
        "cur_popped cur \<le> cur_popped c2" "r2 = Ok Incomplete \<Longrightarrow> L2 t2"
    show ?thesis
    proof (cases "or_pick r1 c1 r2 c2")
      case None
      with 1 2 show ?thesis by (simp add: or_preflight_pick)
    next
      case (Some w)
      with 1 2 show ?thesis
        by (cases w) (auto simp: or_preflight_pick or_live_def)
    qed
  qed
next
  case (2 st ac)
  show ?case
  proof (cases st)
    case (OrLeft s)
    with 2 have "L1 s" by (simp add: or_live_def)
    then show ?thesis
      by (rule endpoint_action.poll_cases[OF A1, of _ ac]) (auto simp: OrLeft or_poll_def or_live_def)
  next
    case (OrRight s)
    with 2 have "L2 s" by (simp add: or_live_def)
    then show ?thesis
      by (rule endpoint_action.poll_cases[OF A2, of _ ac]) (auto simp: OrRight or_poll_def or_live_def)
  qed (use 2 in \<open>simp_all add: or_live_def\<close>)
qed

text \<open>
  C10: The choice between two endpoints that keep the contract keeps it, so the debug assertions of
  both of its phases never fire.
\<close>

lemma or_endpoint_action:
  assumes "endpoint_action A1 s1 L1" and "endpoint_action A2 s2 L2"
  shows "endpoint_action (or_action A1 A2) (OrInit s1 s2) (or_live L1 L2)"
  using assms by (rule or_keeps_contract)

section \<open>OrStrict\<close>

datatype ('l, 'r) or_strict_state =
  StrictInit 'l 'r | StrictLeft 'l | StrictRight 'r | StrictDone

definition or_strict_preflight ::
  "('l, 'h, 'j, 'bd, 'o) action \<Rightarrow> ('r, 'h, 'j, 'bd, 'o) action \<Rightarrow> ('l, 'r) or_strict_state
    \<Rightarrow> ('h, 'j) context_state \<Rightarrow> cursor
    \<Rightarrow> (('o preflight, http_error) result \<times> ('l, 'r) or_strict_state \<times> cursor) run" where
  "or_strict_preflight A1 A2 st cx cur =
     (case st of
        StrictInit left right \<Rightarrow>
          (case act_preflight A1 left cx cur of
             Panic \<Rightarrow> Panic
           | Ret (Ok Incomplete, left', cur1) \<Rightarrow> Ret (Ok Incomplete, StrictLeft left', cur1)
           | Ret (Ok (Completed output), left', cur1) \<Rightarrow> Ret (Ok (Completed output), StrictDone, cur1)
           | Ret (Err e1, left', cur1) \<Rightarrow>
               (case act_preflight A2 right cx cur of
                  Panic \<Rightarrow> Panic
                | Ret (Ok Incomplete, right', cur2) \<Rightarrow> Ret (Ok Incomplete, StrictRight right', cur2)
                | Ret (Ok (Completed output), right', cur2) \<Rightarrow>
                    Ret (Ok (Completed output), StrictDone, cur2)
                | Ret (Err e2, right', cur2) \<Rightarrow> Ret (Err (NotMatched e1 e2), StrictDone, cur2)))
      | _ \<Rightarrow> Panic)"

definition or_strict_poll ::
  "('l, 'h, 'j, 'bd, 'o) action \<Rightarrow> ('r, 'h, 'j, 'bd, 'o) action \<Rightarrow> ('l, 'r) or_strict_state
    \<Rightarrow> ('h, 'j, 'bd) action_context
    \<Rightarrow> (('o, http_error) poll \<times> ('l, 'r) or_strict_state \<times> ('h, 'j, 'bd) action_context) run" where
  "or_strict_poll A1 A2 st ac =
     (case st of
        StrictInit _ _ \<Rightarrow> Panic
      | StrictLeft t \<Rightarrow> map_run (\<lambda>(x, t', ac'). (x, StrictLeft t', ac')) (act_poll A1 t ac)
      | StrictRight t \<Rightarrow> map_run (\<lambda>(x, t', ac'). (x, StrictRight t', ac')) (act_poll A2 t ac)
      | StrictDone \<Rightarrow> Panic)"

definition or_strict_action ::
  "('l, 'h, 'j, 'bd, 'o) action \<Rightarrow> ('r, 'h, 'j, 'bd, 'o) action
    \<Rightarrow> (('l, 'r) or_strict_state, 'h, 'j, 'bd, 'o) action" where
  "or_strict_action A1 A2 =
     \<lparr>act_preflight = or_strict_preflight A1 A2, act_poll = or_strict_poll A1 A2\<rparr>"

definition ep_or_strict ::
  "('l, 'h, 'j, 'bd, 'o) endpoint \<Rightarrow> ('r, 'h, 'j, 'bd, 'o) endpoint
    \<Rightarrow> (('l, 'r) or_strict_state, 'h, 'j, 'bd, 'o) endpoint" where
  "ep_or_strict e1 e2 =
     \<lparr>ep_action = StrictInit (ep_action e1) (ep_action e2),
      ep_impl = or_strict_action (ep_impl e1) (ep_impl e2)\<rparr>"

lemma or_strict_action_sel [simp]:
  "act_preflight (or_strict_action A1 A2) = or_strict_preflight A1 A2"
  "act_poll (or_strict_action A1 A2) = or_strict_poll A1 A2"
  by (simp_all add: or_strict_action_def)

lemma or_strict_polls_left:
  "polls_to (or_strict_action A1 A2) (StrictLeft t) ac r ac' \<longleftrightarrow> polls_to A1 t ac r ac'"
proof -
  have "polls_to (or_strict_action A1 A2) (StrictLeft t) ac r ac' \<longleftrightarrow>
      (\<exists>r0. polls_to A1 t ac r0 ac' \<and> r = r0)"
    by (rule polls_to_mapped[where g = StrictLeft and d = "\<lambda>_. StrictLeft" and h = "\<lambda>r. r"])
       (auto simp: or_strict_poll_def map_run_def split: run.splits result.splits async.splits)
  then show ?thesis by simp
qed

lemma or_strict_polls_right:
  "polls_to (or_strict_action A1 A2) (StrictRight t) ac r ac' \<longleftrightarrow> polls_to A2 t ac r ac'"
proof -
  have "polls_to (or_strict_action A1 A2) (StrictRight t) ac r ac' \<longleftrightarrow>
      (\<exists>r0. polls_to A2 t ac r0 ac' \<and> r = r0)"
    by (rule polls_to_mapped[where g = StrictRight and d = "\<lambda>_. StrictRight" and h = "\<lambda>r. r"])
       (auto simp: or_strict_poll_def map_run_def split: run.splits result.splits async.splits)
  then show ?thesis by simp
qed

lemma or_strict_preflight_start:
  "or_strict_preflight A1 A2 (StrictInit s1 s2) cx cur =
     (case act_preflight A1 s1 cx cur of
        Panic \<Rightarrow> Panic
      | Ret (Ok p1, t1, c1) \<Rightarrow>
          Ret (Ok p1, if p1 = Incomplete then StrictLeft t1 else StrictDone, c1)
      | Ret (Err e1, t1, c1) \<Rightarrow>
          (case act_preflight A2 s2 cx cur of
             Panic \<Rightarrow> Panic
           | Ret (Ok p2, t2, c2) \<Rightarrow>
               Ret (Ok p2, if p2 = Incomplete then StrictRight t2 else StrictDone, c2)
           | Ret (Err e2, t2, c2) \<Rightarrow> Ret (Err (NotMatched e1 e2), StrictDone, c2)))"
  by (auto simp: or_strict_preflight_def split: run.splits result.splits preflight.splits)

text \<open>
  The left endpoint is run whenever its preflight matches; the right one starts from the
  original cursor otherwise, and its preflight is not run at all when the left one matched.
\<close>

text \<open>
  C6: The strict choice behaves as its left side whenever the preflight of the left side succeeds,
  whatever the right side would match, and as its right side from the same cursor otherwise; both
  causes are kept when both fail.
\<close>

lemma resolves_or_strict:
  "resolves (or_strict_action A1 A2) (StrictInit s1 s2) cur ac r cur' ac' \<longleftrightarrow>
     (case act_preflight A1 s1 (ac_context ac) cur of
        Panic \<Rightarrow> False
      | Ret (Ok _, _) \<Rightarrow> resolves A1 s1 cur ac r cur' ac'
      | Ret (Err e1, _) \<Rightarrow>
          (case act_preflight A2 s2 (ac_context ac) cur of
             Panic \<Rightarrow> False
           | Ret (Ok _, _) \<Rightarrow> resolves A2 s2 cur ac r cur' ac'
           | Ret (Err e2, _, c2) \<Rightarrow> r = Err (NotMatched e1 e2) \<and> cur' = c2 \<and> ac' = ac))"
proof (cases "act_preflight A1 s1 (ac_context ac) cur")
  case (Ret q1)
  then obtain r1 t1 c1 where 1: "act_preflight A1 s1 (ac_context ac) cur = Ret (r1, t1, c1)"
    by (cases q1) auto
  show ?thesis
  proof (cases r1)
    case (Ok p1)
    with 1 show ?thesis
      by (cases p1) (simp_all add: resolves_def or_strict_preflight_start or_strict_polls_left)
  next
    case (Err e1)
    show ?thesis
    proof (cases "act_preflight A2 s2 (ac_context ac) cur")
      case (Ret q2)
      then obtain r2 t2 c2 where 2: "act_preflight A2 s2 (ac_context ac) cur = Ret (r2, t2, c2)"
        by (cases q2) auto
      show ?thesis
      proof (cases r2)
        case (Ok p2)
        with 1 2 Err show ?thesis
          by (cases p2) (simp_all add: resolves_def or_strict_preflight_start or_strict_polls_right)
      qed (use 1 2 Err in \<open>auto simp: resolves_def or_strict_preflight_start\<close>)
    qed (use 1 Err in \<open>simp add: resolves_def or_strict_preflight_start\<close>)
  qed
qed (simp add: resolves_def or_strict_preflight_start)

definition or_strict_live :: "('l \<Rightarrow> bool) \<Rightarrow> ('r \<Rightarrow> bool) \<Rightarrow> ('l, 'r) or_strict_state \<Rightarrow> bool" where
  "or_strict_live L1 L2 st = (case st of StrictLeft s \<Rightarrow> L1 s | StrictRight s \<Rightarrow> L2 s | _ \<Rightarrow> False)"

lemma or_strict_endpoint_action:
  assumes A1: "endpoint_action A1 s1 L1" and A2: "endpoint_action A2 s2 L2"
  shows "endpoint_action (or_strict_action A1 A2) (StrictInit s1 s2) (or_strict_live L1 L2)"
proof (rule endpoint_actionI, goal_cases)
  case (1 cx cur)
  show ?case
  proof (rule endpoint_action.preflight_cases[OF A1 1], rule endpoint_action.preflight_cases[OF A2 1])
    fix r1 t1 c1 r2 t2 c2
    assume 1: "act_preflight A1 s1 cx cur = Ret (r1, t1, c1)" "cursor_balanced (cx_path cx) c1"
        "cur_popped cur \<le> cur_popped c1" "r1 = Ok Incomplete \<Longrightarrow> L1 t1"
      and 2: "act_preflight A2 s2 cx cur = Ret (r2, t2, c2)" "cursor_balanced (cx_path cx) c2"
        "cur_popped cur \<le> cur_popped c2" "r2 = Ok Incomplete \<Longrightarrow> L2 t2"
    show ?thesis
      by (cases r1; cases r2)
         (use 1 2 in \<open>auto simp: or_strict_preflight_start or_strict_live_def\<close>)
  qed
next
  case (2 st ac)
  show ?case
  proof (cases st)
    case (StrictLeft s)
    with 2 have "L1 s" by (simp add: or_strict_live_def)
    then show ?thesis
      by (rule endpoint_action.poll_cases[OF A1, of _ ac])
         (auto simp: StrictLeft or_strict_poll_def or_strict_live_def)
  next
    case (StrictRight s)
    with 2 have "L2 s" by (simp add: or_strict_live_def)
    then show ?thesis
      by (rule endpoint_action.poll_cases[OF A2, of _ ac])
         (auto simp: StrictRight or_strict_poll_def or_strict_live_def)
  qed (use 2 in \<open>simp_all add: or_strict_live_def\<close>)
qed

lemma or_endpoint_action_witness:
  "endpoint_action (or_action (ep_impl (value_endpoint (1::nat))) (ep_impl (value_endpoint ''x'')))
     (OrInit (ep_action (value_endpoint (1::nat))) (ep_action (value_endpoint ''x'')))
     (or_live (\<lambda>_. False) (\<lambda>_. False))"
  by (rule or_endpoint_action[OF value_endpoint_action value_endpoint_action])

end
