(* ===== verification/Finch_Verbs.thy ===== *)
theory Finch_Verbs
  imports Finch_Resolve "HOL-Library.Word"
begin

unbundle bit_operations_syntax

text \<open>
  \<open>src/endpoint/syntax/verb.rs\<close>: the endpoints that check the request method, and the set
  \<open>Verbs\<close> with its bits in a 32-bit word (the \<open>bitflags\<close> struct \<open>Methods\<close>) and its iterator.
\<close>

section \<open>The bit set of methods\<close>

type_synonym methods = "32 word"

text \<open>The constants of the \<open>bitflags\<close> struct, in the order the macros of the file list them.\<close>

definition method_table :: "(http_method \<times> methods) list" where
  "method_table =
     [(GET, 0x001), (POST, 0x002), (PUT, 0x004), (DELETE, 0x008), (HEAD, 0x010),
      (OPTIONS, 0x020), (CONNECT, 0x040), (PATCH, 0x080), (TRACE, 0x100)]"

definition methods_all :: methods where
  "methods_all = fold (\<lambda>(m, b) acc. acc OR b) method_table 0"

definition methods_contains :: "methods \<Rightarrow> methods \<Rightarrow> bool" where
  "methods_contains a b = (a AND b = b)"

definition from_bits_truncate :: "32 word \<Rightarrow> methods" where
  "from_bits_truncate b = b AND methods_all"

datatype verbs = Verbs methods

definition verbs_bits :: "verbs \<Rightarrow> methods" where
  "verbs_bits v = (case v of Verbs b \<Rightarrow> b)"

text \<open>The match expands to a comparison with each method in turn; others fall through.\<close>

definition verbs_single :: "http_method \<Rightarrow> verbs option" where
  "verbs_single m = map_option Verbs (map_of method_table m)"

definition verbs_any :: verbs where
  "verbs_any = Verbs methods_all"

definition verbs_contains :: "verbs \<Rightarrow> http_method \<Rightarrow> bool" where
  "verbs_contains v m =
     (case map_of method_table m of
        Some b \<Rightarrow> methods_contains (verbs_bits v) b
      | None \<Rightarrow> False)"

definition verbs_bitor :: "verbs \<Rightarrow> verbs \<Rightarrow> verbs" where
  "verbs_bitor v w = Verbs (verbs_bits v OR verbs_bits w)"

lemma verbs_bits_simps [simp]: "verbs_bits (Verbs b) = b"
  by (simp add: verbs_bits_def)

lemma methods_all_value: "methods_all = 0x1FF"
  by (simp add: methods_all_def method_table_def)

text \<open>A bit set holds a single-bit constant exactly when that bit is set.\<close>

lemma methods_contains_bit:
  "methods_contains a (2 ^ n) \<longleftrightarrow> n < 32 \<longrightarrow> bit a n"
proof -
  have "(a AND 2 ^ n = 2 ^ n) \<longleftrightarrow> (n < 32 \<longrightarrow> bit a n)"
    unfolding bit_eq_iff[of "a AND 2 ^ n"] by (auto simp: bit_and_iff bit_exp_iff)
  then show ?thesis by (simp add: methods_contains_def)
qed

definition method_index :: "http_method \<Rightarrow> nat option" where
  "method_index m =
     (case m of GET \<Rightarrow> Some 0 | POST \<Rightarrow> Some 1 | PUT \<Rightarrow> Some 2 | DELETE \<Rightarrow> Some 3 | HEAD \<Rightarrow> Some 4
      | OPTIONS \<Rightarrow> Some 5 | CONNECT \<Rightarrow> Some 6 | PATCH \<Rightarrow> Some 7 | TRACE \<Rightarrow> Some 8
      | Extension _ \<Rightarrow> None)"

lemma method_index_bound: "method_index m = Some i \<Longrightarrow> i < 9"
  by (cases m) (auto simp: method_index_def)

lemma method_index_inj: "method_index m = Some i \<Longrightarrow> method_index m' = Some i \<Longrightarrow> m = m'"
  by (cases m; cases m') (simp_all add: method_index_def)

lemma method_table_index:
  "map_of method_table m = map_option (\<lambda>i. 2 ^ i) (method_index m)"
  by (cases m) (simp_all add: method_table_def method_index_def)

lemma verbs_contains_index:
  "verbs_contains v m \<longleftrightarrow> (\<exists>i. method_index m = Some i \<and> bit (verbs_bits v) i)"
  by (cases "method_index m")
     (auto simp: verbs_contains_def method_table_index methods_contains_bit dest: method_index_bound)

text \<open>The set operations mean what their names say, and no set has an extension method.\<close>

text \<open>
  A method is in the union of two sets of verbs exactly when it is in one of them.
\<close>

lemma verbs_contains_bitor:
  "verbs_contains (verbs_bitor v w) m \<longleftrightarrow> verbs_contains v m \<or> verbs_contains w m"
  by (auto simp: verbs_contains_index verbs_bitor_def bit_or_iff)

text \<open>
  Sets of verbs are ordered by inclusion and joined by \<open>|\<close>, so that the facts of the library about
  semilattices apply to them.
\<close>

instantiation verbs :: bounded_semilattice_sup_bot
begin

definition less_eq_verbs :: "verbs \<Rightarrow> verbs \<Rightarrow> bool" where
  "less_eq_verbs v w \<longleftrightarrow> verbs_bits v OR verbs_bits w = verbs_bits w"

definition less_verbs :: "verbs \<Rightarrow> verbs \<Rightarrow> bool" where
  "less_verbs v w \<longleftrightarrow> v \<le> w \<and> \<not> w \<le> (v :: verbs)"

definition sup_verbs :: "verbs \<Rightarrow> verbs \<Rightarrow> verbs" where
  "sup_verbs = verbs_bitor"

definition bot_verbs :: verbs where
  "bot_verbs = Verbs 0"

instance
proof
  fix u v w :: verbs
  show "v < w \<longleftrightarrow> v \<le> w \<and> \<not> w \<le> v" by (rule less_verbs_def)
  show "v \<le> v" by (simp add: less_eq_verbs_def)
  show "u \<le> w" if "u \<le> v" "v \<le> w"
    using that unfolding less_eq_verbs_def by (metis or.assoc)
  show "v = w" if "v \<le> w" "w \<le> v"
    using that by (cases v; cases w) (simp add: less_eq_verbs_def or.commute)
  show "v \<le> sup v w" "w \<le> sup v w"
    by (simp_all add: less_eq_verbs_def sup_verbs_def verbs_bitor_def or.left_commute)
  show "sup v w \<le> u" if "v \<le> u" "w \<le> u"
    using that by (simp add: less_eq_verbs_def sup_verbs_def verbs_bitor_def or.assoc)
  show "bot \<le> v" by (simp add: less_eq_verbs_def bot_verbs_def)
qed

end

lemma verbs_contains_mono: "v \<le> w \<Longrightarrow> verbs_contains v m \<Longrightarrow> verbs_contains w m"
  by (metis sup.absorb2 sup_verbs_def verbs_contains_bitor)

lemma verbs_contains_bot [simp]: "\<not> verbs_contains bot m"
  by (simp add: verbs_contains_index bot_verbs_def)

text \<open>The set a list of methods stands for, joined in any order.\<close>

lemma verbs_contains_fold:
  "verbs_contains (fold sup vs v) m \<longleftrightarrow> verbs_contains v m \<or> (\<exists>w \<in> set vs. verbs_contains w m)"
  by (induction vs arbitrary: v) (auto simp: sup_verbs_def verbs_contains_bitor)

lemma verbs_contains_extension [simp]: "\<not> verbs_contains v (Extension s)"
  by (simp add: verbs_contains_index method_index_def)

lemma bit_methods_all: "bit methods_all i \<longleftrightarrow> i < 9"
proof -
  have "methods_all = mask 9" by (simp add: methods_all_value mask_eq_exp_minus_1)
  show ?thesis unfolding \<open>methods_all = mask 9\<close> by (auto simp: bit_mask_iff)
qed

lemma verbs_contains_any: "verbs_contains verbs_any m \<longleftrightarrow> (\<forall>s. m \<noteq> Extension s)"
  by (cases m) (simp_all add: verbs_contains_index verbs_any_def bit_methods_all method_index_def)

lemma verbs_contains_single:
  "verbs_single m = Some v \<Longrightarrow> verbs_contains v m' \<longleftrightarrow> m' = m"
  by (fastforce simp: verbs_single_def method_table_index verbs_contains_index bit_exp_iff
      dest: method_index_inj method_index_bound)

section \<open>The iterator\<close>

record verbs_iter =
  vi_allowed :: methods
  vi_cursor :: methods

definition verbs_into_iter :: "verbs \<Rightarrow> verbs_iter" where
  "verbs_into_iter v = \<lparr>vi_allowed = verbs_bits v, vi_cursor = 0x001\<rparr>"

text \<open>The expansion of \<open>dump_method!\<close>: the first constant the masked bits contain.\<close>

definition dump_method :: "methods \<Rightarrow> http_method option" where
  "dump_method masked =
     map_option fst (find (\<lambda>(m, b). methods_contains masked b) method_table)"

lemma push_bit_truncate:
  "push_bit n (from_bits_truncate w) AND methods_all = push_bit n w AND methods_all"
  by (auto simp: from_bits_truncate_def bit_eq_iff bit_and_iff bit_push_bit_iff bit_methods_all)

text \<open>
  The loop ends since the lowest set bit of the cursor moves up: the number of shifts that
  empty it gets smaller.
\<close>

definition cursor_rank :: "methods \<Rightarrow> nat" where
  "cursor_rank c = (LEAST n. push_bit n c AND methods_all = 0)"

lemma cursor_rank_step:
  assumes "from_bits_truncate (push_bit 1 c) \<noteq> 0"
  shows "cursor_rank (from_bits_truncate (push_bit 1 c)) < cursor_rank c"
proof -
  let ?P = "\<lambda>c n. push_bit n c AND methods_all = (0 :: 32 word)"
  have shift: "?P (from_bits_truncate (push_bit 1 c)) n \<longleftrightarrow> ?P c (Suc n)" for n
    by (simp add: push_bit_truncate)
  have "?P c 9"
    by (auto simp: bit_eq_iff bit_and_iff bit_push_bit_iff bit_methods_all)
  then have P: "?P c (cursor_rank c)" unfolding cursor_rank_def by (rule LeastI)
  have "cursor_rank c \<noteq> 0"
  proof
    assume "cursor_rank c = 0"
    with P have "c AND methods_all = 0" by simp
    then have "push_bit 1 c AND methods_all = 0"
      using push_bit_truncate[of 1 c] by (simp add: from_bits_truncate_def)
    with assms show False by (simp add: from_bits_truncate_def)
  qed
  then obtain k where k: "cursor_rank c = Suc k" by (cases "cursor_rank c") auto
  with P shift have "?P (from_bits_truncate (push_bit 1 c)) k" by simp
  then have "cursor_rank (from_bits_truncate (push_bit 1 c)) \<le> k"
    unfolding cursor_rank_def by (rule Least_le)
  with k show ?thesis by simp
qed

function verbs_iter_next :: "verbs_iter \<Rightarrow> http_method option \<times> verbs_iter" where
  "verbs_iter_next it =
     (let masked = vi_allowed it AND vi_cursor it;
          it' = it\<lparr>vi_cursor := from_bits_truncate (push_bit 1 (vi_cursor it))\<rparr>
      in if vi_cursor it' = 0 then (None, it')
         else (case dump_method masked of
                 Some m \<Rightarrow> (Some m, it')
               | None \<Rightarrow> verbs_iter_next it'))"
  by pat_completeness auto
termination
  by (relation "measure (\<lambda>it. cursor_rank (vi_cursor it))") 
     (use cursor_rank_step in \<open>simp_all add: push_bit_eq_mult\<close>)

declare verbs_iter_next.simps [simp del]

text \<open>\<open>Iterator::collect\<close>; ten calls of \<open>next\<close> exhaust any set.\<close>

fun verbs_collect :: "nat \<Rightarrow> verbs_iter \<Rightarrow> http_method list option" where
  "verbs_collect 0 it = None"
| "verbs_collect (Suc n) it =
     (case verbs_iter_next it of
        (None, _) \<Rightarrow> Some []
      | (Some m, it') \<Rightarrow> map_option ((#) m) (verbs_collect n it'))"

lemma methods_contains_masked:
  "j < 32 \<Longrightarrow> k < 32 \<Longrightarrow> methods_contains (a AND 2 ^ j) (2 ^ k) \<longleftrightarrow> j = k \<and> bit a j"
  by (auto simp: methods_contains_bit bit_and_iff bit_exp_iff)

lemma method_table_nth:
  assumes "k < 9"
  shows "snd (method_table ! k) = 2 ^ k"
proof -
  from assms have "k \<in> {0, 1, 2, 3, 4, 5, 6, 7, 8}" by auto
  then show ?thesis by (auto simp: method_table_def)
qed

lemma method_table_length [simp]: "length method_table = 9"
  by (simp add: method_table_def)

lemma dump_method_masked:
  assumes "j < 9"
  shows "dump_method (a AND 2 ^ j) = (if bit a j then Some (fst (method_table ! j)) else None)"
proof -
  let ?P = "\<lambda>(m :: http_method, b). methods_contains (a AND 2 ^ j) b"
  have P: "?P (method_table ! k) \<longleftrightarrow> j = k \<and> bit a j" if "k < 9" for k
    using assms that methods_contains_masked[of j k a]
    by (simp add: case_prod_beta method_table_nth)
  show ?thesis
  proof (cases "bit a j")
    case True
    then have "find ?P method_table = Some (method_table ! j)"
      unfolding find_Some_iff using P assms by (intro exI[of _ j]) auto
    with True show ?thesis by (simp add: dump_method_def)
  next
    case False
    then have "find ?P method_table = None"
      unfolding find_None_iff using P by (metis in_set_conv_nth method_table_length)
    with False show ?thesis by (simp add: dump_method_def)
  qed
qed

lemma cursor_next:
  assumes "j < 8"
  shows "from_bits_truncate (push_bit 1 (2 ^ j)) = 2 ^ Suc j"
proof -
  have shift: "push_bit 1 (2 ^ j) = (2 ^ Suc j :: 32 word)" by simp
  have "bit (2 ^ Suc j AND methods_all) n \<longleftrightarrow> bit (2 ^ Suc j :: 32 word) n" for n
    using assms by (auto simp: bit_and_iff bit_exp_iff bit_methods_all simp del: power_Suc)
  then show ?thesis unfolding from_bits_truncate_def shift by (intro bit_eqI)
qed

lemma cursor_next_last: "from_bits_truncate (push_bit 1 (2 ^ 8)) = 0"
  by (simp add: from_bits_truncate_def methods_all_value)

lemma verbs_iter_next_at:
  assumes "j < 8"
  shows "verbs_iter_next \<lparr>vi_allowed = a, vi_cursor = 2 ^ j\<rparr> =
    (if bit a j then
       (Some (fst (method_table ! j)), \<lparr>vi_allowed = a, vi_cursor = 2 ^ Suc j\<rparr>)
     else verbs_iter_next \<lparr>vi_allowed = a, vi_cursor = 2 ^ Suc j\<rparr>)"
proof -
  have "bit (2 ^ Suc j :: 32 word) (Suc j)" using assms by (simp add: bit_exp_iff del: power_Suc)
  then have "(2 ^ Suc j :: 32 word) \<noteq> 0" by (metis bit_0_eq bot_apply bot_bool_def)
  with assms show ?thesis
    by (subst verbs_iter_next.simps) (simp only: Let_def verbs_iter.select_convs
        verbs_iter.update_convs cursor_next dump_method_masked less_SucI if_False if_True
        option.case split: if_split, simp add: dump_method_masked del: power_Suc)
qed

lemma verbs_iter_next_last:
  "verbs_iter_next \<lparr>vi_allowed = a, vi_cursor = 2 ^ 8\<rparr> = (None, \<lparr>vi_allowed = a, vi_cursor = 0\<rparr>)"
  by (subst verbs_iter_next.simps)
     (simp only: Let_def verbs_iter.select_convs verbs_iter.update_convs cursor_next_last if_True simp_thms)

text \<open>
  What iterating a set yields: its methods in declaration order, but never \<open>TRACE\<close>, since the
  cursor that would test that bit is emptied by the shift before the test.
\<close>

lemma verbs_collect_next:
  "verbs_iter_next it = verbs_iter_next it' \<Longrightarrow> verbs_collect (Suc n) it = verbs_collect (Suc n) it'"
  by simp

lemma method_table_step:
  assumes "j < 8"
  shows "drop j method_table = method_table ! j # drop (Suc j) method_table"
    and "verbs_contains (Verbs a) (fst (method_table ! j)) \<longleftrightarrow> bit a j"
    and "fst (method_table ! j) \<noteq> TRACE"
proof -
  from assms show "drop j method_table = method_table ! j # drop (Suc j) method_table"
    by (simp add: Cons_nth_drop_Suc)
  from assms have "j \<in> {0, 1, 2, 3, 4, 5, 6, 7}" by auto
  then show "verbs_contains (Verbs a) (fst (method_table ! j)) \<longleftrightarrow> bit a j"
    and "fst (method_table ! j) \<noteq> TRACE"
    by (auto simp: method_table_def verbs_contains_index method_index_def)
qed

lemma verbs_collect_at:
  "j \<le> 8 \<Longrightarrow> 8 - j < n \<Longrightarrow>
     verbs_collect n \<lparr>vi_allowed = a, vi_cursor = 2 ^ j\<rparr> =
       Some (filter (\<lambda>m. verbs_contains (Verbs a) m \<and> m \<noteq> TRACE) (map fst (drop j method_table)))"
proof (induction "8 - j" arbitrary: j n)
  case 0
  then obtain n' where "n = Suc n'" "j = 8" by (cases n) auto
  then show ?case using verbs_iter_next_last[of a] by (simp add: method_table_def)
next
  case (Suc d)
  then have j: "j < 8" by simp
  from Suc.prems obtain n' where n: "n = Suc n'" by (cases n) auto
  have IH: "verbs_collect k \<lparr>vi_allowed = a, vi_cursor = 2 ^ Suc j\<rparr> =
      Some (filter (\<lambda>m. verbs_contains (Verbs a) m \<and> m \<noteq> TRACE) (map fst (drop (Suc j) method_table)))"
    if "8 - Suc j < k" for k
    by (rule Suc.hyps(1)) (use Suc.hyps(2) j that in simp_all)
  show ?case
  proof (cases "bit a j")
    case True
    have "verbs_collect n' \<lparr>vi_allowed = a, vi_cursor = 2 ^ Suc j\<rparr> =
      Some (filter (\<lambda>m. verbs_contains (Verbs a) m \<and> m \<noteq> TRACE) (map fst (drop (Suc j) method_table)))"
      by (rule IH) (use Suc.prems n j in simp)
    with True n j show ?thesis
      by (simp add: verbs_iter_next_at method_table_step del: power_Suc)
  next
    case False
    then have "verbs_collect n \<lparr>vi_allowed = a, vi_cursor = 2 ^ j\<rparr> =
        verbs_collect n \<lparr>vi_allowed = a, vi_cursor = 2 ^ Suc j\<rparr>"
      unfolding n by (intro verbs_collect_next) (simp add: verbs_iter_next_at[OF j] del: power_Suc)
    also have "\<dots> =
      Some (filter (\<lambda>m. verbs_contains (Verbs a) m \<and> m \<noteq> TRACE) (map fst (drop (Suc j) method_table)))"
      by (rule IH) (use Suc.prems in simp)
    finally show ?thesis using False j by (simp add: method_table_step del: power_Suc)
  qed
qed

text \<open>
  C23: Iterating a set of verbs ends after eight steps at most and yields the methods of the set in
  the order of their bits, except TRACE, which it never yields.
\<close>

lemma verbs_iteration:
  "verbs_collect 9 (verbs_into_iter v) =
     Some (filter (\<lambda>m. verbs_contains v m \<and> m \<noteq> TRACE) (map fst method_table))"
  using verbs_collect_at[of 0 9 "verbs_bits v"]
  by (cases v) (simp add: verbs_into_iter_def)

section \<open>The endpoints\<close>

datatype match_verbs_action = MatchVerbsAction verbs

definition match_verbs_preflight :: "(match_verbs_action, 'h, 'j, unit) oneshot_fn" where
  "match_verbs_preflight a cx cur =
     (case a of MatchVerbsAction allowed \<Rightarrow>
       Ret (if verbs_contains allowed (rq_method (cx_request cx)) then Ok ()
            else Err (method_not_allowed ''invalid method''), cur))"

definition verbs_endpoint :: "verbs \<Rightarrow> (match_verbs_action oneshot, 'h, 'j, 'bd, unit) endpoint" where
  "verbs_endpoint allowed =
     \<lparr>ep_action = into_action (MatchVerbsAction allowed), ep_impl = oneshot_action match_verbs_preflight\<rparr>"

text \<open>\<open>define_verbs!\<close> makes nine endpoints, one for each method constant \<open>m\<close>.\<close>

datatype match_verb_action = MatchVerbAction http_method

definition match_verb_preflight :: "(match_verb_action, 'h, 'j, unit) oneshot_fn" where
  "match_verb_preflight a cx cur =
     (case a of MatchVerbAction m \<Rightarrow>
       Ret (if rq_method (cx_request cx) = m then Ok ()
            else Err (method_not_allowed ''invalid method''), cur))"

definition verb_endpoint :: "http_method \<Rightarrow> (match_verb_action oneshot, 'h, 'j, 'bd, unit) endpoint" where
  "verb_endpoint m =
     \<lparr>ep_action = into_action (MatchVerbAction m), ep_impl = oneshot_action match_verb_preflight\<rparr>"

lemma verbs_endpoint_action:
  "endpoint_action (ep_impl (verbs_endpoint v)) (ep_action (verbs_endpoint v)) (\<lambda>_. False)"
  unfolding verbs_endpoint_def
  by (simp, rule oneshot_endpoint_action) (simp add: match_verbs_preflight_def)

lemma verb_endpoint_action:
  "endpoint_action (ep_impl (verb_endpoint m)) (ep_action (verb_endpoint m)) (\<lambda>_. False)"
  unfolding verb_endpoint_def
  by (simp, rule oneshot_endpoint_action) (simp add: match_verb_preflight_def)

interpretation verbs_act: endpoint_action
  "ep_impl (verbs_endpoint v)" "ep_action (verbs_endpoint v)" "\<lambda>_. False" for v
  by (rule verbs_endpoint_action)

interpretation verb_act: endpoint_action
  "ep_impl (verb_endpoint m)" "ep_action (verb_endpoint m)" "\<lambda>_. False" for m
  by (rule verb_endpoint_action)

text \<open>The set endpoint for one method is the endpoint of that method.\<close>

text \<open>
  The endpoint for a set with a single verb resolves exactly as the endpoint of that verb
  does.
\<close>

lemma verbs_single_endpoint:
  "verbs_single m = Some v \<Longrightarrow>
     resolves (ep_impl (verbs_endpoint v)) (ep_action (verbs_endpoint v)) cur ac r cur' ac' \<longleftrightarrow>
     resolves (ep_impl (verb_endpoint m)) (ep_action (verb_endpoint m)) cur ac r cur' ac'"
  by (simp add: verbs_endpoint_def verb_endpoint_def resolves_oneshot match_verbs_preflight_def
      match_verb_preflight_def verbs_contains_single)

lemma verbs_single_endpoint_witness:
  "\<exists>v. verbs_single PUT = Some v \<and>
     (\<forall>cur ac r cur' ac'.
       resolves (ep_impl (verbs_endpoint v)) (ep_action (verbs_endpoint v)) cur ac r cur' ac' \<longleftrightarrow>
       resolves (ep_impl (verb_endpoint PUT)) (ep_action (verb_endpoint PUT)) cur ac r cur' ac')"
proof -
  obtain v where v: "verbs_single PUT = Some v" by (simp add: verbs_single_def method_table_def)
  with verbs_single_endpoint[OF v] show ?thesis by blast
qed

end
