(* ===== verification/Finch_Encoded.thy ===== *)
theory Finch_Encoded
  imports Finch_Errors
begin

text \<open>
  \<open>src/endpoint/syntax/encoded.rs\<close>: percent-encoded strings and the conversions out of them.
  The \<open>percent-encoding\<close> crate is a parameter with its documented behaviour as laws; the
  parsing of booleans and integers is that of the standard library's \<open>FromStr\<close>.
\<close>

section \<open>The percent-encoding crate\<close>

text \<open>
  \<open>pc_encode extra s\<close> is \<open>percent_encode\<close> with the set \<open>[DEFAULT_ENCODE_SET] | extra\<close>; that set
  has no percent sign, so encoding is undone by decoding for strings without one only.
\<close>

record percent_api =
  pc_decode :: "string \<Rightarrow> string"
  pc_decode_lossy :: "string \<Rightarrow> string"
  pc_encode :: "string \<Rightarrow> string \<Rightarrow> string"

definition percent_laws :: "percent_api \<Rightarrow> bool" where
  "percent_laws P \<longleftrightarrow>
     (\<forall>s. CHR ''%'' \<notin> set s \<longrightarrow> pc_decode P s = s) \<and>
     (\<forall>x s. CHR ''%'' \<notin> set s \<longrightarrow> pc_decode P (pc_encode P x s) = s) \<and>
     (\<forall>x s. CHR ''/'' \<in> set x \<longrightarrow> CHR ''/'' \<notin> set (pc_encode P x s)) \<and>
     (\<forall>x s. s \<noteq> [] \<longrightarrow> pc_encode P x s \<noteq> [])"

lemma percent_lawsD:
  assumes "percent_laws P"
  shows "CHR ''%'' \<notin> set s \<Longrightarrow> pc_decode P s = s"
    and "CHR ''%'' \<notin> set s \<Longrightarrow> pc_decode P (pc_encode P x s) = s"
    and "CHR ''/'' \<in> set x \<Longrightarrow> CHR ''/'' \<notin> set (pc_encode P x s)"
    and "s \<noteq> [] \<Longrightarrow> pc_encode P x s \<noteq> []"
  using assms unfolding percent_laws_def by simp_all

section \<open>EncodedStr\<close>

datatype encoded_str = EncodedStr string

definition as_bytes :: "encoded_str \<Rightarrow> string" where
  "as_bytes e = (case e of EncodedStr b \<Rightarrow> b)"

definition encoded_eq_str :: "encoded_str \<Rightarrow> string \<Rightarrow> bool" where
  "encoded_eq_str e other = (as_bytes e = other)"

definition percent_decode :: "percent_api \<Rightarrow> encoded_str \<Rightarrow> (string, utf8_error) result" where
  "percent_decode P e = from_utf8 (pc_decode P (as_bytes e))"

definition percent_decode_lossy :: "percent_api \<Rightarrow> encoded_str \<Rightarrow> string" where
  "percent_decode_lossy P e = pc_decode_lossy P (as_bytes e)"

lemma as_bytes_simps [simp]: "as_bytes (EncodedStr s) = s"
  by (simp add: as_bytes_def)

section \<open>The standard library's parsers\<close>

definition parse_bool :: "string \<Rightarrow> (bool, string) result" where
  "parse_bool s =
     (if s = ''true'' then Ok True
      else if s = ''false'' then Ok False
      else Err ''provided string was not `true` or `false`'')"

datatype parse_int_error = IntEmpty | InvalidDigit | IntOverflow | IntUnderflow

definition parse_int_error_to_string :: "parse_int_error \<Rightarrow> string" where
  "parse_int_error_to_string e =
     (case e of
        IntEmpty \<Rightarrow> ''cannot parse integer from empty string''
      | InvalidDigit \<Rightarrow> ''invalid digit found in string''
      | IntOverflow \<Rightarrow> ''number too large to fit in target type''
      | IntUnderflow \<Rightarrow> ''number too small to fit in target type'')"

definition to_digit :: "char \<Rightarrow> int option" where
  "to_digit c =
     (let n = of_char c :: nat in if 48 \<le> n \<and> n \<le> 57 then Some (int (n - 48)) else None)"

text \<open>
  The digits after the sign, accumulated in the target type with checked operations;
  \<open>sg\<close> is 1 or -1.
\<close>

fun parse_digits :: "int \<Rightarrow> int \<Rightarrow> int \<Rightarrow> int \<Rightarrow> string \<Rightarrow> (int, parse_int_error) result" where
  "parse_digits lo hi sg acc [] = Ok acc"
| "parse_digits lo hi sg acc (c # cs) =
     (case to_digit c of
        None \<Rightarrow> Err InvalidDigit
      | Some d \<Rightarrow>
          let m = acc * 10; r = m + sg * d in
          if m < lo \<or> r < lo then Err IntUnderflow
          else if hi < m \<or> hi < r then Err IntOverflow
          else parse_digits lo hi sg r cs)"

definition parse_int :: "int \<Rightarrow> int \<Rightarrow> string \<Rightarrow> (int, parse_int_error) result" where
  "parse_int lo hi s =
     (case s of
        [] \<Rightarrow> Err IntEmpty
      | c # cs \<Rightarrow>
          if c = CHR ''+'' \<and> cs \<noteq> [] then parse_digits lo hi 1 0 cs
          else if c = CHR ''-'' \<and> cs \<noteq> [] \<and> lo < 0 then parse_digits lo hi (-1) 0 cs
          else parse_digits lo hi 1 0 s)"

text \<open>The unsigned and signed types of \<open>w\<close> bits.\<close>

definition parse_unsigned :: "nat \<Rightarrow> string \<Rightarrow> (int, parse_int_error) result" where
  "parse_unsigned w = parse_int 0 (2 ^ w - 1)"

definition parse_signed :: "nat \<Rightarrow> string \<Rightarrow> (int, parse_int_error) result" where
  "parse_signed w = parse_int (- (2 ^ (w - 1))) (2 ^ (w - 1) - 1)"

lemma parse_digits_range:
  "parse_digits lo hi sg acc s = Ok n \<Longrightarrow> lo \<le> acc \<Longrightarrow> acc \<le> hi \<Longrightarrow> lo \<le> n \<and> n \<le> hi"
  by (induction lo hi sg acc s rule: parse_digits.induct)
     (auto simp: Let_def split: option.splits if_splits)

lemma parse_int_range:
  "parse_int lo hi s = Ok n \<Longrightarrow> lo \<le> 0 \<Longrightarrow> 0 \<le> hi \<Longrightarrow> lo \<le> n \<and> n \<le> hi"
  by (auto simp: parse_int_def simp del: parse_digits.simps dest!: parse_digits_range
      split: list.splits if_splits)

lemma parse_digits_append:
  "parse_digits lo hi sg acc (s @ t) =
     (case parse_digits lo hi sg acc s of Err e \<Rightarrow> Err e | Ok a \<Rightarrow> parse_digits lo hi sg a t)"
  by (induction lo hi sg acc s rule: parse_digits.induct)
     (auto simp: Let_def split: option.splits)

lemma to_digit_char: "d < 10 \<Longrightarrow> to_digit (char_of (48 + d :: nat)) = Some (int d)"
  by (simp add: to_digit_def of_char_of)

lemma parse_digits_show:
  "int n \<le> hi \<Longrightarrow> lo \<le> 0 \<Longrightarrow> parse_digits lo hi 1 0 (show_nat n) = Ok (int n)"
proof (induction n rule: show_nat.induct)
  case (1 n)
  show ?case
  proof (cases "n < 10")
    case True
    with 1 show ?thesis by (simp add: show_nat.simps[of n] to_digit_char Let_def)
  next
    case False
    then have "int (n div 10) \<le> hi" using 1 by linarith
    with 1 False have "parse_digits lo hi 1 0 (show_nat (n div 10)) = Ok (int (n div 10))" by simp
    moreover have "int (n div 10) * 10 + int (n mod 10) = int n"
      by (simp add: zdiv_int zmod_int)
    ultimately show ?thesis
      using False 1 to_digit_char[of "n mod 10"]
      by (simp add: show_nat.simps[of n] parse_digits_append Let_def)
  qed
qed

lemma show_nat_digits: "c \<in> set (show_nat n) \<Longrightarrow> \<exists>d < 10. c = char_of (48 + d :: nat)"
proof (induction n rule: show_nat.induct)
  case (1 n)
  then show ?case
    by (cases "n < 10") (auto simp: show_nat.simps[of n] intro: exI[of _ "n mod 10"])
qed

lemma show_nat_nonempty [simp]: "show_nat n \<noteq> []"
  by (simp add: show_nat.simps[of n])

lemma show_nat_chars: "c \<in> set (show_nat n) \<Longrightarrow> 48 \<le> (of_char c :: nat) \<and> (of_char c :: nat) \<le> 57"
  by (drule show_nat_digits) (auto simp: of_char_of take_bit_eq_mod)

lemma show_nat_no_char: "(of_char c :: nat) < 48 \<Longrightarrow> c \<notin> set (show_nat n)"
  using show_nat_chars[of c n] by auto

lemma parse_int_show: "int n \<le> hi \<Longrightarrow> lo \<le> 0 \<Longrightarrow> parse_int lo hi (show_nat n) = Ok (int n)"
proof -
  assume a: "int n \<le> hi" "lo \<le> 0"
  obtain c cs where s: "show_nat n = c # cs" by (cases "show_nat n") simp_all
  have "c \<noteq> CHR ''+''" "c \<noteq> CHR ''-''"
    using show_nat_no_char[of "CHR ''+''" n] show_nat_no_char[of "CHR ''-''" n] s by auto
  with parse_digits_show[OF a] show ?thesis by (simp add: parse_int_def s)
qed

section \<open>FromEncodedStr\<close>

type_synonym 'a from_encoded_str = "encoded_str \<Rightarrow> ('a, http_error) result"

text \<open>The macro's instances: decode, then \<open>FromStr\<close>; the parse error is kept by its text.\<close>

definition from_encoded_parsed ::
  "percent_api \<Rightarrow> ('e \<Rightarrow> string) \<Rightarrow> (string \<Rightarrow> ('a, 'e) result) \<Rightarrow> 'a from_encoded_str" where
  "from_encoded_parsed P disp from_str s =
     (case percent_decode P s of
        Err cause \<Rightarrow> Err (DecodeEncodedStrError cause)
      | Ok d \<Rightarrow> map_err (\<lambda>cause. ParseEncodedStrError (disp cause)) (from_str d))"

definition from_encoded_bool :: "percent_api \<Rightarrow> bool from_encoded_str" where
  "from_encoded_bool P = from_encoded_parsed P (\<lambda>s. s) parse_bool"

definition from_encoded_unsigned :: "percent_api \<Rightarrow> nat \<Rightarrow> int from_encoded_str" where
  "from_encoded_unsigned P w = from_encoded_parsed P parse_int_error_to_string (parse_unsigned w)"

definition from_encoded_signed :: "percent_api \<Rightarrow> nat \<Rightarrow> int from_encoded_str" where
  "from_encoded_signed P w = from_encoded_parsed P parse_int_error_to_string (parse_signed w)"

text \<open>\<open>String\<close> and \<open>PathBuf\<close> (which keeps the string as it is).\<close>

definition from_encoded_string :: "percent_api \<Rightarrow> string from_encoded_str" where
  "from_encoded_string P s = map_err DecodeEncodedStrError (percent_decode P s)"

datatype path_buf = PathBuf string

definition from_encoded_path_buf :: "percent_api \<Rightarrow> path_buf from_encoded_str" where
  "from_encoded_path_buf P s =
     map_err DecodeEncodedStrError (map_ok PathBuf (percent_decode P s))"

text \<open>A printed number is read back from a path segment when it fits into the type.\<close>

text \<open>
  C21: A number below two to the power of the width, printed in decimal as a path segment, is read
  back as itself.
\<close>

lemma from_encoded_unsigned_show:
  assumes "percent_laws P" and "n < 2 ^ w"
  shows "from_encoded_unsigned P w (EncodedStr (show_nat n)) = Ok (int n)"
proof -
  have "pc_decode P (show_nat n) = show_nat n"
    by (rule percent_lawsD(1)[OF assms(1)]) (simp add: show_nat_no_char)
  moreover have "from_utf8 (show_nat n) = Ok (show_nat n)"
    by (rule from_utf8_ascii) (use show_nat_chars in \<open>fastforce simp: str_is_ascii_def list_all_iff\<close>)
  moreover have "int n \<le> 2 ^ w - 1"
  proof -
    have "int n < int (2 ^ w)" using assms(2) by (simp only: of_nat_less_iff)
    then show ?thesis by simp
  qed
  ultimately show ?thesis
    by (simp add: from_encoded_unsigned_def from_encoded_parsed_def percent_decode_def
        parse_unsigned_def parse_int_show)
qed

text \<open>Whatever the segment is, the number is in the range of the type.\<close>

lemma from_encoded_unsigned_range:
  "from_encoded_unsigned P w s = Ok n \<Longrightarrow> 0 \<le> n \<and> n < 2 ^ w"
  by (auto simp: from_encoded_unsigned_def from_encoded_parsed_def parse_unsigned_def
      dest!: parse_int_range split: result.splits)

text \<open>
  The reference for unsigned numbers: the value of the decimal digits, without a bound, after an
  optional plus sign.
\<close>

fun digits_value :: "int \<Rightarrow> string \<Rightarrow> int option" where
  "digits_value acc [] = Some acc"
| "digits_value acc (c # cs) =
     (case to_digit c of None \<Rightarrow> None | Some d \<Rightarrow> digits_value (acc * 10 + d) cs)"

definition unsigned_notation :: "string \<Rightarrow> int option" where
  "unsigned_notation s =
     (case s of [] \<Rightarrow> None | c # cs \<Rightarrow> digits_value 0 (if c = CHR ''+'' \<and> cs \<noteq> [] then cs else s))"

lemma to_digit_nonneg: "to_digit c = Some d \<Longrightarrow> 0 \<le> d"
  by (auto simp: to_digit_def Let_def split: if_splits)

lemma digits_value_mono: "digits_value acc cs = Some n \<Longrightarrow> 0 \<le> acc \<Longrightarrow> acc \<le> n"
proof (induction acc cs rule: digits_value.induct)
  case (2 acc c cs)
  then obtain d where "to_digit c = Some d" "digits_value (acc * 10 + d) cs = Some n"
    by (auto split: option.splits)
  with 2 to_digit_nonneg[of c d] show ?case by fastforce
qed simp

lemma parse_digits_unsigned:
  "0 \<le> acc \<Longrightarrow> acc \<le> hi \<Longrightarrow> parse_digits 0 hi 1 acc cs = Ok n \<longleftrightarrow> digits_value acc cs = Some n \<and> n \<le> hi"
proof (induction acc cs rule: digits_value.induct)
  case (2 acc c cs)
  show ?case
  proof (cases "to_digit c")
    case (Some d)
    with to_digit_nonneg have d: "0 \<le> d" by blast
    show ?thesis
    proof (cases "acc * 10 + d \<le> hi")
      case True
      with Some d 2 show ?thesis by (simp add: Let_def)
    next
      case False
      moreover from this d 2(2) have "digits_value (acc * 10 + d) cs = Some n \<Longrightarrow> hi < n"
        using digits_value_mono[of "acc * 10 + d" cs n] by linarith
      ultimately show ?thesis using Some d 2(2) by (auto simp: Let_def)
    qed
  qed simp
qed auto

lemma parse_int_unsigned:
  "0 \<le> hi \<Longrightarrow> parse_int 0 hi s = Ok n \<longleftrightarrow> unsigned_notation s = Some n \<and> n \<le> hi"
  by (auto simp: parse_int_def unsigned_notation_def parse_digits_unsigned
      simp del: parse_digits.simps digits_value.simps split: list.splits if_splits)

text \<open>
  C22: A segment is read as an unsigned integer of some width with a value exactly when its
  percent-decoded text is valid UTF-8 and denotes that value in decimal notation, with an optional
  plus sign, and the value is below two to the power of the width.
\<close>

lemma from_encoded_unsigned_exact:
  "from_encoded_unsigned P w s = Ok n \<longleftrightarrow>
     0 \<le> n \<and> n < 2 ^ w \<and> (\<exists>t. percent_decode P s = Ok t \<and> unsigned_notation t = Some n)"
proof -
  have "from_encoded_unsigned P w s = Ok n \<longleftrightarrow> (\<exists>t. percent_decode P s = Ok t \<and> parse_int 0 (2 ^ w - 1) t = Ok n)"
    by (cases "percent_decode P s")
       (auto simp: from_encoded_unsigned_def from_encoded_parsed_def parse_unsigned_def map_err_def split: result.splits)
  with from_encoded_unsigned_range[of P w s n] show ?thesis
    by (auto simp: parse_int_unsigned)
qed

lemma from_encoded_signed_range:
  "from_encoded_signed P w s = Ok n \<Longrightarrow> - (2 ^ (w - 1)) \<le> n \<and> n < 2 ^ (w - 1)"
  by (auto simp: from_encoded_signed_def from_encoded_parsed_def parse_signed_def
      dest!: parse_int_range split: result.splits)

text \<open>Conversions fail with a client error.\<close>

lemma from_encoded_parsed_status:
  "from_encoded_parsed P disp from_str s = Err e \<Longrightarrow> status_code_of e = BAD_REQUEST"
  by (auto simp: from_encoded_parsed_def split: result.splits)

lemma from_encoded_string_status:
  "from_encoded_string P s = Err e \<Longrightarrow> status_code_of e = BAD_REQUEST"
  by (auto simp: from_encoded_string_def)

section \<open>An instance of the laws\<close>

text \<open>A percent encoder written out, which shows that the laws can hold.\<close>

definition hex_digit :: "nat \<Rightarrow> char" where
  "hex_digit n = (if n < 10 then char_of (48 + n) else char_of (55 + n))"

definition hex_value :: "char \<Rightarrow> nat option" where
  "hex_value c =
     (let n = of_char c in
      if 48 \<le> n \<and> n \<le> 57 then Some (n - 48)
      else if 65 \<le> n \<and> n \<le> 70 then Some (n - 55)
      else if 97 \<le> n \<and> n \<le> 102 then Some (n - 87) else None)"

definition in_default_set :: "char \<Rightarrow> bool" where
  "in_default_set c \<longleftrightarrow>
     (of_char c :: nat) < 32 \<or> 126 < (of_char c :: nat) \<or> of_char c \<in> {32, 34, 35, 60, 62, 96, 63, 123, 125 :: nat}"

definition encode_ref :: "string \<Rightarrow> string \<Rightarrow> string" where
  "encode_ref x s = concat (map (\<lambda>c.
     if in_default_set c \<or> c \<in> set x then
       [CHR ''%'', hex_digit (of_char c div 16), hex_digit (of_char c mod 16)]
     else [c]) s)"

fun decode_ref :: "string \<Rightarrow> string" where
  "decode_ref (c # a # b # s) =
     (if c = CHR ''%'' then
        (case (hex_value a, hex_value b) of
           (Some h, Some l) \<Rightarrow> char_of (16 * h + l) # decode_ref s
         | _ \<Rightarrow> c # decode_ref (a # b # s))
      else c # decode_ref (a # b # s))"
| "decode_ref s = s"

definition percent_ref :: percent_api where
  "percent_ref = \<lparr>pc_decode = decode_ref, pc_decode_lossy = decode_ref, pc_encode = encode_ref\<rparr>"

lemma hex_value_digit: "n < 16 \<Longrightarrow> hex_value (hex_digit n) = Some n"
  by (auto simp: hex_value_def hex_digit_def Let_def of_char_of take_bit_eq_mod)

lemma decode_ref_Cons: "CHR ''%'' \<noteq> c \<Longrightarrow> decode_ref (c # s) = c # decode_ref s"
proof -
  assume "CHR ''%'' \<noteq> c"
  then show ?thesis by (cases s rule: decode_ref.cases; cases s) auto
qed

lemma decode_ref_plain: "CHR ''%'' \<notin> set s \<Longrightarrow> decode_ref s = s"
  by (induction s) (simp_all add: decode_ref_Cons)

lemma of_char_bound: "(of_char c :: nat) < 256"
  by (metis of_char_mod_256 mod_less_divisor zero_less_numeral)

lemma decode_encode_ref: "CHR ''%'' \<notin> set s \<Longrightarrow> decode_ref (encode_ref x s) = s"
proof (induction s)
  case (Cons c s)
  have "hex_value (hex_digit (of_char c div 16)) = Some (of_char c div 16)"
    by (rule hex_value_digit) (use of_char_bound[of c] in linarith)
  moreover have "hex_value (hex_digit (of_char c mod 16)) = Some (of_char c mod 16)"
    by (rule hex_value_digit) simp
  ultimately show ?case using Cons by (auto simp: encode_ref_def decode_ref_Cons)
qed (simp add: encode_ref_def)

lemma hex_digit_no_slash: "n < 16 \<Longrightarrow> hex_digit n \<noteq> CHR ''/''"
proof
  assume "n < 16" and "hex_digit n = CHR ''/''"
  then have "hex_value (CHR ''/'') = Some n" using hex_value_digit by metis
  then show False by (simp add: hex_value_def)
qed

lemma encode_ref_no_slash: "CHR ''/'' \<in> set x \<Longrightarrow> CHR ''/'' \<notin> set (encode_ref x s)"
proof (induction s)
  case (Cons c s)
  have "(of_char c :: nat) div 16 < 16" using of_char_bound[of c] by linarith
  then have "hex_digit (of_char c div 16) \<noteq> CHR ''/''" "hex_digit (of_char c mod 16) \<noteq> CHR ''/''"
    by (simp_all add: hex_digit_no_slash)
  with Cons show ?case by (auto simp: encode_ref_def)
qed (simp add: encode_ref_def)

lemma encode_ref_nonempty: "s \<noteq> [] \<Longrightarrow> encode_ref x s \<noteq> []"
  by (cases s) (simp_all add: encode_ref_def)

lemma percent_ref_laws: "percent_laws percent_ref"
  unfolding percent_laws_def percent_ref_def percent_api.select_convs
  using decode_ref_plain decode_encode_ref encode_ref_no_slash encode_ref_nonempty by blast

lemma from_encoded_unsigned_show_witness:
  "from_encoded_unsigned percent_ref 8 (EncodedStr ''255'') = Ok 255"
proof -
  have "show_nat 255 = ''255''" by code_simp
  with from_encoded_unsigned_show[OF percent_ref_laws, of 255 8] show ?thesis by simp
qed

lemma from_encoded_unsigned_demo:
  "from_encoded_unsigned percent_ref 8 (EncodedStr ''+7'') = Ok 7 \<and>
   from_encoded_unsigned percent_ref 8 (EncodedStr ''%32%355'') = Ok 255 \<and>
   from_encoded_unsigned percent_ref 8 (EncodedStr ''256'') =
     Err (ParseEncodedStrError ''number too large to fit in target type'')"
  by (intro conjI; code_simp)

end
