(* ===== verification/Finch_Syntax.thy ===== *)
theory Finch_Syntax
  imports Finch_Encoded Finch_Resolve Finch_Ext_And Finch_Verbs
begin

text \<open>
  \<open>src/endpoint/syntax.rs\<close>: the endpoints that match the request path, and the extraction code
  that \<open>finchers-macros\<close> generates for a path literal.
\<close>

section \<open>Segments\<close>

text \<open>\<open>segment(s)\<close>, with its debug assertion: the percent-encoded form is compared.\<close>

datatype match_segment = MatchSegment string
datatype match_segment_action = MatchSegmentAction string

definition segment :: "percent_api \<Rightarrow> string \<Rightarrow> match_segment run" where
  "segment P s = (if s = [] then Panic else Ret (MatchSegment (pc_encode P ''/'' s)))"

definition match_segment_preflight :: "(match_segment_action, 'h, 'j, unit) oneshot_fn" where
  "match_segment_preflight a cx cur =
     (case a of MatchSegmentAction encoded \<Rightarrow>
        (case next_segment (cx_path cx) cur of
           Panic \<Rightarrow> Panic
         | Ret (None, cur') \<Rightarrow> Ret (Err (not_found ''not matched''), cur')
         | Ret (Some s, cur') \<Rightarrow>
             Ret (if encoded_eq_str (EncodedStr s) encoded then Ok ()
                  else Err (not_found ''not matched''), cur')))"

definition segment_endpoint ::
  "match_segment \<Rightarrow> (match_segment_action oneshot, 'h, 'j, 'bd, unit) endpoint" where
  "segment_endpoint m =
     (case m of MatchSegment encoded \<Rightarrow>
        \<lparr>ep_action = into_action (MatchSegmentAction encoded),
         ep_impl = oneshot_action match_segment_preflight\<rparr>)"

section \<open>End of the path\<close>

datatype match_eos_action = MatchEosAction

definition match_eos_preflight :: "(match_eos_action, 'h, 'j, unit) oneshot_fn" where
  "match_eos_preflight a cx cur =
     (case next_segment (cx_path cx) cur of
        Panic \<Rightarrow> Panic
      | Ret (None, cur') \<Rightarrow> Ret (Ok (), cur')
      | Ret (Some s, cur') \<Rightarrow> Ret (Err (not_found ''not matched''), cur'))"

definition eos_endpoint :: "(match_eos_action oneshot, 'h, 'j, 'bd, unit) endpoint" where
  "eos_endpoint =
     \<lparr>ep_action = into_action MatchEosAction, ep_impl = oneshot_action match_eos_preflight\<rparr>"

section \<open>Parameters\<close>

datatype param_action = ParamAction

definition param_preflight :: "'a from_encoded_str \<Rightarrow> (param_action, 'h, 'j, 'a one) oneshot_fn" where
  "param_preflight from_encoded a cx cur =
     (case next_segment (cx_path cx) cur of
        Panic \<Rightarrow> Panic
      | Ret (None, cur') \<Rightarrow> Ret (Err (not_found ''not matched''), cur')
      | Ret (Some s, cur') \<Rightarrow> Ret (map_ok One (from_encoded (EncodedStr s)), cur'))"

definition param_endpoint ::
  "'a from_encoded_str \<Rightarrow> (param_action oneshot, 'h, 'j, 'bd, 'a one) endpoint" where
  "param_endpoint from_encoded =
     \<lparr>ep_action = into_action ParamAction, ep_impl = oneshot_action (param_preflight from_encoded)\<rparr>"

datatype remains_action = RemainsAction

definition remains_preflight :: "'a from_encoded_str \<Rightarrow> (remains_action, 'h, 'j, 'a one) oneshot_fn" where
  "remains_preflight from_encoded a cx cur =
     (case remaining_path (cx_path cx) cur of
        Panic \<Rightarrow> Panic
      | Ret s \<Rightarrow>
          let result = from_encoded (EncodedStr s) in
          (case count_segments (cx_path cx) cur of
             Panic \<Rightarrow> Panic
           | Ret (_, cur') \<Rightarrow> Ret (map_ok One result, cur')))"

definition remains_endpoint ::
  "'a from_encoded_str \<Rightarrow> (remains_action oneshot, 'h, 'j, 'bd, 'a one) endpoint" where
  "remains_endpoint from_encoded =
     \<lparr>ep_action = into_action RemainsAction, ep_impl = oneshot_action (remains_preflight from_encoded)\<rparr>"

section \<open>ExtractPath\<close>

text \<open>
  The components of a path literal and the statements the derive macro generates for them: a
  parameter is read with the conversion \<open>conv ty\<close> of its type, and the values of a tuple are
  collected in a list. \<open>ExtractPathError\<close> wraps an \<open>Error\<close> and is unwrapped by the endpoint.
\<close>

datatype 'ty component = Static string | SingleParam 'ty | CatchAllParam 'ty

datatype extract_path_error = ExtractPathError http_error

definition extract_error_into :: "extract_path_error \<Rightarrow> http_error" where
  "extract_error_into e = (case e of ExtractPathError c \<Rightarrow> c)"

definition extract_not_matched :: extract_path_error where
  "extract_not_matched = ExtractPathError (not_found ''not matched'')"

definition extract_component ::
  "('ty \<Rightarrow> 'v from_encoded_str) \<Rightarrow> 'ty component \<Rightarrow> string \<Rightarrow> cursor
    \<Rightarrow> (('v list, extract_path_error) result \<times> cursor) run" where
  "extract_component conv c path cur =
     (case c of
        Static t \<Rightarrow>
          (case next_segment path cur of
             Panic \<Rightarrow> Panic
           | Ret (Some s, cur') \<Rightarrow>
               Ret (if encoded_eq_str (EncodedStr s) t then Ok [] else Err extract_not_matched, cur')
           | Ret (None, cur') \<Rightarrow> Ret (Err extract_not_matched, cur'))
      | SingleParam ty \<Rightarrow>
          (case next_segment path cur of
             Panic \<Rightarrow> Panic
           | Ret (Some s, cur') \<Rightarrow>
               Ret (map_err ExtractPathError (map_ok (\<lambda>v. [v]) (conv ty (EncodedStr s))), cur')
           | Ret (None, cur') \<Rightarrow> Ret (Err extract_not_matched, cur'))
      | CatchAllParam ty \<Rightarrow>
          (case remaining_path path cur of
             Panic \<Rightarrow> Panic
           | Ret s \<Rightarrow>
               let result = conv ty (EncodedStr s) in
               (case count_segments path cur of
                  Panic \<Rightarrow> Panic
                | Ret (_, cur') \<Rightarrow> Ret (map_err ExtractPathError (map_ok (\<lambda>v. [v]) result), cur'))))"

fun extract_path ::
  "('ty \<Rightarrow> 'v from_encoded_str) \<Rightarrow> 'ty component list \<Rightarrow> string \<Rightarrow> cursor
    \<Rightarrow> (('v list, extract_path_error) result \<times> cursor) run" where
  "extract_path conv [] path cur = Ret (Ok [], cur)"
| "extract_path conv (c # cs) path cur =
     (case extract_component conv c path cur of
        Panic \<Rightarrow> Panic
      | Ret (Err e, cur') \<Rightarrow> Ret (Err e, cur')
      | Ret (Ok vs, cur') \<Rightarrow>
          map_run (\<lambda>(r, c). (map_ok ((@) vs) r, c)) (extract_path conv cs path cur'))"

datatype 'ty path_action = PathAction "'ty component list"

definition path_preflight ::
  "('ty \<Rightarrow> 'v from_encoded_str) \<Rightarrow> ('ty path_action, 'h, 'j, 'v list) oneshot_fn" where
  "path_preflight conv a cx cur =
     (case a of PathAction cs \<Rightarrow>
        map_run (\<lambda>(r, c). (map_err extract_error_into r, c)) (extract_path conv cs (cx_path cx) cur))"

definition path_endpoint ::
  "('ty \<Rightarrow> 'v from_encoded_str) \<Rightarrow> 'ty component list
    \<Rightarrow> ('ty path_action oneshot, 'h, 'j, 'bd, 'v list) endpoint" where
  "path_endpoint conv cs =
     \<lparr>ep_action = into_action (PathAction cs), ep_impl = oneshot_action (path_preflight conv)\<rparr>"

text \<open>\<open>path!(@verb "...")\<close> puts the verb in front.\<close>

definition verb_path_endpoint where
  "verb_path_endpoint m conv cs = ep_and (\<lambda>u vs. vs) (verb_endpoint m) (path_endpoint conv cs)"

section \<open>What the endpoints match\<close>

text \<open>Every one of them keeps the contract.\<close>

lemma segment_endpoint_action:
  "endpoint_action (ep_impl (segment_endpoint m)) (ep_action (segment_endpoint m)) (\<lambda>_. False)"
proof (cases m)
  case (MatchSegment e)
  show ?thesis unfolding MatchSegment segment_endpoint_def endpoint.select_convs match_segment.case
  proof (rule oneshot_endpoint_action, goal_cases)
    case (1 cx cur)
    then show ?case by (rule next_segment_step) (auto simp: match_segment_preflight_def)
  qed
qed

lemma eos_endpoint_action:
  "endpoint_action (ep_impl eos_endpoint) (ep_action eos_endpoint) (\<lambda>_. False)"
  unfolding eos_endpoint_def endpoint.select_convs
proof (rule oneshot_endpoint_action, goal_cases)
  case (1 cx cur)
  then show ?case by (rule next_segment_step) (auto simp: match_eos_preflight_def)
qed

lemma param_endpoint_action:
  "endpoint_action (ep_impl (param_endpoint f)) (ep_action (param_endpoint f)) (\<lambda>_. False)"
  unfolding param_endpoint_def endpoint.select_convs
proof (rule oneshot_endpoint_action, goal_cases)
  case (1 cx cur)
  then show ?case by (rule next_segment_step) (auto simp: param_preflight_def)
qed

lemma remains_endpoint_action:
  "endpoint_action (ep_impl (remains_endpoint f)) (ep_action (remains_endpoint f)) (\<lambda>_. False)"
  unfolding remains_endpoint_def endpoint.select_convs
proof (rule oneshot_endpoint_action, goal_cases)
  case (1 cx cur)
  then show ?case by (rule count_segments_step) (auto simp: remains_preflight_def)
qed

lemma extract_component_returns:
  assumes "cursor_balanced path cur"
  shows "\<exists>r cur'. extract_component conv c path cur = Ret (r, cur') \<and>
    cursor_balanced path cur' \<and> cur_popped cur \<le> cur_popped cur'"
proof (cases c)
  case (CatchAllParam ty)
  from assms show ?thesis
    by (rule count_segments_step) (auto simp: extract_component_def CatchAllParam)
qed (use assms in \<open>rule next_segment_step; auto simp: extract_component_def\<close>)+

lemma extract_returns:
  "cursor_balanced path cur \<Longrightarrow> \<exists>r cur'. extract_path conv cs path cur = Ret (r, cur') \<and>
    cursor_balanced path cur' \<and> cur_popped cur \<le> cur_popped cur'"
proof (induction cs arbitrary: cur)
  case (Cons c cs)
  from extract_component_returns[OF Cons.prems] obtain r cur1 where
    1: "extract_component conv c path cur = Ret (r, cur1)" "cursor_balanced path cur1"
      "cur_popped cur \<le> cur_popped cur1"
    by blast
  from Cons.IH[OF 1(2)] obtain r2 cur2 where
    2: "extract_path conv cs path cur1 = Ret (r2, cur2)" "cursor_balanced path cur2"
      "cur_popped cur1 \<le> cur_popped cur2"
    by blast
  from 1 2 show ?case by (cases r) auto
qed simp

lemma path_endpoint_action:
  "endpoint_action (ep_impl (path_endpoint conv cs)) (ep_action (path_endpoint conv cs)) (\<lambda>_. False)"
  unfolding path_endpoint_def endpoint.select_convs
proof (rule oneshot_endpoint_action, goal_cases)
  case (1 cx cur)
  from extract_returns[OF 1] show ?case by (fastforce simp: path_preflight_def)
qed

interpretation segment_act: endpoint_action
  "ep_impl (segment_endpoint m)" "ep_action (segment_endpoint m)" "\<lambda>_. False" for m
  by (rule segment_endpoint_action)

interpretation eos_act: endpoint_action
  "ep_impl eos_endpoint" "ep_action eos_endpoint" "\<lambda>_. False"
  by (rule eos_endpoint_action)

interpretation param_act: endpoint_action
  "ep_impl (param_endpoint f)" "ep_action (param_endpoint f)" "\<lambda>_. False" for f
  by (rule param_endpoint_action)

interpretation remains_act: endpoint_action
  "ep_impl (remains_endpoint f)" "ep_action (remains_endpoint f)" "\<lambda>_. False" for f
  by (rule remains_endpoint_action)

interpretation path_act: endpoint_action
  "ep_impl (path_endpoint conv cs)" "ep_action (path_endpoint conv cs)" "\<lambda>_. False" for conv cs
  by (rule path_endpoint_action)

text \<open>
  A reference matcher on the list of pending segments. It returns the values and the segments
  that are left. The extraction code agrees with it for a path without catch-all parameter.
\<close>

fun match_segments ::
  "('ty \<Rightarrow> 'v from_encoded_str) \<Rightarrow> 'ty component list \<Rightarrow> string list
    \<Rightarrow> ('v list \<times> string list) option" where
  "match_segments conv [] ss = Some ([], ss)"
| "match_segments conv (Static t # cs) (s # ss) =
     (if s = t then match_segments conv cs ss else None)"
| "match_segments conv (SingleParam ty # cs) (s # ss) =
     (case conv ty (EncodedStr s) of
        Err _ \<Rightarrow> None
      | Ok v \<Rightarrow> map_option (\<lambda>(vs, rest). (v # vs, rest)) (match_segments conv cs ss))"
| "match_segments conv (CatchAllParam ty # cs) ss = None"
| "match_segments conv (c # cs) [] = None"

definition is_catch_all :: "'ty component \<Rightarrow> bool" where
  "is_catch_all c = (case c of CatchAllParam _ \<Rightarrow> True | _ \<Rightarrow> False)"

lemma is_catch_all_simps [simp]:
  "\<not> is_catch_all (Static t)" "\<not> is_catch_all (SingleParam ty)" "is_catch_all (CatchAllParam ty)"
  by (simp_all add: is_catch_all_def)

lemma map_ok_append_Nil [simp]: "map_ok ((@) []) r = r"
  by (cases r) simp_all

lemma extract_path_agrees:
  assumes "cursor_balanced path cur" and "list_all (\<lambda>c. \<not> is_catch_all c) cs"
  shows "\<exists>r cur'. extract_path conv cs path cur = Ret (r, cur') \<and>
    (case match_segments conv cs (pending path cur) of
       None \<Rightarrow> \<not> is_ok r
     | Some (vs, rest) \<Rightarrow> r = Ok vs \<and> pending path cur' = rest)"
  using assms
proof (induction cs arbitrary: cur)
  case (Cons c cs)
  from Cons.prems(1) show ?case
  proof (cases rule: next_segment_step)
    case at_end
    with Cons.prems show ?thesis
      by (cases c) (auto simp: extract_component_def split: option.splits)
  next
    case (segment s ss cur')
    have rest: "list_all (\<lambda>c. \<not> is_catch_all c) cs" using Cons.prems by simp
    from Cons.IH[OF segment(4) rest] obtain r cur2 where
      2: "extract_path conv cs path cur' = Ret (r, cur2)"
        "case match_segments conv cs ss of
           None \<Rightarrow> \<not> is_ok r | Some (vs, rest) \<Rightarrow> r = Ok vs \<and> pending path cur2 = rest"
      using segment(3) by auto
    show ?thesis
    proof (cases c)
      case (Static t)
      with segment 2 show ?thesis
        by (auto simp: extract_component_def encoded_eq_str_def split: option.splits)
    next
      case (SingleParam ty)
      with segment 2 show ?thesis
        by (cases "conv ty (EncodedStr s)"; cases "match_segments conv cs ss"; cases r)
           (auto simp: extract_component_def)
    qed (use Cons.prems in simp)
  qed
qed simp

text \<open>
  C15: The code the path macro generates agrees with a matcher on the list of pending segments: on
  a path without catch-all parameter it never panics, succeeds exactly when the matcher does, with
  the same values, and leaves the same rest.
\<close>

lemma extract_path_matches:
  assumes "cursor_balanced path cur" and "list_all (\<lambda>c. \<not> is_catch_all c) cs"
  shows "\<exists>r cur'. extract_path conv cs path cur = Ret (r, cur') \<and>
    (case match_segments conv cs (pending path cur) of
       None \<Rightarrow> \<not> is_ok r
     | Some (vs, rest) \<Rightarrow> r = Ok vs \<and> pending path cur' = rest)"
  using assms by (rule extract_path_agrees)

text \<open>A path is extracted in two steps when its literal is cut in two.\<close>

lemma extract_path_append:
  "extract_path conv (cs @ ds) path cur =
     (case extract_path conv cs path cur of
        Panic \<Rightarrow> Panic
      | Ret (Err e, cur') \<Rightarrow> Ret (Err e, cur')
      | Ret (Ok vs, cur') \<Rightarrow>
          map_run (\<lambda>(r, c). (map_ok ((@) vs) r, c)) (extract_path conv ds path cur'))"
proof (induction cs arbitrary: cur)
  case Nil
  then show ?case by (cases "extract_path conv ds path cur") auto
next
  case (Cons c cs)
  show ?case
  proof (cases "extract_component conv c path cur")
    case (Ret q)
    then obtain r cur1 where q: "extract_component conv c path cur = Ret (r, cur1)" by (cases q) auto
    show ?thesis
    proof (cases r)
      case (Ok vs)
      have app0: "map_ok ((@) vs) (map_ok ((@) ws) t) = map_ok ((@) (vs @ ws)) t" for ws t
        by (cases t) simp_all
      have app: "map_run (\<lambda>(r, c). (map_ok ((@) vs) r, c)) (map_run (\<lambda>(r, c). (map_ok ((@) ws) r, c)) q) =
          map_run (\<lambda>(r, c). (map_ok ((@) (vs @ ws)) r, c)) q" for ws q
        by (cases q) (auto simp: app0)
      show ?thesis
        by (auto simp: q Ok Cons.IH app split: run.splits result.splits)
    qed (simp add: q)
  qed simp
qed

section \<open>Path literals\<close>

text \<open>
  \<open>parse_path\<close> of \<open>finchers-macros\<close>: \<open>parse_type\<close> is \<open>syn::parse_str\<close>. The loop runs over the
  pieces between the slashes; \<open>iter.peek().is_some()\<close> is that pieces are left.
\<close>

datatype path_error =
    EmptyLiteral | NoLeadingSlash | EmptySegment | NoClosingBracket | NonAsciiParam
  | CatchAllNotLast | TypeError string

fun parse_components ::
  "(string \<Rightarrow> ('ty, string) result) \<Rightarrow> string list \<Rightarrow> ('ty component list, path_error) result" where
  "parse_components parse_type [] = Ok []"
| "parse_components parse_type (seg # iter) =
     (if seg = [] then (if iter \<noteq> [] then Err EmptySegment else Ok [])
      else if starts_with seg ''<'' then
        (if \<not> ends_with seg ''>'' then Err NoClosingBracket
         else if \<not> str_is_ascii seg then Err NonAsciiParam
         else
           let ty_str = take (length seg - 2) (drop 1 seg) in
           if starts_with ty_str ''..'' then
             (case parse_type (drop 2 ty_str) of
                Err e \<Rightarrow> Err (TypeError e)
              | Ok ty \<Rightarrow> if iter \<noteq> [] then Err CatchAllNotLast else Ok [CatchAllParam ty])
           else
             (case parse_type ty_str of
                Err e \<Rightarrow> Err (TypeError e)
              | Ok ty \<Rightarrow> map_ok ((#) (SingleParam ty)) (parse_components parse_type iter)))
      else map_ok ((#) (Static seg)) (parse_components parse_type iter))"

definition parse_path ::
  "(string \<Rightarrow> ('ty, string) result) \<Rightarrow> string \<Rightarrow> ('ty component list, path_error) result" where
  "parse_path parse_type lit =
     (let s = str_trim lit in
      if s = [] then Err EmptyLiteral
      else if \<not> starts_with s ''/'' then Err NoLeadingSlash
      else if s = ''/'' then Ok []
      else parse_components parse_type (tl (str_split (CHR ''/'') s)))"

text \<open>Printing a component list as a literal, which \<open>parse_path\<close> reads back.\<close>

definition show_component :: "('ty \<Rightarrow> string) \<Rightarrow> 'ty component \<Rightarrow> string" where
  "show_component show_type c =
     (case c of
        Static s \<Rightarrow> s
      | SingleParam ty \<Rightarrow> ''<'' @ show_type ty @ ''>''
      | CatchAllParam ty \<Rightarrow> ''<..'' @ show_type ty @ ''>'')"

lemma show_component_simps [simp]:
  "show_component sh (Static s) = s"
  "show_component sh (SingleParam ty) = ''<'' @ sh ty @ ''>''"
  "show_component sh (CatchAllParam ty) = ''<..'' @ sh ty @ ''>''"
  by (simp_all add: show_component_def)

definition show_path :: "('ty \<Rightarrow> string) \<Rightarrow> 'ty component list \<Rightarrow> string" where
  "show_path show_type cs =
     (if cs = [] then ''/'' else concat (map (\<lambda>c. CHR ''/'' # show_component show_type c) cs))"

definition component_ok ::
  "(string \<Rightarrow> ('ty, string) result) \<Rightarrow> ('ty \<Rightarrow> string) \<Rightarrow> 'ty component \<Rightarrow> bool" where
  "component_ok parse_type show_type c =
     (case c of
        Static s \<Rightarrow> s \<noteq> [] \<and> hd s \<noteq> CHR ''<'' \<and> CHR ''/'' \<notin> set s
      | SingleParam ty \<Rightarrow> parse_type (show_type ty) = Ok ty \<and> CHR ''/'' \<notin> set (show_type ty)
          \<and> str_is_ascii (show_type ty) \<and> \<not> starts_with (show_type ty) ''..''
      | CatchAllParam ty \<Rightarrow> parse_type (show_type ty) = Ok ty \<and> CHR ''/'' \<notin> set (show_type ty)
          \<and> str_is_ascii (show_type ty))"

lemma show_component_no_slash: "component_ok p sh c \<Longrightarrow> CHR ''/'' \<notin> set (show_component sh c)"
  by (cases c) (auto simp: component_ok_def show_component_def)

lemma show_component_nonempty: "component_ok p sh c \<Longrightarrow> show_component sh c \<noteq> []"
  by (cases c) (auto simp: component_ok_def show_component_def)

lemma str_split_segments:
  "\<forall>t \<in> set ts. CHR ''/'' \<notin> set t \<Longrightarrow> ts \<noteq> [] \<Longrightarrow>
     str_split (CHR ''/'') (concat (map (\<lambda>t. CHR ''/'' # t) ts)) = [] # ts"
proof (induction ts)
  case (Cons t ts)
  show ?case
  proof (cases ts)
    case Nil
    with Cons.prems show ?thesis by (simp add: str_split_no_sep)
  next
    case (Cons u us)
    let ?rest = "u @ concat (map (\<lambda>t. CHR ''/'' # t) us)"
    have "str_split (CHR ''/'') (CHR ''/'' # ?rest) = [] # ts"
      using Cons.IH Cons.prems Cons by simp
    then have "str_split (CHR ''/'') ?rest = ts" by simp
    then show ?thesis
      using str_split_append[of "CHR ''/''" t ?rest] Cons.prems Cons by simp
  qed
qed simp

lemma parse_components_show:
  "list_all (component_ok p sh) cs \<Longrightarrow> list_all (\<lambda>c. \<not> is_catch_all c) cs \<Longrightarrow>
     parse_components p (map (show_component sh) cs @ segs) = map_ok ((@) cs) (parse_components p segs)"
proof (induction cs)
  case Nil
  then show ?case by (simp add: map_ok_def split: result.split)
next
  case (Cons c cs)
  have IH: "parse_components p (map (show_component sh) cs @ segs) = map_ok ((@) cs) (parse_components p segs)"
    using Cons by simp
  show ?case
  proof (cases c)
    case (Static s)
    with Cons.prems have "s \<noteq> []" "\<not> starts_with s ''<''"
      by (cases s; auto simp: component_ok_def starts_with_def)+
    with Static IH show ?thesis by (simp add: map_ok_def split: result.split)
  next
    case (SingleParam ty)
    let ?s = "''<'' @ sh ty @ ''>''"
    have "starts_with ?s ''<''" "ends_with ?s ''>''"
      by (simp_all only: starts_with_append) (simp add: ends_with_def)
    moreover have "take (length ?s - 2) (drop 1 ?s) = sh ty" by simp
    ultimately show ?thesis
      using SingleParam Cons.prems IH
      by (simp add: component_ok_def str_is_ascii_def map_ok_def split: result.split)
  qed (use Cons.prems in simp)
qed

lemma parse_component_show:
  assumes "component_ok p sh c"
  shows "parse_components p [show_component sh c] = Ok [c]"
proof (cases c)
  case (CatchAllParam ty)
  have "starts_with (''..'' @ sh ty) ''..''" by (rule starts_with_append)
  moreover have "starts_with (''<..'' @ sh ty @ ''>'') ''<''" "ends_with (''<..'' @ sh ty @ ''>'') ''>''"
    by (simp_all add: starts_with_def ends_with_def)
  ultimately show ?thesis
    using CatchAllParam assms by (simp add: component_ok_def str_is_ascii_def)
qed (use assms parse_components_show[of p sh "[c]" "[]"] in \<open>simp_all\<close>)

text \<open>Trimming removes a prefix, or a suffix, and never reaches beyond a slash.\<close>

lemma trim_start_with_suffix: "\<exists>u. s = u @ trim_start_with ws s"
proof (induction ws s rule: trim_start_with.induct)
  case (2 ws x xs)
  show ?case
  proof (cases "find (\<lambda>w. w \<noteq> [] \<and> starts_with (x # xs) w) ws")
    case (Some w)
    with "2.IH" obtain u where
      "drop (length w - 1) xs = u @ trim_start_with ws (drop (length w - 1) xs)" by blast
    then have "x # xs = (x # take (length w - 1) xs @ u) @ trim_start_with ws (drop (length w - 1) xs)"
      by (metis append_Cons append_assoc append_take_drop_id)
    moreover have "trim_start_with ws (x # xs) = trim_start_with ws (drop (length w - 1) xs)"
      using Some by simp
    ultimately show ?thesis by metis
  qed simp
qed simp

definition trim_end :: "string \<Rightarrow> string" where
  "trim_end s = rev (trim_start_with (map rev whitespace) (rev s))"

lemma trim_end_prefix: "\<exists>u. s = trim_end s @ u"
proof -
  obtain u where "rev s = u @ trim_start_with (map rev whitespace) (rev s)"
    using trim_start_with_suffix[of "rev s"] by blast
  then have "s = trim_end s @ rev u" by (metis rev_append rev_rev_ident trim_end_def)
  then show ?thesis ..
qed

lemma whitespace_no_sep:
  "w \<in> set whitespace \<Longrightarrow> CHR ''/'' \<notin> set w \<and> CHR ''>'' \<notin> set w"
proof -
  have "list_all (\<lambda>w. CHR ''/'' \<notin> set w \<and> CHR ''>'' \<notin> set w) whitespace" by code_simp
  then show "w \<in> set whitespace \<Longrightarrow> CHR ''/'' \<notin> set w \<and> CHR ''>'' \<notin> set w" by (auto simp: list_all_iff)
qed

lemma trim_start_with_stops:
  assumes "\<And>w. w \<in> set ws \<Longrightarrow> c \<notin> set w"
  shows "trim_start_with ws (s @ c # r) = trim_start_with ws s @ c # r"
proof -
  have same: "starts_with (t @ c # r) w \<longleftrightarrow> starts_with t w" if "w \<in> set ws" for t w
  proof -
    have "take (length w) (t @ c # r) \<noteq> w" if "length t < length w"
    proof
      assume "take (length w) (t @ c # r) = w"
      moreover have "c \<in> set (take (length w) (t @ c # r))"
        using that by (cases "length w - length t") auto
      ultimately show False using assms[OF \<open>w \<in> set ws\<close>] by simp
    qed
    then show ?thesis
      by (cases "length t < length w") (auto simp: starts_with_def dest: arg_cong[where f = length])
  qed
  then have none: "find (\<lambda>w. w \<noteq> [] \<and> starts_with (c # r) w) ws = None"
    using same[of _ "[]"] by (auto simp: find_None_iff starts_with_def)
  show ?thesis
    using same none
  proof (induction ws s rule: trim_start_with.induct)
    case (2 ws x xs)
    have eq: "find (\<lambda>w. w \<noteq> [] \<and> starts_with (x # xs @ c # r) w) ws = find (\<lambda>w. w \<noteq> [] \<and> starts_with (x # xs) w) ws"
      using "2.prems"(1)[of _ "x # xs"] by (intro find_cong) auto
    show ?case
    proof (cases "find (\<lambda>w. w \<noteq> [] \<and> starts_with (x # xs) w) ws")
      case None
      with eq show ?thesis by simp
    next
      case (Some w)
      then have "starts_with (x # xs) w" by (auto simp: find_Some_iff)
      then have "length w - 1 \<le> length xs" by (auto simp: starts_with_def dest: arg_cong[where f = length])
      with "2.IH"[OF Some "2.prems"] Some eq show ?thesis by simp
    qed
  qed simp
qed

text \<open>
  The literal is trimmed, so a final static segment loses the white space at its end, and is
  lost altogether when there is nothing else in it.
\<close>

definition trim_last :: "'ty component list \<Rightarrow> 'ty component list" where
  "trim_last cs =
     (case rev cs of
        Static s # ds \<Rightarrow> rev ds @ (if trim_end s = [] then [] else [Static (trim_end s)])
      | _ \<Rightarrow> cs)"

lemma trim_last_snoc [simp]:
  "trim_last [] = []"
  "trim_last (cs @ [Static s]) = cs @ (if trim_end s = [] then [] else [Static (trim_end s)])"
  "trim_last (cs @ [SingleParam ty]) = cs @ [SingleParam ty]"
  "trim_last (cs @ [CatchAllParam ty]) = cs @ [CatchAllParam ty]"
  by (simp_all add: trim_last_def)

lemma trim_last_single [simp]:
  "trim_last [Static s] = (if trim_end s = [] then [] else [Static (trim_end s)])"
  "trim_last [SingleParam ty] = [SingleParam ty]"
  "trim_last [CatchAllParam ty] = [CatchAllParam ty]"
  by (simp_all add: trim_last_def)

lemma str_trim_show:
  "str_trim (concat (map (\<lambda>t. CHR ''/'' # t) (ts @ [t]))) =
     concat (map (\<lambda>t. CHR ''/'' # t) (ts @ [trim_end t]))"
proof -
  let ?s = "concat (map (\<lambda>t. CHR ''/'' # t) ts)"
  have ws: "\<And>w. w \<in> set whitespace \<Longrightarrow> CHR ''/'' \<notin> set w"
    "\<And>w. w \<in> set (map rev whitespace) \<Longrightarrow> CHR ''/'' \<notin> set w"
    using whitespace_no_sep by auto
  have start: "trim_start_with whitespace (CHR ''/'' # r) = CHR ''/'' # r" for r
    using trim_start_with_stops[of whitespace "CHR ''/''" "[]" r] ws(1) by (simp del: trim_start_with.simps(2))
  have "trim_start_with whitespace (?s @ CHR ''/'' # t) = ?s @ CHR ''/'' # t"
    using start by (cases ts) (simp_all del: trim_start_with.simps(2))
  moreover have "trim_start_with (map rev whitespace) (rev t @ CHR ''/'' # rev ?s) =
      trim_start_with (map rev whitespace) (rev t) @ CHR ''/'' # rev ?s"
    by (rule trim_start_with_stops) (rule ws(2))
  ultimately show ?thesis by (simp add: str_trim_def trim_end_def)
qed

lemma trim_end_bracket: "trim_end (s @ ''>'') = s @ ''>''"
proof -
  have "trim_start_with (map rev whitespace) ([] @ CHR ''>'' # rev s) =
      trim_start_with (map rev whitespace) [] @ CHR ''>'' # rev s"
    by (rule trim_start_with_stops) (use whitespace_no_sep in auto)
  then show ?thesis by (simp add: trim_end_def del: trim_start_with.simps(2))
qed

lemma parse_show_trimmed:
  assumes ok: "component_ok p sh c"
  shows "parse_components p [trim_end (show_component sh c)] = Ok (trim_last [c])"
proof (cases c)
  case (Static s)
  obtain r u where u: "s = r @ u" "trim_end s = r" using trim_end_prefix by metis
  show ?thesis
  proof (cases "trim_end s = []")
    case False
    with ok Static u have "component_ok p sh (Static (trim_end s))" by (simp add: component_ok_def)
    from parse_component_show[OF this] Static False show ?thesis by simp
  qed (use Static in simp)
next
  case (SingleParam ty)
  have "trim_end (show_component sh c) = show_component sh c"
    unfolding SingleParam show_component_simps using trim_end_bracket[of "''<'' @ sh ty"] by simp
  with parse_component_show[OF ok] show ?thesis unfolding SingleParam by (simp only: trim_last_single)
next
  case (CatchAllParam ty)
  have "trim_end (show_component sh c) = show_component sh c"
    unfolding CatchAllParam show_component_simps using trim_end_bracket[of "''<..'' @ sh ty"] by simp
  with parse_component_show[OF ok] show ?thesis unfolding CatchAllParam by (simp only: trim_last_single)
qed

text \<open>
  C17: The parser of path literals inverts printing up to its trimming: a list of well-formed
  components with a catch-all parameter at the end only, printed as a literal, parses back to
  itself, except that a final static segment loses the white space at its end and is dropped when
  it is nothing but white space.
\<close>

lemma parse_path_show:
  assumes "list_all (component_ok p sh) cs" and "list_all (\<lambda>c. \<not> is_catch_all c) (butlast cs)"
  shows "parse_path p (show_path sh cs) = Ok (trim_last cs)"
proof (cases cs rule: rev_cases)
  case Nil
  have "str_trim ''/'' = ''/''" by code_simp
  with Nil show ?thesis by (simp add: parse_path_def show_path_def starts_with_def Let_def)
next
  case (snoc ds c)
  let ?t = "trim_end (show_component sh c)" and ?ts = "map (show_component sh) ds"
  have ok: "component_ok p sh c" "list_all (component_ok p sh) ds" "list_all (\<lambda>c. \<not> is_catch_all c) ds"
    using assms snoc by simp_all
  have trimmed: "str_trim (show_path sh cs) = concat (map (\<lambda>t. CHR ''/'' # t) (?ts @ [?t]))"
    using str_trim_show[of ?ts "show_component sh c"] snoc by (simp add: show_path_def comp_def)
  show ?thesis
  proof (cases "ds = [] \<and> ?t = []")
    case True
    with parse_show_trimmed[OF ok(1)] have "trim_last [c] = []" by simp
    with True snoc trimmed show ?thesis by (simp add: parse_path_def starts_with_def Let_def)
  next
    case False
    have "\<forall>t \<in> set (?ts @ [?t]). CHR ''/'' \<notin> set t"
    proof -
      obtain u where "show_component sh c = ?t @ u" using trim_end_prefix by blast
      then have "CHR ''/'' \<notin> set ?t" using show_component_no_slash[OF ok(1)] by (metis Un_iff set_append)
      with ok(2) show ?thesis by (auto simp: list_all_iff dest: show_component_no_slash)
    qed
    from str_split_segments[OF this] have split:
      "str_split (CHR ''/'') (str_trim (show_path sh cs)) = [] # ?ts @ [?t]" unfolding trimmed by simp
    have "concat (map (\<lambda>t. CHR ''/'' # t) (?ts @ [?t])) \<noteq> ''/''"
      using False ok(2) show_component_nonempty[of p sh] by (cases ds) auto
    moreover have "starts_with (concat (map (\<lambda>t. CHR ''/'' # t) (?ts @ [?t]))) ''/''"
      by (cases ds) (simp_all add: starts_with_def)
    moreover have "concat (map (\<lambda>t. CHR ''/'' # t) (?ts @ [?t])) \<noteq> []" by simp
    moreover have "trim_last cs = ds @ trim_last [c]"
      using snoc by (cases c) simp_all
    ultimately show ?thesis
      using parse_components_show[OF ok(2,3), of "[?t]"] parse_show_trimmed[OF ok(1)] split
      unfolding parse_path_def Let_def trimmed by simp
  qed
qed

text \<open>The components of a parsed literal: static segments are nonempty and slash-free, and a
  catch-all parameter is last.\<close>

text \<open>
  Whatever path literal is accepted, a catch-all parameter is the last component and no static
  component is empty or contains a slash.
\<close>

lemma parse_components_wf:
  "parse_components p segs = Ok cs \<Longrightarrow> \<forall>s \<in> set segs. CHR ''/'' \<notin> set s \<Longrightarrow>
     list_all (\<lambda>c. \<not> is_catch_all c) (butlast cs) \<and>
     (\<forall>t. Static t \<in> set cs \<longrightarrow> t \<noteq> [] \<and> CHR ''/'' \<notin> set t)"
proof (induction p segs arbitrary: cs rule: parse_components.induct)
  case (2 p seg iter)
  let ?ty = "take (length seg - 2) (drop 1 seg)"
  have tail: "list_all (\<lambda>c. \<not> is_catch_all c) (butlast (c # ds)) \<and>
      (\<forall>t. Static t \<in> set (c # ds) \<longrightarrow> t \<noteq> [] \<and> CHR ''/'' \<notin> set t)"
    if "\<not> is_catch_all c" "\<forall>t. c = Static t \<longrightarrow> t \<noteq> [] \<and> CHR ''/'' \<notin> set t"
      "list_all (\<lambda>c. \<not> is_catch_all c) (butlast ds)"
      "\<forall>t. Static t \<in> set ds \<longrightarrow> t \<noteq> [] \<and> CHR ''/'' \<notin> set t" for c :: "'a component" and ds
    using that by auto
  show ?case
  proof (cases "seg = []")
    case True
    with "2.prems" show ?thesis by (auto split: if_splits)
  next
    case ne: False
    show ?thesis
    proof (cases "starts_with seg ''<''")
      case True
      note br = this
      show ?thesis
      proof (cases "starts_with ?ty ''..''")
        case True
        with "2.prems" ne br obtain ty where "cs = [CatchAllParam ty]"
          by (auto simp: Let_def split: if_splits result.splits)
        then show ?thesis by simp
      next
        case False
        with "2.prems" ne br obtain ty ds where ds: "cs = SingleParam ty # ds"
          "parse_components p iter = Ok ds" "ends_with seg ''>''" "str_is_ascii seg" "p ?ty = Ok ty"
          by (auto simp: Let_def split: if_splits result.splits)
        from "2.IH"(1)[OF ne br _ _ refl False ds(5) ds(2)] ds(3,4) "2.prems"(2)
        show ?thesis unfolding ds(1) by (intro tail) auto
      qed
    next
      case False
      with "2.prems" ne obtain ds where ds: "cs = Static seg # ds" "parse_components p iter = Ok ds"
        by (auto split: if_splits)
      from "2.IH"(2)[OF ne False ds(2)] "2.prems"(2) ne
      show ?thesis unfolding ds(1) by (intro tail) auto
    qed
  qed
qed simp

section \<open>Concrete paths\<close>

definition number_type :: "string \<Rightarrow> (unit, string) result" where
  "number_type s = (if s = ''u32'' then Ok () else Err ''unknown type'')"

abbreviation number_route :: "unit component list" where
  "number_route \<equiv> [Static ''api'', SingleParam ()]"

lemma extract_path_matches_witness:
  "\<exists>r cur'. extract_path (\<lambda>_. from_encoded_unsigned percent_ref 32) number_route ''/api/7/x'' cursor_new =
     Ret (r, cur') \<and> r = Ok [7] \<and> pending ''/api/7/x'' cur' = [''x'']"
proof -
  have "match_segments (\<lambda>_. from_encoded_unsigned percent_ref 32) number_route
      (pending ''/api/7/x'' cursor_new) = Some ([7], [''x''])"
    by code_simp
  with extract_path_matches[OF cursor_new_balanced, of "''/api/7/x''" number_route
      "\<lambda>_. from_encoded_unsigned percent_ref 32"]
  show ?thesis by simp
qed

lemma parse_path_show_witness:
  "parse_path number_type (show_path (\<lambda>_. ''u32'') [Static ''api'', SingleParam (), CatchAllParam ()]) =
     Ok [Static ''api'', SingleParam (), CatchAllParam ()] \<and>
   parse_path number_type (show_path (\<lambda>_. ''u32'') [Static ''api'', Static ''v1 '' :: unit component]) = Ok [Static ''api'', Static ''v1'']"
proof -
  have "list_all (component_ok number_type (\<lambda>_. ''u32'')) [Static ''api'', SingleParam (), CatchAllParam ()]"
    "list_all (component_ok number_type (\<lambda>_. ''u32'')) [Static ''api'', Static ''v1 '']" by code_simp+
  moreover have "trim_last [Static ''api'', Static ''v1 ''] = [Static ''api'', Static ''v1'' :: unit component]"
    "trim_last [Static ''api'', SingleParam (), CatchAllParam ()] = [Static ''api'', SingleParam (), CatchAllParam ()]"
    by code_simp+
  ultimately show ?thesis
    using parse_path_show[of number_type "\<lambda>_. ''u32''" "[Static ''api'', SingleParam (), CatchAllParam ()]"]
      parse_path_show[of number_type "\<lambda>_. ''u32''" "[Static ''api'', Static ''v1 '']"] by simp
qed

lemma parse_components_wf_witness:
  "parse_components number_type [''api'', ''<u32>'', ''<..u32>''] =
     Ok [Static ''api'', SingleParam (), CatchAllParam ()] \<and>
   list_all (\<lambda>c. \<not> is_catch_all c) [Static ''api'', SingleParam ()]"
proof -
  have *: "parse_components number_type [''api'', ''<u32>'', ''<..u32>''] =
      Ok [Static ''api'', SingleParam (), CatchAllParam ()]"
    by code_simp
  with parse_components_wf[OF *] show ?thesis by simp
qed

end
