(* ===== verification/Finch_Service.thy ===== *)
theory Finch_Service
  imports Finch_Resolve
begin

text \<open>
  \<open>src/service.rs\<close>: an endpoint as an HTTP service. \<open>AppService\<close> spawns an \<open>AppFuture\<close> for every
  request; the future runs the preflight on its first poll, then the action, turns the output
  or the error into a response and adds the cookies and headers collected in the context.
\<close>

section \<open>The future\<close>

datatype 's app_future_state = AppStart "'s option" | AppInFlight 's

record ('s, 'h, 'j, 'bd) app_future =
  af_state :: "'s app_future_state"
  af_context :: "('h, 'j) context_state"
  af_body :: "'bd option"

text \<open>A request with a body is split into its parts and the body.\<close>

definition app_dispatch ::
  "('s, 'h, 'j, 'bd, 'o) endpoint \<Rightarrow> 'h request \<Rightarrow> 'bd \<Rightarrow> ('s, 'h, 'j, 'bd) app_future" where
  "app_dispatch e parts body =
     \<lparr>af_state = AppStart (Some (ep_action e)), af_context = context_new parts, af_body = Some body\<rparr>"

datatype 'e app_service = AppService 'e

text \<open>\<open>App\<close> shares one endpoint among the services it makes, one for every connection.\<close>

datatype 'e app = App 'e

definition app_new :: "'e \<Rightarrow> 'e app" where
  "app_new endpoint = App endpoint"

definition into_service :: "'e \<Rightarrow> 'e app" where
  "into_service e = app_new e"

definition app_make_service :: "'e app \<Rightarrow> 'c \<Rightarrow> 'e app_service" where
  "app_make_service app _ = (case app of App endpoint \<Rightarrow> AppService endpoint)"

definition app_call ::
  "('s, 'h, 'j, 'bd, 'o) endpoint app_service \<Rightarrow> 'h request \<Rightarrow> 'bd \<Rightarrow> ('s, 'h, 'j, 'bd) app_future" where
  "app_call s parts body = (case s of AppService e \<Rightarrow> app_dispatch e parts body)"

lemma app_call_dispatch:
  "app_call (app_make_service (into_service e) c) parts body = app_dispatch e parts body"
  by (simp add: app_call_def app_make_service_def into_service_def app_new_def)

text \<open>
  \<open>poll_apply\<close>. The arm of the loop for an action in flight always returns, so the loop goes
  round once more at most, after an incomplete preflight.
\<close>

definition app_poll_in_flight ::
  "('s, 'h, 'j, 'bd, 'o) action \<Rightarrow> 's \<Rightarrow> ('s, 'h, 'j, 'bd) app_future
    \<Rightarrow> (('o, http_error) poll \<times> ('s, 'h, 'j, 'bd) app_future) run" where
  "app_poll_in_flight A action fut =
     (case act_poll A action \<lparr>ac_context = af_context fut, ac_body = af_body fut\<rparr> of
        Panic \<Rightarrow> Panic
      | Ret (p, action', ac) \<Rightarrow>
          Ret (p, fut\<lparr>af_state := AppInFlight action', af_context := ac_context ac, af_body := ac_body ac\<rparr>))"

definition app_poll_apply ::
  "('s, 'h, 'j, 'bd, 'o) action \<Rightarrow> ('s, 'h, 'j, 'bd) app_future
    \<Rightarrow> (('o, http_error) poll \<times> ('s, 'h, 'j, 'bd) app_future) run" where
  "app_poll_apply A fut =
     (case af_state fut of
        AppStart None \<Rightarrow> Panic
      | AppStart (Some action) \<Rightarrow>
          (case act_preflight A action (af_context fut) cursor_new of
             Panic \<Rightarrow> Panic
           | Ret (Err e, action', _) \<Rightarrow> Ret (Err e, fut\<lparr>af_state := AppStart None\<rparr>)
           | Ret (Ok (Completed output), action', _) \<Rightarrow>
               Ret (Ok (Ready output), fut\<lparr>af_state := AppStart None\<rparr>)
           | Ret (Ok Incomplete, action', _) \<Rightarrow> app_poll_in_flight A action' fut)
      | AppInFlight action \<Rightarrow> app_poll_in_flight A action fut)"

text \<open>The end of \<open>AppFuture::poll\<close>: \<open>Set-Cookie\<close> for the changed cookies, then the supplemental
  headers, which are taken out of the context.\<close>

definition encode_cookie :: "('j, 'k) cookie_api \<Rightarrow> 'k \<Rightarrow> string" where
  "encode_cookie K cookie = cookie_encoded K cookie"

definition append_headers :: "'h http_api \<Rightarrow> (string \<times> string) list \<Rightarrow> ('h, 'b) response \<Rightarrow> ('h, 'b) response" where
  "append_headers H hs r = fold (\<lambda>(n, v) r. r\<lparr>rs_headers := hm_append H (rs_headers r) n v\<rparr>) hs r"

definition append_cookies ::
  "'h http_api \<Rightarrow> ('j, 'k) cookie_api \<Rightarrow> 'j option \<Rightarrow> ('h, 'b) response \<Rightarrow> ('h, 'b) response" where
  "append_cookies H K cookies r =
     (case cookies of
        None \<Rightarrow> r
      | Some jar \<Rightarrow> append_headers H (map (\<lambda>c. (''set-cookie'', encode_cookie K c)) (jar_delta K jar)) r)"

definition append_response_headers ::
  "'h http_api \<Rightarrow> 'h option \<Rightarrow> ('h, 'b) response \<Rightarrow> ('h, 'b) response" where
  "append_response_headers H hdrs r =
     (case hdrs of
        None \<Rightarrow> r
      | Some hs \<Rightarrow>
          fold (\<lambda>(name, vs). append_headers H (map (\<lambda>v. (name, v)) vs)) (hm_drain H hs) r)"

definition app_response ::
  "'h http_api \<Rightarrow> ('o \<Rightarrow> 'h request \<Rightarrow> ('h, 'b) response) \<Rightarrow> ('o, http_error) result \<Rightarrow> 'h request
    \<Rightarrow> ('h, string + 'b) response" where
  "app_response H into_response r rq =
     (case r of
        Ok output \<Rightarrow> response_map Inr (into_response output rq)
      | Err err \<Rightarrow> response_map Inl (error_into_response H err rq))"

definition app_finish ::
  "'h http_api \<Rightarrow> ('j, 'k) cookie_api \<Rightarrow> ('o \<Rightarrow> 'h request \<Rightarrow> ('h, 'b) response)
    \<Rightarrow> ('o, http_error) result \<Rightarrow> ('h, 'j) context_state \<Rightarrow> ('h, string + 'b) response" where
  "app_finish H K into_response r cx =
     append_response_headers H (cx_response_headers cx)
       (append_cookies H K (cx_cookies cx) (app_response H into_response r (cx_request cx)))"

definition app_poll ::
  "'h http_api \<Rightarrow> ('j, 'k) cookie_api \<Rightarrow> ('o \<Rightarrow> 'h request \<Rightarrow> ('h, 'b) response)
    \<Rightarrow> ('s, 'h, 'j, 'bd, 'o) action \<Rightarrow> ('s, 'h, 'j, 'bd) app_future
    \<Rightarrow> (('h, string + 'b) response async \<times> ('s, 'h, 'j, 'bd) app_future) run" where
  "app_poll H K into_response A fut =
     (case app_poll_apply A fut of
        Panic \<Rightarrow> Panic
      | Ret (Ok NotReady, fut') \<Rightarrow> Ret (NotReady, fut')
      | Ret (Ok (Ready output), fut') \<Rightarrow>
          Ret (Ready (app_finish H K into_response (Ok output) (af_context fut')),
               fut'\<lparr>af_context := (af_context fut')\<lparr>cx_response_headers := None\<rparr>\<rparr>)
      | Ret (Err err, fut') \<Rightarrow>
          Ret (Ready (app_finish H K into_response (Err err) (af_context fut')),
               fut'\<lparr>af_context := (af_context fut')\<lparr>cx_response_headers := None\<rparr>\<rparr>))"

section \<open>The headers of the response\<close>

lemma append_headers_simps [simp]:
  "append_headers H [] r = r"
  "append_headers H ((n, v) # hs) r =
     append_headers H hs (r\<lparr>rs_headers := hm_append H (rs_headers r) n v\<rparr>)"
  by (simp_all add: append_headers_def)

lemma append_headers_frame [simp]:
  "rs_status (append_headers H hs r) = rs_status r"
  "rs_body (append_headers H hs r) = rs_body r"
  "rs_error (append_headers H hs r) = rs_error r"
  by (induction hs arbitrary: r; auto)+

lemma append_headers_get_all:
  "http_laws H \<Longrightarrow> hm_get_all H (rs_headers (append_headers H hs r)) n =
     hm_get_all H (rs_headers r) n @ map snd (filter (\<lambda>p. fst p = n) hs)"
  by (induction hs arbitrary: r) (auto simp: http_lawsD)

lemma append_drained_frame [simp]:
  "rs_status (fold (\<lambda>(name, vs). append_headers H (map (\<lambda>v. (name, v)) vs)) ds r) = rs_status r"
  "rs_body (fold (\<lambda>(name, vs). append_headers H (map (\<lambda>v. (name, v)) vs)) ds r) = rs_body r"
  "rs_error (fold (\<lambda>(name, vs). append_headers H (map (\<lambda>v. (name, v)) vs)) ds r) = rs_error r"
  by (induction ds arbitrary: r; auto)+

lemma append_drained_get_all:
  assumes "http_laws H"
  shows "hm_get_all H (rs_headers (fold (\<lambda>(name, vs). append_headers H (map (\<lambda>v. (name, v)) vs)) ds r)) n =
     hm_get_all H (rs_headers r) n @ drained ds n"
proof (induction ds arbitrary: r)
  case Nil
  then show ?case by (simp add: drained_def)
next
  case (Cons d ds)
  have "map snd (filter (\<lambda>p. fst p = n) (map (\<lambda>v. (fst d, v)) (snd d))) =
      (if fst d = n then snd d else [])"
    by (auto simp: filter_map o_def)
  with Cons assms show ?case
    by (simp add: case_prod_beta append_headers_get_all drained_def)
qed

lemma append_cookies_frame [simp]:
  "rs_status (append_cookies H K c r) = rs_status r"
  "rs_body (append_cookies H K c r) = rs_body r"
  "rs_error (append_cookies H K c r) = rs_error r"
  by (simp_all add: append_cookies_def split: option.splits)

lemma append_response_headers_frame [simp]:
  "rs_status (append_response_headers H hs r) = rs_status r"
  "rs_body (append_response_headers H hs r) = rs_body r"
  "rs_error (append_response_headers H hs r) = rs_error r"
  by (simp_all add: append_response_headers_def split: option.splits)

definition cookie_delta :: "('j, 'k) cookie_api \<Rightarrow> 'j option \<Rightarrow> string list" where
  "cookie_delta K cookies =
     (case cookies of None \<Rightarrow> [] | Some jar \<Rightarrow> map (cookie_encoded K) (jar_delta K jar))"

definition supplemental :: "'h http_api \<Rightarrow> 'h option \<Rightarrow> string \<Rightarrow> string list" where
  "supplemental H hdrs n = (case hdrs of None \<Rightarrow> [] | Some hs \<Rightarrow> hm_get_all H hs n)"

lemma append_cookies_get_all:
  "http_laws H \<Longrightarrow> hm_get_all H (rs_headers (append_cookies H K c r)) n =
     hm_get_all H (rs_headers r) n @ (if n = ''set-cookie'' then cookie_delta K c else [])"
  by (auto simp: append_cookies_def cookie_delta_def append_headers_get_all filter_map o_def
      encode_cookie_def split: option.splits)

lemma append_response_headers_get_all:
  "http_laws H \<Longrightarrow> hm_get_all H (rs_headers (append_response_headers H hs r)) n =
     hm_get_all H (rs_headers r) n @ supplemental H hs n"
  by (auto simp: append_response_headers_def supplemental_def append_drained_get_all http_lawsD
      split: option.splits)

text \<open>The final response keeps status and body of the output, and its headers are those of the
  output, the changed cookies and the supplemental headers, in that order.\<close>

text \<open>
  C13: For every header name the response carries the values of the responder first, then one set-
  cookie for every changed cookie, then the supplemental headers of the context, each in order and
  none lost.
\<close>

lemma app_finish_headers:
  assumes "http_laws H"
  shows "hm_get_all H (rs_headers (app_finish H K into r cx)) n =
    hm_get_all H (rs_headers (app_response H into r (cx_request cx))) n
    @ (if n = ''set-cookie'' then cookie_delta K (cx_cookies cx) else [])
    @ supplemental H (cx_response_headers cx) n"
  using assms
  by (simp add: app_finish_def append_response_headers_get_all append_cookies_get_all)

lemma app_finish_frame:
  "rs_status (app_finish H K into r cx) = rs_status (app_response H into r (cx_request cx))"
  "rs_body (app_finish H K into r cx) = rs_body (app_response H into r (cx_request cx))"
  "rs_error (app_finish H K into r cx) = rs_error (app_response H into r (cx_request cx))"
  by (simp_all add: app_finish_def)

section \<open>Serving a request\<close>

fun app_poll_times ::
  "'h http_api \<Rightarrow> ('j, 'k) cookie_api \<Rightarrow> ('o \<Rightarrow> 'h request \<Rightarrow> ('h, 'b) response)
    \<Rightarrow> ('s, 'h, 'j, 'bd, 'o) action \<Rightarrow> nat \<Rightarrow> ('s, 'h, 'j, 'bd) app_future
    \<Rightarrow> (('h, string + 'b) response async \<times> ('s, 'h, 'j, 'bd) app_future) run" where
  "app_poll_times H K into A 0 fut = Ret (NotReady, fut)"
| "app_poll_times H K into A (Suc n) fut =
     (case app_poll H K into A fut of
        Ret (NotReady, fut') \<Rightarrow> app_poll_times H K into A n fut'
      | r \<Rightarrow> r)"

definition app_answers ::
  "'h http_api \<Rightarrow> ('j, 'k) cookie_api \<Rightarrow> ('o \<Rightarrow> 'h request \<Rightarrow> ('h, 'b) response)
    \<Rightarrow> ('s, 'h, 'j, 'bd, 'o) action \<Rightarrow> ('s, 'h, 'j, 'bd) app_future
    \<Rightarrow> ('h, string + 'b) response \<Rightarrow> bool" where
  "app_answers H K into A fut resp \<longleftrightarrow>
     (\<exists>n fut'. app_poll_times H K into A n fut = Ret (Ready resp, fut'))"

lemma app_answers_unfold:
  "app_answers H K into A fut resp \<longleftrightarrow>
     (case app_poll H K into A fut of
        Panic \<Rightarrow> False
      | Ret (Ready x, _) \<Rightarrow> resp = x
      | Ret (NotReady, fut') \<Rightarrow> app_answers H K into A fut' resp)"
proof -
  have "app_answers H K into A fut resp \<longleftrightarrow>
      (\<exists>n fut'. app_poll_times H K into A (Suc n) fut = Ret (Ready resp, fut'))"
    unfolding app_answers_def
  proof
    assume "\<exists>n fut'. app_poll_times H K into A n fut = Ret (Ready resp, fut')"
    then obtain n fut' where *: "app_poll_times H K into A n fut = Ret (Ready resp, fut')" by blast
    then obtain m where "n = Suc m" by (cases n) auto
    with * show "\<exists>n fut'. app_poll_times H K into A (Suc n) fut = Ret (Ready resp, fut')" by blast
  qed blast
  then show ?thesis
    by (auto simp: app_answers_def split: run.splits async.splits)
qed

definition in_flight_app ::
  "'s \<Rightarrow> ('h, 'j, 'bd) action_context \<Rightarrow> ('s, 'h, 'j, 'bd) app_future" where
  "in_flight_app s ac =
     \<lparr>af_state = AppInFlight s, af_context = ac_context ac, af_body = ac_body ac\<rparr>"

lemma action_context_eta [simp]: "\<lparr>ac_context = ac_context ac, ac_body = ac_body ac\<rparr> = ac"
  by simp

lemma app_poll_in_flight_app:
  "app_poll H K into A (in_flight_app s ac) =
     (case act_poll A s ac of
        Panic \<Rightarrow> Panic
      | Ret (Ok NotReady, s', ac') \<Rightarrow> Ret (NotReady, in_flight_app s' ac')
      | Ret (Ok (Ready x), s', ac') \<Rightarrow>
          Ret (Ready (app_finish H K into (Ok x) (ac_context ac')),
               in_flight_app s' (ac'\<lparr>ac_context := (ac_context ac')\<lparr>cx_response_headers := None\<rparr>\<rparr>))
      | Ret (Err e, s', ac') \<Rightarrow>
          Ret (Ready (app_finish H K into (Err e) (ac_context ac')),
               in_flight_app s' (ac'\<lparr>ac_context := (ac_context ac')\<lparr>cx_response_headers := None\<rparr>\<rparr>)))"
  by (auto simp: app_poll_def app_poll_apply_def app_poll_in_flight_def in_flight_app_def
      split: run.splits result.splits async.splits)

lemma app_answers_in_flight:
  "app_answers H K into A (in_flight_app s ac) resp \<longleftrightarrow>
     (\<exists>r ac'. polls_to A s ac r ac' \<and> resp = app_finish H K into r (ac_context ac'))"
proof
  have "app_poll_times H K into A n (in_flight_app s ac) = Ret (Ready resp, fut') \<Longrightarrow>
      \<exists>r ac'. polls_to A s ac r ac' \<and> resp = app_finish H K into r (ac_context ac')" for n fut'
  proof (induction n arbitrary: s ac)
    case (Suc n)
    show ?case
    proof (cases "act_poll A s ac")
      case (Ret q)
      then obtain p s' ac1 where q: "act_poll A s ac = Ret (p, s', ac1)" by (cases q) auto
      show ?thesis
      proof (cases p rule: poll_exhaust)
        case not_ready
        with q Suc.prems have "app_poll_times H K into A n (in_flight_app s' ac1) = Ret (Ready resp, fut')"
          by (simp add: app_poll_in_flight_app)
        from Suc.IH[OF this] q not_ready show ?thesis by (simp add: polls_to_later)
      qed (use q Suc.prems in \<open>auto simp: app_poll_in_flight_app polls_to_rules\<close>)
    qed (use Suc.prems in \<open>simp add: app_poll_in_flight_app\<close>)
  qed simp
  then show "app_answers H K into A (in_flight_app s ac) resp \<Longrightarrow>
      \<exists>r ac'. polls_to A s ac r ac' \<and> resp = app_finish H K into r (ac_context ac')"
    by (auto simp: app_answers_def)
next
  have "polls_to A s ac r ac' \<Longrightarrow>
      app_answers H K into A (in_flight_app s ac) (app_finish H K into r (ac_context ac'))" for s ac r ac'
    by (induction rule: polls_to.induct) (subst app_answers_unfold, simp add: app_poll_in_flight_app)+
  then show "\<exists>r ac'. polls_to A s ac r ac' \<and> resp = app_finish H K into r (ac_context ac') \<Longrightarrow>
      app_answers H K into A (in_flight_app s ac) resp"
    by blast
qed

text \<open>
  The service answers a request with what the endpoint resolves to: the abstract semantics of
  endpoints describes the HTTP responses exactly.
\<close>

lemma app_answers_iff:
  "app_answers H K into (ep_impl e) (app_dispatch e rq body) resp \<longleftrightarrow>
     (\<exists>r cur ac. resolves (ep_impl e) (ep_action e) cursor_new
          \<lparr>ac_context = context_new rq, ac_body = Some body\<rparr> r cur ac \<and>
        resp = app_finish H K into r (ac_context ac))"
proof (cases "act_preflight (ep_impl e) (ep_action e) (context_new rq) cursor_new")
  case Panic
  then show ?thesis
    by (subst app_answers_unfold)
       (simp add: app_dispatch_def app_poll_def app_poll_apply_def resolves_def)
next
  case (Ret q)
  then obtain p s' c where
    q: "act_preflight (ep_impl e) (ep_action e) (context_new rq) cursor_new = Ret (p, s', c)"
    by (cases q) auto
  let ?ac = "\<lparr>ac_context = context_new rq, ac_body = Some body\<rparr>"
  show ?thesis
  proof (cases "p = Ok Incomplete")
    case True
    with q have "app_poll H K into (ep_impl e) (app_dispatch e rq body) =
        app_poll H K into (ep_impl e) (in_flight_app s' ?ac)"
      by (simp add: app_dispatch_def app_poll_def app_poll_apply_def in_flight_app_def
          app_poll_in_flight_def split: run.split)
    then have "app_answers H K into (ep_impl e) (app_dispatch e rq body) resp \<longleftrightarrow>
        app_answers H K into (ep_impl e) (in_flight_app s' ?ac) resp"
      by (subst (1 2) app_answers_unfold) simp
    with q True show ?thesis by (simp add: app_answers_in_flight resolves_def)
  next
    case False
    show ?thesis
    proof (cases p)
      case (Ok pr)
      with False obtain x where "pr = Completed x" by (cases pr) auto
      with q Ok show ?thesis
        by (subst app_answers_unfold)
           (simp add: app_dispatch_def app_poll_def app_poll_apply_def resolves_def)
    next
      case (Err err)
      with q show ?thesis
        by (subst app_answers_unfold)
           (simp add: app_dispatch_def app_poll_def app_poll_apply_def resolves_def)
    qed
  qed
qed

text \<open>
  C1: The service future refines the meaning of its endpoint: polling the future of a dispatched
  request again and again ends with a response exactly when the action of the endpoint resolves
  from a fresh cursor, a fresh context and the whole body, and the response is then the one
  app_finish makes of that result and of the context the action left.
\<close>

lemma app_answers_resolves:
  "app_answers H K into (ep_impl e) (app_dispatch e rq body) resp \<longleftrightarrow>
     (\<exists>r cur ac. resolves (ep_impl e) (ep_action e) cursor_new
          \<lparr>ac_context = context_new rq, ac_body = Some body\<rparr> r cur ac \<and>
        resp = app_finish H K into r (ac_context ac))"
  by (rule app_answers_iff)

text \<open>
  A service whose endpoint keeps the contract never panics on a request with a nonempty path,
  however often it is polled until it answers.
\<close>

lemma app_in_flight_safe:
  assumes "endpoint_action A s0 live"
  shows "live s \<Longrightarrow> app_poll_times H K into A n (in_flight_app s ac) \<noteq> Panic"
proof (induction n arbitrary: s ac)
  case (Suc n)
  from Suc.prems show ?case
  proof (rule endpoint_action.poll_cases[OF assms, of _ ac])
    fix p s' ac'
    assume "act_poll A s ac = Ret (p, s', ac')" "p = Ok NotReady \<Longrightarrow> live s'"
    then show ?thesis
      using Suc.IH by (cases p rule: poll_exhaust) (auto simp: app_poll_in_flight_app)
  qed
qed simp

text \<open>
  C2: No number of polls of a dispatched request panics, whatever the responder, the headers and
  the body, when the endpoint keeps the contract of endpoint actions and the path of the request
  is not empty.
\<close>

lemma app_safe:
  fixes e :: "('s, 'h, 'j, 'bd, 'o) endpoint"
  assumes e: "endpoint_action (ep_impl e) (ep_action e) live" and path: "rq_path rq \<noteq> []"
  shows "app_poll_times H K into (ep_impl e) n (app_dispatch e rq body) \<noteq> Panic"
proof (cases n)
  case (Suc m)
  let ?cx = "context_new rq :: ('h, 'j) context_state"
  have b: "cursor_balanced (cx_path ?cx) cursor_new"
    using path by (simp add: context_new_def cursor_new_balanced)
  show ?thesis
  proof (rule endpoint_action.preflight_cases[OF e b])
    fix p s c
    assume q: "act_preflight (ep_impl e) (ep_action e) ?cx cursor_new = Ret (p, s, c)"
      and l: "p = Ok Incomplete \<Longrightarrow> live s"
    let ?ac = "\<lparr>ac_context = ?cx, ac_body = Some body\<rparr>"
    show ?thesis
    proof (cases "p = Ok Incomplete")
      case True
      with q have "app_poll H K into (ep_impl e) (app_dispatch e rq body) =
          app_poll H K into (ep_impl e) (in_flight_app s ?ac)"
        by (simp add: app_dispatch_def app_poll_def app_poll_apply_def in_flight_app_def
            app_poll_in_flight_def split: run.split)
      then have "app_poll_times H K into (ep_impl e) n (app_dispatch e rq body) =
          app_poll_times H K into (ep_impl e) n (in_flight_app s ?ac)"
        unfolding Suc by simp
      with app_in_flight_safe[OF e l[OF True]] show ?thesis by simp
    next
      case False
      then show ?thesis
      proof (cases p)
        case (Ok pr)
        with False obtain x where "pr = Completed x" by (cases pr) auto
        with q Ok Suc show ?thesis
          by (simp add: app_dispatch_def app_poll_def app_poll_apply_def)
      qed (use q Suc in \<open>simp add: app_dispatch_def app_poll_def app_poll_apply_def\<close>)
    qed
  qed
qed simp

section \<open>Concrete applications\<close>

definition plain_request :: "http_method \<Rightarrow> string \<Rightarrow> (string \<times> string) list request" where
  "plain_request m p = \<lparr>rq_method = m, rq_path = p, rq_query = None, rq_headers = []\<rparr>"

lemma app_finish_headers_witness:
  "\<forall>K. hm_get_all list_http (rs_headers (app_finish list_http K (\<lambda>u rq. response_new list_http u) (Ok ())
      \<lparr>cx_request = plain_request GET ''/'', cx_cookies = None,
       cx_response_headers = Some [(''x-id'', ''1''), (''x-id'', ''2'')]\<rparr>)) ''x-id'' = [''1'', ''2'']"
proof
  fix K
  show "hm_get_all list_http (rs_headers (app_finish list_http K (\<lambda>u rq. response_new list_http u) (Ok ())
      \<lparr>cx_request = plain_request GET ''/'', cx_cookies = None,
       cx_response_headers = Some [(''x-id'', ''1''), (''x-id'', ''2'')]\<rparr>)) ''x-id'' = [''1'', ''2'']"
    unfolding app_finish_headers[OF list_http_laws]
    by (simp add: app_response_def cookie_delta_def supplemental_def)
qed

lemma app_safe_witness:
  "\<forall>K n. app_poll_times list_http K (\<lambda>u rq. response_new list_http u) (ep_impl unit_endpoint) n
     (app_dispatch unit_endpoint (plain_request GET ''/'') ()) \<noteq> Panic"
  by (intro allI, rule app_safe[OF unit_act.endpoint_action_axioms]) (simp add: plain_request_def)

end
