(* ===== verification/Finch_Header.thy ===== *)
theory Finch_Header
  imports Finch_Resolve
begin

text \<open>
  \<open>src/endpoints/header.rs\<close> and \<open>src/endpoints/query.rs\<close>: endpoints that read the request
  headers and the query string. The parsers of foreign crates (\<open>mime\<close>, \<open>url\<close>, \<open>serde_qs\<close>) and the
  validation of header names are parameters.
\<close>

section \<open>Header values\<close>

text \<open>\<open>FromHeaderValue\<close>, with the \<open>Display\<close> text of the error.\<close>

type_synonym 'a from_header_value = "string \<Rightarrow> ('a, string) result"

definition from_header_raw :: "string from_header_value" where
  "from_header_raw v = Ok v"

definition from_header_string :: "'h http_api \<Rightarrow> string from_header_value" where
  "from_header_string H v = hv_to_str H v"

definition from_header_mime :: "'h http_api \<Rightarrow> (string \<Rightarrow> ('m, string) result) \<Rightarrow> 'm from_header_value" where
  "from_header_mime H mime_parse v =
     (case hv_to_str H v of Err e \<Rightarrow> Err e | Ok s \<Rightarrow> mime_parse s)"

definition from_header_url :: "'h http_api \<Rightarrow> (string \<Rightarrow> ('u, string) result) \<Rightarrow> 'u from_header_value" where
  "from_header_url H url_parse v =
     (case hv_to_str H v of Err e \<Rightarrow> Err e | Ok s \<Rightarrow> url_parse s)"

section \<open>header::parse\<close>

text \<open>\<open>from_static\<close> is \<open>HeaderName::from_static\<close>, which panics on an invalid name.\<close>

datatype header_parse_ep = HeaderParse string
datatype header_parse_action = HeaderParseAction string

definition header_parse :: "(string \<Rightarrow> string run) \<Rightarrow> string \<Rightarrow> header_parse_ep run" where
  "header_parse from_static name = map_run HeaderParse (from_static name)"

definition header_parse_preflight ::
  "'h http_api \<Rightarrow> 'a from_header_value \<Rightarrow> (header_parse_action, 'h, 'j, 'a one) oneshot_fn" where
  "header_parse_preflight H from_hv a cx cur =
     (case a of HeaderParseAction name \<Rightarrow>
        Ret (case hm_get H (cx_headers cx) name of
               None \<Rightarrow> Err (bad_request (''missing header: `'' @ name @ [CHR 0x27]))
             | Some h \<Rightarrow> map_err bad_request (map_ok One (from_hv h)), cur))"

definition header_parse_endpoint ::
  "'h http_api \<Rightarrow> 'a from_header_value \<Rightarrow> header_parse_ep
    \<Rightarrow> (header_parse_action oneshot, 'h, 'j, 'bd, 'a one) endpoint" where
  "header_parse_endpoint H from_hv p =
     (case p of HeaderParse name \<Rightarrow>
        \<lparr>ep_action = into_action (HeaderParseAction name),
         ep_impl = oneshot_action (header_parse_preflight H from_hv)\<rparr>)"

section \<open>header::optional\<close>

datatype header_optional_ep = HeaderOptional string
datatype header_optional_action = HeaderOptionalAction string

definition header_optional :: "(string \<Rightarrow> string run) \<Rightarrow> string \<Rightarrow> header_optional_ep run" where
  "header_optional from_static name = map_run HeaderOptional (from_static name)"

definition header_optional_preflight ::
  "'h http_api \<Rightarrow> 'a from_header_value \<Rightarrow> (header_optional_action, 'h, 'j, 'a option one) oneshot_fn" where
  "header_optional_preflight H from_hv a cx cur =
     (case a of HeaderOptionalAction name \<Rightarrow>
        Ret (case hm_get H (cx_headers cx) name of
               Some h \<Rightarrow> map_err bad_request (map_ok (\<lambda>parsed. One (Some parsed)) (from_hv h))
             | None \<Rightarrow> Ok (One None), cur))"

definition header_optional_endpoint ::
  "'h http_api \<Rightarrow> 'a from_header_value \<Rightarrow> header_optional_ep
    \<Rightarrow> (header_optional_action oneshot, 'h, 'j, 'bd, 'a option one) endpoint" where
  "header_optional_endpoint H from_hv p =
     (case p of HeaderOptional name \<Rightarrow>
        \<lparr>ep_action = into_action (HeaderOptionalAction name),
         ep_impl = oneshot_action (header_optional_preflight H from_hv)\<rparr>)"

section \<open>header::matches\<close>

text \<open>\<open>try_from\<close> is the conversion into a header name, whose error makes \<open>expect\<close> panic;
  \<open>eq\<close> is the comparison of the given value with a header value.\<close>

datatype 'v header_matches_ep = HeaderMatches string 'v
datatype 'v header_matches_action = HeaderMatchesAction string 'v

definition header_matches ::
  "('k \<Rightarrow> (string, 'e) result) \<Rightarrow> 'k \<Rightarrow> 'v \<Rightarrow> 'v header_matches_ep run" where
  "header_matches try_from name v =
     (case try_from name of Ok n \<Rightarrow> Ret (HeaderMatches n v) | Err _ \<Rightarrow> Panic)"

definition header_matches_preflight ::
  "'h http_api \<Rightarrow> ('v \<Rightarrow> string \<Rightarrow> bool) \<Rightarrow> ('v header_matches_action, 'h, 'j, unit) oneshot_fn" where
  "header_matches_preflight H eq a cx cur =
     (case a of HeaderMatchesAction name v \<Rightarrow>
        Ret (case hm_get H (cx_headers cx) name of
               Some h \<Rightarrow> if eq v h then Ok () else Err (not_found ''invalid header'')
             | None \<Rightarrow> Err (not_found ''invalid header''), cur))"

definition header_matches_endpoint ::
  "'h http_api \<Rightarrow> ('v \<Rightarrow> string \<Rightarrow> bool) \<Rightarrow> 'v header_matches_ep
    \<Rightarrow> ('v header_matches_action oneshot, 'h, 'j, 'bd, unit) endpoint" where
  "header_matches_endpoint H eq p =
     (case p of HeaderMatches name v \<Rightarrow>
        \<lparr>ep_action = into_action (HeaderMatchesAction name v),
         ep_impl = oneshot_action (header_matches_preflight H eq)\<rparr>)"

section \<open>header::raw\<close>

datatype header_raw_ep = HeaderRaw string
datatype header_raw_action = HeaderRawAction string

definition header_raw :: "('k \<Rightarrow> (string, 'e) result) \<Rightarrow> 'k \<Rightarrow> header_raw_ep run" where
  "header_raw try_from name = (case try_from name of Ok n \<Rightarrow> Ret (HeaderRaw n) | Err _ \<Rightarrow> Panic)"

definition header_raw_preflight :: "'h http_api \<Rightarrow> (header_raw_action, 'h, 'j, string option one) oneshot_fn" where
  "header_raw_preflight H a cx cur =
     (case a of HeaderRawAction name \<Rightarrow> Ret (Ok (One (hm_get H (cx_headers cx) name)), cur))"

definition header_raw_endpoint ::
  "'h http_api \<Rightarrow> header_raw_ep \<Rightarrow> (header_raw_action oneshot, 'h, 'j, 'bd, string option one) endpoint" where
  "header_raw_endpoint H p =
     (case p of HeaderRaw name \<Rightarrow>
        \<lparr>ep_action = into_action (HeaderRawAction name),
         ep_impl = oneshot_action (header_raw_preflight H)\<rparr>)"

section \<open>Query strings\<close>

text \<open>\<open>from_qs\<close> is \<open>serde_qs::from_str\<close>, with the \<open>Display\<close> text of its error.\<close>

datatype query_required_action = QueryRequiredAction
datatype query_optional_action = QueryOptionalAction
datatype query_raw_action = QueryRawAction

definition query_required_preflight ::
  "(string \<Rightarrow> ('a, string) result) \<Rightarrow> (query_required_action, 'h, 'j, 'a one) oneshot_fn" where
  "query_required_preflight from_qs a cx cur =
     Ret (case rq_query (cx_request cx) of
            None \<Rightarrow> Err (bad_request ''missing query'')
          | Some query \<Rightarrow> map_err bad_request (map_ok One (from_qs query)), cur)"

definition query_required_endpoint ::
  "(string \<Rightarrow> ('a, string) result) \<Rightarrow> (query_required_action oneshot, 'h, 'j, 'bd, 'a one) endpoint" where
  "query_required_endpoint from_qs =
     \<lparr>ep_action = into_action QueryRequiredAction,
      ep_impl = oneshot_action (query_required_preflight from_qs)\<rparr>"

definition query_optional_preflight ::
  "(string \<Rightarrow> ('a, string) result) \<Rightarrow> (query_optional_action, 'h, 'j, 'a option one) oneshot_fn" where
  "query_optional_preflight from_qs a cx cur =
     Ret (case rq_query (cx_request cx) of
            Some query \<Rightarrow> map_err bad_request (map_ok (\<lambda>x. One (Some x)) (from_qs query))
          | None \<Rightarrow> Ok (One None), cur)"

definition query_optional_endpoint ::
  "(string \<Rightarrow> ('a, string) result) \<Rightarrow> (query_optional_action oneshot, 'h, 'j, 'bd, 'a option one) endpoint" where
  "query_optional_endpoint from_qs =
     \<lparr>ep_action = into_action QueryOptionalAction,
      ep_impl = oneshot_action (query_optional_preflight from_qs)\<rparr>"

definition query_raw_preflight :: "(query_raw_action, 'h, 'j, string option one) oneshot_fn" where
  "query_raw_preflight a cx cur = Ret (Ok (One (rq_query (cx_request cx))), cur)"

definition query_raw_endpoint :: "(query_raw_action oneshot, 'h, 'j, 'bd, string option one) endpoint" where
  "query_raw_endpoint =
     \<lparr>ep_action = into_action QueryRawAction, ep_impl = oneshot_action query_raw_preflight\<rparr>"

section \<open>Properties\<close>

text \<open>These endpoints never touch the cursor, whatever the outcome, and keep the contract.\<close>

definition cursor_neutral :: "('a, 'h, 'j, 'o) oneshot_fn \<Rightarrow> bool" where
  "cursor_neutral f \<longleftrightarrow> (\<forall>a cx cur. \<exists>r. f a cx cur = Ret (r, cur))"

lemma cursor_neutral_endpoint_action:
  "cursor_neutral f \<Longrightarrow> endpoint_action (oneshot_action f) (into_action a) (\<lambda>_. False)"
  by (rule oneshot_endpoint_action) (metis cursor_neutral_def order_refl)

lemma header_query_neutral:
  "cursor_neutral (header_parse_preflight H f)"
  "cursor_neutral (header_optional_preflight H f)"
  "cursor_neutral (header_matches_preflight H eq)"
  "cursor_neutral (header_raw_preflight H)"
  "cursor_neutral (query_required_preflight q)"
  "cursor_neutral (query_optional_preflight q)"
  "cursor_neutral query_raw_preflight"
  by (auto simp: cursor_neutral_def header_parse_preflight_def header_optional_preflight_def
      header_matches_preflight_def header_raw_preflight_def query_required_preflight_def
      query_optional_preflight_def query_raw_preflight_def
      split: header_parse_action.split header_optional_action.split header_matches_action.split
        header_raw_action.split)

lemma header_parse_endpoint_action:
  "endpoint_action (ep_impl (header_parse_endpoint H f p)) (ep_action (header_parse_endpoint H f p)) (\<lambda>_. False)"
  by (cases p) (simp add: header_parse_endpoint_def cursor_neutral_endpoint_action header_query_neutral)

interpretation header_parse_act: endpoint_action
  "ep_impl (header_parse_endpoint H f p)" "ep_action (header_parse_endpoint H f p)" "\<lambda>_. False" for H f p
  by (rule header_parse_endpoint_action)

lemma query_required_endpoint_action:
  "endpoint_action (ep_impl (query_required_endpoint q)) (ep_action (query_required_endpoint q)) (\<lambda>_. False)"
  by (simp add: query_required_endpoint_def cursor_neutral_endpoint_action header_query_neutral)

interpretation query_required_act: endpoint_action
  "ep_impl (query_required_endpoint q)" "ep_action (query_required_endpoint q)" "\<lambda>_. False" for q
  by (rule query_required_endpoint_action)

text \<open>The optional endpoint succeeds wherever the required one does, and the only request on
  which they differ otherwise is one without the header.\<close>

text \<open>
  The optional header endpoint is the parsing one wherever the header is present, and resolves
  to no value where it is missing.
\<close>

lemma header_optional_refines_parse:
  "resolves (ep_impl (header_optional_endpoint H f (HeaderOptional n)))
      (ep_action (header_optional_endpoint H f (HeaderOptional n))) cur ac r cur' ac' \<longleftrightarrow>
   (if hm_get H (cx_headers (ac_context ac)) n = None
    then r = Ok (One None) \<and> cur' = cur \<and> ac' = ac
    else \<exists>r0. resolves (ep_impl (header_parse_endpoint H f (HeaderParse n)))
      (ep_action (header_parse_endpoint H f (HeaderParse n))) cur ac r0 cur' ac' \<and>
      r = map_ok (\<lambda>x. One (Some (the_one x))) r0)"
proof (cases "hm_get H (cx_headers (ac_context ac)) n")
  case None
  then show ?thesis
    by (auto simp: header_optional_endpoint_def resolves_oneshot header_optional_preflight_def)
next
  case (Some h)
  then show ?thesis
    by (cases "f h") (auto simp: header_optional_endpoint_def header_parse_endpoint_def
      resolves_oneshot header_optional_preflight_def header_parse_preflight_def)
qed

text \<open>All errors of the parsing endpoints are client errors, a mismatch is a 404.\<close>

lemma header_parse_error:
  "resolves (ep_impl (header_parse_endpoint H f p)) (ep_action (header_parse_endpoint H f p))
     cur ac (Err e) cur' ac' \<Longrightarrow> status_code_of e = BAD_REQUEST"
  by (cases p) (auto simp: header_parse_endpoint_def resolves_oneshot header_parse_preflight_def
      split: option.splits)

text \<open>
  The header match succeeds exactly when the header is present and equal, and leaves cursor
  and context alone.
\<close>

lemma header_matches_spec:
  "resolves (ep_impl (header_matches_endpoint H eq (HeaderMatches n v)))
     (ep_action (header_matches_endpoint H eq (HeaderMatches n v))) cur ac (Ok ()) cur' ac' \<longleftrightarrow>
   (\<exists>h. hm_get H (cx_headers (ac_context ac)) n = Some h \<and> eq v h) \<and> cur' = cur \<and> ac' = ac"
  by (auto simp: header_matches_endpoint_def resolves_oneshot header_matches_preflight_def
      split: option.splits if_splits)

end
