(* ===== verification/Finch_Body.thy ===== *)
theory Finch_Body
  imports Finch_Resolve
begin

text \<open>
  \<open>src/endpoints/body.rs\<close>: endpoints that read the request body. A body is a \<open>BufStream\<close> of a
  foreign crate; \<open>mime\<close>, \<open>serde_json\<close> and \<open>serde_qs\<close> are parameters as well.
\<close>

section \<open>Body streams\<close>

text \<open>\<open>poll_buf\<close> returns the next item; \<open>bs_bytes\<close> is \<open>Buf::bytes\<close> of an item. Errors are
  kept by their \<open>Display\<close> text.\<close>

record ('bd, 'it) buf_stream =
  bs_poll_buf :: "'bd \<Rightarrow> ('it option async, string) result \<times> 'bd"
  bs_bytes :: "'it \<Rightarrow> string"

text \<open>What reading the stream to its end gives.\<close>

inductive reads :: "('bd, 'it) buf_stream \<Rightarrow> 'bd \<Rightarrow> (string, string) result \<Rightarrow> bool" for B where
  reads_end: "bs_poll_buf B b = (Ok (Ready None), b') \<Longrightarrow> reads B b (Ok [])"
| reads_err: "bs_poll_buf B b = (Err e, b') \<Longrightarrow> reads B b (Err e)"
| reads_more: "bs_poll_buf B b = (Ok (Ready (Some it)), b') \<Longrightarrow> reads B b' r \<Longrightarrow>
     reads B b (map_ok ((@) (bs_bytes B it)) r)"
| reads_wait: "bs_poll_buf B b = (Ok NotReady, b') \<Longrightarrow> reads B b' r \<Longrightarrow> reads B b r"

text \<open>A stream that does not return items forever without being pending once.\<close>

definition stream_measure :: "('bd, 'it) buf_stream \<Rightarrow> ('bd \<Rightarrow> nat) \<Rightarrow> bool" where
  "stream_measure B m \<longleftrightarrow>
     (\<forall>b it b'. bs_poll_buf B b = (Ok (Ready (Some it)), b') \<longrightarrow> m b' < m b)"

section \<open>raw\<close>

datatype body_raw_action = BodyRawAction

definition body_raw_poll ::
  "body_raw_action \<Rightarrow> ('h, 'j, 'bd) action_context
    \<Rightarrow> (('bd one, http_error) poll \<times> body_raw_action \<times> ('h, 'j, 'bd) action_context) run" where
  "body_raw_poll s ac =
     (case take_body ac of (r, ac') \<Rightarrow> Ret (map_ok (\<lambda>x. Ready (One x)) r, s, ac'))"

definition body_raw_endpoint :: "(body_raw_action, 'h, 'j, 'bd, 'bd one) endpoint" where
  "body_raw_endpoint =
     \<lparr>ep_action = BodyRawAction,
      ep_impl = \<lparr>act_preflight = default_preflight, act_poll = body_raw_poll\<rparr>\<rparr>"

section \<open>receive_all\<close>

datatype 'bd receive_state = RecvStart | Receiving 'bd string

text \<open>
  The inner \<open>while let\<close> loop: the result of the poll, the body and the buffer afterwards. A
  stream that always has another item keeps the loop running, which is the value \<open>None\<close>; the
  poll has no result then, like one that panics.
\<close>

partial_function (option) receive_loop ::
  "('bd, 'it) buf_stream \<Rightarrow> 'bd \<Rightarrow> string \<Rightarrow> ((string, string) poll \<times> 'bd \<times> string) option" where
  "receive_loop B body buf =
     (case bs_poll_buf B body of
        (r, body') \<Rightarrow>
          (case r of
             Err e \<Rightarrow> Some (Err e, body', buf)
           | Ok a \<Rightarrow>
               (case a of
                  NotReady \<Rightarrow> Some (Ok NotReady, body', buf)
                | Ready it \<Rightarrow>
                    (case it of
                       None \<Rightarrow> Some (Ok (Ready buf), body', [])
                     | Some data \<Rightarrow> receive_loop B body' (buf @ bs_bytes B data)))))"

definition receive_poll_receiving ::
  "('bd, 'it) buf_stream \<Rightarrow> 'bd \<Rightarrow> string \<Rightarrow> ('h, 'j, 'bd) action_context
    \<Rightarrow> ((string one, http_error) poll \<times> 'bd receive_state \<times> ('h, 'j, 'bd) action_context) run" where
  "receive_poll_receiving B body buf ac =
     (case receive_loop B body buf of
        None \<Rightarrow> Panic
      | Some (p, body', buf') \<Rightarrow>
          Ret (map_err FailureError (map_ok (map_async One) p), Receiving body' buf', ac))"

definition receive_all_poll ::
  "('bd, 'it) buf_stream \<Rightarrow> 'bd receive_state \<Rightarrow> ('h, 'j, 'bd) action_context
    \<Rightarrow> ((string one, http_error) poll \<times> 'bd receive_state \<times> ('h, 'j, 'bd) action_context) run" where
  "receive_all_poll B s ac =
     (case s of
        RecvStart \<Rightarrow>
          (case take_body ac of
             (Err e, ac') \<Rightarrow> Ret (Err e, RecvStart, ac')
           | (Ok payload, ac') \<Rightarrow> receive_poll_receiving B payload [] ac')
      | Receiving body buf \<Rightarrow> receive_poll_receiving B body buf ac)"

definition receive_all_action ::
  "('bd, 'it) buf_stream \<Rightarrow> ('bd receive_state, 'h, 'j, 'bd, string one) action" where
  "receive_all_action B = \<lparr>act_preflight = default_preflight, act_poll = receive_all_poll B\<rparr>"

definition receive_all_endpoint ::
  "('bd, 'it) buf_stream \<Rightarrow> ('bd receive_state, 'h, 'j, 'bd, string one) endpoint" where
  "receive_all_endpoint B = \<lparr>ep_action = RecvStart, ep_impl = receive_all_action B\<rparr>"

section \<open>text, json and urlencoded\<close>

record ('m, 'n) mime_api =
  mm_parse :: "string \<Rightarrow> ('m, string) result"
  mm_get_param :: "'m \<Rightarrow> string \<Rightarrow> 'n option"
  mm_name_eq :: "'n \<Rightarrow> string \<Rightarrow> bool"
  mm_eq :: "'m \<Rightarrow> 'm \<Rightarrow> bool"
  mm_application_json :: 'm
  mm_www_form_urlencoded :: 'm

definition content_type ::
  "'h http_api \<Rightarrow> ('m, 'n) mime_api \<Rightarrow> 'h request \<Rightarrow> ('m option, http_error) result" where
  "content_type H M rq =
     (case hm_get H (rq_headers rq) ''content-type'' of
        None \<Rightarrow> Ok None
      | Some h \<Rightarrow>
          (case hv_to_str H h of
             Err e \<Rightarrow> Err (bad_request e)
           | Ok s \<Rightarrow> map_err bad_request (map_ok Some (mm_parse M s))))"

definition text_preflight ::
  "'h http_api \<Rightarrow> ('m, 'n) mime_api \<Rightarrow> 's \<Rightarrow> ('h, 'j) context_state \<Rightarrow> cursor
    \<Rightarrow> (('o preflight, http_error) result \<times> 's \<times> cursor) run" where
  "text_preflight H M s cx cur =
     Ret (case content_type H M (cx_request cx) of
            Err e \<Rightarrow> Err e
          | Ok None \<Rightarrow> Ok Incomplete
          | Ok (Some m) \<Rightarrow>
              (case mm_get_param M m ''charset'' of
                 None \<Rightarrow> Ok Incomplete
               | Some param \<Rightarrow>
                   if \<not> mm_name_eq M param ''utf-8''
                   then Err (bad_request ''Only the UTF-8 charset is supported.'')
                   else Ok Incomplete), s, cur)"

text \<open>The end of a poll of these actions: the received data goes through a parser.\<close>

definition received ::
  "(string \<Rightarrow> ('a, http_error) result)
    \<Rightarrow> ((string one, http_error) poll \<times> 's \<times> 'ac) run \<Rightarrow> (('a one, http_error) poll \<times> 's \<times> 'ac) run" where
  "received parse q =
     (case q of
        Panic \<Rightarrow> Panic
      | Ret (Err e, s, ac) \<Rightarrow> Ret (Err e, s, ac)
      | Ret (Ok NotReady, s, ac) \<Rightarrow> Ret (Ok NotReady, s, ac)
      | Ret (Ok (Ready (One data)), s, ac) \<Rightarrow> Ret (map_ok (\<lambda>x. Ready (One x)) (parse data), s, ac))"

definition text_parse :: "string \<Rightarrow> (string, http_error) result" where
  "text_parse data = map_err (\<lambda>e. bad_request (utf8_error_to_string e)) (from_utf8 data)"

definition text_action ::
  "'h http_api \<Rightarrow> ('m, 'n) mime_api \<Rightarrow> ('bd, 'it) buf_stream
    \<Rightarrow> ('bd receive_state, 'h, 'j, 'bd, string one) action" where
  "text_action H M B =
     \<lparr>act_preflight = text_preflight H M,
      act_poll = (\<lambda>s ac. received text_parse (receive_all_poll B s ac))\<rparr>"

definition text_endpoint ::
  "'h http_api \<Rightarrow> ('m, 'n) mime_api \<Rightarrow> ('bd, 'it) buf_stream
    \<Rightarrow> ('bd receive_state, 'h, 'j, 'bd, string one) endpoint" where
  "text_endpoint H M B = \<lparr>ep_action = RecvStart, ep_impl = text_action H M B\<rparr>"

definition json_preflight ::
  "'h http_api \<Rightarrow> ('m, 'n) mime_api \<Rightarrow> 's \<Rightarrow> ('h, 'j) context_state \<Rightarrow> cursor
    \<Rightarrow> (('o preflight, http_error) result \<times> 's \<times> cursor) run" where
  "json_preflight H M s cx cur =
     Ret (case content_type H M (cx_request cx) of
            Err e \<Rightarrow> Err e
          | Ok None \<Rightarrow> Err (bad_request ''missing content type'')
          | Ok (Some mime) \<Rightarrow>
              if \<not> mm_eq M mime (mm_application_json M)
              then Err (bad_request ''The value of `Content-type` must be `application/json`.'')
              else Ok Incomplete, s, cur)"

definition json_parse :: "(string \<Rightarrow> ('a, string) result) \<Rightarrow> string \<Rightarrow> ('a, http_error) result" where
  "json_parse from_slice data = map_err bad_request (from_slice data)"

definition json_action ::
  "'h http_api \<Rightarrow> ('m, 'n) mime_api \<Rightarrow> (string \<Rightarrow> ('a, string) result) \<Rightarrow> ('bd, 'it) buf_stream
    \<Rightarrow> ('bd receive_state, 'h, 'j, 'bd, 'a one) action" where
  "json_action H M from_slice B =
     \<lparr>act_preflight = json_preflight H M,
      act_poll = (\<lambda>s ac. received (json_parse from_slice) (receive_all_poll B s ac))\<rparr>"

definition json_endpoint ::
  "'h http_api \<Rightarrow> ('m, 'n) mime_api \<Rightarrow> (string \<Rightarrow> ('a, string) result) \<Rightarrow> ('bd, 'it) buf_stream
    \<Rightarrow> ('bd receive_state, 'h, 'j, 'bd, 'a one) endpoint" where
  "json_endpoint H M from_slice B = \<lparr>ep_action = RecvStart, ep_impl = json_action H M from_slice B\<rparr>"

definition urlencoded_preflight ::
  "'h http_api \<Rightarrow> ('m, 'n) mime_api \<Rightarrow> 's \<Rightarrow> ('h, 'j) context_state \<Rightarrow> cursor
    \<Rightarrow> (('o preflight, http_error) result \<times> 's \<times> cursor) run" where
  "urlencoded_preflight H M s cx cur =
     Ret (case content_type H M (cx_request cx) of
            Err e \<Rightarrow> Err e
          | Ok None \<Rightarrow> Err (bad_request ''missing content type'')
          | Ok (Some mime) \<Rightarrow>
              if \<not> mm_eq M mime (mm_www_form_urlencoded M)
              then Err (bad_request
                ''The value of `Content-type` must be `application-x-www-form-urlencoded`.'')
              else Ok Incomplete, s, cur)"

definition urlencoded_parse :: "(string \<Rightarrow> ('a, string) result) \<Rightarrow> string \<Rightarrow> ('a, http_error) result" where
  "urlencoded_parse from_qs data =
     (case from_utf8 data of
        Err e \<Rightarrow> Err (bad_request (utf8_error_to_string e))
      | Ok s \<Rightarrow> map_err bad_request (from_qs s))"

definition urlencoded_action ::
  "'h http_api \<Rightarrow> ('m, 'n) mime_api \<Rightarrow> (string \<Rightarrow> ('a, string) result) \<Rightarrow> ('bd, 'it) buf_stream
    \<Rightarrow> ('bd receive_state, 'h, 'j, 'bd, 'a one) action" where
  "urlencoded_action H M from_qs B =
     \<lparr>act_preflight = urlencoded_preflight H M,
      act_poll = (\<lambda>s ac. received (urlencoded_parse from_qs) (receive_all_poll B s ac))\<rparr>"

definition urlencoded_endpoint ::
  "'h http_api \<Rightarrow> ('m, 'n) mime_api \<Rightarrow> (string \<Rightarrow> ('a, string) result) \<Rightarrow> ('bd, 'it) buf_stream
    \<Rightarrow> ('bd receive_state, 'h, 'j, 'bd, 'a one) endpoint" where
  "urlencoded_endpoint H M from_qs B = \<lparr>ep_action = RecvStart, ep_impl = urlencoded_action H M from_qs B\<rparr>"

section \<open>The receive loop reads the stream\<close>

lemma take_body_eq:
  "take_body ac =
     (case ac_body ac of
        None \<Rightarrow> (Err (internal_server_error ''the request body has already been stolen by someone''),
                 ac\<lparr>ac_body := None\<rparr>)
      | Some b \<Rightarrow> (Ok b, ac\<lparr>ac_body := None\<rparr>))"
  by (simp add: take_body_def split: option.split)

text \<open>One run of the loop consumes a prefix of the stream.\<close>

definition loop_reads ::
  "('bd, 'it) buf_stream \<Rightarrow> 'bd \<Rightarrow> string \<Rightarrow> (string, string) poll \<Rightarrow> 'bd \<Rightarrow> string \<Rightarrow> bool" where
  "loop_reads B b buf p b' buf' \<longleftrightarrow>
     (case p of
        Err e \<Rightarrow> reads B b (Err e)
      | Ok (Ready d) \<Rightarrow> \<exists>x. reads B b (Ok x) \<and> d = buf @ x
      | Ok NotReady \<Rightarrow>
          \<exists>pre. buf' = buf @ pre \<and> (\<forall>r. reads B b' r \<longrightarrow> reads B b (map_ok ((@) pre) r)))"

lemma map_ok_append: "map_ok ((@) x) (map_ok ((@) y) r) = map_ok ((@) (x @ y)) r"
  by (cases r) simp_all

lemma loop_reads_more:
  assumes "bs_poll_buf B b = (Ok (Ready (Some it)), b1)"
    and "loop_reads B b1 (buf @ bs_bytes B it) p b' buf'"
  shows "loop_reads B b buf p b' buf'"
proof (cases p rule: poll_exhaust)
  case (ready d)
  with assms(2) obtain x where "reads B b1 (Ok x)" "d = buf @ bs_bytes B it @ x"
    by (auto simp: loop_reads_def)
  with reads_more[OF assms(1), of "Ok x"] ready show ?thesis by (auto simp: loop_reads_def)
next
  case not_ready
  with assms(2) obtain pre where pre: "buf' = buf @ bs_bytes B it @ pre"
    "\<forall>r. reads B b' r \<longrightarrow> reads B b1 (map_ok ((@) pre) r)"
    by (auto simp: loop_reads_def)
  have "reads B b (map_ok ((@) (bs_bytes B it @ pre)) r)" if "reads B b' r" for r
  proof -
    from pre(2) that have "reads B b1 (map_ok ((@) pre) r)" by blast
    from reads_more[OF assms(1) this] show ?thesis by (simp add: map_ok_append)
  qed
  with pre(1) not_ready show ?thesis by (auto simp: loop_reads_def)
next
  case (err e)
  with assms(2) reads_more[OF assms(1), of "Err e"] show ?thesis by (simp add: loop_reads_def)
qed

lemma receive_loop_reads:
  "receive_loop B b buf = Some (p, b', buf') \<Longrightarrow> loop_reads B b buf p b' buf'"
proof -
  have "loop_reads B b buf (fst y) (fst (snd y)) (snd (snd y))" if "receive_loop B b buf = Some y" for y
    using _ that
  proof (rule receive_loop.raw_induct[where P =
        "\<lambda>B b buf y. loop_reads B b buf (fst y) (fst (snd y)) (snd (snd y))"], goal_cases)
    case (1 f B b buf y)
    obtain r b1 where r: "bs_poll_buf B b = (r, b1)" by (cases "bs_poll_buf B b")
    consider (err) e where "r = Err e" | (wait) "r = Ok NotReady" | (fin) "r = Ok (Ready None)"
      | (more) it where "r = Ok (Ready (Some it))"
      by (metis async.exhaust option.exhaust result.exhaust)
    then show ?case
    proof cases
      case (more it)
      with 1 r have "loop_reads B b1 (buf @ bs_bytes B it) (fst y) (fst (snd y)) (snd (snd y))" by simp
      moreover have "bs_poll_buf B b = (Ok (Ready (Some it)), b1)" using r more by simp
      ultimately show ?thesis by (rule loop_reads_more[rotated])
    next
      case wait
      have "map_ok ((@) []) t = t" for t :: "(string, string) result" by (cases t) simp_all
      with 1 r wait show ?thesis by (auto simp: loop_reads_def intro: reads_wait)
    qed (use 1 r in \<open>auto simp: loop_reads_def intro: reads_end reads_err\<close>)
  qed
  then show "receive_loop B b buf = Some (p, b', buf') \<Longrightarrow> loop_reads B b buf p b' buf'" by fastforce
qed

lemma receive_loop_returns:
  "stream_measure B m \<Longrightarrow> \<exists>y. receive_loop B b buf = Some y"
proof (induction "m b" arbitrary: b buf rule: less_induct)
  case less
  show ?case
    by (subst receive_loop.simps)
       (use less in \<open>auto simp: stream_measure_def split: result.split async.split option.split prod.split\<close>)
qed

definition receive_value ::
  "(string, string) result \<Rightarrow> (string one, http_error) result" where
  "receive_value r = map_err FailureError (map_ok One r)"

lemma receive_value_simps [simp]:
  "receive_value (Ok x) = Ok (One x)" "receive_value (Err e) = Err (FailureError e)"
  by (simp_all add: receive_value_def)

lemma receiving_polls_sound:
  "polls_to (receive_all_action B) s ac r ac' \<Longrightarrow> s = Receiving b buf \<Longrightarrow>
     ac' = ac \<and> (\<exists>r0. reads B b r0 \<and> r = receive_value (map_ok ((@) buf) r0))"
proof (induction arbitrary: b buf rule: polls_to.induct)
  case (polled_ready s ac x s' ac' b buf)
  then obtain d b' buf' where "receive_loop B b buf = Some (Ok (Ready d), b', buf')" "x = One d" "ac' = ac"
    by (auto simp: receive_all_action_def receive_all_poll_def receive_poll_receiving_def
             split: option.splits)
  with receive_loop_reads[of B b buf] show ?case by (fastforce simp: loop_reads_def)
next
  case (polled_err s ac e s' ac' b buf)
  then obtain d b' buf' where "receive_loop B b buf = Some (Err d, b', buf')" "e = FailureError d" "ac' = ac"
    by (auto simp: receive_all_action_def receive_all_poll_def receive_poll_receiving_def
             split: option.splits)
  with receive_loop_reads[of B b buf] show ?case by (fastforce simp: loop_reads_def)
next
  case (polled_later s ac s' ac1 r ac' b buf)
  then obtain b' buf' where *: "receive_loop B b buf = Some (Ok NotReady, b', buf')"
    "s' = Receiving b' buf'" "ac1 = ac"
    by (auto simp: receive_all_action_def receive_all_poll_def receive_poll_receiving_def
             split: option.splits)
  from receive_loop_reads[OF *(1)] obtain pre where pre: "buf' = buf @ pre"
    "\<forall>r. reads B b' r \<longrightarrow> reads B b (map_ok ((@) pre) r)"
    by (auto simp: loop_reads_def)
  from polled_later.IH[OF *(2)] obtain r0 where "ac' = ac1" "reads B b' r0"
    "r = receive_value (map_ok ((@) buf') r0)" by blast
  with pre * show ?case by (auto simp: map_ok_append intro!: exI[of _ "map_ok ((@) pre) r0"])
qed

lemma receiving_polls_complete:
  "reads B b r0 \<Longrightarrow>
     polls_to (receive_all_action B) (Receiving b buf) ac (receive_value (map_ok ((@) buf) r0)) ac"
proof (induction arbitrary: buf rule: reads.induct)
  case (reads_end b b')
  then show ?case
    by (subst polls_to_unfold, subst receive_all_action_def)
       (simp add: receive_all_poll_def receive_poll_receiving_def receive_loop.simps[of B b])
next
  case (reads_err b e b')
  then show ?case
    by (subst polls_to_unfold, subst receive_all_action_def)
       (simp add: receive_all_poll_def receive_poll_receiving_def receive_loop.simps[of B b])
next
  case (reads_more b it b' r)
  have loop: "receive_loop B b buf = receive_loop B b' (buf @ bs_bytes B it)"
    using reads_more.hyps(1) by (simp add: receive_loop.simps[of B b])
  have "act_poll (receive_all_action B) (Receiving b buf) ac =
      act_poll (receive_all_action B) (Receiving b' (buf @ bs_bytes B it)) ac"
    by (simp add: receive_all_action_def receive_all_poll_def receive_poll_receiving_def loop)
  then have "polls_to (receive_all_action B) (Receiving b buf) ac t ac \<longleftrightarrow>
      polls_to (receive_all_action B) (Receiving b' (buf @ bs_bytes B it)) ac t ac" for t
    by (subst (1 2) polls_to_unfold) simp
  with reads_more.IH[of "buf @ bs_bytes B it"] show ?case
    by (simp add: map_ok_append del: append_assoc)
next
  case (reads_wait b b' r)
  then have "act_poll (receive_all_action B) (Receiving b buf) ac = Ret (Ok NotReady, Receiving b' buf, ac)"
    by (simp add: receive_all_action_def receive_all_poll_def receive_poll_receiving_def
        receive_loop.simps[of B b])
  with reads_wait.IH show ?case by (simp add: polls_to_later)
qed

lemma receiving_polls:
  "polls_to (receive_all_action B) (Receiving b []) ac r ac' \<longleftrightarrow>
     ac' = ac \<and> (\<exists>r0. reads B b r0 \<and> r = receive_value r0)"
proof -
  have nil: "map_ok ((@) []) t = t" for t :: "(string, string) result" by (cases t) simp_all
  show ?thesis
    using receiving_polls_sound[of B "Receiving b []" ac r ac' b "[]"]
      receiving_polls_complete[of B b _ "[]" ac] by (auto simp: nil)
qed

text \<open>
  The bytes of the body, in order, once; the body is gone from the context afterwards, and a
  second reader of the same request gets the error 500.
\<close>

definition body_received ::
  "('bd, 'it) buf_stream \<Rightarrow> ('h, 'j, 'bd) action_context \<Rightarrow> (string one, http_error) result
    \<Rightarrow> ('h, 'j, 'bd) action_context \<Rightarrow> bool" where
  "body_received B ac r ac' \<longleftrightarrow>
     ac' = ac\<lparr>ac_body := None\<rparr> \<and>
     (case ac_body ac of
        None \<Rightarrow> r = Err (internal_server_error ''the request body has already been stolen by someone'')
      | Some b \<Rightarrow> \<exists>r0. reads B b r0 \<and> r = receive_value r0)"

lemma receive_all_polls:
  "polls_to (receive_all_action B) RecvStart ac r ac' \<longleftrightarrow> body_received B ac r ac'"
proof (cases "ac_body ac")
  case None
  then show ?thesis
    by (subst polls_to_unfold, subst receive_all_action_def)
       (auto simp: receive_all_poll_def take_body_eq body_received_def)
next
  case (Some b)
  then have "act_poll (receive_all_action B) RecvStart ac =
      act_poll (receive_all_action B) (Receiving b []) (ac\<lparr>ac_body := None\<rparr>)"
    by (simp add: receive_all_action_def receive_all_poll_def take_body_eq)
  then have "polls_to (receive_all_action B) RecvStart ac r ac' \<longleftrightarrow>
      polls_to (receive_all_action B) (Receiving b []) (ac\<lparr>ac_body := None\<rparr>) r ac'"
    by (subst (1 2) polls_to_unfold) simp
  with Some show ?thesis by (simp add: receiving_polls body_received_def)
qed

text \<open>
  C18: Receiving the body resolves exactly to the concatenation of the chunks of the stream in
  order, or to its error; the body is taken out of the context, and a second reader gets an
  internal server error.
\<close>

lemma resolves_receive_all:
  "resolves (ep_impl (receive_all_endpoint B)) (ep_action (receive_all_endpoint B)) cur ac r cur' ac' \<longleftrightarrow>
     cur' = cur \<and> body_received B ac r ac'"
  unfolding receive_all_endpoint_def endpoint.select_convs
  by (subst resolves_default) (simp_all add: receive_all_action_def flip: receive_all_polls)

section \<open>The typed endpoints\<close>

text \<open>Their polls are those of \<open>receive_all\<close> with the parser applied to the data.\<close>

definition parse_received ::
  "(string \<Rightarrow> ('a, http_error) result) \<Rightarrow> (string one, http_error) result \<Rightarrow> ('a one, http_error) result" where
  "parse_received parse r = (case r of Ok (One d) \<Rightarrow> map_ok One (parse d) | Err e \<Rightarrow> Err e)"

lemma received_polls:
  fixes A :: "('bd receive_state, 'h, 'j, 'bd, 'a one) action"
  assumes "\<And>s ac. act_poll A s ac = received parse (receive_all_poll B s ac)"
  shows "polls_to A s ac r ac' \<longleftrightarrow>
    (\<exists>r0. polls_to (receive_all_action B) s ac r0 ac' \<and> r = parse_received parse r0)"
proof (rule polls_to_mapped[where g = "\<lambda>s. s" and d = "\<lambda>_ s. s"])
  fix s and ac :: "('h, 'j, 'bd) action_context"
  show "act_poll A s ac = map_run (\<lambda>(p, s', a). case p of
          Ok NotReady \<Rightarrow> (Ok NotReady, s', a)
        | Ok (Ready x) \<Rightarrow> (map_ok Ready (parse_received parse (Ok x)), s', a)
        | Err e \<Rightarrow> (map_ok Ready (parse_received parse (Err e)), s', a))
      (act_poll (receive_all_action B) s ac)"
    by (auto simp: assms received_def receive_all_action_def parse_received_def map_ok_def
        split: run.splits result.splits async.splits one.splits)
qed

text \<open>
  The checks of the three preflights on the request, with the error of a request they reject,
  and what the endpoints resolve to: the body stays in the context when the check fails.
\<close>

definition text_check :: "'h http_api \<Rightarrow> ('m, 'n) mime_api \<Rightarrow> 'h request \<Rightarrow> http_error option" where
  "text_check H M rq =
     (case content_type H M rq of
        Err e \<Rightarrow> Some e
      | Ok mime \<Rightarrow>
          if (\<forall>m p. mime = Some m \<and> mm_get_param M m ''charset'' = Some p \<longrightarrow> mm_name_eq M p ''utf-8'')
          then None else Some (bad_request ''Only the UTF-8 charset is supported.''))"

definition mime_check ::
  "'h http_api \<Rightarrow> ('m, 'n) mime_api \<Rightarrow> 'm \<Rightarrow> string \<Rightarrow> 'h request \<Rightarrow> http_error option" where
  "mime_check H M expected msg rq =
     (case content_type H M rq of
        Err e \<Rightarrow> Some e
      | Ok None \<Rightarrow> Some (bad_request ''missing content type'')
      | Ok (Some m) \<Rightarrow> if mm_eq M m expected then None else Some (bad_request msg))"

abbreviation json_check :: "'h http_api \<Rightarrow> ('m, 'n) mime_api \<Rightarrow> 'h request \<Rightarrow> http_error option" where
  "json_check H M \<equiv> mime_check H M (mm_application_json M)
     ''The value of `Content-type` must be `application/json`.''"

abbreviation urlencoded_check :: "'h http_api \<Rightarrow> ('m, 'n) mime_api \<Rightarrow> 'h request \<Rightarrow> http_error option" where
  "urlencoded_check H M \<equiv> mime_check H M (mm_www_form_urlencoded M)
     ''The value of `Content-type` must be `application-x-www-form-urlencoded`.''"

definition check_preflight ::
  "('h request \<Rightarrow> http_error option) \<Rightarrow> 's \<Rightarrow> ('h, 'j) context_state \<Rightarrow> cursor
    \<Rightarrow> (('o preflight, http_error) result \<times> 's \<times> cursor) run" where
  "check_preflight check s cx cur =
     Ret (case check (cx_request cx) of None \<Rightarrow> Ok Incomplete | Some e \<Rightarrow> Err e, s, cur)"

lemma text_preflight_check: "text_preflight H M = check_preflight (text_check H M)"
  by (intro ext) (auto simp: text_preflight_def text_check_def check_preflight_def
      split: result.splits option.splits)

lemma json_preflight_check: "json_preflight H M = check_preflight (json_check H M)"
  by (intro ext) (auto simp: json_preflight_def mime_check_def check_preflight_def
      split: result.splits option.splits)

lemma urlencoded_preflight_check: "urlencoded_preflight H M = check_preflight (urlencoded_check H M)"
  by (intro ext) (auto simp: urlencoded_preflight_def mime_check_def check_preflight_def
      split: result.splits option.splits)

definition typed_body ::
  "('h request \<Rightarrow> http_error option) \<Rightarrow> (string \<Rightarrow> ('a, http_error) result) \<Rightarrow> ('bd, 'it) buf_stream
    \<Rightarrow> ('h, 'j, 'bd) action_context \<Rightarrow> ('a one, http_error) result \<Rightarrow> ('h, 'j, 'bd) action_context \<Rightarrow> bool" where
  "typed_body check parse B ac r ac' \<longleftrightarrow>
     (case check (cx_request (ac_context ac)) of
        Some e \<Rightarrow> r = Err e \<and> ac' = ac
      | None \<Rightarrow> \<exists>r0. body_received B ac r0 ac' \<and> r = parse_received parse r0)"

lemma resolves_typed:
  fixes A :: "('bd receive_state, 'h, 'j, 'bd, 'a one) action"
  assumes pre: "act_preflight A = check_preflight check"
    and poll: "\<And>s ac. act_poll A s ac = received parse (receive_all_poll B s ac)"
  shows "resolves A RecvStart cur ac r cur' ac' \<longleftrightarrow> cur' = cur \<and> typed_body check parse B ac r ac'"
  using received_polls[OF poll, of _ ac r ac']
  by (auto simp: resolves_def pre check_preflight_def typed_body_def receive_all_polls split: option.splits)

text \<open>
  The text endpoint rejects a charset other than utf-8 before it touches the body, accepts a
  missing content type, and otherwise resolves to the body when it is valid utf-8.
\<close>

lemma resolves_text:
  "resolves (ep_impl (text_endpoint H M B)) (ep_action (text_endpoint H M B)) cur ac r cur' ac' \<longleftrightarrow>
     cur' = cur \<and> typed_body (text_check H M) text_parse B ac r ac'"
  unfolding text_endpoint_def endpoint.select_convs
  by (rule resolves_typed) (simp_all add: text_action_def text_preflight_check)

text \<open>
  C19: The json endpoint rejects a request with a wrong or missing content type before it touches
  the body, and otherwise resolves to the parsed body or the error of receiving or parsing it.
\<close>

lemma resolves_json:
  "resolves (ep_impl (json_endpoint H M js B)) (ep_action (json_endpoint H M js B)) cur ac r cur' ac' \<longleftrightarrow>
     cur' = cur \<and> typed_body (json_check H M) (json_parse js) B ac r ac'"
  unfolding json_endpoint_def endpoint.select_convs
  by (rule resolves_typed) (simp_all add: json_action_def json_preflight_check)

lemma resolves_urlencoded:
  "resolves (ep_impl (urlencoded_endpoint H M qs B)) (ep_action (urlencoded_endpoint H M qs B)) cur ac r cur' ac' \<longleftrightarrow>
     cur' = cur \<and> typed_body (urlencoded_check H M) (urlencoded_parse qs) B ac r ac'"
  unfolding urlencoded_endpoint_def endpoint.select_convs
  by (rule resolves_typed) (simp_all add: urlencoded_action_def urlencoded_preflight_check)

text \<open>A request the checks reject is the client's fault.\<close>

lemma content_type_error: "content_type H M rq = Err e \<Longrightarrow> status_code_of e = BAD_REQUEST"
  by (auto simp: content_type_def split: option.splits result.splits)

lemma body_check_status:
  "text_check H M rq = Some e \<Longrightarrow> status_code_of e = BAD_REQUEST"
  "mime_check H M expected msg rq = Some e \<Longrightarrow> status_code_of e = BAD_REQUEST"
  by (auto simp: text_check_def mime_check_def content_type_error
      split: result.splits option.splits if_splits)

section \<open>The contract\<close>

lemma receive_all_poll_returns:
  assumes "stream_measure B m"
  shows "\<exists>p s' ac'. receive_all_poll B s ac = Ret (p, s', ac')"
proof -
  have "\<exists>p s'. receive_poll_receiving B b buf ac = Ret (p, s', ac)" for b buf ac
    using receive_loop_returns[OF assms, of b buf] by (auto simp: receive_poll_receiving_def)
  then show ?thesis
    by (cases s) (fastforce simp: receive_all_poll_def take_body_eq split: option.splits)+
qed

lemma receive_all_endpoint_action:
  assumes "stream_measure B m"
  shows "endpoint_action (ep_impl (receive_all_endpoint B)) (ep_action (receive_all_endpoint B)) (\<lambda>_. True)"
proof (rule endpoint_actionI)
  fix s ac
  show "\<exists>p s' ac'. act_poll (ep_impl (receive_all_endpoint B)) s ac = Ret (p, s', ac') \<and>
      (p = Ok NotReady \<longrightarrow> True)"
    using receive_all_poll_returns[OF assms, of s ac]
    by (auto simp: receive_all_endpoint_def receive_all_action_def)
qed (auto simp: receive_all_endpoint_def receive_all_action_def default_preflight_def)

lemma received_returns:
  "\<exists>p s' ac'. q = Ret (p, s', ac') \<Longrightarrow> \<exists>p s' ac'. received parse q = Ret (p, s', ac')"
  by (auto simp: received_def split: result.splits async.splits one.splits)

lemma typed_endpoint_action:
  fixes A :: "('bd receive_state, 'h, 'j, 'bd, 'a one) action"
  assumes pre: "\<And>s cx cur. \<exists>q. act_preflight A s cx cur = Ret (q, s, cur) \<and> C q cx"
    and poll: "\<And>s ac. act_poll A s ac = received parse (receive_all_poll B s ac)"
    and m: "stream_measure B m"
  shows "endpoint_action A RecvStart (\<lambda>_. True)"
proof (rule endpoint_actionI)
  fix s and ac :: "('h, 'j, 'bd) action_context"
  show "\<exists>p s' ac'. act_poll A s ac = Ret (p, s', ac') \<and> (p = Ok NotReady \<longrightarrow> True)"
    using received_returns[OF receive_all_poll_returns[OF m, of s ac]] by (auto simp: poll)
next
  fix cx :: "('h, 'j) context_state" and cur
  assume "cursor_balanced (cx_path cx) cur"
  with pre[of RecvStart cx cur] show "\<exists>r s cur'. act_preflight A RecvStart cx cur = Ret (r, s, cur') \<and>
      cursor_balanced (cx_path cx) cur' \<and> cur_popped cur \<le> cur_popped cur' \<and> (r = Ok Incomplete \<longrightarrow> True)"
    by blast
qed

lemma json_endpoint_action:
  "stream_measure B m \<Longrightarrow>
     endpoint_action (ep_impl (json_endpoint H M js B)) (ep_action (json_endpoint H M js B)) (\<lambda>_. True)"
  unfolding json_endpoint_def endpoint.select_convs
  by (rule typed_endpoint_action[where C = "\<lambda>_ _. True"])
     (auto simp: json_action_def json_preflight_def)

text \<open>A body that is a list of chunks: the streams of the crate's tests. It satisfies the
  measure, so the contract holds for it.\<close>

definition list_stream :: "(string list, string) buf_stream" where
  "list_stream = \<lparr>bs_poll_buf = (\<lambda>b. case b of [] \<Rightarrow> (Ok (Ready None), []) | c # cs \<Rightarrow> (Ok (Ready (Some c)), cs)),
     bs_bytes = (\<lambda>c. c)\<rparr>"

lemma list_stream_measure: "stream_measure list_stream length"
  by (auto simp: stream_measure_def list_stream_def split: list.splits)

lemma list_stream_reads: "reads list_stream cs (Ok (concat cs))"
proof (induction cs)
  case Nil
  show ?case using reads.reads_end[of list_stream "[]"] by (simp add: list_stream_def)
next
  case (Cons c cs)
  have "bs_poll_buf list_stream (c # cs) = (Ok (Ready (Some c)), cs)" by (simp add: list_stream_def)
  from reads.reads_more[OF this Cons] show ?case by (simp add: list_stream_def)
qed

interpretation receive_all_act: endpoint_action
  "ep_impl (receive_all_endpoint list_stream)" "ep_action (receive_all_endpoint list_stream)" "\<lambda>_. True"
  by (rule receive_all_endpoint_action[OF list_stream_measure])

interpretation json_act: endpoint_action
  "ep_impl (json_endpoint H M js list_stream)" "ep_action (json_endpoint H M js list_stream)" "\<lambda>_. True"
  for H M js
  by (rule json_endpoint_action[OF list_stream_measure])

end
