(* ===== verification/Finch_Output.thy ===== *)
theory Finch_Output
  imports Finch_Errors
begin

text \<open>
  \<open>src/output.rs\<close> and \<open>src/output/\<close>: the conversions into HTTP responses, one definition for
  every implementation of the trait \<open>IntoResponse\<close> (files are in \<open>Finch_File\<close>).
\<close>

type_synonym ('o, 'h, 'b) into_response = "'o \<Rightarrow> 'h request \<Rightarrow> ('h, 'b) response"

section \<open>Responses, tuples and sums\<close>

definition response_into_response :: "(('h, 'b) response, 'h, 'b) into_response" where
  "response_into_response r rq = r"

definition unit_into_response :: "'h http_api \<Rightarrow> (unit, 'h, string) into_response" where
  "unit_into_response H u rq = (response_new H [])\<lparr>rs_status := NO_CONTENT\<rparr>"

definition one_into_response :: "('o, 'h, 'b) into_response \<Rightarrow> ('o one, 'h, 'b) into_response" where
  "one_into_response ir t rq = (case t of One x \<Rightarrow> ir x rq)"

definition either_into_response ::
  "('l, 'h, 'a) into_response \<Rightarrow> ('r, 'h, 'b) into_response \<Rightarrow> ('l + 'r, 'h, 'a + 'b) into_response" where
  "either_into_response irl irr e rq =
     (case e of Inl l \<Rightarrow> response_map Inl (irl l rq) | Inr r \<Rightarrow> response_map Inr (irr r rq))"

section \<open>Binary and text\<close>

definition make_binary_response :: "'h http_api \<Rightarrow> 'b \<Rightarrow> ('h, 'b) response" where
  "make_binary_response H body =
     (let response = response_new H body in
      response\<lparr>rs_headers := hm_insert H (rs_headers response) ''content-type'' ''application/octet-stream''\<rparr>)"

text \<open>The implementations for byte slices, \<open>Vec<u8>\<close>, \<open>Cow<[u8]>\<close> and \<open>Bytes\<close>.\<close>

definition binary_into_response :: "'h http_api \<Rightarrow> ('b, 'h, 'b) into_response" where
  "binary_into_response H body rq = make_binary_response H body"

definition make_text_response :: "'h http_api \<Rightarrow> 'b \<Rightarrow> ('h, 'b) response" where
  "make_text_response H body =
     (let response = response_new H body in
      response\<lparr>rs_headers := hm_insert H (rs_headers response) ''content-type'' ''text/plain; charset=utf-8''\<rparr>)"

text \<open>The implementations for \<open>&str\<close>, \<open>String\<close> and \<open>Cow<str>\<close>.\<close>

definition text_into_response :: "'h http_api \<Rightarrow> ('b, 'h, 'b) into_response" where
  "text_into_response H body rq = make_text_response H body"

text \<open>\<open>Debug<T>\<close>, where \<open>dbg\<close> is the derived formatting; the response builder appends the
  header to an empty map.\<close>

datatype 'a debug_out = DebugOut 'a

definition debug_into_response :: "'h http_api \<Rightarrow> ('a \<Rightarrow> string) \<Rightarrow> ('a debug_out, 'h, string) into_response" where
  "debug_into_response H dbg d rq =
     (case d of DebugOut x \<Rightarrow>
        (response_new H (dbg x))\<lparr>rs_headers := hm_append H (hm_empty H) ''content-type'' ''text/plain; charset=utf-8''\<rparr>)"

section \<open>JSON\<close>

text \<open>\<open>to_string\<close> is \<open>serde_json::to_string\<close> with the \<open>Display\<close> text of its error, \<open>print\<close> the
  printing of a JSON value, of which the error object below needs three forms.\<close>

datatype json_value = JNumber int | JString string | JObject "(string \<times> json_value) list"

datatype 'a json_out = JsonOut 'a

definition json_from :: "'a \<Rightarrow> 'a json_out" where
  "json_from inner = JsonOut inner"

definition json_error_body :: "(json_value \<Rightarrow> string) \<Rightarrow> string \<Rightarrow> string" where
  "json_error_body print err =
     print (JObject [(''code'', JNumber 500),
                     (''message'', JString (''failed to construct JSON response: '' @ err))])"

definition json_into_response ::
  "'h http_api \<Rightarrow> (json_value \<Rightarrow> string) \<Rightarrow> ('a \<Rightarrow> (string, string) result)
    \<Rightarrow> ('a json_out, 'h, string) into_response" where
  "json_into_response H print to_string j rq =
     (case j of JsonOut x \<Rightarrow>
       (case (case to_string x of
                Ok body \<Rightarrow> (STATUS_OK, body)
              | Err err \<Rightarrow> (INTERNAL_SERVER_ERROR, json_error_body print err)) of
          (status, body) \<Rightarrow>
            let response = (response_new H body)\<lparr>rs_status := status\<rparr> in
            response\<lparr>rs_headers := hm_insert H (rs_headers response) ''content-type'' ''application/json''\<rparr>))"

definition value_into_response :: "'h http_api \<Rightarrow> ('v \<Rightarrow> string) \<Rightarrow> ('v, 'h, string) into_response" where
  "value_into_response H print v rq =
     (let response = response_new H (print v) in
      response\<lparr>rs_headers := hm_insert H (rs_headers response) ''content-type'' ''application/json''\<rparr>)"

section \<open>Redirects\<close>

record redirect =
  rd_status :: status_code
  rd_location :: "string option"

definition redirect_new :: "status_code \<Rightarrow> redirect" where
  "redirect_new status = \<lparr>rd_status = status, rd_location = None\<rparr>"

text \<open>\<open>hv_static\<close> is \<open>HeaderValue::from_static\<close>, which panics on an invalid value.\<close>

definition redirect_location :: "(string \<Rightarrow> string run) \<Rightarrow> string \<Rightarrow> redirect \<Rightarrow> redirect run" where
  "redirect_location hv_static location r =
     map_run (\<lambda>v. r\<lparr>rd_location := Some v\<rparr>) (hv_static location)"

text \<open>The constructors the macro \<open>impl_constructors!\<close> makes, by their status.\<close>

definition redirect_to :: "(string \<Rightarrow> string run) \<Rightarrow> status_code \<Rightarrow> string \<Rightarrow> redirect run" where
  "redirect_to hv_static status location =
     map_run (\<lambda>v. \<lparr>rd_status = status, rd_location = Some v\<rparr>) (hv_static location)"

definition redirect_constructors :: "(string \<times> status_code) list" where
  "redirect_constructors =
     [(''moved_permanently'', MOVED_PERMANENTLY), (''found'', FOUND), (''see_other'', SEE_OTHER),
      (''temporary_redirect'', TEMPORARY_REDIRECT), (''permanent_redirect'', PERMANENT_REDIRECT)]"

definition redirect_not_modified :: redirect where
  "redirect_not_modified = redirect_new NOT_MODIFIED"

definition redirect_into_response :: "'h http_api \<Rightarrow> (redirect, 'h, unit) into_response" where
  "redirect_into_response H r rq =
     (let response = (response_new H ())\<lparr>rs_status := rd_status r\<rparr> in
      case rd_location r of
        None \<Rightarrow> response
      | Some location \<Rightarrow>
          response\<lparr>rs_headers := hm_insert H (rs_headers response) ''location'' location\<rparr>)"

section \<open>Status codes\<close>

definition status_code_into_response :: "'h http_api \<Rightarrow> (status_code, 'h, string) into_response" where
  "status_code_into_response H status rq = (response_new H [])\<lparr>rs_status := status\<rparr>"

datatype 'a created = Created 'a

definition created_into_response :: "('a, 'h, 'b) into_response \<Rightarrow> ('a created, 'h, 'b) into_response" where
  "created_into_response ir c rq = (case c of Created x \<Rightarrow> (ir x rq)\<lparr>rs_status := CREATED\<rparr>)"

datatype no_content = NoContent

definition no_content_into_response :: "'h http_api \<Rightarrow> (no_content, 'h, unit) into_response" where
  "no_content_into_response H n rq = (response_new H ())\<lparr>rs_status := NO_CONTENT\<rparr>"

record 'a status_out =
  so_value :: 'a
  so_status :: status_code

definition status_into_response :: "('a, 'h, 'b) into_response \<Rightarrow> ('a status_out, 'h, 'b) into_response" where
  "status_into_response ir s rq = (ir (so_value s) rq)\<lparr>rs_status := so_status s\<rparr>"

section \<open>Properties\<close>

text \<open>What distinguishes the responses: status, content type and location.\<close>

definition content_type_of :: "'h http_api \<Rightarrow> ('h, 'b) response \<Rightarrow> string list" where
  "content_type_of H r = hm_get_all H (rs_headers r) ''content-type''"

text \<open>
  The json responder always declares application/json; it answers 200 with the serialised
  value, or 500 with the error document when the value cannot be serialised.
\<close>

lemma json_response:
  assumes "http_laws H"
  shows "content_type_of H (json_into_response H print to_string (JsonOut x) rq) = [''application/json''] \<and>
    (case to_string x of
       Ok body \<Rightarrow> rs_status (json_into_response H print to_string (JsonOut x) rq) = STATUS_OK \<and>
         rs_body (json_into_response H print to_string (JsonOut x) rq) = body
     | Err e \<Rightarrow> rs_status (json_into_response H print to_string (JsonOut x) rq) = INTERNAL_SERVER_ERROR \<and>
         rs_body (json_into_response H print to_string (JsonOut x) rq) = json_error_body print e)"
  using assms
  by (simp add: json_into_response_def content_type_of_def http_lawsD Let_def split: result.split)

lemma text_response:
  "http_laws H \<Longrightarrow> content_type_of H (text_into_response H b rq) = [''text/plain; charset=utf-8'']"
  "rs_status (text_into_response H b rq) = STATUS_OK" "rs_body (text_into_response H b rq) = b"
  by (simp_all add: text_into_response_def make_text_response_def content_type_of_def http_lawsD Let_def)

text \<open>\<open>Debug\<close> responses have the headers of text responses.\<close>

lemma debug_response_text:
  "http_laws H \<Longrightarrow>
     hm_get_all H (rs_headers (debug_into_response H dbg (DebugOut x) rq)) n =
     hm_get_all H (rs_headers (text_into_response H (dbg x) rq)) n"
  by (simp add: debug_into_response_def text_into_response_def make_text_response_def http_lawsD Let_def)

text \<open>The status wrappers change the status only, the outer one wins.\<close>

lemma status_wrappers:
  "created_into_response ir (Created x) rq = status_into_response ir \<lparr>so_value = x, so_status = CREATED\<rparr> rq"
  "status_into_response (status_into_response ir) \<lparr>so_value = \<lparr>so_value = x, so_status = a\<rparr>, so_status = b\<rparr> rq =
     status_into_response ir \<lparr>so_value = x, so_status = b\<rparr> rq"
  "rs_body (status_into_response ir s rq) = rs_body (ir (so_value s) rq)"
  "rs_headers (status_into_response ir s rq) = rs_headers (ir (so_value s) rq)"
  by (simp_all add: created_into_response_def status_into_response_def)

text \<open>A redirect built by a constructor has its status and the location as its only header.\<close>

text \<open>
  A redirect made by one of the constructors carries its status and a single location header,
  and no other header.
\<close>

lemma redirect_response:
  assumes "http_laws H" and "redirect_to hv_static status loc = Ret r"
  shows "rs_status (redirect_into_response H r rq) = status \<and>
    (\<exists>v. hv_static loc = Ret v \<and>
      hm_get_all H (rs_headers (redirect_into_response H r rq)) n = (if n = ''location'' then [v] else []))"
  using assms by (auto simp: redirect_to_def redirect_into_response_def http_lawsD Let_def)

lemma redirect_constructors_status:
  "(name, status) \<in> set redirect_constructors \<Longrightarrow> 300 \<le> status \<and> status < 400 \<and> status \<noteq> NOT_MODIFIED"
  by (auto simp: redirect_constructors_def)

text \<open>A sum answers as the side that was chosen.\<close>

lemma either_response:
  "rs_status (either_into_response irl irr (Inl l) rq) = rs_status (irl l rq)"
  "rs_headers (either_into_response irl irr (Inl l) rq) = rs_headers (irl l rq)"
  "rs_status (either_into_response irl irr (Inr r) rq) = rs_status (irr r rq)"
  "rs_headers (either_into_response irl irr (Inr r) rq) = rs_headers (irr r rq)"
  by (simp_all add: either_into_response_def)

lemma json_response_witness:
  "\<forall>rq. content_type_of list_http (json_into_response list_http (\<lambda>_. ''{}'') (\<lambda>n. Ok (show_nat n)) (JsonOut 3) rq) =
       [''application/json''] \<and>
     rs_body (json_into_response list_http (\<lambda>_. ''{}'') (\<lambda>n. Ok (show_nat n)) (JsonOut 3) rq) = show_nat 3"
  using json_response[OF list_http_laws, of "\<lambda>_. ''{}''" "\<lambda>n. Ok (show_nat n)" 3] by simp

lemma redirect_response_witness:
  "\<forall>rq. rs_status (redirect_into_response list_http
       \<lparr>rd_status = FOUND, rd_location = Some ''/home''\<rparr> rq) = FOUND"
proof
  fix rq
  have *: "redirect_to Ret FOUND ''/home'' = Ret \<lparr>rd_status = FOUND, rd_location = Some ''/home''\<rparr>"
    by (simp add: redirect_to_def)
  from redirect_response[OF list_http_laws *, of rq]
  show "rs_status (redirect_into_response list_http
       \<lparr>rd_status = FOUND, rd_location = Some ''/home''\<rparr> rq) = FOUND" by simp
qed

end
