(* ===== verification/Finch_File.thy ===== *)
theory Finch_File
  imports Finch_Encoded Finch_Ext_Then
begin

text \<open>
  \<open>src/output/fs.rs\<close> and \<open>src/endpoints/fs.rs\<close>: opening a file, streaming its contents, and
  the endpoints that serve one file or a directory. The file system, the byte buffers and the
  guessing of mime types are foreign code and parameters.
\<close>

section \<open>The file system\<close>

type_synonym io_error = "io_error_kind \<times> string"

definition io_into_error :: "io_error \<Rightarrow> http_error" where
  "io_into_error e = (case e of (k, msg) \<Rightarrow> IoError k msg)"

text \<open>
  Futures for opening a file and reading its metadata, reads into a buffer with room for
  \<open>n\<close> bytes, and the room a \<open>BytesMut\<close> has when new and after \<open>reserve\<close>.
\<close>

record ('op, 'mt, 'fl, 'md) fs_api =
  fs_open :: "string \<Rightarrow> 'op"
  fs_poll_open :: "'op \<Rightarrow> ('fl, io_error) poll \<times> 'op"
  fs_metadata :: "'fl \<Rightarrow> 'mt"
  fs_poll_metadata :: "'mt \<Rightarrow> ('fl \<times> 'md, io_error) poll \<times> 'mt"
  fs_meta_len :: "'md \<Rightarrow> nat"
  fs_blksize :: "'md \<Rightarrow> nat"
  fs_read_buf :: "'fl \<Rightarrow> nat \<Rightarrow> (string, io_error) poll \<times> 'fl"
  fs_is_dir :: "string \<Rightarrow> bool"
  fs_guess_mime :: "string \<Rightarrow> string"
  fs_buf_new :: nat
  fs_buf_reserve :: "nat \<Rightarrow> nat \<Rightarrow> nat"

section \<open>Opening a file\<close>

record ('fl, 'md) named_file =
  nf_file :: 'fl
  nf_meta :: 'md
  nf_path :: string

datatype ('op, 'mt) open_state = Opening 'op | OpenMetadata 'mt | OpenDone

record ('op, 'mt) open_named_file =
  on_state :: "('op, 'mt) open_state"
  on_path :: "string option"

definition named_file_open :: "('op, 'mt, 'fl, 'md) fs_api \<Rightarrow> string \<Rightarrow> ('op, 'mt) open_named_file" where
  "named_file_open F path = \<lparr>on_state = Opening (fs_open F path), on_path = Some path\<rparr>"

text \<open>
  \<open>OpenNamedFile::poll\<close>. The round of the loop for the metadata always returns, so the loop
  runs twice at most.
\<close>

definition open_poll_metadata ::
  "('op, 'mt, 'fl, 'md) fs_api \<Rightarrow> 'mt \<Rightarrow> ('op, 'mt) open_named_file
    \<Rightarrow> ((('fl, 'md) named_file, io_error) poll \<times> ('op, 'mt) open_named_file) run" where
  "open_poll_metadata F f o1 =
     (case fs_poll_metadata F f of
        (Err e, f') \<Rightarrow> Ret (Err e, o1\<lparr>on_state := OpenMetadata f'\<rparr>)
      | (Ok NotReady, f') \<Rightarrow> Ret (Ok NotReady, o1\<lparr>on_state := OpenMetadata f'\<rparr>)
      | (Ok (Ready (file, meta)), f') \<Rightarrow>
          (case on_path o1 of
             None \<Rightarrow> Panic
           | Some path \<Rightarrow>
               Ret (Ok (Ready \<lparr>nf_file = file, nf_meta = meta, nf_path = path\<rparr>),
                    \<lparr>on_state = OpenDone, on_path = None\<rparr>)))"

definition open_named_file_poll ::
  "('op, 'mt, 'fl, 'md) fs_api \<Rightarrow> ('op, 'mt) open_named_file
    \<Rightarrow> ((('fl, 'md) named_file, io_error) poll \<times> ('op, 'mt) open_named_file) run" where
  "open_named_file_poll F o1 =
     (case on_state o1 of
        Opening f \<Rightarrow>
          (case fs_poll_open F f of
             (Err e, f') \<Rightarrow> Ret (Err e, o1\<lparr>on_state := Opening f'\<rparr>)
           | (Ok NotReady, f') \<Rightarrow> Ret (Ok NotReady, o1\<lparr>on_state := Opening f'\<rparr>)
           | (Ok (Ready file), f') \<Rightarrow>
               open_poll_metadata F (fs_metadata F file) (o1\<lparr>on_state := OpenMetadata (fs_metadata F file)\<rparr>))
      | OpenMetadata f \<Rightarrow> open_poll_metadata F f o1
      | OpenDone \<Rightarrow> Panic)"

definition open_live :: "('op, 'mt) open_named_file \<Rightarrow> bool" where
  "open_live o1 \<longleftrightarrow> on_state o1 \<noteq> OpenDone \<and> on_path o1 \<noteq> None"

text \<open>The state machine never panics before it is done and keeps the path it was given.\<close>

lemma open_poll_metadata_safe:
  "on_path o1 = Some p \<Longrightarrow> \<exists>r o2. open_poll_metadata F f o1 = Ret (r, o2) \<and>
     (r = Ok NotReady \<longrightarrow> open_live o2 \<and> on_path o2 = Some p) \<and>
     (\<forall>n. r = Ok (Ready n) \<longrightarrow> nf_path n = p)"
  by (auto simp: open_poll_metadata_def open_live_def split: prod.splits result.splits async.splits)

lemma open_poll_safe:
  assumes "open_live o1" and p: "on_path o1 = Some p"
  shows "\<exists>r o2. open_named_file_poll F o1 = Ret (r, o2) \<and>
     (r = Ok NotReady \<longrightarrow> open_live o2 \<and> on_path o2 = Some p) \<and>
     (\<forall>n. r = Ok (Ready n) \<longrightarrow> nf_path n = p)"
proof (cases "on_state o1")
  case (Opening f)
  obtain r f' where r: "fs_poll_open F f = (r, f')" by (cases "fs_poll_open F f")
  show ?thesis
  proof (cases r rule: poll_exhaust)
    case (ready fl)
    with r Opening show ?thesis
      using open_poll_metadata_safe[of "o1\<lparr>on_state := OpenMetadata (fs_metadata F fl)\<rparr>" p F]
      by (simp add: open_named_file_poll_def p)
  qed (use r Opening p in \<open>simp_all add: open_named_file_poll_def open_live_def\<close>)
next
  case (OpenMetadata f)
  then show ?thesis using open_poll_metadata_safe[OF p] by (simp add: open_named_file_poll_def)
qed (use assms in \<open>simp add: open_live_def\<close>)

lemma open_future_safe:
  fixes F :: "('op, 'mt, 'fl, 'md) fs_api"
  shows "plain_future_safe (open_named_file_poll F) open_live"
  unfolding plain_future_safe_def
proof (intro allI impI)
  fix t :: "('op, 'mt) open_named_file"
  assume "open_live t"
  moreover from this obtain p where "on_path t = Some p" by (auto simp: open_live_def)
  ultimately show "\<exists>p t'. open_named_file_poll F t = Ret (p, t') \<and> (p = Ok NotReady \<longrightarrow> open_live t')"
    using open_poll_safe by blast
qed

text \<open>Two futures in sequence: the file is opened, then its metadata is read.\<close>

lemma open_ends_path:
  "future_ends (open_named_file_poll F) o1 r \<Longrightarrow> open_live o1 \<Longrightarrow> on_path o1 = Some p \<Longrightarrow>
     (\<forall>n. r = Ok n \<longrightarrow> nf_path n = p)"
proof (induction rule: future_ends.induct)
  case (ends_later t t' r)
  with open_poll_safe[OF ends_later.prems, of F] show ?case by auto
next
  case (ends_ready t x t')
  with open_poll_safe[OF ends_ready.prems, of F] show ?case by auto
qed simp

section \<open>Streaming a file\<close>

record 'fl file_stream =
  st_file :: 'fl
  st_room :: nat
  st_buf_size :: nat
  st_len :: nat

definition get_block_size :: "('op, 'mt, 'fl, 'md) fs_api \<Rightarrow> 'md \<Rightarrow> nat" where
  "get_block_size F meta = fs_blksize F meta"

definition optimal_buf_size :: "('op, 'mt, 'fl, 'md) fs_api \<Rightarrow> 'md \<Rightarrow> nat" where
  "optimal_buf_size F meta = min (get_block_size F meta) (fs_meta_len F meta)"

definition file_stream_new :: "('op, 'mt, 'fl, 'md) fs_api \<Rightarrow> 'fl \<Rightarrow> 'md \<Rightarrow> 'fl file_stream" where
  "file_stream_new F file meta =
     \<lparr>st_file = file, st_room = fs_buf_new F, st_buf_size = optimal_buf_size F meta,
      st_len = fs_meta_len F meta\<rparr>"

text \<open>
  \<open>FileStream::poll_buf\<close>: the buffer is empty between the polls, since every chunk is taken
  out of it; \<open>st_room\<close> is the room it has.
\<close>

definition file_stream_poll_buf ::
  "('op, 'mt, 'fl, 'md) fs_api \<Rightarrow> 'fl file_stream \<Rightarrow> (string option async, io_error) result \<times> 'fl file_stream" where
  "file_stream_poll_buf F s =
     (if st_len s = 0 then (Ok (Ready None), s)
      else
        let s = (if st_room s < st_buf_size s
                 then s\<lparr>st_room := fs_buf_reserve F (st_room s) (st_buf_size s)\<rparr> else s) in
        (case fs_read_buf F (st_file s) (st_room s) of
           (Err e, file) \<Rightarrow> (Err e, s\<lparr>st_file := file\<rparr>)
         | (Ok NotReady, file) \<Rightarrow> (Ok NotReady, s\<lparr>st_file := file\<rparr>)
         | (Ok (Ready chunk), file) \<Rightarrow>
             let s = s\<lparr>st_file := file, st_room := st_room s - length chunk\<rparr> in
             if length chunk = 0 then (Ok (Ready None), s)
             else if length chunk > st_len s then
               (Ok (Ready (Some (take (st_len s) chunk))), s\<lparr>st_len := 0\<rparr>)
             else (Ok (Ready (Some chunk)), s\<lparr>st_len := length chunk\<rparr>)))"

definition named_file_into_response ::
  "'h http_api \<Rightarrow> ('op, 'mt, 'fl, 'md) fs_api \<Rightarrow> ('fl, 'md) named_file \<Rightarrow> 'h request
    \<Rightarrow> ('h, 'fl file_stream) response" where
  "named_file_into_response H F n rq =
     (let body = file_stream_new F (nf_file n) (nf_meta n) in
      (response_new H body)\<lparr>rs_headers :=
         hm_append H (hm_append H (hm_empty H) ''content-length'' (show_nat (fs_meta_len F (nf_meta n))))
           ''content-type'' (fs_guess_mime F (nf_path n))\<rparr>)"

text \<open>Draining a stream with \<open>n\<close> polls.\<close>

fun file_chunks :: "('op, 'mt, 'fl, 'md) fs_api \<Rightarrow> nat \<Rightarrow> 'fl file_stream \<Rightarrow> string list" where
  "file_chunks F 0 s = []"
| "file_chunks F (Suc n) s =
     (case file_stream_poll_buf F s of
        (Ok (Ready (Some c)), s') \<Rightarrow> c # file_chunks F n s'
      | (Ok NotReady, s') \<Rightarrow> file_chunks F n s'
      | _ \<Rightarrow> [])"

text \<open>A file that is read in given pieces, one for every read.\<close>

definition piece_fs :: "(string, unit, string list, nat) fs_api" where
  "piece_fs =
     \<lparr>fs_open = (\<lambda>p. p), fs_poll_open = (\<lambda>p. (Ok (Ready []), p)), fs_metadata = (\<lambda>_. ()),
      fs_poll_metadata = (\<lambda>_. (Ok NotReady, ())), fs_meta_len = (\<lambda>n. n), fs_blksize = (\<lambda>_. 4096),
      fs_read_buf = (\<lambda>f room. case f of [] \<Rightarrow> (Ok (Ready []), []) | c # cs \<Rightarrow> (Ok (Ready c), cs)),
      fs_is_dir = (\<lambda>_. False), fs_guess_mime = (\<lambda>_. ''text/plain''), fs_buf_new = 31,
      fs_buf_reserve = (\<lambda>room n. max room n)\<rparr>"

text \<open>
  What a file gives when it is read: the pieces, one for every read with enough room, and then
  nothing.
\<close>

fun file_reads :: "('op, 'mt, 'fl, 'md) fs_api \<Rightarrow> 'fl \<Rightarrow> string list \<Rightarrow> bool" where
  "file_reads F f [] = (\<forall>room. fst (fs_read_buf F f room) = Ok (Ready []))"
| "file_reads F f (c # cs) =
     (c \<noteq> [] \<and> (\<forall>room \<ge> length c.
        fst (fs_read_buf F f room) = Ok (Ready c) \<and> file_reads F (snd (fs_read_buf F f room)) cs))"

text \<open>\<open>BytesMut::reserve\<close> makes room for the bytes it is asked for.\<close>

definition reserve_law :: "('op, 'mt, 'fl, 'md) fs_api \<Rightarrow> bool" where
  "reserve_law F \<longleftrightarrow> (\<forall>room n. n \<le> fs_buf_reserve F room n)"

text \<open>
  What the length bookkeeping does: after a chunk of \<open>k\<close> bytes the stream accepts \<open>k\<close> more bytes
  at most. A read that is longer is cut and ends the stream.
\<close>

lemma file_stream_step:
  assumes reads: "file_reads F f (c # cs)" and law: "reserve_law F" and b: "length c \<le> b" and len: "0 < len"
  shows "\<exists>f' room'. file_reads F f' cs \<and>
     file_stream_poll_buf F \<lparr>st_file = f, st_room = room, st_buf_size = b, st_len = len\<rparr> =
     (Ok (Ready (Some (take len c))),
      \<lparr>st_file = f', st_room = room', st_buf_size = b,
       st_len = (if len < length c then 0 else length c)\<rparr>)"
proof -
  let ?room = "if room < b then fs_buf_reserve F room b else room"
  have "length c \<le> ?room" using law b by (auto simp: reserve_law_def intro: order_trans)
  with reads have "fst (fs_read_buf F f ?room) = Ok (Ready c)" "file_reads F (snd (fs_read_buf F f ?room)) cs" "c \<noteq> []"
    by auto
  then show ?thesis
    using len by (cases "fs_read_buf F f ?room") (auto simp: file_stream_poll_buf_def Let_def)
qed

lemma file_stream_eof:
  assumes "file_reads F f []"
  shows "file_chunks F n \<lparr>st_file = f, st_room = room, st_buf_size = b, st_len = len\<rparr> = []"
proof (cases n)
  case (Suc m)
  let ?room = "if room < b then fs_buf_reserve F room b else room"
  from assms have "fst (fs_read_buf F f ?room) = Ok (Ready [])" by simp
  then obtain f' where "fs_read_buf F f ?room = (Ok (Ready []), f')" by (cases "fs_read_buf F f ?room") auto
  with Suc show ?thesis by (auto simp: file_stream_poll_buf_def Let_def split: if_splits)
qed simp

lemma file_stream_len_0:
  "file_chunks F n \<lparr>st_file = f, st_room = room, st_buf_size = b, st_len = 0\<rparr> = []"
  by (cases n) (simp_all add: file_stream_poll_buf_def)

lemma file_reads_nonempty: "file_reads F f cs \<Longrightarrow> cs \<noteq> [] \<Longrightarrow> concat cs \<noteq> []"
  by (cases cs) auto

lemma file_stream_deliver:
  assumes "file_reads F f cs" "reserve_law F" "\<forall>c \<in> set cs. length c \<le> b" "length cs \<le> n"
  shows "\<exists>rest. concat cs =
       concat (file_chunks F n \<lparr>st_file = f, st_room = room, st_buf_size = b, st_len = len\<rparr>) @ rest \<and>
     (rest = [] \<longleftrightarrow> sorted_wrt (\<ge>) (len # map length cs))"
  using assms
proof (induction cs arbitrary: f room len n)
  case Nil
  then show ?case by (simp add: file_stream_eof)
next
  case (Cons c cs)
  then obtain m where n: "n = Suc m" by (cases n) auto
  have c: "c \<noteq> []" using Cons.prems(1) by simp
  show ?case
  proof (cases "len = 0")
    case True
    with c show ?thesis by (simp add: file_stream_len_0)
  next
    case False
    with file_stream_step[OF Cons.prems(1,2), of b len room] Cons.prems(3) obtain f' room' where
      reads: "file_reads F f' cs" and
      step: "file_stream_poll_buf F \<lparr>st_file = f, st_room = room, st_buf_size = b, st_len = len\<rparr> =
       (Ok (Ready (Some (take len c))), \<lparr>st_file = f', st_room = room', st_buf_size = b,
         st_len = (if len < length c then 0 else length c)\<rparr>)" by auto
    show ?thesis
    proof (cases "len < length c")
      case True
      with step n show ?thesis
        by (auto simp: file_stream_len_0 intro!: exI[of _ "drop len c @ concat cs"])
    next
      case short: False
      from Cons.IH[OF reads Cons.prems(2), of m room' "length c"] Cons.prems(3,4) n obtain rest where
        "concat cs = concat (file_chunks F m \<lparr>st_file = f', st_room = room', st_buf_size = b, st_len = length c\<rparr>) @ rest"
        "rest = [] \<longleftrightarrow> sorted_wrt (\<ge>) (length c # map length cs)" by auto
      with step n short show ?thesis
        by (intro exI[of _ rest]) (auto intro: order_trans)
    qed
  qed
qed

text \<open>
  C25: A file stream delivers a prefix of what the reads of its file give, and delivers all of it
  exactly when no read is longer than the one before it, and the first one not longer than the
  length of the metadata: a longer read is cut, and the rest of the file is lost.
\<close>

lemma file_stream_delivers:
  assumes "file_reads F file cs" "reserve_law F" "\<forall>c \<in> set cs. length c \<le> optimal_buf_size F meta" "length cs \<le> n"
  shows "\<exists>rest. concat cs = concat (file_chunks F n (file_stream_new F file meta)) @ rest \<and>
     (rest = [] \<longleftrightarrow> sorted_wrt (\<ge>) (fs_meta_len F meta # map length cs))"
  unfolding file_stream_new_def by (rule file_stream_deliver[OF assms])

text \<open>The reads of a file of two chunks, the second one shorter or longer than the first.\<close>

lemma piece_fs_reads: "[] \<notin> set cs \<Longrightarrow> file_reads piece_fs cs cs"
  by (induction cs) (auto simp: piece_fs_def)

lemma piece_fs_reserve: "reserve_law piece_fs"
  by (simp add: reserve_law_def piece_fs_def)

lemma piece_stream_complete:
  "file_chunks piece_fs 3 (file_stream_new piece_fs [''abc'', ''de''] 5) = [''abc'', ''de'']"
  by code_simp

lemma piece_stream_truncated:
  "file_chunks piece_fs 3 (file_stream_new piece_fs [''ab'', ''cde''] 5) = [''ab'', ''cd'']"
  by code_simp

lemma file_stream_delivers_witness:
  "\<exists>rest. ''abcde'' = concat (file_chunks piece_fs 3 (file_stream_new piece_fs [''ab'', ''cde''] 5)) @ rest \<and> rest \<noteq> []"
proof -
  have "optimal_buf_size piece_fs 5 = 5" "fs_meta_len piece_fs 5 = 5"
    by (simp_all add: optimal_buf_size_def get_block_size_def piece_fs_def)
  with file_stream_delivers[OF piece_fs_reads piece_fs_reserve, of "[''ab'', ''cde'']" 5 3] show ?thesis by simp
qed

end
