(* ===== verification/Finch_Fs.thy ===== *)
theory Finch_Fs
  imports Finch_File Finch_Syntax
begin

text \<open>
  \<open>src/endpoints/fs.rs\<close>: the endpoints that serve one file or the files of a directory.
\<close>

section \<open>Paths\<close>

text \<open>\<open>PathBuf::join\<close> on Unix: an absolute path replaces the base.\<close>

definition path_join :: "string \<Rightarrow> string \<Rightarrow> string" where
  "path_join base p =
     (if starts_with p ''/'' then p
      else if base = [] \<or> ends_with base ''/'' then base @ p
      else base @ ''/'' @ p)"

section \<open>A single file\<close>

record ('op, 'mt) file_action =
  fa_path :: string
  fa_opening :: "('op, 'mt) open_named_file option"

definition file_poll_opening ::
  "('op, 'mt, 'fl, 'md) fs_api \<Rightarrow> ('op, 'mt) file_action \<Rightarrow> ('op, 'mt) open_named_file \<Rightarrow> 'ac
    \<Rightarrow> ((('fl, 'md) named_file one, http_error) poll \<times> ('op, 'mt) file_action \<times> 'ac) run" where
  "file_poll_opening F s opening ac =
     (case open_named_file_poll F opening of
        Panic \<Rightarrow> Panic
      | Ret (p, opening') \<Rightarrow> Ret (in_flight_result io_into_error p, s\<lparr>fa_opening := Some opening'\<rparr>, ac))"

definition file_poll ::
  "('op, 'mt, 'fl, 'md) fs_api \<Rightarrow> ('op, 'mt) file_action \<Rightarrow> ('h, 'j, 'bd) action_context
    \<Rightarrow> ((('fl, 'md) named_file one, http_error) poll \<times> ('op, 'mt) file_action \<times> ('h, 'j, 'bd) action_context) run"
  where
  "file_poll F s ac =
     (case fa_opening s of
        Some opening \<Rightarrow> file_poll_opening F s opening ac
      | None \<Rightarrow> file_poll_opening F s (named_file_open F (fa_path s)) ac)"

definition file_endpoint ::
  "('op, 'mt, 'fl, 'md) fs_api \<Rightarrow> string
    \<Rightarrow> (('op, 'mt) file_action, 'h, 'j, 'bd, ('fl, 'md) named_file one) endpoint" where
  "file_endpoint F path =
     \<lparr>ep_action = \<lparr>fa_path = path, fa_opening = None\<rparr>,
      ep_impl = \<lparr>act_preflight = default_preflight, act_poll = file_poll F\<rparr>\<rparr>"

section \<open>A directory\<close>

datatype ('op, 'mt) dir_state = DirInit | DirOpening "('op, 'mt) open_named_file"

record ('op, 'mt) dir_action =
  da_root :: string
  da_state :: "('op, 'mt) dir_state"

definition dir_target :: "('op, 'mt, 'fl, 'md) fs_api \<Rightarrow> string \<Rightarrow> string \<Rightarrow> string" where
  "dir_target F root path =
     (let p = path_join root path in if fs_is_dir F p then path_join p ''index.html'' else p)"

definition dir_preflight ::
  "percent_api \<Rightarrow> ('op, 'mt, 'fl, 'md) fs_api \<Rightarrow> ('op, 'mt) dir_action \<Rightarrow> ('h, 'j) context_state \<Rightarrow> cursor
    \<Rightarrow> (('o preflight, http_error) result \<times> ('op, 'mt) dir_action \<times> cursor) run" where
  "dir_preflight P F s cx cur =
     (case remaining_path (cx_path cx) cur of
        Panic \<Rightarrow> Panic
      | Ret rest \<Rightarrow>
          let path = percent_decode P (EncodedStr rest) in
          (case count_segments (cx_path cx) cur of
             Panic \<Rightarrow> Panic
           | Ret (_, cur') \<Rightarrow>
               (case path of
                  Err e \<Rightarrow> Ret (Err (bad_request (utf8_error_to_string e)), s, cur')
                | Ok p \<Rightarrow>
                    Ret (Ok Incomplete,
                         s\<lparr>da_state := DirOpening (named_file_open F (dir_target F (da_root s) p))\<rparr>,
                         cur'))))"

definition dir_poll ::
  "('op, 'mt, 'fl, 'md) fs_api \<Rightarrow> ('op, 'mt) dir_action \<Rightarrow> ('h, 'j, 'bd) action_context
    \<Rightarrow> ((('fl, 'md) named_file one, http_error) poll \<times> ('op, 'mt) dir_action \<times> ('h, 'j, 'bd) action_context) run"
  where
  "dir_poll F s ac =
     (case da_state s of
        DirInit \<Rightarrow> Panic
      | DirOpening f \<Rightarrow>
          (case open_named_file_poll F f of
             Panic \<Rightarrow> Panic
           | Ret (p, f') \<Rightarrow> Ret (in_flight_result io_into_error p, s\<lparr>da_state := DirOpening f'\<rparr>, ac)))"

definition dir_endpoint ::
  "percent_api \<Rightarrow> ('op, 'mt, 'fl, 'md) fs_api \<Rightarrow> string
    \<Rightarrow> (('op, 'mt) dir_action, 'h, 'j, 'bd, ('fl, 'md) named_file one) endpoint" where
  "dir_endpoint P F root =
     \<lparr>ep_action = \<lparr>da_root = root, da_state = DirInit\<rparr>,
      ep_impl = \<lparr>act_preflight = dir_preflight P F, act_poll = dir_poll F\<rparr>\<rparr>"

section \<open>What the endpoints resolve to\<close>

text \<open>The file at a path, opened, or the error of opening it.\<close>

definition opens ::
  "('op, 'mt, 'fl, 'md) fs_api \<Rightarrow> string \<Rightarrow> (('fl, 'md) named_file one, http_error) result \<Rightarrow> bool" where
  "opens F path r \<longleftrightarrow>
     (\<exists>r0. future_ends (open_named_file_poll F) (named_file_open F path) r0 \<and>
        r = in_flight_value io_into_error r0)"

lemma file_endpoint_sel [simp]:
  "act_preflight (ep_impl (file_endpoint F path)) = default_preflight"
  "ep_action (file_endpoint F path) = \<lparr>fa_path = path, fa_opening = None\<rparr>"
  by (simp_all add: file_endpoint_def)

lemma file_polls_opening:
  "polls_to (ep_impl (file_endpoint F p)) \<lparr>fa_path = path, fa_opening = Some o1\<rparr> ac r ac' \<longleftrightarrow>
     (\<exists>r0. future_ends (open_named_file_poll F) o1 r0 \<and> r = in_flight_value io_into_error r0) \<and> ac' = ac"
  by (rule polls_to_in_flight[where g = "\<lambda>o1. \<lparr>fa_path = path, fa_opening = Some o1\<rparr>"])
     (auto simp: file_endpoint_def file_poll_def file_poll_opening_def split: run.splits)

lemma resolves_file:
  "resolves (ep_impl (file_endpoint F path)) (ep_action (file_endpoint F path)) cur ac r cur' ac' \<longleftrightarrow>
     cur' = cur \<and> ac' = ac \<and> opens F path r"
proof -
  let ?A = "ep_impl (file_endpoint F path)"
  have "act_poll ?A \<lparr>fa_path = path, fa_opening = None\<rparr> ac =
      act_poll ?A \<lparr>fa_path = path, fa_opening = Some (named_file_open F path)\<rparr> ac"
    by (simp add: file_endpoint_def file_poll_def file_poll_opening_def split: run.split)
  then have "polls_to ?A \<lparr>fa_path = path, fa_opening = None\<rparr> ac r ac' \<longleftrightarrow>
      polls_to ?A \<lparr>fa_path = path, fa_opening = Some (named_file_open F path)\<rparr> ac r ac'"
    by (subst (1 2) polls_to_unfold) simp
  then show ?thesis
    by (auto simp: resolves_default file_polls_opening opens_def)
qed

lemma dir_polls_opening:
  "polls_to (ep_impl (dir_endpoint P F root)) \<lparr>da_root = d, da_state = DirOpening o1\<rparr> ac r ac' \<longleftrightarrow>
     (\<exists>r0. future_ends (open_named_file_poll F) o1 r0 \<and> r = in_flight_value io_into_error r0) \<and> ac' = ac"
  by (rule polls_to_in_flight[where g = "\<lambda>o1. \<lparr>da_root = d, da_state = DirOpening o1\<rparr>"])
     (auto simp: dir_endpoint_def dir_poll_def split: run.splits)

text \<open>The directory endpoint consumes the whole path and opens the file it names below the
  root, or as an absolute path.\<close>

lemma resolves_dir:
  assumes "cursor_balanced (cx_path (ac_context ac)) cur"
  shows "resolves (ep_impl (dir_endpoint P F root)) (ep_action (dir_endpoint P F root)) cur ac r cur' ac' \<longleftrightarrow>
    cur' = \<lparr>cur_pos = length (cx_path (ac_context ac)),
            cur_popped = cur_popped cur + length (pending (cx_path (ac_context ac)) cur)\<rparr> \<and> ac' = ac \<and>
    (case percent_decode P (EncodedStr (drop (cur_pos cur) (cx_path (ac_context ac)))) of
       Err e \<Rightarrow> r = Err (bad_request (utf8_error_to_string e))
     | Ok p \<Rightarrow> opens F (dir_target F root p) r)"
proof -
  let ?path = "cx_path (ac_context ac)"
  from assms have ok: "cursor_ok ?path cur" by (simp add: cursor_balanced_def)
  have pre: "act_preflight (ep_impl (dir_endpoint P F root)) = dir_preflight P F"
    and start: "ep_action (dir_endpoint P F root) = \<lparr>da_root = root, da_state = DirInit\<rparr>"
    by (simp_all add: dir_endpoint_def)
  show ?thesis
    unfolding resolves_def pre start
    by (cases "percent_decode P (EncodedStr (drop (cur_pos cur) ?path))")
       (auto simp: dir_preflight_def remaining_path_ok[OF ok] count_segments_pending[OF ok]
         dir_polls_opening opens_def)
qed

lemma file_endpoint_action:
  "endpoint_action (ep_impl (file_endpoint F path)) (ep_action (file_endpoint F path))
     (\<lambda>s. case fa_opening s of None \<Rightarrow> True | Some o1 \<Rightarrow> open_live o1)"
proof (rule endpoint_actionI, goal_cases)
  case (1 cx cur)
  then show ?case by (simp add: default_preflight_def)
next
  case (2 s ac)
  have "open_live (named_file_open F p)" for p by (simp add: named_file_open_def open_live_def)
  with 2 obtain o1 where o1: "file_poll F s ac = file_poll_opening F s o1 ac" "open_live o1"
    by (cases "fa_opening s") (auto simp: file_poll_def)
  with open_future_safe[of F] obtain p o2 where "open_named_file_poll F o1 = Ret (p, o2)"
    "p = Ok NotReady \<longrightarrow> open_live o2"
    unfolding plain_future_safe_def by blast
  with o1(1) show ?case
    by (cases p rule: poll_exhaust) (simp_all add: file_endpoint_def file_poll_opening_def)
qed

lemma dir_endpoint_action:
  "endpoint_action (ep_impl (dir_endpoint P F root)) (ep_action (dir_endpoint P F root))
     (\<lambda>s. \<exists>o1. da_state s = DirOpening o1 \<and> open_live o1)"
proof (rule endpoint_actionI, goal_cases)
  case (1 cx cur)
  have live: "open_live (named_file_open F p)" for p by (simp add: named_file_open_def open_live_def)
  from 1 show ?case
  proof (rule count_segments_step)
    fix c
    assume "count_segments (cx_path cx) cur = Ret (length (pending (cx_path cx) cur), c)"
      "cursor_balanced (cx_path cx) c" "cur_popped cur \<le> cur_popped c"
      "remaining_path (cx_path cx) cur = Ret (drop (cur_pos cur) (cx_path cx))"
    then show ?thesis
      by (cases "percent_decode P (EncodedStr (drop (cur_pos cur) (cx_path cx)))")
         (simp_all add: dir_endpoint_def dir_preflight_def live)
  qed
next
  case (2 s ac)
  then obtain o1 where o1: "da_state s = DirOpening o1" "open_live o1" by blast
  with open_future_safe[of F] obtain p o2 where "open_named_file_poll F o1 = Ret (p, o2)"
    "p = Ok NotReady \<longrightarrow> open_live o2"
    unfolding plain_future_safe_def by blast
  with o1(1) show ?case
    by (cases p rule: poll_exhaust) (simp_all add: dir_endpoint_def dir_poll_def)
qed

interpretation file_act: endpoint_action
  "ep_impl (file_endpoint F path)" "ep_action (file_endpoint F path)"
  "\<lambda>s. case fa_opening s of None \<Rightarrow> True | Some o1 \<Rightarrow> open_live o1" for F path
  by (rule file_endpoint_action)

interpretation dir_act: endpoint_action
  "ep_impl (dir_endpoint P F root)" "ep_action (dir_endpoint P F root)"
  "\<lambda>s. \<exists>o1. da_state s = DirOpening o1 \<and> open_live o1" for P F root
  by (rule dir_endpoint_action)

section \<open>Which files can be reached\<close>

text \<open>A relative path stays textually below the root; the segments \<open>..\<close> are not looked at.\<close>

lemma path_join_relative:
  "\<not> starts_with p ''/'' \<Longrightarrow> \<exists>sep. path_join root p = root @ sep @ p \<and> sep \<in> {[], ''/''}"
  by (auto simp: path_join_def)

lemma path_join_absolute: "starts_with p ''/'' \<Longrightarrow> path_join root p = p"
  by (simp add: path_join_def)

text \<open>
  The decoded path is not checked. With the slashes encoded, a request names any absolute
  path, and the endpoint opens it whatever the root is.
\<close>

lemma dir_target_absolute:
  assumes "starts_with t ''/''" and "\<not> fs_is_dir F t"
  shows "dir_target F root t = t"
  using assms by (simp add: dir_target_def path_join_absolute)

text \<open>
  C24: A request for the encoded form of an absolute path in ASCII that contains no percent sign
  and is not a directory makes the directory endpoint open that very file, whatever its root is:
  the decoded path is not confined to the root.
\<close>

lemma dir_serves_absolute:
  assumes P: "percent_laws P" and t: "starts_with t ''/''" "CHR ''%'' \<notin> set t" "str_is_ascii t"
    and F: "\<not> fs_is_dir F t"
    and path: "cx_path (ac_context ac) = ''/'' @ pc_encode P ''/'' t"
  shows "(\<exists>cur'. resolves (ep_impl (dir_endpoint P F root)) (ep_action (dir_endpoint P F root))
      cursor_new ac r cur' ac) \<longleftrightarrow> opens F t r"
proof -
  have b: "cursor_balanced (cx_path (ac_context ac)) cursor_new"
    by (rule cursor_new_balanced) (simp add: path)
  have "drop (cur_pos cursor_new) (cx_path (ac_context ac)) = pc_encode P ''/'' t"
    by (simp add: path cursor_new_def)
  moreover have "from_utf8 t = Ok t"
    by (rule from_utf8_ascii[OF t(3)])
  ultimately have "percent_decode P (EncodedStr (drop (cur_pos cursor_new) (cx_path (ac_context ac)))) = Ok t"
    using percent_lawsD(2)[OF P t(2)] by (simp add: percent_decode_def)
  then show ?thesis
    by (simp add: resolves_dir[OF b] dir_target_absolute[OF t(1) F])
qed

definition local_fs :: "(string, string list, string list, nat) fs_api" where
  "local_fs =
     \<lparr>fs_open = (\<lambda>p. p), fs_poll_open = (\<lambda>p. (if p = ''/etc/hosts'' then Ok (Ready [''::1'']) else Err (NotFound, []), p)),
      fs_metadata = (\<lambda>f. f), fs_poll_metadata = (\<lambda>f. (Ok (Ready (f, 3)), f)),
      fs_meta_len = (\<lambda>n. n), fs_blksize = (\<lambda>_. 4096),
      fs_read_buf = (\<lambda>f room. case f of [] \<Rightarrow> (Ok (Ready []), []) | c # cs \<Rightarrow> (Ok (Ready c), cs)),
      fs_is_dir = (\<lambda>_. False), fs_guess_mime = (\<lambda>_. ''text/plain''), fs_buf_new = 31,
      fs_buf_reserve = (\<lambda>room n. max room n)\<rparr>"

definition hosts_request :: "(unit, unit) context_state" where
  "hosts_request = context_new \<lparr>rq_method = GET, rq_path = ''/%2Fetc%2Fhosts'', rq_query = None, rq_headers = ()\<rparr>"

lemma local_fs_hosts:
  "opens local_fs ''/etc/hosts'' (Ok (One \<lparr>nf_file = [''::1''], nf_meta = 3, nf_path = ''/etc/hosts''\<rparr>))"
  unfolding opens_def
proof (intro exI conjI)
  show "future_ends (open_named_file_poll local_fs) (named_file_open local_fs ''/etc/hosts'')
      (Ok \<lparr>nf_file = [''::1''], nf_meta = 3, nf_path = ''/etc/hosts''\<rparr>)"
    by (rule future_ends.ends_ready[where t' = "\<lparr>on_state = OpenDone, on_path = None\<rparr>"])
       (simp add: open_named_file_poll_def open_poll_metadata_def named_file_open_def local_fs_def)
qed simp

lemma dir_serves_absolute_witness:
  "\<exists>cur'. resolves (ep_impl (dir_endpoint percent_ref local_fs ''/srv'')) (ep_action (dir_endpoint percent_ref local_fs ''/srv''))
     cursor_new \<lparr>ac_context = hosts_request, ac_body = Some ()\<rparr>
     (Ok (One \<lparr>nf_file = [''::1''], nf_meta = 3, nf_path = ''/etc/hosts''\<rparr>)) cur'
     \<lparr>ac_context = hosts_request, ac_body = Some ()\<rparr>"
proof -
  have enc: "pc_encode percent_ref ''/'' ''/etc/hosts'' = ''%2Fetc%2Fhosts''" by code_simp
  have ctx: "cx_path (ac_context \<lparr>ac_context = hosts_request, ac_body = Some ()\<rparr>) =
      ''/'' @ pc_encode percent_ref ''/'' ''/etc/hosts''"
    by (simp add: enc hosts_request_def context_new_def)
  show ?thesis
    by (subst dir_serves_absolute[OF percent_ref_laws _ _ _ _ ctx])
       (simp_all add: starts_with_def str_is_ascii_def local_fs_def[THEN arg_cong[where f = fs_is_dir]]
         local_fs_hosts)
qed

end
