(* ===== verification/Finch_Session.thy ===== *)
theory Finch_Session
  imports Finch_Context
begin

text \<open>
  \<open>finchers-session/src/session.rs\<close> and \<open>finchers-session/src/in_memory.rs\<close>: the interface
  \<open>RawSession\<close> of session backends, the wrapper \<open>Session\<close>, and the backend that keeps the values
  in the memory of the server. The crate is written against an older release of \<open>finchers\<close>,
  whose \<open>Input\<close> is a parameter: all it is used for is its cookie jar.
\<close>

section \<open>Input and cookies\<close>

text \<open>\<open>Input::cookies\<close> parses the jar on demand and may fail; \<open>in_put\<close> is a change through the
  mutable reference it returns.\<close>

record ('i, 'j) input_api =
  in_cookies :: "'i \<Rightarrow> ('j, http_error) result \<times> 'i"
  in_put :: "'i \<Rightarrow> 'j \<Rightarrow> 'i"

definition input_laws :: "('i, 'j) input_api \<Rightarrow> bool" where
  "input_laws I \<longleftrightarrow> (\<forall>i jar. in_cookies I (in_put I i jar) = (Ok jar, in_put I i jar))"

definition jar_laws :: "('j, 'k) cookie_api \<Rightarrow> bool" where
  "jar_laws K \<longleftrightarrow>
     (\<forall>j c. jar_get K (jar_add K j c) (cookie_name K c) = Some c) \<and>
     (\<forall>j c. jar_get K (jar_remove K j c) (cookie_name K c) = None) \<and>
     (\<forall>n v. cookie_name K (cookie_new K n v) = n) \<and>
     (\<forall>n v. cookie_val K (cookie_new K n v) = v) \<and>
     (\<forall>n. cookie_name K (cookie_named K n) = n)"

lemma jar_lawsD:
  assumes "jar_laws K"
  shows "jar_get K (jar_add K j c) (cookie_name K c) = Some c"
    and "jar_get K (jar_remove K j c) (cookie_name K c) = None"
    and "cookie_name K (cookie_new K n v) = n"
    and "cookie_val K (cookie_new K n v) = v"
    and "cookie_name K (cookie_named K n) = n"
  using assms unfolding jar_laws_def by blast+

lemma jar_get_added: "jar_laws K \<Longrightarrow> jar_get K (jar_add K j (cookie_new K n v)) n = Some (cookie_new K n v)"
  using jar_lawsD(1)[of K j "cookie_new K n v"] by (simp add: jar_lawsD(3))

lemma jar_get_removed: "jar_laws K \<Longrightarrow> jar_get K (jar_remove K j (cookie_named K n)) n = None"
  using jar_lawsD(2)[of K j "cookie_named K n"] by (simp add: jar_lawsD(5))

text \<open>Applying a change to the jar of an input.\<close>

definition update_cookies ::
  "('i, 'j) input_api \<Rightarrow> ('j \<Rightarrow> 'j) \<Rightarrow> 'i \<Rightarrow> (unit, http_error) result \<times> 'i" where
  "update_cookies I f i =
     (case in_cookies I i of
        (Err e, i') \<Rightarrow> (Err e, i')
      | (Ok jar, i') \<Rightarrow> (Ok (), in_put I i' (f jar)))"

text \<open>An instance: the input is its jar, a list of cookies with the latest first.\<close>

definition list_cookies :: "((string \<times> string) list, string \<times> string) cookie_api" where
  "list_cookies =
     \<lparr>jar_new = [], jar_get = (\<lambda>j n. map_option (Pair n) (map_of j n)), jar_add_original = (\<lambda>j c. c # j),
      jar_add = (\<lambda>j c. c # j), jar_remove = (\<lambda>j c. filter (\<lambda>p. fst p \<noteq> fst c) j), jar_delta = (\<lambda>j. j),
      cookie_parse_encoded = (\<lambda>s. case str_find (CHR ''='') s of
         None \<Rightarrow> Err ''missing pair'' | Some n \<Rightarrow> Ok (take n s, drop (Suc n) s)),
      cookie_new = Pair, cookie_named = (\<lambda>n. (n, [])), cookie_name = fst, cookie_val = snd,
      cookie_encoded = (\<lambda>c. fst c @ ''='' @ snd c)\<rparr>"

definition jar_input :: "('j, 'j) input_api" where
  "jar_input = \<lparr>in_cookies = (\<lambda>i. (Ok i, i)), in_put = (\<lambda>i jar. jar)\<rparr>"

lemma jar_input_laws: "input_laws jar_input"
  by (simp add: input_laws_def jar_input_def)

lemma list_cookies_laws: "jar_laws list_cookies"
proof -
  have "map_of (filter (\<lambda>p. fst p \<noteq> n) j) n = None" for j :: "(string \<times> string) list" and n
    by (auto simp: map_of_eq_None_iff)
  then show ?thesis by (auto simp: jar_laws_def list_cookies_def)
qed

section \<open>RawSession\<close>

text \<open>
  The interface of a backend: the value of the session while a request is handled, and
  \<open>put_back\<close> (\<open>RawSession::write\<close>), which stores it at the end. A state \<open>'w\<close> is what outlives the
  request on server and client, the client being its cookie jar: paths and domains of cookies are the subject
  of \<open>Finch_Client\<close>. \<open>reload\<close> is what the backend's endpoint does at the start of the next request.
\<close>

locale raw_session =
  fixes get :: "'s \<Rightarrow> string option"
    and set_val :: "string \<Rightarrow> 's \<Rightarrow> 's"
    and remove :: "'s \<Rightarrow> 's"
  assumes get_set: "get (set_val v s) = Some v"
    and get_remove: "get (remove s) = None"

locale session_backend = raw_session get set_val remove
  for get :: "'s \<Rightarrow> string option" and set_val and remove +
  fixes put_back :: "'s \<Rightarrow> 'w \<Rightarrow> (unit, http_error) result \<times> 'w"
    and reload :: "'w \<Rightarrow> ('s, http_error) result"
    and belongs :: "'s \<Rightarrow> 'w \<Rightarrow> bool"
  assumes write_load:
      "belongs s w \<Longrightarrow> put_back s w = (Ok (), w') \<Longrightarrow> \<exists>s'. reload w' = Ok s' \<and> get s' = get s"
    and load_belongs: "reload w = Ok s \<Longrightarrow> belongs s w"
    and set_belongs: "belongs s w \<Longrightarrow> belongs (set_val v s) w"
    and remove_belongs: "belongs s w \<Longrightarrow> belongs (remove s) w"

datatype 's session = Session 's

definition session_new :: "'s \<Rightarrow> 's session" where
  "session_new raw = Session raw"

definition session_get :: "('s \<Rightarrow> string option) \<Rightarrow> 's session \<Rightarrow> string option" where
  "session_get get t = (case t of Session raw \<Rightarrow> get raw)"

definition session_set :: "(string \<Rightarrow> 's \<Rightarrow> 's) \<Rightarrow> string \<Rightarrow> 's session \<Rightarrow> 's session" where
  "session_set set_val v t = (case t of Session raw \<Rightarrow> Session (set_val v raw))"

definition session_remove :: "('s \<Rightarrow> 's) \<Rightarrow> 's session \<Rightarrow> 's session" where
  "session_remove remove t = (case t of Session raw \<Rightarrow> Session (remove raw))"

text \<open>The future that writes the session back is made together with what the backend keeps.\<close>

definition session_into_future :: "('s \<Rightarrow> 'w \<Rightarrow> 'k \<times> 'w) \<Rightarrow> 's session \<Rightarrow> 'w \<Rightarrow> 'k \<times> 'w" where
  "session_into_future put_back t w = (case t of Session raw \<Rightarrow> put_back raw w)"

lemma session_simps [simp]:
  "session_get get (Session raw) = get raw"
  "session_set set_val v (Session raw) = Session (set_val v raw)"
  "session_remove remove (Session raw) = Session (remove raw)"
  "session_into_future put_back (Session raw) w = put_back raw w"
  by (simp_all add: session_get_def session_set_def session_remove_def session_into_future_def)

definition session_with ::
  "('s \<Rightarrow> 'w \<Rightarrow> (unit, http_error) result \<times> 'w) \<Rightarrow> ('s session \<Rightarrow> ('a, http_error) result \<times> 's session)
    \<Rightarrow> 's session \<Rightarrow> 'w \<Rightarrow> ('a, http_error) result \<times> 'w" where
  "session_with put_back f s w =
     (case f s of
        (Err e, _) \<Rightarrow> (Err e, w)
      | (Ok item, s') \<Rightarrow>
          (case session_into_future put_back s' w of
             (Err e, w') \<Rightarrow> (Err e, w')
           | (Ok _, w') \<Rightarrow> (Ok item, w')))"

text \<open>
  Facts about every backend: a handler that changes the session and succeeds leaves what the
  next request loads; one that fails leaves everything as it was.
\<close>

context session_backend begin

lemma write_set_load:
  assumes "reload w = Ok s" and "put_back (set_val v s) w = (Ok (), w')"
  shows "\<exists>s'. reload w' = Ok s' \<and> get s' = Some v"
  using write_load[OF set_belongs[OF load_belongs[OF assms(1)]] assms(2)] by (simp add: get_set)

lemma write_remove_load:
  assumes "reload w = Ok s" and "put_back (remove s) w = (Ok (), w')"
  shows "\<exists>s'. reload w' = Ok s' \<and> get s' = None"
  using write_load[OF remove_belongs[OF load_belongs[OF assms(1)]] assms(2)] by (simp add: get_remove)

lemma session_with_stores:
  assumes "f (Session s) = (Ok item, Session s1)" and "belongs s1 w"
    and "session_with put_back f (Session s) w = (Ok item, w')"
  shows "\<exists>s'. reload w' = Ok s' \<and> get s' = get s1"
proof -
  obtain r w1 where r: "put_back s1 w = (r, w1)" by (cases "put_back s1 w")
  from assms(1,3) r have "r = Ok () \<and> w1 = w'"
    by (cases r) (simp_all add: session_with_def)
  with r write_load[OF assms(2)] show ?thesis by simp
qed

text \<open>Through the wrapper: what a handler sets or removes is what the next request is given.\<close>

lemma session_with_set:
  assumes "reload w = Ok s" and "session_with put_back (\<lambda>t. (Ok x, session_set set_val v t)) (Session s) w = (Ok x, w')"
  shows "\<exists>s'. reload w' = Ok s' \<and> session_get get (Session s') = Some v"
  using session_with_stores[OF _ set_belongs[OF load_belongs[OF assms(1)]] assms(2)] by (simp add: get_set)

lemma session_with_remove:
  assumes "reload w = Ok s" and "session_with put_back (\<lambda>t. (Ok x, session_remove remove t)) (Session s) w = (Ok x, w')"
  shows "\<exists>s'. reload w' = Ok s' \<and> session_get get (Session s') = None"
  using session_with_stores[OF _ remove_belongs[OF load_belongs[OF assms(1)]] assms(2)] by (simp add: get_remove)

lemma session_with_error:
  "f (Session s) = (Err e, t) \<Longrightarrow> session_with put_back f (Session s) w = (Err e, w)"
  by (simp add: session_with_def)

end

section \<open>The in-memory backend\<close>

text \<open>The storage: a map behind a \<open>RwLock\<close>, which is poisoned when a writer panicked.\<close>

record 'u storage =
  sg_map :: "'u \<Rightarrow> string option"
  sg_poisoned :: bool

definition lock_error :: http_error where
  "lock_error = FailureError ''poisoned lock: another task failed inside''"

definition storage_get :: "'u storage \<Rightarrow> 'u \<Rightarrow> (string option, http_error) result" where
  "storage_get st session_id = (if sg_poisoned st then Err lock_error else Ok (sg_map st session_id))"

definition storage_set :: "'u storage \<Rightarrow> 'u \<Rightarrow> string \<Rightarrow> (unit, http_error) result \<times> 'u storage" where
  "storage_set st session_id v =
     (if sg_poisoned st then (Err lock_error, st)
      else (Ok (), st\<lparr>sg_map := (sg_map st)(session_id := Some v)\<rparr>))"

definition storage_remove :: "'u storage \<Rightarrow> 'u \<Rightarrow> (unit, http_error) result \<times> 'u storage" where
  "storage_remove st session_id =
     (if sg_poisoned st then (Err lock_error, st)
      else (Ok (), st\<lparr>sg_map := (sg_map st)(session_id := None)\<rparr>))"

text \<open>The \<open>uuid\<close> crate: parsing, printing and \<open>Uuid::new_v4\<close>, whose result is an argument here.\<close>

record 'u uuid_api =
  uu_parse :: "string \<Rightarrow> ('u, string) result"
  uu_to_string :: "'u \<Rightarrow> string"

definition uuid_laws :: "'u uuid_api \<Rightarrow> bool" where
  "uuid_laws U \<longleftrightarrow> (\<forall>u. uu_parse U (uu_to_string U u) = Ok u)"

definition in_memory_read_value ::
  "('i, 'j) input_api \<Rightarrow> ('j, 'k) cookie_api \<Rightarrow> 'u uuid_api \<Rightarrow> 'u storage \<Rightarrow> 'i
    \<Rightarrow> (string option \<times> 'u option, http_error) result \<times> 'i" where
  "in_memory_read_value I K U st i =
     (case in_cookies I i of
        (Err e, i') \<Rightarrow> (Err e, i')
      | (Ok jar, i') \<Rightarrow>
          (case jar_get K jar ''session-id'' of
             None \<Rightarrow> (Ok (None, None), i')
           | Some cookie \<Rightarrow>
               (case uu_parse U (cookie_val K cookie) of
                  Err e \<Rightarrow> (Err (bad_request e), i')
                | Ok session_id \<Rightarrow> (map_ok (\<lambda>v. (v, Some session_id)) (storage_get st session_id), i'))))"

definition in_memory_write_value ::
  "('i, 'j) input_api \<Rightarrow> ('j, 'k) cookie_api \<Rightarrow> 'u uuid_api \<Rightarrow> 'u \<Rightarrow> string \<Rightarrow> 'u storage \<times> 'i
    \<Rightarrow> (unit, http_error) result \<times> 'u storage \<times> 'i" where
  "in_memory_write_value I K U session_id v w =
     (case w of (st, i) \<Rightarrow>
       (case storage_set st session_id v of
          (Err e, st') \<Rightarrow> (Err e, st', i)
        | (Ok _, st') \<Rightarrow>
            (case update_cookies I (\<lambda>jar. jar_add K jar (cookie_new K ''session-id'' (uu_to_string U session_id))) i of
               (r, i') \<Rightarrow> (r, st', i'))))"

definition in_memory_remove_value ::
  "('i, 'j) input_api \<Rightarrow> ('j, 'k) cookie_api \<Rightarrow> 'u \<Rightarrow> 'u storage \<times> 'i
    \<Rightarrow> (unit, http_error) result \<times> 'u storage \<times> 'i" where
  "in_memory_remove_value I K session_id w =
     (case w of (st, i) \<Rightarrow>
       (case storage_remove st session_id of
          (Err e, st') \<Rightarrow> (Err e, st', i)
        | (Ok _, st') \<Rightarrow>
            (case update_cookies I (\<lambda>jar. jar_remove K jar (cookie_named K ''session-id'')) i of
               (r, i') \<Rightarrow> (r, st', i'))))"

record 'u in_memory_session =
  im_session_id :: "'u option"
  im_value :: "string option"

definition in_memory_apply ::
  "('i, 'j) input_api \<Rightarrow> ('j, 'k) cookie_api \<Rightarrow> 'u uuid_api \<Rightarrow> 'u storage \<Rightarrow> 'i
    \<Rightarrow> ('u in_memory_session session one, http_error) result \<times> 'i" where
  "in_memory_apply I K U st i =
     (case in_memory_read_value I K U st i of
        (r, i') \<Rightarrow>
          (map_ok (\<lambda>(v, session_id). One (Session \<lparr>im_session_id = session_id, im_value = v\<rparr>)) r, i'))"

definition in_memory_get :: "'u in_memory_session \<Rightarrow> string option" where
  "in_memory_get s = im_value s"

definition in_memory_set :: "string \<Rightarrow> 'u in_memory_session \<Rightarrow> 'u in_memory_session" where
  "in_memory_set v s = s\<lparr>im_value := Some v\<rparr>"

definition in_memory_remove :: "'u in_memory_session \<Rightarrow> 'u in_memory_session" where
  "in_memory_remove s = s\<lparr>im_value := None\<rparr>"

definition in_memory_write ::
  "('i, 'j) input_api \<Rightarrow> ('j, 'k) cookie_api \<Rightarrow> 'u uuid_api \<Rightarrow> 'u \<Rightarrow> 'u in_memory_session
    \<Rightarrow> 'u storage \<times> 'i \<Rightarrow> (unit, http_error) result \<times> 'u storage \<times> 'i" where
  "in_memory_write I K U new_v4 s w =
     (case im_value s of
        Some v \<Rightarrow>
          let session_id = (case im_session_id s of Some u \<Rightarrow> u | None \<Rightarrow> new_v4) in
          in_memory_write_value I K U session_id v w
      | None \<Rightarrow>
          (case im_session_id s of
             Some session_id \<Rightarrow> in_memory_remove_value I K session_id w
           | None \<Rightarrow> (Ok (), w)))"

text \<open>The session the next request sees.\<close>

definition in_memory_load ::
  "('i, 'j) input_api \<Rightarrow> ('j, 'k) cookie_api \<Rightarrow> 'u uuid_api \<Rightarrow> 'u storage \<times> 'i
    \<Rightarrow> ('u in_memory_session, http_error) result" where
  "in_memory_load I K U w =
     map_ok (\<lambda>p. case p of (v, session_id) \<Rightarrow> \<lparr>im_session_id = session_id, im_value = v\<rparr>)
       (fst (in_memory_read_value I K U (fst w) (snd w)))"

text \<open>A session without an identifier belongs to an input without the cookie.\<close>

definition in_memory_belongs ::
  "('i, 'j) input_api \<Rightarrow> ('j, 'k) cookie_api \<Rightarrow> 'u uuid_api \<Rightarrow> 'u in_memory_session \<Rightarrow> 'u storage \<times> 'i \<Rightarrow> bool" where
  "in_memory_belongs I K U s w \<longleftrightarrow>
     (im_session_id s = None \<longrightarrow>
        (\<exists>jar. fst (in_cookies I (snd w)) = Ok jar \<and> jar_get K jar ''session-id'' = None))"

lemma in_memory_load_added:
  assumes "input_laws I" "jar_laws K" "uuid_laws U" "\<not> sg_poisoned st"
  shows "in_memory_load I K U
      (st, in_put I i (jar_add K jar (cookie_new K ''session-id'' (uu_to_string U u)))) =
    Ok \<lparr>im_session_id = Some u, im_value = sg_map st u\<rparr>"
  using assms
  by (simp add: in_memory_load_def in_memory_read_value_def input_laws_def jar_get_added jar_lawsD
      uuid_laws_def storage_get_def)

lemma in_memory_load_removed:
  assumes "input_laws I" "jar_laws K"
  shows "in_memory_load I K U (st, in_put I i (jar_remove K jar (cookie_named K ''session-id''))) =
    Ok \<lparr>im_session_id = None, im_value = None\<rparr>"
  using assms
  by (simp add: in_memory_load_def in_memory_read_value_def input_laws_def jar_get_removed)

lemma in_memory_write_load:
  assumes laws: "input_laws I" "jar_laws K" "uuid_laws U"
    and belongs: "in_memory_belongs I K U s w"
    and w: "in_memory_write I K U new_v4 s w = (Ok (), w')"
  shows "\<exists>s'. in_memory_load I K U w' = Ok s' \<and> in_memory_get s' = in_memory_get s"
proof (cases "im_value s")
  case (Some v)
  with w obtain st i jar u i' where *: "w = (st, i)" "\<not> sg_poisoned st"
    "w' = (st\<lparr>sg_map := (sg_map st)(u := Some v)\<rparr>,
      in_put I i' (jar_add K jar (cookie_new K ''session-id'' (uu_to_string U u))))"
    by (auto simp: in_memory_write_def in_memory_write_value_def storage_set_def update_cookies_def
        Let_def split: prod.splits result.splits if_splits)
  with in_memory_load_added[OF laws] Some show ?thesis by (simp add: in_memory_get_def)
next
  case None
  show ?thesis
  proof (cases "im_session_id s")
    case (Some u)
    with None w obtain st i jar i' where "w' = (st, in_put I i' (jar_remove K jar (cookie_named K ''session-id'')))"
      by (auto simp: in_memory_write_def in_memory_remove_value_def storage_remove_def update_cookies_def
          split: prod.splits result.splits if_splits)
    with None show ?thesis by (simp add: in_memory_get_def in_memory_load_removed[OF laws(1,2)])
  next
    case no_id: None
    with None w have "w' = w" by (simp add: in_memory_write_def)
    with no_id belongs None show ?thesis
      by (cases "in_cookies I (snd w)")
         (auto simp: in_memory_belongs_def in_memory_load_def in_memory_read_value_def in_memory_get_def)
  qed
qed

lemma in_memory_load_belongs:
  "in_memory_load I K U w = Ok s \<Longrightarrow> in_memory_belongs I K U s w"
  by (auto simp: in_memory_load_def in_memory_read_value_def in_memory_belongs_def storage_get_def
      split: prod.splits result.splits option.splits if_splits)

lemma in_memory_session_backend:
  assumes "input_laws I" "jar_laws K" "uuid_laws U"
  shows "session_backend in_memory_get in_memory_set in_memory_remove (in_memory_write I K U new_v4)
    (in_memory_load I K U) (in_memory_belongs I K U)"
proof
  show "\<exists>s'. in_memory_load I K U w' = Ok s' \<and> in_memory_get s' = in_memory_get s"
    if "in_memory_belongs I K U s w" "in_memory_write I K U new_v4 s w = (Ok (), w')" for s w w'
    by (rule in_memory_write_load[OF assms that])
  show "in_memory_belongs I K U s w" if "in_memory_load I K U w = Ok s" for s w
    by (rule in_memory_load_belongs[OF that])
qed (simp_all add: in_memory_get_def in_memory_set_def in_memory_remove_def in_memory_belongs_def)

text \<open>
  The identifier is the client's: an unknown one in the cookie is kept, and the next write
  stores the value under it.
\<close>

text \<open>
  C38: A session identifier the in-memory storage has never issued is accepted from the cookie, and
  the next write stores the value under the identifier the client chose.
\<close>

lemma in_memory_unknown_id_kept:
  assumes "in_cookies I i = (Ok jar, i')" "jar_get K jar ''session-id'' = Some c"
    "uu_parse U (cookie_val K c) = Ok u" "sg_map st u = None" "\<not> sg_poisoned st"
  shows "in_memory_apply I K U st i =
      (Ok (One (Session \<lparr>im_session_id = Some u, im_value = None\<rparr>)), i') \<and>
    (\<exists>r i2. in_memory_write I K U new_v4 (in_memory_set v \<lparr>im_session_id = Some u, im_value = None\<rparr>) (st, i') =
      (r, st\<lparr>sg_map := (sg_map st)(u := Some v)\<rparr>, i2))"
  using assms
  by (simp_all add: in_memory_apply_def in_memory_read_value_def storage_get_def in_memory_write_def
      in_memory_set_def in_memory_write_value_def storage_set_def split: prod.split)

text \<open>The concrete instance: numbers as identifiers.\<close>

definition nat_uuid :: "nat uuid_api" where
  "nat_uuid = \<lparr>uu_parse = (\<lambda>s. if set s \<subseteq> {CHR ''x''} then Ok (length s) else Err ''invalid uuid''),
               uu_to_string = (\<lambda>n. replicate n (CHR ''x''))\<rparr>"

lemma nat_uuid_laws: "uuid_laws nat_uuid"
  by (auto simp: uuid_laws_def nat_uuid_def)

interpretation in_memory: session_backend in_memory_get in_memory_set in_memory_remove
  "in_memory_write jar_input list_cookies nat_uuid new_v4"
  "in_memory_load jar_input list_cookies nat_uuid"
  "in_memory_belongs jar_input list_cookies nat_uuid" for new_v4
  by (rule in_memory_session_backend[OF jar_input_laws list_cookies_laws nat_uuid_laws])

section \<open>A handler and the next request\<close>

text \<open>
  With the in-memory backend, a handler that succeeds leaves exactly its session value for the
  next request of the same client, set or removed.
\<close>

lemma in_memory_handler_stores:
  assumes laws: "input_laws I" "jar_laws K" "uuid_laws U"
    and now: "in_memory_load I K U w = Ok s"
    and handler: "f (Session s) = (Ok item, Session s1)" "im_session_id s1 = im_session_id s"
    and run: "session_with (in_memory_write I K U new_v4) f (Session s) w = (Ok item, w')"
  shows "\<exists>s'. in_memory_load I K U w' = Ok s' \<and> in_memory_get s' = in_memory_get s1"
proof -
  note backend = in_memory_session_backend[OF laws, of new_v4]
  from session_backend.load_belongs[OF backend now] handler(2) have "in_memory_belongs I K U s1 w"
    by (simp add: in_memory_belongs_def)
  from session_backend.session_with_stores[OF backend handler(1) this run] show ?thesis .
qed

lemma in_memory_handler_stores_witness:
  "\<exists>s'. in_memory_load jar_input list_cookies nat_uuid
     (\<lparr>sg_map = [3 \<mapsto> ''hello''], sg_poisoned = False\<rparr>, [(''session-id'', ''xxx'')]) = Ok s' \<and>
     in_memory_get s' = Some ''hello''"
proof -
  let ?w = "(\<lparr>sg_map = Map.empty, sg_poisoned = False\<rparr>, []) :: nat storage \<times> (string \<times> string) list"
  let ?w' = "(\<lparr>sg_map = [3 \<mapsto> ''hello''], sg_poisoned = False\<rparr>, [(''session-id'', ''xxx'')])"
  let ?s = "\<lparr>im_session_id = None, im_value = None\<rparr> :: nat in_memory_session"
  let ?f = "\<lambda>t. case t of Session s \<Rightarrow> (Ok () :: (unit, http_error) result, Session (in_memory_set ''hello'' s))"
  have now: "in_memory_load jar_input list_cookies nat_uuid ?w = Ok ?s"
    by (simp add: in_memory_load_def in_memory_read_value_def jar_input_def list_cookies_def)
  have run: "session_with (in_memory_write jar_input list_cookies nat_uuid 3) ?f (Session ?s) ?w = (Ok (), ?w')"
    by (simp add: session_with_def in_memory_write_def in_memory_write_value_def storage_set_def
        update_cookies_def in_memory_set_def jar_input_def list_cookies_def nat_uuid_def
        numeral_3_eq_3)
  from in_memory_handler_stores[OF jar_input_laws list_cookies_laws nat_uuid_laws now, of ?f "()"
      "in_memory_set ''hello'' ?s", OF _ _ run]
  show ?thesis by (simp add: in_memory_set_def in_memory_get_def)
qed

lemma in_memory_unknown_id_kept_witness:
  "in_memory_apply jar_input list_cookies nat_uuid \<lparr>sg_map = Map.empty, sg_poisoned = False\<rparr> [(''session-id'', ''xx'')] =
     (Ok (One (Session \<lparr>im_session_id = Some 2, im_value = None\<rparr>)), [(''session-id'', ''xx'')])"
  by (rule in_memory_unknown_id_kept[where c = "(''session-id'', ''xx'')" and jar = "[(''session-id'', ''xx'')]", THEN conjunct1])
     (simp_all add: jar_input_def list_cookies_def nat_uuid_def)

end
