(* ===== verification/Finch_Session_Cookie.thy ===== *)
theory Finch_Session_Cookie
  imports Finch_Session
begin

text \<open>
  \<open>finchers-session/src/cookie.rs\<close> and \<open>finchers-session/src/util.rs\<close>: the backend that keeps
  the value in the cookie itself, plain, signed or encrypted.
\<close>

section \<open>Configuration\<close>

text \<open>\<open>BuilderExt::if_some\<close>.\<close>

definition if_some :: "'t option \<Rightarrow> ('b \<Rightarrow> 't \<Rightarrow> 'b) \<Rightarrow> 'b \<Rightarrow> 'b" where
  "if_some v f b = (case v of Some x \<Rightarrow> f b x | None \<Rightarrow> b)"

text \<open>\<open>cookie::Key\<close> is derived from a master key by the \<open>cookie\<close> crate.\<close>

datatype 'key security = Plain | Signed 'key | Private 'key

datatype same_site = Strict | Lax

record 'key cookie_config =
  cc_security :: "'key security"
  cc_name :: string
  cc_path :: string
  cc_secure :: bool
  cc_http_only :: bool
  cc_domain :: "string option"
  cc_same_site :: "same_site option"
  cc_max_age :: "int option"

text \<open>The builder of a cookie, with the attributes the program sets.\<close>

record cookie_attrs =
  ca_name :: string
  ca_val :: string
  ca_path :: "string option"
  ca_secure :: "bool option"
  ca_http_only :: "bool option"
  ca_domain :: "string option"
  ca_same_site :: "same_site option"
  ca_max_age :: "int option"

definition cookie_build :: "string \<Rightarrow> string \<Rightarrow> cookie_attrs" where
  "cookie_build name v =
     \<lparr>ca_name = name, ca_val = v, ca_path = None, ca_secure = None, ca_http_only = None,
      ca_domain = None, ca_same_site = None, ca_max_age = None\<rparr>"

text \<open>\<open>finish\<close> makes the cookie; the child jars of a key read and write through the parent.\<close>

record ('j, 'k, 'key) signed_api =
  sj_finish :: "cookie_attrs \<Rightarrow> 'k"
  sj_signed_get :: "'key \<Rightarrow> 'j \<Rightarrow> string \<Rightarrow> 'k option"
  sj_signed_add :: "'key \<Rightarrow> 'j \<Rightarrow> 'k \<Rightarrow> 'j"
  sj_signed_remove :: "'key \<Rightarrow> 'j \<Rightarrow> 'k \<Rightarrow> 'j"
  sj_private_get :: "'key \<Rightarrow> 'j \<Rightarrow> string \<Rightarrow> 'k option"
  sj_private_add :: "'key \<Rightarrow> 'j \<Rightarrow> 'k \<Rightarrow> 'j"
  sj_private_remove :: "'key \<Rightarrow> 'j \<Rightarrow> 'k \<Rightarrow> 'j"

definition cookie_backend_new :: "'key security \<Rightarrow> 'key cookie_config" where
  "cookie_backend_new security =
     \<lparr>cc_security = security, cc_name = ''finchers-session'', cc_path = ''/'', cc_secure = True,
      cc_http_only = True, cc_domain = None, cc_same_site = None, cc_max_age = None\<rparr>"

definition cookie_backend_plain :: "'key cookie_config" where
  "cookie_backend_plain = cookie_backend_new Plain"

definition cookie_backend_signed :: "'key \<Rightarrow> 'key cookie_config" where
  "cookie_backend_signed key = cookie_backend_new (Signed key)"

definition cookie_backend_private :: "'key \<Rightarrow> 'key cookie_config" where
  "cookie_backend_private key = cookie_backend_new (Private key)"

text \<open>
  The free functions of the module are shorthands; the last two derive the key from a master key with
  \<open>Key::from_master\<close> of the \<open>cookie\<close> crate, here \<open>from_master\<close>.
\<close>

definition cookie_plain :: "'key cookie_config" where
  "cookie_plain = cookie_backend_plain"

definition cookie_signed :: "('m \<Rightarrow> 'key) \<Rightarrow> 'm \<Rightarrow> 'key cookie_config" where
  "cookie_signed from_master master = cookie_backend_signed (from_master master)"

definition cookie_private :: "('m \<Rightarrow> 'key) \<Rightarrow> 'm \<Rightarrow> 'key cookie_config" where
  "cookie_private from_master master = cookie_backend_private (from_master master)"

text \<open>
  The setters of the builder take the shared configuration with \<open>Arc::get_mut\<close> and panic when
  another backend shares it; \<open>shared\<close> says whether one does.
\<close>

definition config_mut :: "bool \<Rightarrow> ('c \<Rightarrow> 'c) \<Rightarrow> 'c \<Rightarrow> 'c run" where
  "config_mut shared f c = (if shared then Panic else Ret (f c))"

definition backend_path :: "bool \<Rightarrow> string \<Rightarrow> 'key cookie_config \<Rightarrow> 'key cookie_config run" where
  "backend_path shared v = config_mut shared (\<lambda>c. c\<lparr>cc_path := v\<rparr>)"

definition backend_secure :: "bool \<Rightarrow> bool \<Rightarrow> 'key cookie_config \<Rightarrow> 'key cookie_config run" where
  "backend_secure shared v = config_mut shared (\<lambda>c. c\<lparr>cc_secure := v\<rparr>)"

definition backend_http_only :: "bool \<Rightarrow> bool \<Rightarrow> 'key cookie_config \<Rightarrow> 'key cookie_config run" where
  "backend_http_only shared v = config_mut shared (\<lambda>c. c\<lparr>cc_http_only := v\<rparr>)"

definition backend_domain :: "bool \<Rightarrow> string \<Rightarrow> 'key cookie_config \<Rightarrow> 'key cookie_config run" where
  "backend_domain shared v = config_mut shared (\<lambda>c. c\<lparr>cc_domain := Some v\<rparr>)"

definition backend_same_site :: "bool \<Rightarrow> same_site \<Rightarrow> 'key cookie_config \<Rightarrow> 'key cookie_config run" where
  "backend_same_site shared v = config_mut shared (\<lambda>c. c\<lparr>cc_same_site := Some v\<rparr>)"

definition backend_max_age :: "bool \<Rightarrow> int \<Rightarrow> 'key cookie_config \<Rightarrow> 'key cookie_config run" where
  "backend_max_age shared v = config_mut shared (\<lambda>c. c\<lparr>cc_max_age := Some v\<rparr>)"

section \<open>Reading and writing\<close>

definition secure_get ::
  "('j, 'k) cookie_api \<Rightarrow> ('j, 'k, 'key) signed_api \<Rightarrow> 'key security \<Rightarrow> 'j \<Rightarrow> string \<Rightarrow> 'k option" where
  "secure_get K S sec jar name =
     (case sec of
        Plain \<Rightarrow> jar_get K jar name
      | Signed key \<Rightarrow> sj_signed_get S key jar name
      | Private key \<Rightarrow> sj_private_get S key jar name)"

definition secure_add ::
  "('j, 'k) cookie_api \<Rightarrow> ('j, 'k, 'key) signed_api \<Rightarrow> 'key security \<Rightarrow> 'j \<Rightarrow> 'k \<Rightarrow> 'j" where
  "secure_add K S sec jar c =
     (case sec of
        Plain \<Rightarrow> jar_add K jar c
      | Signed key \<Rightarrow> sj_signed_add S key jar c
      | Private key \<Rightarrow> sj_private_add S key jar c)"

definition secure_remove ::
  "('j, 'k) cookie_api \<Rightarrow> ('j, 'k, 'key) signed_api \<Rightarrow> 'key security \<Rightarrow> 'j \<Rightarrow> 'k \<Rightarrow> 'j" where
  "secure_remove K S sec jar c =
     (case sec of
        Plain \<Rightarrow> jar_remove K jar c
      | Signed key \<Rightarrow> sj_signed_remove S key jar c
      | Private key \<Rightarrow> sj_private_remove S key jar c)"

definition config_read_value ::
  "('i, 'j) input_api \<Rightarrow> ('j, 'k) cookie_api \<Rightarrow> ('j, 'k, 'key) signed_api \<Rightarrow> 'key cookie_config \<Rightarrow> 'i
    \<Rightarrow> (string option, http_error) result \<times> 'i" where
  "config_read_value I K S c i =
     (case in_cookies I i of
        (Err e, i') \<Rightarrow> (Err e, i')
      | (Ok jar, i') \<Rightarrow>
          (case secure_get K S (cc_security c) jar (cc_name c) of
             Some cookie \<Rightarrow> (Ok (Some (cookie_val K cookie)), i')
           | None \<Rightarrow> (Ok None, i')))"

definition session_cookie_attrs :: "'key cookie_config \<Rightarrow> string \<Rightarrow> cookie_attrs" where
  "session_cookie_attrs c v =
     if_some (cc_max_age c) (\<lambda>a x. a\<lparr>ca_max_age := Some x\<rparr>)
       (if_some (cc_same_site c) (\<lambda>a x. a\<lparr>ca_same_site := Some x\<rparr>)
         (if_some (cc_domain c) (\<lambda>a x. a\<lparr>ca_domain := Some x\<rparr>)
           ((cookie_build (cc_name c) v)
             \<lparr>ca_path := Some (cc_path c), ca_secure := Some (cc_secure c),
              ca_http_only := Some (cc_http_only c)\<rparr>)))"

definition config_write_value ::
  "('i, 'j) input_api \<Rightarrow> ('j, 'k) cookie_api \<Rightarrow> ('j, 'k, 'key) signed_api \<Rightarrow> 'key cookie_config
    \<Rightarrow> string \<Rightarrow> 'i \<Rightarrow> (unit, http_error) result \<times> 'i" where
  "config_write_value I K S c v i =
     update_cookies I
       (\<lambda>jar. secure_add K S (cc_security c) jar (sj_finish S (session_cookie_attrs c v))) i"

definition config_remove_value ::
  "('i, 'j) input_api \<Rightarrow> ('j, 'k) cookie_api \<Rightarrow> ('j, 'k, 'key) signed_api \<Rightarrow> 'key cookie_config \<Rightarrow> 'i
    \<Rightarrow> (unit, http_error) result \<times> 'i" where
  "config_remove_value I K S c i =
     update_cookies I (\<lambda>jar. secure_remove K S (cc_security c) jar (cookie_named K (cc_name c))) i"

record 'key cookie_session =
  cs_config :: "'key cookie_config"
  cs_value :: "string option"

definition cookie_apply ::
  "('i, 'j) input_api \<Rightarrow> ('j, 'k) cookie_api \<Rightarrow> ('j, 'k, 'key) signed_api \<Rightarrow> 'key cookie_config \<Rightarrow> 'i
    \<Rightarrow> ('key cookie_session session one, http_error) result \<times> 'i" where
  "cookie_apply I K S c i =
     (case config_read_value I K S c i of
        (r, i') \<Rightarrow> (map_ok (\<lambda>v. One (Session \<lparr>cs_config = c, cs_value = v\<rparr>)) r, i'))"

definition cookie_session_get :: "'key cookie_session \<Rightarrow> string option" where
  "cookie_session_get s = cs_value s"

definition cookie_session_set :: "string \<Rightarrow> 'key cookie_session \<Rightarrow> 'key cookie_session" where
  "cookie_session_set v s = s\<lparr>cs_value := Some v\<rparr>"

definition cookie_session_remove :: "'key cookie_session \<Rightarrow> 'key cookie_session" where
  "cookie_session_remove s = s\<lparr>cs_value := None\<rparr>"

definition cookie_session_write ::
  "('i, 'j) input_api \<Rightarrow> ('j, 'k) cookie_api \<Rightarrow> ('j, 'k, 'key) signed_api \<Rightarrow> 'key cookie_session \<Rightarrow> 'i
    \<Rightarrow> (unit, http_error) result \<times> 'i" where
  "cookie_session_write I K S s i =
     (case cs_value s of
        Some v \<Rightarrow> config_write_value I K S (cs_config s) v i
      | None \<Rightarrow> config_remove_value I K S (cs_config s) i)"

section \<open>The backend keeps the session\<close>

text \<open>What the \<open>cookie\<close> crate promises: a child jar returns what was added under its key, and
  the cookie of a builder has its name and value.\<close>

definition signed_laws :: "('j, 'k) cookie_api \<Rightarrow> ('j, 'k, 'key) signed_api \<Rightarrow> bool" where
  "signed_laws K S \<longleftrightarrow>
     (\<forall>a. cookie_name K (sj_finish S a) = ca_name a \<and> cookie_val K (sj_finish S a) = ca_val a) \<and>
     (\<forall>key j c. \<exists>d. sj_signed_get S key (sj_signed_add S key j c) (cookie_name K c) = Some d \<and>
        cookie_val K d = cookie_val K c) \<and>
     (\<forall>key j c. sj_signed_get S key (sj_signed_remove S key j c) (cookie_name K c) = None) \<and>
     (\<forall>key j c. \<exists>d. sj_private_get S key (sj_private_add S key j c) (cookie_name K c) = Some d \<and>
        cookie_val K d = cookie_val K c) \<and>
     (\<forall>key j c. sj_private_get S key (sj_private_remove S key j c) (cookie_name K c) = None)"

lemma session_cookie_attrs_sel:
  "ca_name (session_cookie_attrs c v) = cc_name c" "ca_val (session_cookie_attrs c v) = v"
  "ca_path (session_cookie_attrs c v) = Some (cc_path c)"
  "ca_secure (session_cookie_attrs c v) = Some (cc_secure c)"
  "ca_http_only (session_cookie_attrs c v) = Some (cc_http_only c)"
  "ca_domain (session_cookie_attrs c v) = cc_domain c"
  "ca_same_site (session_cookie_attrs c v) = cc_same_site c"
  "ca_max_age (session_cookie_attrs c v) = cc_max_age c"
  by (simp_all add: session_cookie_attrs_def if_some_def cookie_build_def split: option.split)

lemma secure_get_add:
  assumes "jar_laws K" "signed_laws K S"
  shows "\<exists>d. secure_get K S sec (secure_add K S sec jar c) (cookie_name K c) = Some d \<and>
    cookie_val K d = cookie_val K c"
  using assms
  by (cases sec) (simp_all add: secure_get_def secure_add_def jar_lawsD signed_laws_def)

lemma secure_get_remove:
  assumes "jar_laws K" "signed_laws K S"
  shows "secure_get K S sec (secure_remove K S sec jar c) (cookie_name K c) = None"
  using assms
  by (cases sec) (simp_all add: secure_get_def secure_remove_def jar_lawsD signed_laws_def)

definition cookie_session_load ::
  "('i, 'j) input_api \<Rightarrow> ('j, 'k) cookie_api \<Rightarrow> ('j, 'k, 'key) signed_api \<Rightarrow> 'key cookie_config \<Rightarrow> 'i
    \<Rightarrow> ('key cookie_session, http_error) result" where
  "cookie_session_load I K S c i =
     map_ok (\<lambda>v. \<lparr>cs_config = c, cs_value = v\<rparr>) (fst (config_read_value I K S c i))"

lemma cookie_session_write_load:
  assumes I: "input_laws I" and K: "jar_laws K" and S: "signed_laws K S"
    and s: "cs_config s = c" and w: "cookie_session_write I K S s i = (Ok (), i')"
  shows "cookie_session_load I K S c i' = Ok s"
proof (cases "cs_value s")
  case (Some v)
  let ?k = "sj_finish S (session_cookie_attrs c v)"
  have k: "cookie_name K ?k = cc_name c" "cookie_val K ?k = v"
    using S by (simp_all add: signed_laws_def session_cookie_attrs_sel)
  from w Some s obtain jar i1 where "i' = in_put I i1 (secure_add K S (cc_security c) jar ?k)"
    by (auto simp: cookie_session_write_def config_write_value_def update_cookies_def
        split: prod.splits result.splits)
  moreover obtain d where "secure_get K S (cc_security c) (secure_add K S (cc_security c) jar ?k) (cc_name c) = Some d"
    "cookie_val K d = v"
    using secure_get_add[OF K S, of "cc_security c" jar ?k] k by auto
  ultimately show ?thesis
    using I Some s by (simp add: cookie_session_load_def config_read_value_def input_laws_def)
next
  case None
  with w s obtain jar i1 where
    "i' = in_put I i1 (secure_remove K S (cc_security c) jar (cookie_named K (cc_name c)))"
    by (auto simp: cookie_session_write_def config_remove_value_def update_cookies_def
        split: prod.splits result.splits)
  moreover have "secure_get K S (cc_security c)
      (secure_remove K S (cc_security c) jar (cookie_named K (cc_name c))) (cc_name c) = None"
    using secure_get_remove[OF K S, of "cc_security c" jar "cookie_named K (cc_name c)"]
    by (simp add: jar_lawsD[OF K])
  ultimately show ?thesis
    using I None s by (simp add: cookie_session_load_def config_read_value_def input_laws_def)
qed

lemma cookie_session_backend:
  assumes "input_laws I" "jar_laws K" "signed_laws K S"
  shows "session_backend cookie_session_get cookie_session_set cookie_session_remove
    (cookie_session_write I K S) (cookie_session_load I K S c) (\<lambda>s _. cs_config s = c)"
proof
  show "\<exists>s'. cookie_session_load I K S c w' = Ok s' \<and> cookie_session_get s' = cookie_session_get s"
    if "cs_config s = c" "cookie_session_write I K S s w = (Ok (), w')" for s w w'
    using cookie_session_write_load[OF assms that] by blast
  show "cs_config s = c" if "cookie_session_load I K S c w = Ok s" for s w
    using that by (auto simp: cookie_session_load_def)
qed (simp_all add: cookie_session_get_def cookie_session_set_def cookie_session_remove_def)

text \<open>Child jars that keep the key in front of the value, to show that the laws can hold.\<close>

definition list_signed :: "((string \<times> string) list, string \<times> string, string) signed_api" where
  "list_signed =
     \<lparr>sj_finish = (\<lambda>a. (ca_name a, ca_val a)),
      sj_signed_get = (\<lambda>key j n. case map_of j n of None \<Rightarrow> None
        | Some v \<Rightarrow> if starts_with v key then Some (n, drop (length key) v) else None),
      sj_signed_add = (\<lambda>key j c. (fst c, key @ snd c) # j),
      sj_signed_remove = (\<lambda>key j c. filter (\<lambda>p. fst p \<noteq> fst c) j),
      sj_private_get = (\<lambda>key j n. case map_of j n of None \<Rightarrow> None
        | Some v \<Rightarrow> if starts_with v key then Some (n, drop (length key) v) else None),
      sj_private_add = (\<lambda>key j c. (fst c, key @ snd c) # j),
      sj_private_remove = (\<lambda>key j c. filter (\<lambda>p. fst p \<noteq> fst c) j)\<rparr>"

lemma list_signed_laws: "signed_laws list_cookies list_signed"
proof -
  have "map_of (filter (\<lambda>p. fst p \<noteq> n) j) n = None" for j :: "(string \<times> string) list" and n
    by (auto simp: map_of_eq_None_iff)
  then show ?thesis by (auto simp: signed_laws_def list_cookies_def list_signed_def)
qed

interpretation cookie_backend: session_backend cookie_session_get cookie_session_set cookie_session_remove
  "cookie_session_write jar_input list_cookies list_signed"
  "cookie_session_load jar_input list_cookies list_signed c" "\<lambda>s _. cs_config s = c" for c
  by (rule cookie_session_backend[OF jar_input_laws list_cookies_laws list_signed_laws])

text \<open>A fresh backend sends its cookie over secure connections only and hides it from scripts.\<close>

lemma cookie_backend_default_attrs:
  "ca_secure (session_cookie_attrs (cookie_backend_new sec) v) = Some True"
  "ca_http_only (session_cookie_attrs (cookie_backend_new sec) v) = Some True"
  "ca_max_age (session_cookie_attrs (cookie_backend_new sec) v) = None"
  by (simp_all add: session_cookie_attrs_sel cookie_backend_new_def)

section \<open>The jar after a handler\<close>

text \<open>
  What the jar of the request holds when a handler has succeeded: exactly its session value. What the client
  makes of it is the subject of \<open>Finch_Client\<close>.
\<close>

lemma cookie_handler_stores:
  assumes laws: "input_laws I" "jar_laws K" "signed_laws K S"
    and now: "cookie_session_load I K S c w = Ok s"
    and handler: "f (Session s) = (Ok item, Session s1)" "cs_config s1 = cs_config s"
    and run: "session_with (cookie_session_write I K S) f (Session s) w = (Ok item, w')"
  shows "\<exists>s'. cookie_session_load I K S c w' = Ok s' \<and> cookie_session_get s' = cookie_session_get s1"
proof -
  note backend = cookie_session_backend[OF laws, of c]
  from session_backend.load_belongs[OF backend now] handler(2) have "cs_config s1 = c" by simp
  from session_backend.session_with_stores[OF backend handler(1) this run] show ?thesis .
qed

lemma cookie_handler_stores_witness:
  "\<exists>s'. cookie_session_load jar_input list_cookies list_signed (cookie_backend_new (Signed ''key''))
       [(''finchers-session'', ''keyhello'')] = Ok s' \<and> cookie_session_get s' = Some ''hello''"
proof -
  let ?c = "cookie_backend_new (Signed ''key'')"
  let ?s = "\<lparr>cs_config = ?c, cs_value = None\<rparr>"
  let ?f = "\<lambda>t. case t of Session s \<Rightarrow> (Ok () :: (unit, http_error) result, Session (cookie_session_set ''hello'' s))"
  have now: "cookie_session_load jar_input list_cookies list_signed ?c [] = Ok ?s"
    by (simp add: cookie_session_load_def config_read_value_def secure_get_def jar_input_def
        list_signed_def cookie_backend_new_def)
  have run: "session_with (cookie_session_write jar_input list_cookies list_signed) ?f (Session ?s) [] =
      (Ok (), [(''finchers-session'', ''keyhello'')])"
    by (simp add: session_with_def cookie_session_write_def config_write_value_def update_cookies_def
        cookie_session_set_def secure_add_def session_cookie_attrs_sel jar_input_def list_signed_def
        cookie_backend_new_def)
  from cookie_handler_stores[OF jar_input_laws list_cookies_laws list_signed_laws now, of ?f "()"
      "cookie_session_set ''hello'' ?s", OF _ _ run]
  show ?thesis by (simp add: cookie_session_set_def cookie_session_get_def)
qed

end
