(* ===== verification/Finch_Client.thy ===== *)
theory Finch_Client
  imports Finch_Session_Cookie
begin

text \<open>
  The cookie backend as its client sees it. The store of the client follows RFC 6265: a cookie is
  identified by its name, its domain and its path, and what a response does not say about the last two is
  filled in from the request. How an \<open>Input\<close> of the older \<open>finchers\<close> reads the header \<open>Cookie\<close> and writes the
  header \<open>Set-Cookie\<close> is a parameter.
\<close>

section \<open>The client\<close>








definition expired :: "cookie_attrs \<Rightarrow> bool" where
  "expired a = (case ca_max_age a of None \<Rightarrow> False | Some n \<Rightarrow> n \<le> 0)"



section \<open>The headers of the server\<close>

record ('i, 'j) wire_api =
  wi_request :: "(string \<times> string) list \<Rightarrow> 'i"
  wi_jar :: "(string \<times> string) list \<Rightarrow> 'j"
  wi_set_cookies :: "'j \<Rightarrow> cookie_attrs list"



section \<open>A request and its response\<close>



















section \<open>Setting and removing\<close>


section \<open>A concrete client\<close>

text \<open>
  A jar is the cookies of the request and the changes; a child jar keeps its key in front of the value.
\<close>

type_synonym demo_jar = "(string \<times> string) list \<times> cookie_attrs list"

definition demo_jar_get :: "demo_jar \<Rightarrow> string \<Rightarrow> cookie_attrs option" where
  "demo_jar_get j n =
     (case find (\<lambda>a. ca_name a = n) (snd j) of
        Some a \<Rightarrow> if expired a then None else Some a
      | None \<Rightarrow> map_option (cookie_build n) (map_of (fst j) n))"

definition demo_jar_add :: "demo_jar \<Rightarrow> cookie_attrs \<Rightarrow> demo_jar" where
  "demo_jar_add j a = (fst j, a # filter (\<lambda>x. ca_name x \<noteq> ca_name a) (snd j))"

definition demo_jar_remove :: "demo_jar \<Rightarrow> cookie_attrs \<Rightarrow> demo_jar" where
  "demo_jar_remove j a =
     (fst j, (if map_of (fst j) (ca_name a) = None then [] else [a\<lparr>ca_val := [], ca_max_age := Some 0\<rparr>]) @
       filter (\<lambda>x. ca_name x \<noteq> ca_name a) (snd j))"

definition demo_cookies :: "(demo_jar, cookie_attrs) cookie_api" where
  "demo_cookies =
     \<lparr>jar_new = ([], []), jar_get = demo_jar_get, jar_add_original = (\<lambda>j a. ((ca_name a, ca_val a) # fst j, snd j)),
      jar_add = demo_jar_add, jar_remove = demo_jar_remove, jar_delta = snd,
      cookie_parse_encoded = (\<lambda>s. case str_find (CHR ''='') s of
         None \<Rightarrow> Err ''missing pair'' | Some n \<Rightarrow> Ok (cookie_build (take n s) (drop (Suc n) s))),
      cookie_new = cookie_build, cookie_named = (\<lambda>n. cookie_build n []), cookie_name = ca_name, cookie_val = ca_val,
      cookie_encoded = (\<lambda>a. ca_name a @ ''='' @ ca_val a)\<rparr>"

definition demo_open :: "string \<Rightarrow> demo_jar \<Rightarrow> string \<Rightarrow> cookie_attrs option" where
  "demo_open key j n =
     (case demo_jar_get j n of
        None \<Rightarrow> None
      | Some a \<Rightarrow> if starts_with (ca_val a) key then Some (a\<lparr>ca_val := drop (length key) (ca_val a)\<rparr>) else None)"

definition demo_seal :: "string \<Rightarrow> demo_jar \<Rightarrow> cookie_attrs \<Rightarrow> demo_jar" where
  "demo_seal key j a = demo_jar_add j (a\<lparr>ca_val := key @ ca_val a\<rparr>)"

definition demo_signed :: "(demo_jar, cookie_attrs, string) signed_api" where
  "demo_signed =
     \<lparr>sj_finish = (\<lambda>a. a), sj_signed_get = demo_open, sj_signed_add = demo_seal,
      sj_signed_remove = (\<lambda>key. demo_jar_remove), sj_private_get = demo_open, sj_private_add = demo_seal,
      sj_private_remove = (\<lambda>key. demo_jar_remove)\<rparr>"

definition demo_wire :: "(demo_jar, demo_jar) wire_api" where
  "demo_wire = \<lparr>wi_request = (\<lambda>cs. (cs, [])), wi_jar = (\<lambda>cs. (cs, [])), wi_set_cookies = snd\<rparr>"






lemma demo_api_sel [simp]:
  "cookie_val demo_cookies = ca_val" "cookie_named demo_cookies n = cookie_build n []" "sj_finish demo_signed a = a"
  "wi_request demo_wire cs = (cs, [])" "wi_jar demo_wire cs = (cs, [])" "wi_set_cookies demo_wire = snd"
  by (simp_all add: demo_cookies_def demo_signed_def demo_wire_def)

lemma cookie_build_sel [simp]: "ca_name (cookie_build n v) = n" "ca_val (cookie_build n v) = v"
  by (simp_all add: cookie_build_def)






end
