(* ===== verification/Finch_Future.thy ===== *)
theory Finch_Future
  imports Finch_Ext_Then
begin

text \<open>
  Futures of the companion crates, which are polled without a context: the value and the state a
  future ends in, composition, and a caller that polls a bounded number of times.
\<close>

section \<open>Futures and the state they end in\<close>

inductive ends_at :: "('t, 'i, 'e) future_fn \<Rightarrow> 't \<Rightarrow> ('i, 'e) result \<Rightarrow> 't \<Rightarrow> bool" for fp where
  ends_at_ready: "fp t = Ret (Ok (Ready x), t') \<Longrightarrow> ends_at fp t (Ok x) t'"
| ends_at_err: "fp t = Ret (Err e, t') \<Longrightarrow> ends_at fp t (Err e) t'"
| ends_at_later: "fp t = Ret (Ok NotReady, t') \<Longrightarrow> ends_at fp t' r t'' \<Longrightarrow> ends_at fp t r t''"

text \<open>The same from the outcome of the first poll.\<close>

definition ends_from ::
  "('t, 'i, 'e) future_fn \<Rightarrow> (('i, 'e) poll \<times> 't) run \<Rightarrow> ('i, 'e) result \<Rightarrow> 't \<Rightarrow> bool" where
  "ends_from fp q r t' \<longleftrightarrow>
     (case q of
        Panic \<Rightarrow> False
      | Ret (p, t1) \<Rightarrow>
          (case p of
             Err e \<Rightarrow> r = Err e \<and> t' = t1
           | Ok (Ready x) \<Rightarrow> r = Ok x \<and> t' = t1
           | Ok NotReady \<Rightarrow> ends_at fp t1 r t'))"

lemma ends_from_simps [simp]:
  "\<not> ends_from fp Panic r t'"
  "ends_from fp (Ret (Err e, t1)) r t' \<longleftrightarrow> r = Err e \<and> t' = t1"
  "ends_from fp (Ret (Ok (Ready x), t1)) r t' \<longleftrightarrow> r = Ok x \<and> t' = t1"
  "ends_from fp (Ret (Ok NotReady, t1)) r t' \<longleftrightarrow> ends_at fp t1 r t'"
  by (simp_all add: ends_from_def)

lemma ends_from_done [simp]:
  "ends_from fp (Ret (map_ok Ready x, t1)) r t \<longleftrightarrow> r = x \<and> t = t1"
  by (cases x) simp_all

lemma map_ok_ident [simp]: "map_ok (\<lambda>v. v) r = r"
  by (cases r) simp_all

lemma ends_from_done_map [simp]:
  "ends_from fp (Ret (map_ok (\<lambda>v. Ready (f v)) x, t1)) r t \<longleftrightarrow> r = map_ok f x \<and> t = t1"
  by (cases x) simp_all

lemma ends_at_unfold: "ends_at fp t r t' \<longleftrightarrow> ends_from fp (fp t) r t'"
  unfolding ends_from_def
  by (subst ends_at.simps) (auto split: run.splits result.splits async.splits)

text \<open>A future that polls another one in a context \<open>w\<close> and continues with \<open>out\<close> when that one ends.\<close>

lemma ends_at_chain:
  assumes step: "\<And>t. fp (w t) = (case fp0 t of
      Panic \<Rightarrow> Panic
    | Ret (p, t') \<Rightarrow>
        (case p of
           Ok NotReady \<Rightarrow> Ret (Ok NotReady, w t')
         | Ok (Ready x) \<Rightarrow> out (Ok x) t'
         | Err e \<Rightarrow> out (Err e) t'))"
  shows "ends_at fp (w t) r t'' \<longleftrightarrow> (\<exists>r0 t0. ends_at fp0 t r0 t0 \<and> ends_from fp (out r0 t0) r t'')"
proof
  have direct: "\<exists>r0 t0. ends_at fp0 t r0 t0 \<and> ends_from fp (out r0 t0) r t''"
    if "ends_from fp (fp (w t)) r t''" "\<nexists>t1. fp0 t = Ret (Ok NotReady, t1)" for t r t''
  proof (cases "fp0 t")
    case (Ret q)
    then obtain p t1 where q: "fp0 t = Ret (p, t1)" by (cases q) auto
    show ?thesis
    proof (cases p rule: poll_exhaust)
      case (ready x)
      with q that(1) show ?thesis using ends_at_ready[of fp0 t x t1] by (auto simp: step)
    next
      case (err e)
      with q that(1) show ?thesis using ends_at_err[of fp0 t e t1] by (auto simp: step)
    qed (use q that(2) in simp)
  qed (use that in \<open>simp add: step\<close>)
  assume "ends_at fp (w t) r t''"
  then show "\<exists>r0 t0. ends_at fp0 t r0 t0 \<and> ends_from fp (out r0 t0) r t''"
  proof (induction "w t" r t'' arbitrary: t rule: ends_at.induct)
    case (ends_at_ready x t')
    show ?case
    proof (cases "\<exists>t1. fp0 t = Ret (Ok NotReady, t1)")
      case True
      with ends_at_ready show ?thesis by (auto simp: step)
    qed (use ends_at_ready direct[of t "Ok x" t'] in simp)
  next
    case (ends_at_err e t')
    show ?case
    proof (cases "\<exists>t1. fp0 t = Ret (Ok NotReady, t1)")
      case True
      with ends_at_err show ?thesis by (auto simp: step)
    qed (use ends_at_err direct[of t "Err e" t'] in simp)
  next
    case (ends_at_later t' r t'')
    show ?case
    proof (cases "\<exists>t1. fp0 t = Ret (Ok NotReady, t1)")
      case True
      then obtain t1 where t1: "fp0 t = Ret (Ok NotReady, t1)" by blast
      with ends_at_later(1) have "t' = w t1" by (simp add: step)
      from ends_at_later(3)[OF this] t1 show ?thesis by (blast intro: ends_at.intros)
    qed (use ends_at_later(1,2) direct[of t r t''] in simp)
  qed
next
  assume "\<exists>r0 t0. ends_at fp0 t r0 t0 \<and> ends_from fp (out r0 t0) r t''"
  then obtain r0 t0 where "ends_at fp0 t r0 t0" "ends_from fp (out r0 t0) r t''" by blast
  then show "ends_at fp (w t) r t''"
    by (induction rule: ends_at.induct) (subst ends_at_unfold, simp add: step)+
qed

lemma ends_at_future_ends: "future_ends fp t r \<longleftrightarrow> (\<exists>t'. ends_at fp t r t')"
proof
  show "future_ends fp t r \<Longrightarrow> \<exists>t'. ends_at fp t r t'"
    by (induction rule: future_ends.induct) (blast intro: ends_at.intros)+
  show "\<exists>t'. ends_at fp t r t' \<Longrightarrow> future_ends fp t r"
  proof (elim exE)
    fix t' show "ends_at fp t r t' \<Longrightarrow> future_ends fp t r"
      by (induction rule: ends_at.induct) (blast intro: future_ends.intros)+
  qed
qed

lemma future_ends_chain:
  assumes "\<And>t. fp (w t) = (case fp0 t of
      Panic \<Rightarrow> Panic
    | Ret (p, t') \<Rightarrow>
        (case p of
           Ok NotReady \<Rightarrow> Ret (Ok NotReady, w t')
         | Ok (Ready x) \<Rightarrow> out (Ok x) t'
         | Err e \<Rightarrow> out (Err e) t'))"
  shows "future_ends fp (w t) r \<longleftrightarrow> (\<exists>r0 t0. ends_at fp0 t r0 t0 \<and> (\<exists>t'. ends_from fp (out r0 t0) r t'))"
  unfolding ends_at_future_ends ends_at_chain[where fp = fp and w = w, OF assms] by blast

text \<open>A caller that polls at most \<open>n\<close> times.\<close>

fun drive :: "('t, 'i, 'e) future_fn \<Rightarrow> nat \<Rightarrow> 't \<Rightarrow> (('i, 'e) result \<times> 't) option" where
  "drive fp 0 t = None"
| "drive fp (Suc n) t =
     (case fp t of
        Panic \<Rightarrow> None
      | Ret (Err e, t') \<Rightarrow> Some (Err e, t')
      | Ret (Ok (Ready x), t') \<Rightarrow> Some (Ok x, t')
      | Ret (Ok NotReady, t') \<Rightarrow> drive fp n t')"

lemma drive_ends_at: "drive fp n t = Some (r, t') \<Longrightarrow> ends_at fp t r t'"
proof (induction n arbitrary: t)
  case (Suc n)
  then show ?case
    by (subst ends_at_unfold) (auto split: run.splits result.splits async.splits)
qed simp

lemma ends_at_drive: "ends_at fp t r t' \<Longrightarrow> \<exists>n. drive fp n t = Some (r, t')"
proof (induction rule: ends_at.induct)
  case (ends_at_ready t x t')
  then show ?case by (intro exI[of _ 1]) simp
next
  case (ends_at_err t e t')
  then show ?case by (intro exI[of _ 1]) simp
next
  case (ends_at_later t t' r t'')
  then obtain n where "drive fp n t' = Some (r, t'')" by blast
  with ends_at_later(1) show ?case by (intro exI[of _ "Suc n"]) simp
qed

lemma ends_at_iff_drive: "ends_at fp t r t' \<longleftrightarrow> (\<exists>n. drive fp n t = Some (r, t'))"
  by (rule iffI, erule ends_at_drive, erule exE, erule drive_ends_at)

text \<open>A future whose polls cannot panic.\<close>

definition plain :: "('t \<Rightarrow> ('i, 'e) poll \<times> 't) \<Rightarrow> ('t, 'i, 'e) future_fn" where
  "plain g t = Ret (g t)"

end
