(* ===== verification/Finch_Redis.thy ===== *)
theory Finch_Redis
  imports Finch_Session_Cookie Finch_Future
begin

text \<open>
  \<open>finchers-session/src/redis.rs\<close>: sessions whose values are kept by a Redis server. The \<open>redis\<close>
  crate is a parameter: futures for a connection and for the answer to a command, polled
  together with the server \<open>'sv\<close> they talk to. A command is the list of its name and arguments.
\<close>

section \<open>Configuration\<close>

text \<open>\<open>std::time::Duration\<close>.\<close>

record duration =
  du_secs :: nat
  du_nanos :: nat

record redis_config =
  rc_key_prefix :: string
  rc_cookie_name :: string
  rc_timeout :: "duration option"

definition key_name :: "'u uuid_api \<Rightarrow> redis_config \<Rightarrow> 'u \<Rightarrow> string" where
  "key_name U cfg u = rc_key_prefix cfg @ '':'' @ uu_to_string U u"

definition get_session_id ::
  "('i, 'j) input_api \<Rightarrow> ('j, 'k) cookie_api \<Rightarrow> 'u uuid_api \<Rightarrow> redis_config \<Rightarrow> 'i
    \<Rightarrow> ('u option, http_error) result \<times> 'i" where
  "get_session_id I K U cfg i =
     (case in_cookies I i of
        (Err e, i') \<Rightarrow> (Err e, i')
      | (Ok jar, i') \<Rightarrow>
          (case jar_get K jar (rc_cookie_name cfg) of
             None \<Rightarrow> (Ok None, i')
           | Some cookie \<Rightarrow> (map_err bad_request (map_ok Some (uu_parse U (cookie_val K cookie))), i')))"

record 'cl redis_backend =
  rb_client :: 'cl
  rb_config :: redis_config

definition redis_backend_new :: "'cl \<Rightarrow> 'cl redis_backend" where
  "redis_backend_new client =
     \<lparr>rb_client = client,
      rb_config = \<lparr>rc_key_prefix = ''finchers-sesssion'', rc_cookie_name = ''session-id'', rc_timeout = None\<rparr>\<rparr>"

text \<open>The builders panic on a backend that is shared already.\<close>

definition redis_config_mut ::
  "bool \<Rightarrow> (redis_config \<Rightarrow> redis_config) \<Rightarrow> 'cl redis_backend \<Rightarrow> 'cl redis_backend run" where
  "redis_config_mut unique f b = (if unique then Ret (b\<lparr>rb_config := f (rb_config b)\<rparr>) else Panic)"

definition redis_key_prefix :: "bool \<Rightarrow> string \<Rightarrow> 'cl redis_backend \<Rightarrow> 'cl redis_backend run" where
  "redis_key_prefix unique prefix_str = redis_config_mut unique (\<lambda>c. c\<lparr>rc_key_prefix := prefix_str\<rparr>)"

definition redis_cookie_name :: "bool \<Rightarrow> string \<Rightarrow> 'cl redis_backend \<Rightarrow> 'cl redis_backend run" where
  "redis_cookie_name unique name = redis_config_mut unique (\<lambda>c. c\<lparr>rc_cookie_name := name\<rparr>)"

definition redis_timeout :: "bool \<Rightarrow> duration \<Rightarrow> 'cl redis_backend \<Rightarrow> 'cl redis_backend run" where
  "redis_timeout unique d = redis_config_mut unique (\<lambda>c. c\<lparr>rc_timeout := Some d\<rparr>)"

section \<open>The redis crate\<close>

text \<open>
  \<open>Client::get_async_connection\<close>, \<open>Cmd::query_async\<close> at the two result types the backend uses,
  and \<open>error::fail\<close> of the release of finchers the crate is written against, on the text of a
  \<open>RedisError\<close>.
\<close>

record ('cl, 'cf, 'c, 'qf, 'sv) redis_api =
  rd_connect :: "'cl \<Rightarrow> 'cf"
  rd_poll_connect :: "'cf \<times> 'sv \<Rightarrow> ('c, string) poll \<times> 'cf \<times> 'sv"
  rd_query :: "string list \<Rightarrow> 'c \<Rightarrow> 'qf"
  rd_poll_str :: "'qf \<times> 'sv \<Rightarrow> ('c \<times> string option, string) poll \<times> 'qf \<times> 'sv"
  rd_poll_unit :: "'qf \<times> 'sv \<Rightarrow> ('c \<times> unit, string) poll \<times> 'qf \<times> 'sv"
  rd_fail :: "string \<Rightarrow> http_error"

text \<open>What a server that stores \<open>store\<close> promises when it answers (an entry with a time limit is
  considered before its end).\<close>

definition redis_laws ::
  "('cl, 'cf, 'c, 'qf, 'sv) redis_api \<Rightarrow> ('sv \<Rightarrow> string \<Rightarrow> string option) \<Rightarrow> bool" where
  "redis_laws R store \<longleftrightarrow>
     (\<forall>f sv c f' sv'. ends_at (plain (rd_poll_connect R)) (f, sv) (Ok c) (f', sv') \<longrightarrow> store sv' = store sv) \<and>
     (\<forall>k c sv c' v q' sv'. ends_at (plain (rd_poll_str R)) (rd_query R [''GET'', k] c, sv) (Ok (c', v)) (q', sv') \<longrightarrow>
        store sv' = store sv \<and> v = store sv k) \<and>
     (\<forall>k v c sv u q' sv'. ends_at (plain (rd_poll_unit R)) (rd_query R [''SET'', k, v] c, sv) (Ok u) (q', sv') \<longrightarrow>
        store sv' = (store sv)(k := Some v)) \<and>
     (\<forall>k n v c sv u q' sv'. ends_at (plain (rd_poll_unit R)) (rd_query R [''SETEX'', k, n, v] c, sv) (Ok u) (q', sv') \<longrightarrow>
        store sv' = (store sv)(k := Some v)) \<and>
     (\<forall>k c sv u q' sv'. ends_at (plain (rd_poll_unit R)) (rd_query R [''DEL'', k] c, sv) (Ok u) (q', sv') \<longrightarrow>
        store sv' = (store sv)(k := None))"

section \<open>Reading the session\<close>

record ('c, 'u) redis_session =
  rs_conn :: 'c
  rs_config :: redis_config
  rs_session_id :: "'u option"
  rs_value :: "string option"

datatype ('cf, 'qf, 'u) read_state =
    RdFailed "http_error option"
  | RdConnecting 'cf redis_config "'u option"
  | RdFetch 'qf redis_config 'u
  | RdDone

definition read_failed :: "http_error \<Rightarrow> ('cf, 'qf, 'u) read_state" where
  "read_failed err = RdFailed (Some err)"

definition read_connecting ::
  "('cl, 'cf, 'c, 'qf, 'sv) redis_api \<Rightarrow> 'cl \<Rightarrow> redis_config \<Rightarrow> 'u option \<Rightarrow> ('cf, 'qf, 'u) read_state" where
  "read_connecting R client cfg session_id = RdConnecting (rd_connect R client) cfg session_id"

definition redis_apply ::
  "('cl, 'cf, 'c, 'qf, 'sv) redis_api \<Rightarrow> ('i, 'j) input_api \<Rightarrow> ('j, 'k) cookie_api \<Rightarrow> 'u uuid_api
    \<Rightarrow> 'cl redis_backend \<Rightarrow> 'i \<Rightarrow> ('cf, 'qf, 'u) read_state \<times> 'i" where
  "redis_apply R I K U b i =
     (case get_session_id I K U (rb_config b) i of
        (Ok session_id, i') \<Rightarrow> (read_connecting R (rb_client b) (rb_config b) session_id, i')
      | (Err e, i') \<Rightarrow> (read_failed e, i'))"

text \<open>The states \<open>Fetch\<close> and \<open>Connecting\<close> of the loop of \<open>ReadFuture::poll\<close>.\<close>

definition redis_poll_fetch ::
  "('cl, 'cf, 'c, 'qf, 'sv) redis_api \<Rightarrow> 'qf \<Rightarrow> redis_config \<Rightarrow> 'u \<Rightarrow> 'sv
    \<Rightarrow> ((('c, 'u) redis_session session one, http_error) poll \<times> ('cf, 'qf, 'u) read_state \<times> 'sv) run" where
  "redis_poll_fetch R q cfg session_id sv =
     (case rd_poll_str R (q, sv) of
        (Err e, q', sv') \<Rightarrow> Ret (Err (rd_fail R e), RdFetch q' cfg session_id, sv')
      | (Ok NotReady, q', sv') \<Rightarrow> Ret (Ok NotReady, RdFetch q' cfg session_id, sv')
      | (Ok (Ready (conn, Some v)), q', sv') \<Rightarrow>
          Ret (Ok (Ready (One (Session \<lparr>rs_conn = conn, rs_config = cfg,
            rs_session_id = Some session_id, rs_value = Some v\<rparr>))), RdDone, sv')
      | (Ok (Ready (conn, None)), q', sv') \<Rightarrow>
          Ret (Ok (Ready (One (Session \<lparr>rs_conn = conn, rs_config = cfg,
            rs_session_id = None, rs_value = None\<rparr>))), RdDone, sv'))"

definition redis_read_poll ::
  "('cl, 'cf, 'c, 'qf, 'sv) redis_api \<Rightarrow> 'u uuid_api
    \<Rightarrow> (('cf, 'qf, 'u) read_state \<times> 'sv, ('c, 'u) redis_session session one, http_error) future_fn" where
  "redis_read_poll R U t =
     (case t of (st, sv) \<Rightarrow>
       (case st of
          RdFailed err \<Rightarrow>
            (case err of None \<Rightarrow> Panic | Some e \<Rightarrow> Ret (Err e, RdFailed None, sv))
        | RdConnecting f cfg session_id \<Rightarrow>
            (case rd_poll_connect R (f, sv) of
               (Err e, f', sv') \<Rightarrow> Ret (Err (rd_fail R e), RdConnecting f' cfg session_id, sv')
             | (Ok NotReady, f', sv') \<Rightarrow> Ret (Ok NotReady, RdConnecting f' cfg session_id, sv')
             | (Ok (Ready conn), f', sv') \<Rightarrow>
                 (case session_id of
                    Some u \<Rightarrow> redis_poll_fetch R (rd_query R [''GET'', key_name U cfg u] conn) cfg u sv'
                  | None \<Rightarrow>
                      Ret (Ok (Ready (One (Session \<lparr>rs_conn = conn, rs_config = cfg,
                        rs_session_id = None, rs_value = None\<rparr>))), RdDone, sv')))
        | RdFetch q cfg session_id \<Rightarrow> redis_poll_fetch R q cfg session_id sv
        | RdDone \<Rightarrow> Panic))"

section \<open>Writing the session\<close>

definition redis_get :: "('c, 'u) redis_session \<Rightarrow> string option" where
  "redis_get s = rs_value s"

definition redis_set :: "string \<Rightarrow> ('c, 'u) redis_session \<Rightarrow> ('c, 'u) redis_session" where
  "redis_set v s = s\<lparr>rs_value := Some v\<rparr>"

definition redis_remove :: "('c, 'u) redis_session \<Rightarrow> ('c, 'u) redis_session" where
  "redis_remove s = s\<lparr>rs_value := None\<rparr>"

datatype 'qf write_state = WrNoop | WrFailed "http_error option" | WrCmd 'qf

definition write_no_op :: "'qf write_state" where
  "write_no_op = WrNoop"

definition write_failed :: "http_error \<Rightarrow> 'qf write_state" where
  "write_failed err = WrFailed (Some err)"

definition write_cmd :: "('cl, 'cf, 'c, 'qf, 'sv) redis_api \<Rightarrow> 'c \<Rightarrow> string list \<Rightarrow> 'qf write_state" where
  "write_cmd R conn cmd = WrCmd (rd_query R cmd conn)"

lemmas redis_constructors [simp] =
  read_failed_def read_connecting_def write_no_op_def write_failed_def write_cmd_def

definition store_cmd :: "redis_config \<Rightarrow> string \<Rightarrow> string \<Rightarrow> string list" where
  "store_cmd cfg key v =
     (case rc_timeout cfg of
        Some d \<Rightarrow> [''SETEX'', key, show_nat (du_secs d), v]
      | None \<Rightarrow> [''SET'', key, v])"

definition redis_write ::
  "('cl, 'cf, 'c, 'qf, 'sv) redis_api \<Rightarrow> ('i, 'j) input_api \<Rightarrow> ('j, 'k) cookie_api \<Rightarrow> 'u uuid_api \<Rightarrow> 'u
    \<Rightarrow> ('c, 'u) redis_session \<Rightarrow> 'i \<Rightarrow> 'qf write_state \<times> 'i" where
  "redis_write R I K U new_v4 s i =
     (case rs_value s of
        Some v \<Rightarrow>
          let session_id = (case rs_session_id s of Some u \<Rightarrow> u | None \<Rightarrow> new_v4);
              cookie = cookie_new K (rc_cookie_name (rs_config s)) (uu_to_string U session_id) in
          (case update_cookies I (\<lambda>jar. jar_add K jar cookie) i of
             (Err e, i') \<Rightarrow> (write_failed e, i')
           | (Ok _, i') \<Rightarrow>
               (write_cmd R (rs_conn s) (store_cmd (rs_config s) (key_name U (rs_config s) session_id) v), i'))
      | None \<Rightarrow>
          (case rs_session_id s of
             Some session_id \<Rightarrow>
               (case update_cookies I (\<lambda>jar. jar_remove K jar (cookie_named K (rc_cookie_name (rs_config s)))) i of
                  (Err e, i') \<Rightarrow> (write_failed e, i')
                | (Ok _, i') \<Rightarrow> (write_cmd R (rs_conn s) [''DEL'', key_name U (rs_config s) session_id], i'))
           | None \<Rightarrow> (write_no_op, i)))"

definition redis_write_poll ::
  "('cl, 'cf, 'c, 'qf, 'sv) redis_api \<Rightarrow> ('qf write_state \<times> 'sv, unit, http_error) future_fn" where
  "redis_write_poll R t =
     (case t of (st, sv) \<Rightarrow>
       (case st of
          WrNoop \<Rightarrow> Ret (Ok (Ready ()), WrNoop, sv)
        | WrFailed err \<Rightarrow>
            (case err of None \<Rightarrow> Panic | Some e \<Rightarrow> Ret (Err e, WrFailed None, sv))
        | WrCmd q \<Rightarrow>
            (case rd_poll_unit R (q, sv) of
               (Err e, q', sv') \<Rightarrow> Ret (Err (rd_fail R e), WrCmd q', sv')
             | (Ok NotReady, q', sv') \<Rightarrow> Ret (Ok NotReady, WrCmd q', sv')
             | (Ok (Ready _), q', sv') \<Rightarrow> Ret (Ok (Ready ()), WrCmd q', sv'))))"

text \<open>
  \<open>Session::into_future\<close> starts the write in the input of the running task and wraps its future,
  whose error is converted.
\<close>

definition write_session_poll ::
  "('e \<Rightarrow> http_error) \<Rightarrow> ('t, unit, 'e) future_fn \<Rightarrow> ('t, unit, http_error) future_fn" where
  "write_session_poll into fp t = map_run (\<lambda>(p, t'). (map_err into p, t')) (fp t)"

lemma write_session_ends:
  "ends_at (write_session_poll into fp) t r t' \<longleftrightarrow> (\<exists>r0. ends_at fp t r0 t' \<and> r = map_err into r0)"
proof -
  let ?out = "\<lambda>r0 t. Ret (map_ok Ready (map_err into r0), t)"
  have "ends_at (write_session_poll into fp) ((\<lambda>t. t) t) r t' \<longleftrightarrow>
      (\<exists>r0 t0. ends_at fp t r0 t0 \<and> ends_from (write_session_poll into fp) (?out r0 t0) r t')"
    by (rule ends_at_chain) (auto simp: write_session_poll_def split: run.splits prod.splits result.splits async.splits)
  then show ?thesis by auto
qed

section \<open>What reading and writing come to\<close>

text \<open>The session of an answer to \<open>GET\<close>: an identifier the server does not know is dropped.\<close>

definition loaded_session :: "redis_config \<Rightarrow> 'u option \<Rightarrow> 'c \<Rightarrow> string option \<Rightarrow> ('c, 'u) redis_session session one" where
  "loaded_session cfg session_id conn v =
     One (Session \<lparr>rs_conn = conn, rs_config = cfg,
       rs_session_id = (if v = None then None else session_id), rs_value = v\<rparr>)"

lemma redis_fetch_ends:
  "ends_at (redis_read_poll R U) (RdFetch q cfg u, sv) r t' \<longleftrightarrow>
     (\<exists>r0 q' sv'. ends_at (plain (rd_poll_str R)) (q, sv) r0 (q', sv') \<and>
        (case r0 of
           Err e \<Rightarrow> r = Err (rd_fail R e) \<and> t' = (RdFetch q' cfg u, sv')
         | Ok (conn, v) \<Rightarrow> r = Ok (loaded_session cfg (Some u) conn v) \<and> t' = (RdDone, sv')))"
proof -
  let ?out = "\<lambda>r0 t. case t of (q', sv') \<Rightarrow>
      (case r0 of
         Err e \<Rightarrow> Ret (Err (rd_fail R e), RdFetch q' cfg u, sv')
       | Ok (conn, v) \<Rightarrow> Ret (Ok (Ready (loaded_session cfg (Some u) conn v)), RdDone, sv'))"
  have "ends_at (redis_read_poll R U) ((\<lambda>(q, sv). (RdFetch q cfg u, sv)) (q, sv)) r t' \<longleftrightarrow>
      (\<exists>r0 t0. ends_at (plain (rd_poll_str R)) (q, sv) r0 t0 \<and> ends_from (redis_read_poll R U) (?out r0 t0) r t')"
    by (rule ends_at_chain)
       (auto simp: redis_read_poll_def redis_poll_fetch_def plain_def loaded_session_def
         split: prod.splits result.splits async.splits option.splits)
  then show ?thesis
    by (simp add: split_paired_Ex)
       (intro arg_cong[where f = Ex] ext conj_cong refl, auto split: result.splits prod.splits)
qed

lemma redis_read_fetch: "redis_read_poll R U (RdFetch q cfg u, sv) = redis_poll_fetch R q cfg u sv"
  by (simp add: redis_read_poll_def)

lemma redis_reads:
  "ends_at (redis_read_poll R U) (RdConnecting f cfg session_id, sv) r t' \<longleftrightarrow>
     (\<exists>rc f' sv1. ends_at (plain (rd_poll_connect R)) (f, sv) rc (f', sv1) \<and>
        (case rc of
           Err e \<Rightarrow> r = Err (rd_fail R e) \<and> t' = (RdConnecting f' cfg session_id, sv1)
         | Ok conn \<Rightarrow>
             (case session_id of
                None \<Rightarrow> r = Ok (loaded_session cfg None conn None) \<and> t' = (RdDone, sv1)
              | Some u \<Rightarrow> ends_at (redis_read_poll R U)
                  (RdFetch (rd_query R [''GET'', key_name U cfg u] conn) cfg u, sv1) r t')))"
proof -
  let ?out = "\<lambda>rc t. case t of (f', sv') \<Rightarrow>
      (case rc of
         Err e \<Rightarrow> Ret (Err (rd_fail R e), RdConnecting f' cfg session_id, sv')
       | Ok conn \<Rightarrow>
           (case session_id of
              Some u \<Rightarrow> redis_poll_fetch R (rd_query R [''GET'', key_name U cfg u] conn) cfg u sv'
            | None \<Rightarrow> Ret (Ok (Ready (loaded_session cfg None conn None)), RdDone, sv')))"
  have "ends_at (redis_read_poll R U) ((\<lambda>(f, sv). (RdConnecting f cfg session_id, sv)) (f, sv)) r t' \<longleftrightarrow>
      (\<exists>rc t0. ends_at (plain (rd_poll_connect R)) (f, sv) rc t0 \<and> ends_from (redis_read_poll R U) (?out rc t0) r t')"
    by (rule ends_at_chain)
       (auto simp: redis_read_poll_def plain_def loaded_session_def
         split: prod.splits result.splits async.splits option.splits)
  then show ?thesis
    by (simp add: split_paired_Ex)
       (intro arg_cong[where f = Ex] ext conj_cong refl,
        auto simp: ends_at_unfold[of _ "(RdFetch _ _ _, _)"] redis_read_fetch split: result.splits option.splits)
qed

lemma redis_cmd_ends:
  "ends_at (redis_write_poll R) (WrCmd q, sv) r t' \<longleftrightarrow>
     (\<exists>r0 q' sv'. ends_at (plain (rd_poll_unit R)) (q, sv) r0 (q', sv') \<and>
        r = map_err (rd_fail R) (map_ok snd r0) \<and> t' = (WrCmd q', sv'))"
proof -
  let ?out = "\<lambda>r0 t. case t of (q', sv') \<Rightarrow>
      Ret (map_ok Ready (map_err (rd_fail R) (map_ok snd r0)), WrCmd q', sv')"
  have "ends_at (redis_write_poll R) ((\<lambda>(q, sv). (WrCmd q, sv)) (q, sv)) r t' \<longleftrightarrow>
      (\<exists>r0 t0. ends_at (plain (rd_poll_unit R)) (q, sv) r0 t0 \<and> ends_from (redis_write_poll R) (?out r0 t0) r t')"
    by (rule ends_at_chain)
       (auto simp: redis_write_poll_def plain_def split: prod.splits result.splits async.splits)
  then show ?thesis by (simp add: split_paired_Ex)
qed

section \<open>Reading ends without a panic\<close>

definition read_live :: "('cf, 'qf, 'u) read_state \<times> 'sv \<Rightarrow> bool" where
  "read_live t \<longleftrightarrow> (case fst t of RdFailed None \<Rightarrow> False | RdDone \<Rightarrow> False | _ \<Rightarrow> True)"

text \<open>
  Until it has ended, no poll of the future that reads a session panics, and a poll that is
  not ready leaves a state from which the next one does not panic.
\<close>

lemma redis_read_safe: "plain_future_safe (redis_read_poll R U) read_live"
  by (auto simp: plain_future_safe_def read_live_def redis_read_poll_def redis_poll_fetch_def
      split: read_state.splits option.splits prod.splits result.splits async.splits)

text \<open>It ends when the connection and the answer to the command do.\<close>

text \<open>
  C28: Reading a session ends when the connection and the answer to the command do, after however
  many polls either needs.
\<close>

lemma redis_read_ends:
  assumes connect: "\<exists>rc t0. ends_at (plain (rd_poll_connect R)) (f, sv) rc t0"
    and answer: "\<And>cmd conn sv. \<exists>r t0. ends_at (plain (rd_poll_str R)) (rd_query R cmd conn, sv) r t0"
  shows "\<exists>r t'. ends_at (redis_read_poll R U) (RdConnecting f cfg session_id, sv) r t'"
proof -
  from connect obtain rc f' sv1 where rc: "ends_at (plain (rd_poll_connect R)) (f, sv) rc (f', sv1)" by auto
  have fetch: "\<exists>r t'. ends_at (redis_read_poll R U) (RdFetch (rd_query R cmd conn) cfg u, sv1) r t'" for cmd conn u
  proof -
    from answer[of cmd conn sv1] obtain r0 q' sv' where
      "ends_at (plain (rd_poll_str R)) (rd_query R cmd conn, sv1) r0 (q', sv')" by auto
    then have "ends_at (redis_read_poll R U) (RdFetch (rd_query R cmd conn) cfg u, sv1)
        (map_err (rd_fail R) (map_ok (\<lambda>(conn, v). loaded_session cfg (Some u) conn v) r0))
        (if is_ok r0 then RdDone else RdFetch q' cfg u, sv')"
      unfolding redis_fetch_ends by (intro exI conjI, assumption) (auto split: result.split)
    then show ?thesis by blast
  qed
  show ?thesis
  proof (cases rc)
    case (Err e)
    with rc show ?thesis unfolding redis_reads by fastforce
  next
    case (Ok conn)
    show ?thesis
    proof (cases session_id)
      case None
      with rc Ok show ?thesis unfolding redis_reads by fastforce
    next
      case (Some u)
      from fetch[of "[''GET'', key_name U cfg u]" conn u] obtain r t' where
        "ends_at (redis_read_poll R U) (RdFetch (rd_query R [''GET'', key_name U cfg u] conn) cfg u, sv1) r t'" by blast
      with rc Ok Some show ?thesis unfolding redis_reads by fastforce
    qed
  qed
qed

section \<open>The next request\<close>

lemmas redis_laws_rules = redis_laws_def[THEN iffD1, THEN conjunct1, rule_format]
  redis_laws_def[THEN iffD1, THEN conjunct2, THEN conjunct1, rule_format]
  redis_laws_def[THEN iffD1, THEN conjunct2, THEN conjunct2, THEN conjunct1, rule_format]
  redis_laws_def[THEN iffD1, THEN conjunct2, THEN conjunct2, THEN conjunct2, THEN conjunct1, rule_format]

lemma redis_laws_store:
  assumes "redis_laws R store"
    and "ends_at (plain (rd_poll_unit R)) (rd_query R (store_cmd cfg k x) c, sv) (Ok u) (q', sv')"
  shows "store sv' = (store sv)(k := Some x)"
proof (cases "rc_timeout cfg")
  case None
  with assms(2) show ?thesis by (intro redis_laws_rules(3)[OF assms(1)]) (simp add: store_cmd_def)
next
  case (Some d)
  with assms(2) show ?thesis by (intro redis_laws_rules(4)[OF assms(1)]) (simp add: store_cmd_def)
qed

definition stored_value ::
  "'u uuid_api \<Rightarrow> ('sv \<Rightarrow> string \<Rightarrow> string option) \<Rightarrow> redis_config \<Rightarrow> 'u option \<Rightarrow> 'sv \<Rightarrow> string option" where
  "stored_value U store cfg session_id sv =
     (case session_id of None \<Rightarrow> None | Some u \<Rightarrow> store sv (key_name U cfg u))"

lemma stored_value_None [simp]: "stored_value U store cfg None sv = None"
  by (simp add: stored_value_def)


lemma redis_loads:
  assumes R: "redis_laws R store"
    and id: "get_session_id I K U (rb_config b) i = (Ok session_id, i')"
    and read: "ends_at (redis_read_poll R U) (fst (redis_apply R I K U b i), sv) (Ok (One (Session s))) t'"
  shows "rs_value s = stored_value U store (rb_config b) session_id sv \<and> rs_config s = rb_config b \<and>
    rs_session_id s = (if rs_value s = None then None else session_id)"
proof (cases session_id)
  case None
  with id read obtain conn where "One (Session s) = loaded_session (rb_config b) None conn None"
    by (simp add: redis_apply_def redis_reads) (elim exE conjE, simp split: result.splits)
  with None show ?thesis by (auto simp: loaded_session_def)
next
  case (Some u)
  with id read obtain conn f' sv1 where
    c: "ends_at (plain (rd_poll_connect R)) (rd_connect R (rb_client b), sv) (Ok conn) (f', sv1)" and
    g: "ends_at (redis_read_poll R U) (RdFetch (rd_query R [''GET'', key_name U (rb_config b) u] conn) (rb_config b) u, sv1)
      (Ok (One (Session s))) t'"
    by (simp add: redis_apply_def redis_reads) (elim exE conjE, fastforce split: result.split_asm)
  from g obtain conn2 v q' sv2 where
    get: "ends_at (plain (rd_poll_str R)) (rd_query R [''GET'', key_name U (rb_config b) u] conn, sv1) (Ok (conn2, v)) (q', sv2)" and
    "One (Session s) = loaded_session (rb_config b) (Some u) conn2 v"
    by (simp add: redis_fetch_ends) (elim exE conjE, fastforce split: result.split_asm)
  with redis_laws_rules(1)[OF R c] redis_laws_rules(2)[OF R get] Some show ?thesis
    by (auto simp: loaded_session_def stored_value_def)
qed

text \<open>A session without an identifier belongs to a client without one the server knows.\<close>

definition redis_belongs ::
  "('i, 'j) input_api \<Rightarrow> ('j, 'k) cookie_api \<Rightarrow> 'u uuid_api \<Rightarrow> ('sv \<Rightarrow> string \<Rightarrow> string option) \<Rightarrow> redis_config
    \<Rightarrow> ('c, 'u) redis_session \<Rightarrow> 'sv \<times> 'i \<Rightarrow> bool" where
  "redis_belongs I K U store cfg s w \<longleftrightarrow>
     rs_config s = cfg \<and>
     (rs_session_id s = None \<longrightarrow>
        (\<exists>session_id i'. get_session_id I K U cfg (snd w) = (Ok session_id, i') \<and>
           stored_value U store cfg session_id (fst w) = None))"

lemma redis_write_id:
  assumes laws: "input_laws I" "jar_laws K" "uuid_laws U" "redis_laws R store"
    and belongs: "redis_belongs I K U store cfg s (sv, i)"
    and w: "redis_write R I K U new_v4 s i = (ws, i1)"
    and ended: "ends_at (redis_write_poll R) (ws, sv) (Ok ()) (ws', sv1)"
  shows "\<exists>session_id i2. get_session_id I K U cfg i1 = (Ok session_id, i2) \<and>
    stored_value U store cfg session_id sv1 = rs_value s"
proof (cases "rs_value s")
  case (Some v)
  from belongs have cfg: "rs_config s = cfg" by (simp add: redis_belongs_def)
  obtain u where u: "u = (case rs_session_id s of Some u \<Rightarrow> u | None \<Rightarrow> new_v4)" by blast
  let ?cookie = "cookie_new K (rc_cookie_name cfg) (uu_to_string U u)"
  have failed: "\<not> ends_at (redis_write_poll R) (WrFailed (Some e), sv) (Ok ()) t" for e t
    by (simp add: ends_at_unfold redis_write_poll_def)
  from w Some ended cfg u obtain jar i0 where
    ws: "ws = WrCmd (rd_query R (store_cmd cfg (key_name U cfg u) v) (rs_conn s))"
    and i1: "i1 = in_put I i0 (jar_add K jar ?cookie)"
    by (auto simp: redis_write_def update_cookies_def failed Let_def split: prod.splits result.splits)
  have "store sv1 = (store sv)(key_name U cfg u := Some v)"
    using ended redis_laws_store[OF laws(4)] by (auto simp: ws redis_cmd_ends)
  moreover have "get_session_id I K U cfg i1 = (Ok (Some u), i1)"
    using laws(1-3) by (simp add: get_session_id_def i1 input_laws_def jar_get_added jar_lawsD uuid_laws_def)
  ultimately show ?thesis using Some by (simp add: stored_value_def)
next
  case None
  from belongs have cfg: "rs_config s = cfg" by (simp add: redis_belongs_def)
  show ?thesis
  proof (cases "rs_session_id s")
    case (Some u)
    have failed: "\<not> ends_at (redis_write_poll R) (WrFailed (Some e), sv) (Ok ()) t" for e t
      by (simp add: ends_at_unfold redis_write_poll_def)
    from w None Some ended cfg obtain jar i0 where
      i1: "i1 = in_put I i0 (jar_remove K jar (cookie_named K (rc_cookie_name cfg)))"
      by (auto simp: redis_write_def update_cookies_def failed split: prod.splits result.splits)
    have "get_session_id I K U cfg i1 = (Ok None, i1)"
      using laws(1,2) by (simp add: get_session_id_def i1 input_laws_def jar_get_removed)
    with None show ?thesis by (simp add: stored_value_def)
  next
    case no_id: None
    with w None have "ws = WrNoop" "i1 = i" by (simp_all add: redis_write_def)
    with ended have "sv1 = sv" by (simp add: ends_at_unfold redis_write_poll_def)
    with belongs no_id None \<open>i1 = i\<close> show ?thesis by (auto simp: redis_belongs_def)
  qed
qed



text \<open>
  C29: A session identifier the server has no value for is not kept: the next write stores the new
  value under the fresh identifier and sends that one to the client.
\<close>

lemma redis_unknown_id_renewed:
  assumes "redis_laws R store"
    and "get_session_id I K U (rb_config b) i = (Ok (Some u), i')"
    and "store sv (key_name U (rb_config b) u) = None"
    and "ends_at (redis_read_poll R U) (fst (redis_apply R I K U b i), sv) (Ok (One (Session s))) t'"
    and "in_cookies I i' = (Ok jar, i2)"
  shows "redis_write R I K U new_v4 (redis_set v s) i' =
    (WrCmd (rd_query R (store_cmd (rb_config b) (key_name U (rb_config b) new_v4) v) (rs_conn s)),
     in_put I i2 (jar_add K jar (cookie_new K (rc_cookie_name (rb_config b)) (uu_to_string U new_v4))))"
  using redis_loads[OF assms(1,2,4)] assms(3,5)
  by (simp add: stored_value_def redis_write_def redis_set_def update_cookies_def)

section \<open>A server\<close>

text \<open>
  A map behind a connection that takes \<open>n\<close> polls to set up, and the backend on it as a session
  backend: both futures are driven to their ends.
\<close>

definition map_redis :: "(nat, nat, unit, string list, string \<Rightarrow> string option) redis_api" where
  "map_redis =
     \<lparr>rd_connect = (\<lambda>n. n),
      rd_poll_connect = (\<lambda>(n, sv). case n of 0 \<Rightarrow> (Ok (Ready ()), 0, sv) | Suc m \<Rightarrow> (Ok NotReady, m, sv)),
      rd_query = (\<lambda>cmd _. cmd),
      rd_poll_str = (\<lambda>(q, sv). case q of
          [c, k] \<Rightarrow> (if c = ''GET'' then Ok (Ready ((), sv k)) else Err ''ERR unknown command'', q, sv)
        | _ \<Rightarrow> (Err ''ERR wrong number of arguments'', q, sv)),
      rd_poll_unit = (\<lambda>(q, sv). case q of
          [c, k] \<Rightarrow> if c = ''DEL'' then (Ok (Ready ((), ())), q, sv(k := None)) else (Err ''ERR unknown command'', q, sv)
        | [c, k, v] \<Rightarrow> if c = ''SET'' then (Ok (Ready ((), ())), q, sv(k := Some v)) else (Err ''ERR unknown command'', q, sv)
        | [c, k, n, v] \<Rightarrow> if c = ''SETEX'' then (Ok (Ready ((), ())), q, sv(k := Some v)) else (Err ''ERR unknown command'', q, sv)
        | _ \<Rightarrow> (Err ''ERR wrong number of arguments'', q, sv)),
      rd_fail = (\<lambda>e. Failure e INTERNAL_SERVER_ERROR)\<rparr>"

lemma map_redis_connect:
  "ends_at (plain (rd_poll_connect map_redis)) t r t' \<Longrightarrow> snd t' = snd t"
  by (induction rule: ends_at.induct) (auto simp: plain_def map_redis_def split: nat.splits prod.splits)

lemma map_redis_laws: "redis_laws map_redis (\<lambda>sv. sv)"
  unfolding redis_laws_def
proof (intro conjI allI impI)
  fix f :: nat and sv c f' sv'
  assume "ends_at (plain (rd_poll_connect map_redis)) (f, sv) (Ok c) (f', sv')"
  from map_redis_connect[OF this] show "sv' = sv" by simp
qed (simp_all add: ends_at_unfold plain_def map_redis_def)

lemma map_redis_drive:
  "drive (redis_read_poll map_redis U) (Suc n) (RdConnecting n cfg session_id, sv) =
     Some (Ok (loaded_session cfg session_id () (stored_value U (\<lambda>sv. sv) cfg session_id sv)), RdDone, sv)"
proof (induction n)
  case 0
  show ?case
    by (simp add: redis_read_poll_def redis_poll_fetch_def map_redis_def loaded_session_def stored_value_def
        split: option.split)
next
  case (Suc n)
  have "redis_read_poll map_redis U (RdConnecting (Suc n) cfg session_id, sv) =
      Ret (Ok NotReady, RdConnecting n cfg session_id, sv)"
    by (simp add: redis_read_poll_def map_redis_def)
  with Suc show ?case by simp
qed

definition map_redis_reload ::
  "('i, 'j) input_api \<Rightarrow> ('j, 'k) cookie_api \<Rightarrow> 'u uuid_api \<Rightarrow> nat redis_backend
    \<Rightarrow> (string \<Rightarrow> string option) \<times> 'i \<Rightarrow> ((unit, 'u) redis_session, http_error) result" where
  "map_redis_reload I K U b w =
     (case drive (redis_read_poll map_redis U) (Suc (rb_client b)) (fst (redis_apply map_redis I K U b (snd w)), fst w) of
        Some (Ok (One (Session s)), _) \<Rightarrow> Ok s
      | Some (Err e, _) \<Rightarrow> Err e
      | None \<Rightarrow> Err (internal_server_error ''timeout''))"

definition map_redis_put_back ::
  "('i, 'j) input_api \<Rightarrow> ('j, 'k) cookie_api \<Rightarrow> 'u uuid_api \<Rightarrow> 'u
    \<Rightarrow> (unit, 'u) redis_session \<Rightarrow> (string \<Rightarrow> string option) \<times> 'i
    \<Rightarrow> (unit, http_error) result \<times> (string \<Rightarrow> string option) \<times> 'i" where
  "map_redis_put_back I K U new_v4 s w =
     (case redis_write map_redis I K U new_v4 s (snd w) of
        (ws, i') \<Rightarrow>
          (case drive (redis_write_poll map_redis) 1 (ws, fst w) of
             Some (r, _, sv') \<Rightarrow> (r, sv', i')
           | None \<Rightarrow> (Err (internal_server_error ''timeout''), fst w, i')))"

lemma map_redis_reload_id:
  assumes "get_session_id I K U (rb_config b) (snd w) = (Ok session_id, i')"
  shows "\<exists>s. map_redis_reload I K U b w = Ok s \<and>
    loaded_session (rb_config b) session_id () (stored_value U (\<lambda>sv. sv) (rb_config b) session_id (fst w)) = One (Session s)"
proof -
  have "fst (redis_apply map_redis I K U b (snd w)) = RdConnecting (rb_client b) (rb_config b) session_id"
    using assms by (simp add: redis_apply_def map_redis_def)
  then show ?thesis
    unfolding map_redis_reload_def by (simp only: map_redis_drive) (simp add: loaded_session_def)
qed

lemma map_redis_session_backend:
  assumes laws: "input_laws I" "jar_laws K" "uuid_laws U"
  shows "session_backend redis_get redis_set redis_remove (map_redis_put_back I K U new_v4)
    (map_redis_reload I K U b) (redis_belongs I K U (\<lambda>sv. sv) (rb_config b))"
proof
  fix s and w w' :: "(string \<Rightarrow> string option) \<times> 'a"
  assume bel: "redis_belongs I K U (\<lambda>sv. sv) (rb_config b) s w"
    and put: "map_redis_put_back I K U new_v4 s w = (Ok (), w')"
  obtain sv i where w: "w = (sv, i)" by (cases w)
  obtain ws i1 where wr: "redis_write map_redis I K U new_v4 s i = (ws, i1)" by (cases "redis_write map_redis I K U new_v4 s i")
  from put w wr obtain ws' sv1 where
    "drive (redis_write_poll map_redis) 1 (ws, sv) = Some (Ok (), ws', sv1)" and w': "w' = (sv1, i1)"
    unfolding map_redis_put_back_def by (auto split: option.splits)
  then have "ends_at (redis_write_poll map_redis) (ws, sv) (Ok ()) (ws', sv1)" by (intro drive_ends_at)
  from redis_write_id[OF laws map_redis_laws bel[unfolded w] wr this] obtain sid i2 where
    "get_session_id I K U (rb_config b) (snd w') = (Ok sid, i2)"
    "stored_value U (\<lambda>sv. sv) (rb_config b) sid (fst w') = rs_value s"
    by (auto simp: w')
  with map_redis_reload_id[of I K U b w' sid i2]
  show "\<exists>s'. map_redis_reload I K U b w' = Ok s' \<and> redis_get s' = redis_get s"
    by (auto simp: loaded_session_def redis_get_def)
next
  fix s and w :: "(string \<Rightarrow> string option) \<times> 'a"
  assume r: "map_redis_reload I K U b w = Ok s"
  obtain r0 i' where id: "get_session_id I K U (rb_config b) (snd w) = (r0, i')"
    by (cases "get_session_id I K U (rb_config b) (snd w)")
  show "redis_belongs I K U (\<lambda>sv. sv) (rb_config b) s w"
  proof (cases r0)
    case (Ok sid)
    with map_redis_reload_id[of I K U b w sid i'] r id show ?thesis
      by (auto simp: redis_belongs_def loaded_session_def split: if_splits)
  next
    case (Err e)
    with r id show ?thesis
      by (simp add: map_redis_reload_def redis_apply_def redis_read_poll_def)
  qed
qed (simp_all add: redis_get_def redis_set_def redis_remove_def redis_belongs_def)

interpretation redis_sessions: session_backend redis_get redis_set redis_remove
  "map_redis_put_back jar_input list_cookies nat_uuid new_v4"
  "map_redis_reload jar_input list_cookies nat_uuid b"
  "redis_belongs jar_input list_cookies nat_uuid (\<lambda>sv. sv) (rb_config b)" for new_v4 b
  by (rule map_redis_session_backend[OF jar_input_laws list_cookies_laws nat_uuid_laws])

section \<open>Concrete requests\<close>

text \<open>A server that needs a poll to connect, an empty store, and a request without a cookie.\<close>

definition demo_redis :: "nat redis_backend" where
  "demo_redis = redis_backend_new 1"

lemma map_redis_connects: "drive (plain (rd_poll_connect map_redis)) 2 (1, sv) = Some (Ok (), 0, sv)"
  by (simp add: plain_def map_redis_def numeral_2_eq_2)

lemma demo_redis_reads:
  assumes "get_session_id jar_input list_cookies nat_uuid (rb_config demo_redis) i = (Ok session_id, i')"
  shows "ends_at (redis_read_poll map_redis nat_uuid)
    (fst (redis_apply map_redis jar_input list_cookies nat_uuid demo_redis i), sv)
    (Ok (loaded_session (rb_config demo_redis) session_id ()
       (stored_value nat_uuid (\<lambda>sv. sv) (rb_config demo_redis) session_id sv))) (RdDone, sv)"
proof -
  have "fst (redis_apply map_redis jar_input list_cookies nat_uuid demo_redis i) =
      RdConnecting 1 (rb_config demo_redis) session_id"
    using assms by (simp add: redis_apply_def map_redis_def demo_redis_def redis_backend_new_def)
  then show ?thesis using drive_ends_at[OF map_redis_drive] by metis
qed


lemma redis_unknown_id_renewed_witness:
  "redis_write map_redis jar_input list_cookies nat_uuid 3
     (redis_set ''v'' \<lparr>rs_conn = (), rs_config = rb_config demo_redis, rs_session_id = None, rs_value = None\<rparr>)
     [(''session-id'', ''x'')] =
   (WrCmd [''SET'', ''finchers-sesssion:xxx'', ''v''], [(''session-id'', ''xxx''), (''session-id'', ''x'')])"
proof -
  let ?i = "[(''session-id'', ''x'')]"
  have id: "get_session_id jar_input list_cookies nat_uuid (rb_config demo_redis) ?i = (Ok (Some 1), ?i)"
    by (simp add: get_session_id_def jar_input_def list_cookies_def demo_redis_def redis_backend_new_def nat_uuid_def)
  have unknown: "Map.empty (key_name nat_uuid (rb_config demo_redis) 1) = (None :: string option)" by simp
  have jar: "in_cookies jar_input ?i = (Ok ?i, ?i)" by (simp add: jar_input_def)
  from demo_redis_reads[OF id, of Map.empty] have
    read: "ends_at (redis_read_poll map_redis nat_uuid)
      (fst (redis_apply map_redis jar_input list_cookies nat_uuid demo_redis ?i), Map.empty)
      (Ok (One (Session \<lparr>rs_conn = (), rs_config = rb_config demo_redis, rs_session_id = None, rs_value = None\<rparr>)))
      (RdDone, Map.empty)"
    by (simp add: loaded_session_def stored_value_def)
  show ?thesis
    unfolding redis_unknown_id_renewed[OF map_redis_laws id unknown read jar, of 3 "''v''"]
    by (simp add: store_cmd_def key_name_def demo_redis_def redis_backend_new_def jar_input_def
        list_cookies_def nat_uuid_def map_redis_def numeral_3_eq_3)
qed

lemma redis_read_ends_witness:
  "\<exists>r t'. ends_at (redis_read_poll map_redis nat_uuid)
     (RdConnecting 1 (rb_config demo_redis) (Some 3), [''finchers-sesssion:xxx'' \<mapsto> ''hello'']) r t'"
proof (rule redis_read_ends)
  show "\<exists>rc t0. ends_at (plain (rd_poll_connect map_redis)) (1, [''finchers-sesssion:xxx'' \<mapsto> ''hello'']) rc t0"
    using drive_ends_at[OF map_redis_connects] by blast
  show "\<exists>r t0. ends_at (plain (rd_poll_str map_redis)) (rd_query map_redis cmd conn, sv) r t0" for cmd conn sv
    by (simp add: ends_at_unfold plain_def map_redis_def split: list.split)
qed

end
