(* ===== verification/Finch_Template.thy ===== *)
theory Finch_Template
  imports Finch_Future Finch_Output
begin

text \<open>
  \<open>finchers-template\<close>: rendering the value of an endpoint to a response, and the four template
  engines. The crate is written against an older release of \<open>finchers\<close>: the future of the wrapped
  endpoint and the conversion of an engine's error are parameters, as are the template crates and
  \<open>mime_guess\<close>.
\<close>

section \<open>Engines\<close>

text \<open>The trait \<open>EngineImpl\<close>.\<close>

record ('g, 'x, 'b, 'e) engine_impl =
  en_content_type_hint :: "'g \<Rightarrow> 'x \<Rightarrow> string option"
  en_render :: "'g \<Rightarrow> 'x \<Rightarrow> ('b, 'e) result"

definition default_content_type_hint :: "'g \<Rightarrow> 'x \<Rightarrow> string option" where
  "default_content_type_hint engine ctx = None"

text \<open>\<open>mime_guess\<close> by the name of a file and by an extension, and parsing a header value.\<close>

record mime_guess_api =
  mg_guess_opt :: "string \<Rightarrow> string option"
  mg_type_str :: "string \<Rightarrow> string option"
  mg_parse_header :: "string \<Rightarrow> (string, string) result"

definition parse_header_expect :: "mime_guess_api \<Rightarrow> string \<Rightarrow> string run" where
  "parse_header_expect G s = (case mg_parse_header G s of Ok v \<Rightarrow> Ret v | Err _ \<Rightarrow> Panic)"

definition guess_content_type :: "mime_guess_api \<Rightarrow> string \<Rightarrow> string option run" where
  "guess_content_type G name =
     (case mg_guess_opt G name of None \<Rightarrow> Ret None | Some mime \<Rightarrow> map_run Some (parse_header_expect G mime))"

section \<open>The renderer\<close>

record 'g renderer =
  rr_engine :: 'g
  rr_content_type :: "string option"

definition renderer_new :: "'g \<Rightarrow> 'g renderer" where
  "renderer_new engine = \<lparr>rr_engine = engine, rr_content_type = None\<rparr>"

definition renderer_content_type :: "mime_guess_api \<Rightarrow> string \<Rightarrow> 'g renderer \<Rightarrow> 'g renderer run" where
  "renderer_content_type G mime r =
     map_run (\<lambda>v. r\<lparr>rr_content_type := Some v\<rparr>) (parse_header_expect G mime)"

definition DEFAULT_CONTENT_TYPE :: string where
  "DEFAULT_CONTENT_TYPE = ''text/html; charset=utf-8''"

definition get_content_type :: "('g, 'x, 'b, 'e) engine_impl \<Rightarrow> 'g renderer \<Rightarrow> 'x \<Rightarrow> string" where
  "get_content_type E r x =
     (case rr_content_type r of
        Some v \<Rightarrow> v
      | None \<Rightarrow>
          (case en_content_type_hint E (rr_engine r) x of
             Some v \<Rightarrow> v
           | None \<Rightarrow> DEFAULT_CONTENT_TYPE))"

text \<open>\<open>into_error\<close> is the conversion of the engine's error through \<open>failure::Error\<close>.\<close>

definition render_response ::
  "'h http_api \<Rightarrow> ('g, 'x, 'b, 'e) engine_impl \<Rightarrow> ('e \<Rightarrow> http_error) \<Rightarrow> 'g renderer \<Rightarrow> 'x
    \<Rightarrow> (('h, 'b) response, http_error) result" where
  "render_response H E into_error r x =
     (let content_type = get_content_type E r x in
      case map_err into_error (en_render E (rr_engine r) x) of
        Err e \<Rightarrow> Err e
      | Ok body \<Rightarrow>
          let response = response_new H body in
          Ok (response\<lparr>rs_headers := hm_insert H (rs_headers response) ''content-type'' content_type\<rparr>))"

text \<open>\<open>RenderEndpoint\<close> and \<open>RenderFuture\<close>, over an endpoint that \<open>ep_apply\<close> applies and its
  future \<open>fp\<close>.\<close>

record ('ep, 'g) render_endpoint =
  re_endpoint :: 'ep
  re_renderer :: "'g renderer"

definition renderer_wrap :: "'g renderer \<Rightarrow> 'ep \<Rightarrow> ('ep, 'g) render_endpoint" where
  "renderer_wrap r endpoint = \<lparr>re_endpoint = endpoint, re_renderer = r\<rparr>"

record ('t, 'g) render_future =
  rf_future :: 't
  rf_renderer :: "'g renderer"

definition render_apply ::
  "('ep \<Rightarrow> 'c \<Rightarrow> ('t, 'ae) result \<times> 'c) \<Rightarrow> ('ep, 'g) render_endpoint \<Rightarrow> 'c
    \<Rightarrow> (('t, 'g) render_future, 'ae) result \<times> 'c" where
  "render_apply ep_apply re cx =
     (case ep_apply (re_endpoint re) cx of
        (Err e, cx') \<Rightarrow> (Err e, cx')
      | (Ok t, cx') \<Rightarrow> (Ok \<lparr>rf_future = t, rf_renderer = re_renderer re\<rparr>, cx'))"

definition render_poll ::
  "'h http_api \<Rightarrow> ('g, 'x, 'b, 'e) engine_impl \<Rightarrow> ('e \<Rightarrow> http_error) \<Rightarrow> ('t, 'x one, http_error) future_fn
    \<Rightarrow> (('t, 'g) render_future, ('h, 'b) response one, http_error) future_fn" where
  "render_poll H E into_error fp rf =
     (case fp (rf_future rf) of
        Panic \<Rightarrow> Panic
      | Ret (p, t') \<Rightarrow>
          let rf' = rf\<lparr>rf_future := t'\<rparr> in
          (case p of
             Err e \<Rightarrow> Ret (Err e, rf')
           | Ok NotReady \<Rightarrow> Ret (Ok NotReady, rf')
           | Ok (Ready (One x)) \<Rightarrow>
               Ret (map_ok (\<lambda>response. Ready (One response)) (render_response H E into_error (rf_renderer rf) x), rf')))"

section \<open>Askama\<close>

text \<open>The trait \<open>askama::Template\<close>.\<close>

record ('x, 'e) template_api =
  tm_extension :: "'x \<Rightarrow> string option"
  tm_render :: "'x \<Rightarrow> (string, 'e) result"

record askama_engine =
  ak_content_type_cache :: "string option"

definition askama_default :: askama_engine where
  "askama_default = \<lparr>ak_content_type_cache = None\<rparr>"

definition askama_renderer :: "askama_engine renderer" where
  "askama_renderer = renderer_new askama_default"

definition precompute_content_type ::
  "mime_guess_api \<Rightarrow> ('x, 'e) template_api \<Rightarrow> 'x \<Rightarrow> askama_engine \<Rightarrow> askama_engine run" where
  "precompute_content_type G T hint a =
     (case tm_extension T hint of
        None \<Rightarrow> Ret (a\<lparr>ak_content_type_cache := None\<rparr>)
      | Some ext \<Rightarrow>
          (case mg_type_str G ext of
             None \<Rightarrow> Ret (a\<lparr>ak_content_type_cache := None\<rparr>)
           | Some mime_str \<Rightarrow>
               map_run (\<lambda>v. a\<lparr>ak_content_type_cache := Some v\<rparr>) (parse_header_expect G mime_str)))"

definition askama_content_type_hint ::
  "mime_guess_api \<Rightarrow> ('x, 'e) template_api \<Rightarrow> askama_engine \<Rightarrow> 'x \<Rightarrow> string option" where
  "askama_content_type_hint G T a x =
     (case ak_content_type_cache a of
        Some v \<Rightarrow> Some v
      | None \<Rightarrow>
          (case tm_extension T x of
             None \<Rightarrow> None
           | Some ext \<Rightarrow>
               (case mg_type_str G ext of
                  None \<Rightarrow> None
                | Some mime_str \<Rightarrow> (case mg_parse_header G mime_str of Ok v \<Rightarrow> Some v | Err _ \<Rightarrow> None))))"

definition askama_render :: "('x, 'e) template_api \<Rightarrow> askama_engine \<Rightarrow> 'x \<Rightarrow> (string, 'e) result" where
  "askama_render T a x = tm_render T x"

definition askama_impl ::
  "mime_guess_api \<Rightarrow> ('x, 'e) template_api \<Rightarrow> (askama_engine, 'x, string, 'e) engine_impl" where
  "askama_impl G T =
     \<lparr>en_content_type_hint = askama_content_type_hint G T, en_render = askama_render T\<rparr>"

section \<open>Horrorshow\<close>

datatype horrorshow_engine = HorrorshowEngine

definition horrorshow_renderer :: "horrorshow_engine renderer" where
  "horrorshow_renderer = renderer_new HorrorshowEngine"

definition horrorshow_render ::
  "('x \<Rightarrow> (string, 'e) result) \<Rightarrow> horrorshow_engine \<Rightarrow> 'x \<Rightarrow> (string, 'e) result" where
  "horrorshow_render into_string engine x = into_string x"

definition horrorshow_impl ::
  "('x \<Rightarrow> (string, 'e) result) \<Rightarrow> (horrorshow_engine, 'x, string, 'e) engine_impl" where
  "horrorshow_impl into_string =
     \<lparr>en_content_type_hint = default_content_type_hint, en_render = horrorshow_render into_string\<rparr>"

section \<open>Handlebars\<close>

text \<open>\<open>render\<close> is \<open>Handlebars::render\<close> of a registry, by the name of a template, with the error
  wrapped in \<open>SyncFailure\<close>.\<close>

record 'r handlebars_engine =
  hb_registry :: 'r
  hb_name :: string
  hb_content_type :: "string option"

definition handlebars_new :: "mime_guess_api \<Rightarrow> 'r \<Rightarrow> string \<Rightarrow> 'r handlebars_engine run" where
  "handlebars_new G registry name =
     map_run (\<lambda>ct. \<lparr>hb_registry = registry, hb_name = name, hb_content_type = ct\<rparr>) (guess_content_type G name)"

definition handlebars_renderer :: "mime_guess_api \<Rightarrow> 'r \<Rightarrow> string \<Rightarrow> 'r handlebars_engine renderer run" where
  "handlebars_renderer G registry name = map_run renderer_new (handlebars_new G registry name)"

definition handlebars_set_template_name ::
  "mime_guess_api \<Rightarrow> string \<Rightarrow> 'r handlebars_engine \<Rightarrow> 'r handlebars_engine run" where
  "handlebars_set_template_name G name g =
     (let g = g\<lparr>hb_name := name\<rparr> in
      map_run (\<lambda>ct. case ct of Some v \<Rightarrow> g\<lparr>hb_content_type := Some v\<rparr> | None \<Rightarrow> g)
        (guess_content_type G (hb_name g)))"

definition handlebars_content_type_hint :: "'r handlebars_engine \<Rightarrow> 'x \<Rightarrow> string option" where
  "handlebars_content_type_hint g x = hb_content_type g"

definition handlebars_render ::
  "('r \<Rightarrow> string \<Rightarrow> 'x \<Rightarrow> (string, 'e) result) \<Rightarrow> 'r handlebars_engine \<Rightarrow> 'x \<Rightarrow> (string, 'e) result" where
  "handlebars_render render g x = render (hb_registry g) (hb_name g) x"

definition handlebars_impl ::
  "('r \<Rightarrow> string \<Rightarrow> 'x \<Rightarrow> (string, 'e) result) \<Rightarrow> ('r handlebars_engine, 'x, string, 'e) engine_impl" where
  "handlebars_impl render =
     \<lparr>en_content_type_hint = handlebars_content_type_hint, en_render = handlebars_render render\<rparr>"

section \<open>Tera\<close>

record 'r tera_engine =
  te_tera :: 'r
  te_name :: string
  te_content_type :: "string option"

definition tera_new :: "mime_guess_api \<Rightarrow> 'r \<Rightarrow> string \<Rightarrow> 'r tera_engine run" where
  "tera_new G tera name =
     map_run (\<lambda>ct. \<lparr>te_tera = tera, te_name = name, te_content_type = ct\<rparr>) (guess_content_type G name)"

definition tera_renderer :: "mime_guess_api \<Rightarrow> 'r \<Rightarrow> string \<Rightarrow> 'r tera_engine renderer run" where
  "tera_renderer G tera name = map_run renderer_new (tera_new G tera name)"

definition tera_set_template_name ::
  "mime_guess_api \<Rightarrow> string \<Rightarrow> 'r tera_engine \<Rightarrow> 'r tera_engine run" where
  "tera_set_template_name G name g =
     (let g = g\<lparr>te_name := name\<rparr> in
      map_run (\<lambda>ct. case ct of Some v \<Rightarrow> g\<lparr>te_content_type := Some v\<rparr> | None \<Rightarrow> g)
        (guess_content_type G (te_name g)))"

definition tera_content_type_hint :: "'r tera_engine \<Rightarrow> 'x \<Rightarrow> string option" where
  "tera_content_type_hint g x = te_content_type g"

definition tera_render ::
  "('r \<Rightarrow> string \<Rightarrow> 'x \<Rightarrow> (string, 'e) result) \<Rightarrow> 'r tera_engine \<Rightarrow> 'x \<Rightarrow> (string, 'e) result" where
  "tera_render render g x = render (te_tera g) (te_name g) x"

definition tera_impl ::
  "('r \<Rightarrow> string \<Rightarrow> 'x \<Rightarrow> (string, 'e) result) \<Rightarrow> ('r tera_engine, 'x, string, 'e) engine_impl" where
  "tera_impl render =
     \<lparr>en_content_type_hint = tera_content_type_hint, en_render = tera_render render\<rparr>"

section \<open>What a rendered response is\<close>

lemma render_ends:
  "ends_at (render_poll H E into_error fp) rf r rf' \<longleftrightarrow>
     (\<exists>r0 t'. ends_at fp (rf_future rf) r0 t' \<and> rf' = rf\<lparr>rf_future := t'\<rparr> \<and>
        r = (case r0 of
               Err e \<Rightarrow> Err e
             | Ok (One x) \<Rightarrow> map_ok One (render_response H E into_error (rf_renderer rf) x)))"
proof -
  let ?out = "\<lambda>r0 t'. Ret (case r0 of
               Err e \<Rightarrow> Err e
             | Ok (One x) \<Rightarrow> map_ok (\<lambda>response. Ready (One response)) (render_response H E into_error (rf_renderer rf) x),
        rf\<lparr>rf_future := t'\<rparr>)"
  have "ends_at (render_poll H E into_error fp) (rf\<lparr>rf_future := rf_future rf\<rparr>) r rf' \<longleftrightarrow>
      (\<exists>r0 t'. ends_at fp (rf_future rf) r0 t' \<and> ends_from (render_poll H E into_error fp) (?out r0 t') r rf')"
    by (rule ends_at_chain[where w = "\<lambda>t. rf\<lparr>rf_future := t\<rparr>"])
       (auto simp: render_poll_def split: run.splits result.splits async.splits one.splits)
  then show ?thesis
    by (simp cong: conj_cong) (intro arg_cong[where f = Ex] ext, auto split: result.splits one.splits)
qed

text \<open>
  C37: Rendering ends exactly when the wrapped endpoint does. From a value comes the response with
  status 200, the body the engine rendered from it, and the content type as its only header: the
  configured one, else the one of the engine, else text/html; an error of the endpoint or of the
  engine is the result.
\<close>

lemma rendered_content_type:
  "ends_at (render_poll H E into_error fp) rf r rf' \<longleftrightarrow>
     (\<exists>r0 t'. ends_at fp (rf_future rf) r0 t' \<and> rf' = rf\<lparr>rf_future := t'\<rparr> \<and>
        r = (case r0 of
               Err e \<Rightarrow> Err e
             | Ok (One x) \<Rightarrow>
                 (case en_render E (rr_engine (rf_renderer rf)) x of
                    Err e \<Rightarrow> Err (into_error e)
                  | Ok body \<Rightarrow>
                      (let content_type =
                         (case rr_content_type (rf_renderer rf) of
                            Some configured \<Rightarrow> configured
                          | None \<Rightarrow>
                              (case en_content_type_hint E (rr_engine (rf_renderer rf)) x of
                                 Some hint \<Rightarrow> hint
                               | None \<Rightarrow> ''text/html; charset=utf-8'')) in
                       Ok (One (response_new H body
                         \<lparr>rs_status := STATUS_OK,
                          rs_headers := hm_insert H (hm_empty H) ''content-type'' content_type\<rparr>))))))"
  unfolding render_ends render_response_def get_content_type_def DEFAULT_CONTENT_TYPE_def
  by (intro arg_cong[where f = Ex] ext conj_cong refl)
     (auto simp: response_new_def Let_def split: result.split one.split option.split)

text \<open>The content type is the only header of a rendered response.\<close>

lemma rendered_headers:
  "http_laws H \<Longrightarrow> render_response H E into_error r x = Ok response \<Longrightarrow>
     hm_get_all H (rs_headers response) n = (if n = ''content-type'' then [get_content_type E r x] else [])"
  by (auto simp: render_response_def map_err_def http_lawsD split: result.splits)

text \<open>An explicit content type wins over the one of the engine.\<close>

lemma renderer_content_type_wins:
  assumes "renderer_content_type G mime r = Ret r'"
  shows "mg_parse_header G mime = Ok (get_content_type E r' x) \<and> rr_engine r' = rr_engine r"
  using assms
  by (auto simp: renderer_content_type_def parse_header_expect_def get_content_type_def split: result.splits)

lemma askama_precomputed:
  assumes "precompute_content_type G T hint a = Ret a'"
  shows "askama_content_type_hint G T a' x =
    (case ak_content_type_cache a' of
       Some v \<Rightarrow> askama_content_type_hint G T askama_default hint
     | None \<Rightarrow> askama_content_type_hint G T askama_default x)"
  using assms
  by (auto simp: precompute_content_type_def askama_content_type_hint_def askama_default_def
      parse_header_expect_def split: option.splits result.splits)

section \<open>Engines that guess from the name of the template\<close>

text \<open>Both engines with a registry of templates start from the guess for a name and replace it when
  another name has one.\<close>

fun set_names :: "(string \<Rightarrow> 'g \<Rightarrow> 'g run) \<Rightarrow> string list \<Rightarrow> 'g \<Rightarrow> 'g run" where
  "set_names set_name [] g = Ret g"
| "set_names set_name (n # ns) g =
     (case set_name n g of Panic \<Rightarrow> Panic | Ret g' \<Rightarrow> set_names set_name ns g')"

definition guessed :: "mime_guess_api \<Rightarrow> string \<Rightarrow> string option" where
  "guessed G name =
     (case mg_guess_opt G name of
        None \<Rightarrow> None
      | Some mime \<Rightarrow> (case mg_parse_header G mime of Ok v \<Rightarrow> Some v | Err _ \<Rightarrow> None))"

text \<open>The last of a list that is there.\<close>

fun last_some :: "'a option list \<Rightarrow> 'a option" where
  "last_some [] = None"
| "last_some (x # xs) = (case last_some xs of Some v \<Rightarrow> Some v | None \<Rightarrow> x)"

lemma guess_content_type_guessed: "guess_content_type G name = Ret c \<Longrightarrow> c = guessed G name"
  by (auto simp: guess_content_type_def guessed_def parse_header_expect_def split: option.splits result.splits)

locale named_engine =
  fixes new_engine :: "string \<Rightarrow> 'g run"
    and set_name :: "string \<Rightarrow> 'g \<Rightarrow> 'g run"
    and hint :: "'g \<Rightarrow> string option"
    and name_of :: "'g \<Rightarrow> string"
    and guess :: "string \<Rightarrow> string option"
  assumes new_guess: "new_engine n = Ret g \<Longrightarrow> hint g = guess n \<and> name_of g = n"
    and set_guess: "set_name n g = Ret g' \<Longrightarrow>
      hint g' = (case guess n of Some v \<Rightarrow> Some v | None \<Rightarrow> hint g) \<and> name_of g' = n"
begin

lemma set_names_hint:
  "set_names set_name ns g = Ret g' \<Longrightarrow>
    hint g' = (case last_some (map guess ns) of Some v \<Rightarrow> Some v | None \<Rightarrow> hint g) \<and>
    name_of g' = last (name_of g # ns)"
proof (induction ns arbitrary: g)
  case (Cons n ns)
  then obtain g1 where g1: "set_name n g = Ret g1" "set_names set_name ns g1 = Ret g'"
    by (auto split: run.splits)
  from Cons.IH[OF g1(2)] set_guess[OF g1(1)] show ?case by (auto split: option.splits)
qed simp

lemma hint_of_names:
  assumes "new_engine n = Ret g" and "set_names set_name ns g = Ret g'"
  shows "hint g' = last_some (map guess (n # ns)) \<and> name_of g' = last (n # ns)"
  using set_names_hint[OF assms(2)] new_guess[OF assms(1)] by (simp split: option.split)

end

interpretation handlebars: named_engine "handlebars_new G registry" "handlebars_set_template_name G"
  "\<lambda>g. handlebars_content_type_hint g x" hb_name "guessed G" for G registry x
  by unfold_locales
     (auto simp: handlebars_new_def handlebars_set_template_name_def handlebars_content_type_hint_def Let_def
       dest!: guess_content_type_guessed split: option.splits,
      drule arg_cong[where f = hb_content_type], simp)

interpretation tera: named_engine "tera_new G registry" "tera_set_template_name G"
  "\<lambda>g. tera_content_type_hint g x" te_name "guessed G" for G registry x
  by unfold_locales
     (auto simp: tera_new_def tera_set_template_name_def tera_content_type_hint_def Let_def
       dest!: guess_content_type_guessed split: option.splits,
      drule arg_cong[where f = te_content_type], simp)

text \<open>
  After any number of changes of the template name, the Handlebars engine renders the last
  template, but declares the type guessed from the last name that has one, and the default when
  none has.
\<close>

lemma handlebars_default_content_type:
  assumes "handlebars_new G registry n = Ret g" and "set_names (handlebars_set_template_name G) ns g = Ret g'"
  shows "get_content_type (handlebars_impl render) (renderer_new g') x =
      (case last_some (map (guessed G) (n # ns)) of Some v \<Rightarrow> v | None \<Rightarrow> DEFAULT_CONTENT_TYPE) \<and>
    en_render (handlebars_impl render) g' x = render (hb_registry g') (last (n # ns)) x"
  using handlebars.hint_of_names[OF assms, of x]
  by (simp add: get_content_type_def renderer_new_def handlebars_impl_def handlebars_render_def)

lemma tera_default_content_type:
  assumes "tera_new G registry n = Ret g" and "set_names (tera_set_template_name G) ns g = Ret g'"
  shows "get_content_type (tera_impl render) (renderer_new g') x =
      (case last_some (map (guessed G) (n # ns)) of Some v \<Rightarrow> v | None \<Rightarrow> DEFAULT_CONTENT_TYPE) \<and>
    en_render (tera_impl render) g' x = render (te_tera g') (last (n # ns)) x"
  using tera.hint_of_names[OF assms, of x]
  by (simp add: get_content_type_def renderer_new_def tera_impl_def tera_render_def)

section \<open>Concrete templates\<close>

text \<open>A guess by the end of the name, and a registry of one greeting.\<close>

definition demo_guess :: mime_guess_api where
  "demo_guess =
     \<lparr>mg_guess_opt = (\<lambda>n. if drop (length n - 4) n = ''.txt'' then Some ''text/plain'' else None),
      mg_type_str = (\<lambda>e. if e = ''txt'' then Some ''text/plain'' else None), mg_parse_header = Ok\<rparr>"

lemma handlebars_default_content_type_witness:
  "get_content_type (handlebars_impl (\<lambda>r n (x :: unit). Ok (r @ n) :: (string, unit) result))
     (renderer_new \<lparr>hb_registry = ''hello '', hb_name = ''b'', hb_content_type = Some ''text/plain''\<rparr>) () = ''text/plain''"
  using handlebars_default_content_type[where G = demo_guess and registry = "''hello ''" and n = "''a.txt''"
      and g = "\<lparr>hb_registry = ''hello '', hb_name = ''a.txt'', hb_content_type = Some ''text/plain''\<rparr>"
      and ns = "[''b'']" and g' = "\<lparr>hb_registry = ''hello '', hb_name = ''b'', hb_content_type = Some ''text/plain''\<rparr>"
      and render = "\<lambda>r n (x :: unit). Ok (r @ n) :: (string, unit) result" and x = "()"]
  by (simp add: handlebars_new_def handlebars_set_template_name_def guess_content_type_def guessed_def
      parse_header_expect_def demo_guess_def)

lemma rendered_horrorshow:
  "ends_at (render_poll list_http (horrorshow_impl (\<lambda>x :: string. Ok x :: (string, string) result)) bad_request result_future)
     \<lparr>rf_future = Ok (One ''<p>hi</p>''), rf_renderer = horrorshow_renderer\<rparr>
     (Ok (One ((response_new list_http ''<p>hi</p>'')\<lparr>rs_headers := [(''content-type'', ''text/html; charset=utf-8'')]\<rparr>)))
     \<lparr>rf_future = Ok (One ''<p>hi</p>''), rf_renderer = horrorshow_renderer\<rparr>"
  by (rule ends_at_ready)
     (simp add: render_poll_def result_future_def render_response_def horrorshow_impl_def horrorshow_render_def
       get_content_type_def horrorshow_renderer_def renderer_new_def default_content_type_hint_def
       DEFAULT_CONTENT_TYPE_def Let_def)

end
