(* ===== verification/Finch_Graphql.thy ===== *)
theory Finch_Graphql
  imports Finch_Future Finch_Output Finch_Encoded
begin

text \<open>
  \<open>finchers-juniper/src/request.rs\<close> and \<open>graphiql.rs\<close>: reading a GraphQL request, executing it and
  the response. The crate is written against an older release of \<open>finchers\<close>; its \<open>Input\<close>, the
  endpoint that receives the body, and the crates \<open>juniper\<close>, \<open>serde_json\<close> and \<open>serde_qs\<close> are
  parameters.
\<close>

section \<open>Requests\<close>

text \<open>A \<open>'q\<close> is a \<open>juniper::http::GraphQLRequest\<close>.\<close>

datatype 'q graphql_request_kind = Single 'q | Batch "'q list"

datatype 'q graphql_request = GraphQLRequest "'q graphql_request_kind"

record parsed_query =
  pq_query :: string
  pq_operation_name :: "string option"
  pq_variables :: "string option"

text \<open>
  The input of a request (\<open>gq_content_type\<close> parses the header on demand), reading JSON into a value
  \<open>'jv\<close>, reading \<open>'q\<close> and \<open>juniper::InputValue\<close> from JSON, \<open>serde_qs::from_str\<close> at \<open>ParsedQuery\<close>,
  \<open>juniper::http::GraphQLRequest::new\<close>, and \<open>error::fail\<close>.
\<close>

record ('i, 'm, 'q, 'v, 'jv) graphql_api =
  gq_method :: "'i \<Rightarrow> http_method"
  gq_uri_query :: "'i \<Rightarrow> string option"
  gq_content_type :: "'i \<Rightarrow> ('m option, string) result \<times> 'i"
  gq_mime_eq :: "'m \<Rightarrow> string \<Rightarrow> bool"
  gq_json_value :: "string \<Rightarrow> ('jv, string) result"
  gq_json_seq :: "'jv \<Rightarrow> 'jv list option"
  gq_decode_single :: "'jv \<Rightarrow> ('q, string) result"
  gq_json_input :: "string \<Rightarrow> ('v, string) result"
  gq_qs_parse :: "string \<Rightarrow> (parsed_query, string) result"
  gq_new :: "string \<Rightarrow> string option \<Rightarrow> 'v option \<Rightarrow> 'q"
  gq_fail :: "string \<Rightarrow> http_error"

definition graphql_single ::
  "('i, 'm, 'q, 'v, 'jv) graphql_api \<Rightarrow> string \<Rightarrow> string option \<Rightarrow> 'v option \<Rightarrow> 'q graphql_request" where
  "graphql_single Q query operation_name variables = GraphQLRequest (Single (gq_new Q query operation_name variables))"

text \<open>The derived \<open>Deserialize\<close> of an untagged sum: the variants are tried in order.\<close>

fun decode_all :: "('a \<Rightarrow> ('b, 'e) result) \<Rightarrow> 'a list \<Rightarrow> ('b list, 'e) result" where
  "decode_all f [] = Ok []"
| "decode_all f (x # xs) =
     (case f x of
        Err e \<Rightarrow> Err e
      | Ok y \<Rightarrow> map_ok ((#) y) (decode_all f xs))"

definition decode_kind ::
  "('i, 'm, 'q, 'v, 'jv) graphql_api \<Rightarrow> 'jv \<Rightarrow> ('q graphql_request_kind, string) result" where
  "decode_kind Q v =
     (case gq_decode_single Q v of
        Ok q \<Rightarrow> Ok (Single q)
      | Err _ \<Rightarrow>
          (case gq_json_seq Q v of
             None \<Rightarrow> Err ''data did not match any variant of untagged enum GraphQLRequestKind''
           | Some vs \<Rightarrow>
               (case decode_all (gq_decode_single Q) vs of
                  Ok qs \<Rightarrow> Ok (Batch qs)
                | Err _ \<Rightarrow> Err ''data did not match any variant of untagged enum GraphQLRequestKind'')))"

definition json_request ::
  "('i, 'm, 'q, 'v, 'jv) graphql_api \<Rightarrow> string \<Rightarrow> ('q graphql_request, string) result" where
  "json_request Q data =
     (case gq_json_value Q data of
        Err e \<Rightarrow> Err e
      | Ok v \<Rightarrow> map_ok GraphQLRequest (decode_kind Q v))"

text \<open>\<open>percent_decode(..).decode_utf8()\<close> with the error as a bad request.\<close>

definition decode_param :: "percent_api \<Rightarrow> string \<Rightarrow> (string, http_error) result" where
  "decode_param P s = map_err (\<lambda>e. bad_request (utf8_error_to_string e)) (from_utf8 (pc_decode P s))"

definition parse_query_str ::
  "percent_api \<Rightarrow> ('i, 'm, 'q, 'v, 'jv) graphql_api \<Rightarrow> string \<Rightarrow> ('q graphql_request, http_error) result" where
  "parse_query_str P Q s =
     (case gq_qs_parse Q s of
        Err e \<Rightarrow> Err (gq_fail Q e)
      | Ok parsed \<Rightarrow>
          (case decode_param P (pq_query parsed) of
             Err e \<Rightarrow> Err e
           | Ok query \<Rightarrow>
               (case (case pq_operation_name parsed of
                        Some s \<Rightarrow> map_ok Some (decode_param P s)
                      | None \<Rightarrow> Ok None) of
                  Err e \<Rightarrow> Err e
                | Ok operation_name \<Rightarrow>
                    (case (case pq_variables parsed of
                             Some variables \<Rightarrow>
                               (case decode_param P variables of
                                  Err e \<Rightarrow> Err e
                                | Ok decoded \<Rightarrow> map_err bad_request (map_ok Some (gq_json_input Q decoded)))
                           | None \<Rightarrow> Ok None) of
                       Err e \<Rightarrow> Err e
                     | Ok variables \<Rightarrow> Ok (graphql_single Q query operation_name variables)))))"

section \<open>The endpoint\<close>

datatype 't request_kind = KindGet | KindPost 't

text \<open>\<open>receive_apply\<close> applies the endpoint that receives the body, \<open>fp\<close> polls its future together
  with the input.\<close>

definition request_apply ::
  "('i, 'm, 'q, 'v, 'jv) graphql_api \<Rightarrow> ('i \<Rightarrow> ('t, 'ae) result \<times> 'i) \<Rightarrow> 'i
    \<Rightarrow> ('t request_kind, 'ae) result \<times> 'i" where
  "request_apply Q receive_apply i =
     (if gq_method Q i = GET then (Ok KindGet, i)
      else (case receive_apply i of (r, i') \<Rightarrow> (map_ok KindPost r, i')))"

definition request_get ::
  "percent_api \<Rightarrow> ('i, 'm, 'q, 'v, 'jv) graphql_api \<Rightarrow> 'i \<Rightarrow> ('q graphql_request, http_error) result" where
  "request_get P Q i =
     (case gq_uri_query Q i of
        None \<Rightarrow> Err (bad_request ''missing query string'')
      | Some s \<Rightarrow> parse_query_str P Q s)"

definition request_post ::
  "('i, 'm, 'q, 'v, 'jv) graphql_api \<Rightarrow> string \<Rightarrow> 'i \<Rightarrow> ('q graphql_request, http_error) result \<times> 'i" where
  "request_post Q data i =
     (case gq_content_type Q i of
        (Err e, i') \<Rightarrow> (Err (bad_request e), i')
      | (Ok None, i') \<Rightarrow> (Err (bad_request ''missing content-type.''), i')
      | (Ok (Some m), i') \<Rightarrow>
          (if gq_mime_eq Q m ''application/json'' then map_err bad_request (json_request Q data)
           else if gq_mime_eq Q m ''application/graphql'' then
             (case from_utf8 data of
                Err e \<Rightarrow> Err (bad_request (utf8_error_to_string e))
              | Ok query \<Rightarrow> Ok (graphql_single Q query None None))
           else Err (bad_request ''unsupported content-type.''), i'))"

definition request_poll ::
  "percent_api \<Rightarrow> ('i, 'm, 'q, 'v, 'jv) graphql_api \<Rightarrow> ('t \<times> 'i, string one, http_error) future_fn
    \<Rightarrow> ('t request_kind \<times> 'i, 'q graphql_request one, http_error) future_fn" where
  "request_poll P Q fp st =
     (case st of (kind, i) \<Rightarrow>
       (case kind of
          KindGet \<Rightarrow> Ret (map_ok (\<lambda>request. Ready (One request)) (request_get P Q i), KindGet, i)
        | KindPost t \<Rightarrow>
            (case fp (t, i) of
               Panic \<Rightarrow> Panic
             | Ret (Err e, t', i') \<Rightarrow> Ret (Err e, KindPost t', i')
             | Ret (Ok NotReady, t', i') \<Rightarrow> Ret (Ok NotReady, KindPost t', i')
             | Ret (Ok (Ready (One data)), t', i') \<Rightarrow>
                 (case request_post Q data i' of (r, i2) \<Rightarrow>
                    Ret (map_ok (\<lambda>request. Ready (One request)) r, KindPost t', i2)))))"

section \<open>Execution and responses\<close>

text \<open>\<open>juniper::http::GraphQLRequest::execute\<close>, \<open>GraphQLResponse::is_ok\<close> and \<open>serde_json::to_vec\<close> of one
  and of a list of responses.\<close>

record ('q, 's, 'c, 'r) juniper_api =
  jn_execute :: "'q \<Rightarrow> 's \<Rightarrow> 'c \<Rightarrow> 'r"
  jn_is_ok :: "'r \<Rightarrow> bool"
  jn_to_vec :: "'r \<Rightarrow> (string, string) result"
  jn_list_to_vec :: "'r list \<Rightarrow> (string, string) result"

record graphql_response =
  gr_is_ok :: bool
  gr_body :: "(string, string) result"

definition graphql_execute ::
  "('q, 's, 'c, 'r) juniper_api \<Rightarrow> 'q graphql_request \<Rightarrow> 's \<Rightarrow> 'c \<Rightarrow> graphql_response" where
  "graphql_execute N req root_node ctx =
     (case req of GraphQLRequest kind \<Rightarrow>
       (case kind of
          Single request \<Rightarrow>
            (let response = jn_execute N request root_node ctx in
             \<lparr>gr_is_ok = jn_is_ok N response, gr_body = jn_to_vec N response\<rparr>)
        | Batch requests \<Rightarrow>
            (let responses = map (\<lambda>request. jn_execute N request root_node ctx) requests in
             \<lparr>gr_is_ok = list_all (jn_is_ok N) responses, gr_body = jn_list_to_vec N responses\<rparr>)))"

definition graphql_respond ::
  "'h http_api \<Rightarrow> (string \<Rightarrow> http_error) \<Rightarrow> graphql_response \<Rightarrow> (('h, string) response, http_error) result" where
  "graphql_respond H fail g =
     (let status = (if gr_is_ok g then STATUS_OK else BAD_REQUEST) in
      case map_err fail (gr_body g) of
        Err e \<Rightarrow> Err e
      | Ok body \<Rightarrow>
          Ok ((response_new H body)\<lparr>rs_status := status,
            rs_headers := hm_append H (hm_empty H) ''content-type'' ''application/json''\<rparr>))"

section \<open>GraphiQL\<close>

record graphiql_source =
  gs_source :: string

definition graphiql_source_new :: "(string \<Rightarrow> string) \<Rightarrow> string \<Rightarrow> graphiql_source" where
  "graphiql_source_new juniper_source endpoint_url = \<lparr>gs_source = juniper_source endpoint_url\<rparr>"

definition graphiql_regenerate :: "(string \<Rightarrow> string) \<Rightarrow> string \<Rightarrow> graphiql_source \<Rightarrow> graphiql_source" where
  "graphiql_regenerate juniper_source endpoint_url g = g\<lparr>gs_source := juniper_source endpoint_url\<rparr>"

definition graphiql_apply :: "graphiql_source \<Rightarrow> string" where
  "graphiql_apply g = gs_source g"

definition graphiql_poll :: "'h http_api \<Rightarrow> (string, ('h, string) response one, http_error) future_fn" where
  "graphiql_poll H source =
     Ret (Ok (Ready (One ((response_new H source)\<lparr>rs_headers :=
       hm_append H (hm_empty H) ''content-type'' ''text/html; charset=utf-8''\<rparr>))), source)"

section \<open>What the future of a request ends with\<close>

lemma get_request_ends:
  "ends_at (request_poll P Q fp) (KindGet, i) r st \<longleftrightarrow> r = map_ok One (request_get P Q i) \<and> st = (KindGet, i)"
  by (cases "request_get P Q i") (simp_all add: ends_at_unfold request_poll_def)

lemma post_request_ends:
  "ends_at (request_poll P Q fp) (KindPost t, i) r st \<longleftrightarrow>
     (\<exists>r0 t' i'. ends_at fp (t, i) r0 (t', i') \<and>
        (case r0 of
           Err e \<Rightarrow> r = Err e \<and> st = (KindPost t', i')
         | Ok (One data) \<Rightarrow>
             r = map_ok One (fst (request_post Q data i')) \<and> st = (KindPost t', snd (request_post Q data i'))))"
proof -
  let ?out = "\<lambda>r0 t0. case t0 of (t', i') \<Rightarrow>
      (case r0 of
         Err e \<Rightarrow> Ret (Err e, KindPost t', i')
       | Ok (One data) \<Rightarrow>
           (case request_post Q data i' of (r, i2) \<Rightarrow>
              Ret (map_ok (\<lambda>request. Ready (One request)) r, KindPost t', i2)))"
  have "ends_at (request_poll P Q fp) ((\<lambda>(t, i). (KindPost t, i)) (t, i)) r st \<longleftrightarrow>
      (\<exists>r0 t0. ends_at fp (t, i) r0 t0 \<and> ends_from (request_poll P Q fp) (?out r0 t0) r st)"
    by (rule ends_at_chain)
       (auto simp: request_poll_def split: run.splits result.splits async.splits one.splits)
  moreover have "ends_from q (case z of (x, i2) \<Rightarrow> Ret (map_ok (\<lambda>request. Ready (One request)) x, KindPost t', i2)) r st
      \<longleftrightarrow> r = map_ok One (fst z) \<and> st = (KindPost t', snd z)" for q z t'
    by (cases z) simp
  ultimately show ?thesis
    by (simp add: split_paired_Ex)
       (intro arg_cong[where f = Ex] ext conj_cong refl, auto split: result.splits one.splits)
qed

definition request_live :: "('t \<times> 'i \<Rightarrow> bool) \<Rightarrow> 't request_kind \<times> 'i \<Rightarrow> bool" where
  "request_live live st = (case fst st of KindGet \<Rightarrow> True | KindPost t \<Rightarrow> live (t, snd st))"

lemma request_poll_safe:
  assumes "plain_future_safe fp live"
  shows "plain_future_safe (request_poll P Q fp) (request_live live)"
  unfolding plain_future_safe_def
proof (intro allI impI)
  fix st :: "'a request_kind \<times> 'b"
  assume "request_live live st"
  obtain kind i where st: "st = (kind, i)" by (cases st)
  show "\<exists>p st'. request_poll P Q fp st = Ret (p, st') \<and> (p = Ok NotReady \<longrightarrow> request_live live st')"
  proof (cases kind)
    case (KindPost t)
    with \<open>request_live live st\<close> assms obtain p t' i' where
      "fp (t, i) = Ret (p, t', i')" "p = Ok NotReady \<longrightarrow> live (t', i')"
      by (fastforce simp: plain_future_safe_def request_live_def st)
    with KindPost show ?thesis
      by (auto simp: st request_poll_def request_live_def split: prod.splits result.splits async.splits one.splits)
  qed (simp add: st request_poll_def request_live_def)
qed

section \<open>Untagged requests\<close>

lemma decode_all_ok: "decode_all f xs = Ok ys \<longleftrightarrow> list_all2 (\<lambda>x y. f x = Ok y) xs ys"
proof (induction xs arbitrary: ys)
  case Nil
  show ?case by auto
next
  case (Cons x xs)
  show ?case
    by (cases ys) (auto simp: Cons.IH[symmetric] map_ok_def split: result.splits)
qed

text \<open>
  A JSON body is a single GraphQL request when it reads as one, and otherwise a batch exactly
  when it is an array of requests, kept in their order; anything else is rejected.
\<close>

lemma decode_kind_ok:
  "decode_kind Q v = Ok k \<longleftrightarrow>
     (case k of
        Single q \<Rightarrow> gq_decode_single Q v = Ok q
      | Batch qs \<Rightarrow>
          \<not> is_ok (gq_decode_single Q v) \<and>
          (\<exists>vs. gq_json_seq Q v = Some vs \<and> list_all2 (\<lambda>v q. gq_decode_single Q v = Ok q) vs qs))"
  by (auto simp: decode_kind_def decode_all_ok[symmetric] split: result.splits option.splits graphql_request_kind.splits)

section \<open>The status of a response\<close>

text \<open>
  A GraphQL response has status 200 when every query of the request succeeded, in particular
  for an empty batch, and 400 otherwise, and always declares application/json.
\<close>

lemma graphql_status:
  assumes "http_laws H" and "graphql_respond H fail (graphql_execute N req root_node ctx) = Ok response"
  shows "(rs_status response = STATUS_OK \<longleftrightarrow>
      (case req of
         GraphQLRequest (Single q) \<Rightarrow> jn_is_ok N (jn_execute N q root_node ctx)
       | GraphQLRequest (Batch qs) \<Rightarrow> (\<forall>q \<in> set qs. jn_is_ok N (jn_execute N q root_node ctx)))) \<and>
    rs_status response \<in> {STATUS_OK, BAD_REQUEST} \<and>
    hm_get_all H (rs_headers response) ''content-type'' = [''application/json'']"
  using assms(2)
  by (auto simp: graphql_respond_def graphql_execute_def map_err_def http_lawsD[OF assms(1)] Let_def list_all_iff
      split: graphql_request.splits graphql_request_kind.splits result.splits if_splits)

section \<open>Percent encoding in a query string\<close>

text \<open>\<open>serde_qs\<close> has removed the percent encoding already; what it returns is decoded again.\<close>

text \<open>
  C34: A GraphQL query from a query string without operation name and variables is percent-decoded
  once more after serde_qs has parsed it: the query that runs is the decoding of the text the
  client encoded, not that text.
\<close>

lemma graphql_query_decoded:
  assumes "gq_method Q i = GET" and "gq_uri_query Q i = Some s"
    and "gq_qs_parse Q s = Ok \<lparr>pq_query = text, pq_operation_name = None, pq_variables = None\<rparr>"
    and "from_utf8 (pc_decode P text) = Ok text'"
  shows "fst (request_apply Q receive_apply i) = Ok KindGet \<and>
    ends_at (request_poll P Q fp) (KindGet, i) (Ok (One (graphql_single Q text' None None))) (KindGet, i)"
  using assms
  by (simp add: request_apply_def get_request_ends request_get_def parse_query_str_def decode_param_def)

section \<open>Concrete requests\<close>

text \<open>An input with a fixed query string, a JSON reader for \<open>serde_json\<close> that knows one text, and a
  \<open>serde_qs\<close> that returns the value of \<open>query\<close> without its encoding.\<close>

definition demo_graphql :: "(string, string, string, unit, string) graphql_api" where
  "demo_graphql =
     \<lparr>gq_method = (\<lambda>i. GET), gq_uri_query = Some, gq_content_type = (\<lambda>i. (Ok None, i)), gq_mime_eq = (=),
      gq_json_value = Ok, gq_json_seq = (\<lambda>v. None), gq_decode_single = Ok, gq_json_input = (\<lambda>s. Ok ()),
      gq_qs_parse = (\<lambda>s. if take 6 s = ''query=''
        then Ok \<lparr>pq_query = pc_decode percent_ref (drop 6 s), pq_operation_name = None, pq_variables = None\<rparr>
        else Err ''missing field query''),
      gq_new = (\<lambda>q n v. q), gq_fail = internal_server_error\<rparr>"

definition demo_body :: "(string \<times> string, string one, http_error) future_fn" where
  "demo_body t = Ret (Ok (Ready (One (fst t))), t)"

text \<open>The client asks for the text \<open>%41\<close>, encoded as \<open>%2541\<close>, and is given \<open>A\<close>.\<close>

lemma graphql_query_decoded_witness:
  "ends_at (request_poll percent_ref demo_graphql demo_body) (KindGet, ''query=%2541'')
     (Ok (One (GraphQLRequest (Single ''A'')))) (KindGet, ''query=%2541'')"
proof -
  have qs: "gq_qs_parse demo_graphql ''query=%2541'' =
      Ok \<lparr>pq_query = ''%41'', pq_operation_name = None, pq_variables = None\<rparr>"
    by code_simp
  have utf8: "from_utf8 (pc_decode percent_ref ''%41'') = Ok ''A''" by code_simp
  have sel: "gq_method demo_graphql i = GET" "gq_uri_query demo_graphql i = Some i"
    "graphql_single demo_graphql q n v = GraphQLRequest (Single q)" for i q n v
    by (simp_all add: demo_graphql_def graphql_single_def)
  from graphql_query_decoded[OF sel(1,2) qs utf8, of "\<lambda>i. (Ok ''t'' :: (string, unit) result, i)" demo_body]
  show ?thesis by (simp add: sel)
qed

definition demo_juniper :: "(nat, unit, unit, nat) juniper_api" where
  "demo_juniper =
     \<lparr>jn_execute = (\<lambda>q _ _. q), jn_is_ok = (\<lambda>r. 0 < r), jn_to_vec = (\<lambda>r. Ok (show_nat r)),
      jn_list_to_vec = (\<lambda>rs. Ok (concat (map show_nat rs)))\<rparr>"

lemma graphql_status_witness:
  "graphql_respond list_http internal_server_error (graphql_execute demo_juniper (GraphQLRequest (Batch [1, 0])) () ()) =
     Ok \<lparr>rs_status = 400, rs_headers = [(''content-type'', ''application/json'')], rs_body = ''10'', rs_error = None\<rparr> \<and>
   (400 :: nat) \<noteq> STATUS_OK"
proof -
  have *: "graphql_respond list_http internal_server_error (graphql_execute demo_juniper (GraphQLRequest (Batch [1, 0])) () ()) =
     Ok \<lparr>rs_status = 400, rs_headers = [(''content-type'', ''application/json'')], rs_body = ''10'', rs_error = None\<rparr>"
    by code_simp
  from graphql_status[OF list_http_laws *] * show ?thesis by (simp add: demo_juniper_def)
qed

end
