(* ===== verification/Finch_Graphql_Exec.thy ===== *)
theory Finch_Graphql_Exec
  imports Finch_Graphql
begin

text \<open>
  \<open>finchers-juniper/src/execute/\<close>: the three executors, which differ in where a query runs: on the
  thread that polls, in a task of the default executor, or in a task of a given one. The runtime
  and \<open>future::Join\<close> are parameters; their state \<open>'w\<close> holds the input of the request as well.
\<close>

section \<open>The runtime\<close>

text \<open>Spawning a task \<open>'k\<close> and polling its handle.\<close>

record ('k, 'h, 'w, 'a, 'e) spawn_api =
  sp_spawn :: "'k \<Rightarrow> 'w \<Rightarrow> 'h \<times> 'w"
  sp_poll :: "('h \<times> 'w, 'a, 'e) future_fn"

text \<open>The handle of a task ends with what the task ends with, and does end when the task does.\<close>

definition spawn_laws ::
  "('k, 'h, 'w, 'a, 'e) spawn_api \<Rightarrow> ('k, 'a, 'e) future_fn \<Rightarrow> bool" where
  "spawn_laws S kp \<longleftrightarrow> (\<forall>k w r. (\<exists>t. ends_at (sp_poll S) (sp_spawn S k w) r t) \<longleftrightarrow> future_ends kp k r)"

section \<open>The current thread\<close>

record ('ep, 's) current_thread_endpoint =
  ct_context :: 'ep
  ct_schema :: 's

definition current_thread_wrap :: "'s \<Rightarrow> 'ep \<Rightarrow> ('ep, 's) current_thread_endpoint" where
  "current_thread_wrap schema endpoint = \<lparr>ct_context = endpoint, ct_schema = schema\<rparr>"

text \<open>\<open>into_endpoint\<close>, for a schema whose context is the unit: \<open>cloned\<close> is \<open>endpoint::cloned(())\<close>.\<close>

definition current_thread_into_endpoint :: "'ep \<Rightarrow> 's \<Rightarrow> ('ep, 's) current_thread_endpoint" where
  "current_thread_into_endpoint cloned schema = \<lparr>ct_context = cloned, ct_schema = schema\<rparr>"

record ('j, 'n) current_thread_future =
  cf_inner :: 'j
  cf_root_node :: 'n

definition current_thread_apply ::
  "('i, 'm, 'q, 'v, 'jv) graphql_api \<Rightarrow> ('i \<Rightarrow> ('t, 'ae) result \<times> 'i) \<Rightarrow> ('ep \<Rightarrow> 'i \<Rightarrow> ('ct, 'ae) result \<times> 'i)
    \<Rightarrow> ('ct \<Rightarrow> 't request_kind \<Rightarrow> 'j) \<Rightarrow> ('s \<Rightarrow> 'n) \<Rightarrow> ('ep, 's) current_thread_endpoint \<Rightarrow> 'i
    \<Rightarrow> (('j, 'n) current_thread_future, 'ae) result \<times> 'i" where
  "current_thread_apply Q receive_apply ctx_apply join as_root_node ep i =
     (case ctx_apply (ct_context ep) i of
        (Err e, i1) \<Rightarrow> (Err e, i1)
      | (Ok ctx, i1) \<Rightarrow>
          (case request_apply Q receive_apply i1 of
             (Err e, i2) \<Rightarrow> (Err e, i2)
           | (Ok request, i2) \<Rightarrow>
               (Ok \<lparr>cf_inner = join ctx request, cf_root_node = as_root_node (ct_schema ep)\<rparr>, i2)))"

definition current_thread_poll ::
  "('q, 'n, 'c, 'r) juniper_api \<Rightarrow> ('j \<times> 'w, 'c one \<times> 'q graphql_request one, http_error) future_fn
    \<Rightarrow> (('j, 'n) current_thread_future \<times> 'w, graphql_response one, http_error) future_fn" where
  "current_thread_poll N jp st =
     (case st of (f, w) \<Rightarrow>
       (case jp (cf_inner f, w) of
          Panic \<Rightarrow> Panic
        | Ret (Err e, j', w') \<Rightarrow> Ret (Err e, f\<lparr>cf_inner := j'\<rparr>, w')
        | Ret (Ok NotReady, j', w') \<Rightarrow> Ret (Ok NotReady, f\<lparr>cf_inner := j'\<rparr>, w')
        | Ret (Ok (Ready (One ctx, One request)), j', w') \<Rightarrow>
            Ret (Ok (Ready (One (graphql_execute N request (cf_root_node f) ctx))), f\<lparr>cf_inner := j'\<rparr>, w')))"

section \<open>The default executor\<close>

record ('ep, 's) nonblocking_endpoint =
  nb_context :: 'ep
  nb_schema :: 's

definition nonblocking_wrap :: "'s \<Rightarrow> 'ep \<Rightarrow> ('ep, 's) nonblocking_endpoint" where
  "nonblocking_wrap schema endpoint = \<lparr>nb_context = endpoint, nb_schema = schema\<rparr>"

definition nonblocking_into_endpoint :: "'ep \<Rightarrow> 's \<Rightarrow> ('ep, 's) nonblocking_endpoint" where
  "nonblocking_into_endpoint cloned schema = \<lparr>nb_context = cloned, nb_schema = schema\<rparr>"

record ('j, 'h, 'ep, 's) nonblocking_future =
  nf_inner :: 'j
  nf_handle :: "'h option"
  nf_endpoint :: "('ep, 's) nonblocking_endpoint"

definition nonblocking_apply ::
  "('i, 'm, 'q, 'v, 'jv) graphql_api \<Rightarrow> ('i \<Rightarrow> ('t, 'ae) result \<times> 'i) \<Rightarrow> ('ep \<Rightarrow> 'i \<Rightarrow> ('ct, 'ae) result \<times> 'i)
    \<Rightarrow> ('ct \<Rightarrow> 't request_kind \<Rightarrow> 'j) \<Rightarrow> ('ep, 's) nonblocking_endpoint \<Rightarrow> 'i
    \<Rightarrow> (('j, 'h, 'ep, 's) nonblocking_future, 'ae) result \<times> 'i" where
  "nonblocking_apply Q receive_apply ctx_apply join ep i =
     (case ctx_apply (nb_context ep) i of
        (Err e, i1) \<Rightarrow> (Err e, i1)
      | (Ok ctx, i1) \<Rightarrow>
          (case request_apply Q receive_apply i1 of
             (Err e, i2) \<Rightarrow> (Err e, i2)
           | (Ok request, i2) \<Rightarrow>
               (Ok \<lparr>nf_inner = join ctx request, nf_handle = None, nf_endpoint = ep\<rparr>, i2)))"

text \<open>The two states of the loop of \<open>poll\<close>. \<open>section\<close> is \<open>rt::blocking_section\<close>.\<close>

definition nonblocking_poll_handle ::
  "('k, 'h, 'w, graphql_response, http_error) spawn_api \<Rightarrow> ('j, 'h, 'ep, 's) nonblocking_future \<Rightarrow> 'h \<Rightarrow> 'w
    \<Rightarrow> ((graphql_response one, http_error) poll \<times> ('j, 'h, 'ep, 's) nonblocking_future \<times> 'w) run" where
  "nonblocking_poll_handle S f handle w =
     (case sp_poll S (handle, w) of
        Panic \<Rightarrow> Panic
      | Ret (p, h', w') \<Rightarrow> Ret (map_ok (map_async One) p, f\<lparr>nf_handle := Some h'\<rparr>, w'))"

definition nonblocking_poll ::
  "('q, 'n, 'c, 'r) juniper_api \<Rightarrow> ('k, 'h, 'w, graphql_response, http_error) spawn_api
    \<Rightarrow> ((unit \<Rightarrow> (graphql_response, http_error) result) \<Rightarrow> 'k) \<Rightarrow> ('s \<Rightarrow> 'n)
    \<Rightarrow> ('j \<times> 'w, 'c one \<times> 'q graphql_request one, http_error) future_fn
    \<Rightarrow> (('j, 'h, 'ep, 's) nonblocking_future \<times> 'w, graphql_response one, http_error) future_fn" where
  "nonblocking_poll N S blocking as_root_node jp st =
     (case st of (f, w) \<Rightarrow>
       (case nf_handle f of
          Some handle \<Rightarrow> nonblocking_poll_handle S f handle w
        | None \<Rightarrow>
            (case jp (nf_inner f, w) of
               Panic \<Rightarrow> Panic
             | Ret (Err e, j', w') \<Rightarrow> Ret (Err e, f\<lparr>nf_inner := j'\<rparr>, w')
             | Ret (Ok NotReady, j', w') \<Rightarrow> Ret (Ok NotReady, f\<lparr>nf_inner := j'\<rparr>, w')
             | Ret (Ok (Ready (One ctx, One request)), j', w') \<Rightarrow>
                 let schema = nb_schema (nf_endpoint f);
                     task = blocking (\<lambda>_. Ok (graphql_execute N request (as_root_node schema) ctx)) in
                 (case sp_spawn S task w' of (handle, w2) \<Rightarrow>
                    nonblocking_poll_handle S (f\<lparr>nf_inner := j', nf_handle := Some handle\<rparr>) handle w2))))"

section \<open>A given executor\<close>

record ('ep, 's, 'sp) with_spawner_endpoint =
  ws_context :: 'ep
  ws_schema :: 's
  ws_spawner :: 'sp

definition with_spawner_wrap :: "'s \<Rightarrow> 'sp \<Rightarrow> 'ep \<Rightarrow> ('ep, 's, 'sp) with_spawner_endpoint" where
  "with_spawner_wrap schema spawner endpoint =
     \<lparr>ws_context = endpoint, ws_schema = schema, ws_spawner = spawner\<rparr>"

definition with_spawner_into_endpoint :: "'ep \<Rightarrow> 's \<Rightarrow> 'sp \<Rightarrow> ('ep, 's, 'sp) with_spawner_endpoint" where
  "with_spawner_into_endpoint cloned schema spawner =
     \<lparr>ws_context = cloned, ws_schema = schema, ws_spawner = spawner\<rparr>"

text \<open>An executor on its own is the executor around the endpoint that gives the unit.\<close>

lemma into_endpoint_wrap:
  "current_thread_into_endpoint cloned schema = current_thread_wrap schema cloned"
  "nonblocking_into_endpoint cloned schema = nonblocking_wrap schema cloned"
  "with_spawner_into_endpoint cloned schema spawner = with_spawner_wrap schema spawner cloned"
  by (simp_all add: current_thread_into_endpoint_def current_thread_wrap_def nonblocking_into_endpoint_def
      nonblocking_wrap_def with_spawner_into_endpoint_def with_spawner_wrap_def)

record ('j, 'h, 'ep, 's, 'sp) with_spawner_future =
  wf_inner :: 'j
  wf_handle :: "'h option"
  wf_endpoint :: "('ep, 's, 'sp) with_spawner_endpoint"

definition with_spawner_apply ::
  "('i, 'm, 'q, 'v, 'jv) graphql_api \<Rightarrow> ('i \<Rightarrow> ('t, 'ae) result \<times> 'i) \<Rightarrow> ('ep \<Rightarrow> 'i \<Rightarrow> ('ct, 'ae) result \<times> 'i)
    \<Rightarrow> ('ct \<Rightarrow> 't request_kind \<Rightarrow> 'j) \<Rightarrow> ('ep, 's, 'sp) with_spawner_endpoint \<Rightarrow> 'i
    \<Rightarrow> (('j, 'h, 'ep, 's, 'sp) with_spawner_future, 'ae) result \<times> 'i" where
  "with_spawner_apply Q receive_apply ctx_apply join ep i =
     (case ctx_apply (ws_context ep) i of
        (Err e, i1) \<Rightarrow> (Err e, i1)
      | (Ok ctx, i1) \<Rightarrow>
          (case request_apply Q receive_apply i1 of
             (Err e, i2) \<Rightarrow> (Err e, i2)
           | (Ok request, i2) \<Rightarrow>
               (Ok \<lparr>wf_inner = join ctx request, wf_handle = None, wf_endpoint = ep\<rparr>, i2)))"

record ('q, 's, 'c) graphql_task =
  gt_request :: "'q graphql_request"
  gt_schema :: 's
  gt_context :: 'c

definition graphql_task_poll ::
  "('q, 'n, 'c, 'r) juniper_api \<Rightarrow> ('s \<Rightarrow> 'n) \<Rightarrow> (('q, 's, 'c) graphql_task, graphql_response, unit) future_fn" where
  "graphql_task_poll N as_root_node task =
     Ret (Ok (Ready (graphql_execute N (gt_request task) (as_root_node (gt_schema task)) (gt_context task))), task)"

text \<open>\<open>S sp\<close> is \<open>oneshot::spawn\<close> on the executor \<open>sp\<close>. An error of the handle is unreachable.\<close>

definition with_spawner_poll_handle ::
  "('k, 'h, 'w, graphql_response, unit) spawn_api \<Rightarrow> ('j, 'h, 'ep, 's, 'sp) with_spawner_future \<Rightarrow> 'h \<Rightarrow> 'w
    \<Rightarrow> ((graphql_response one, http_error) poll \<times> ('j, 'h, 'ep, 's, 'sp) with_spawner_future \<times> 'w) run" where
  "with_spawner_poll_handle S f handle w =
     (case sp_poll S (handle, w) of
        Panic \<Rightarrow> Panic
      | Ret (Err _, _) \<Rightarrow> Panic
      | Ret (Ok x, h', w') \<Rightarrow> Ret (Ok (map_async One x), f\<lparr>wf_handle := Some h'\<rparr>, w'))"

definition with_spawner_poll ::
  "('q, 'n, 'c, 'r) juniper_api \<Rightarrow> ('sp \<Rightarrow> (('q, 's, 'c) graphql_task, 'h, 'w, graphql_response, unit) spawn_api)
    \<Rightarrow> ('j \<times> 'w, 'c one \<times> 'q graphql_request one, http_error) future_fn
    \<Rightarrow> (('j, 'h, 'ep, 's, 'sp) with_spawner_future \<times> 'w, graphql_response one, http_error) future_fn" where
  "with_spawner_poll N S jp st =
     (case st of (f, w) \<Rightarrow>
       (case wf_handle f of
          Some handle \<Rightarrow> with_spawner_poll_handle (S (ws_spawner (wf_endpoint f))) f handle w
        | None \<Rightarrow>
            (case jp (wf_inner f, w) of
               Panic \<Rightarrow> Panic
             | Ret (Err e, j', w') \<Rightarrow> Ret (Err e, f\<lparr>wf_inner := j'\<rparr>, w')
             | Ret (Ok NotReady, j', w') \<Rightarrow> Ret (Ok NotReady, f\<lparr>wf_inner := j'\<rparr>, w')
             | Ret (Ok (Ready (One ctx, One request)), j', w') \<Rightarrow>
                 let task = \<lparr>gt_request = request, gt_schema = ws_schema (wf_endpoint f), gt_context = ctx\<rparr> in
                 (case sp_spawn (S (ws_spawner (wf_endpoint f))) task w' of (handle, w2) \<Rightarrow>
                    with_spawner_poll_handle (S (ws_spawner (wf_endpoint f)))
                      (f\<lparr>wf_inner := j', wf_handle := Some handle\<rparr>) handle w2))))"

section \<open>What the futures of the executors end with\<close>

text \<open>The result of a query, from what the context and the request have ended with.\<close>

definition executed ::
  "('q, 'n, 'c, 'r) juniper_api \<Rightarrow> 'n \<Rightarrow> ('c one \<times> 'q graphql_request one, http_error) result
    \<Rightarrow> (graphql_response one, http_error) result" where
  "executed N root_node r =
     map_ok (\<lambda>x. case x of (One ctx, One request) \<Rightarrow> One (graphql_execute N request root_node ctx)) r"

lemma executed_simps [simp]:
  "executed N root_node (Err e) = Err e"
  "executed N root_node (Ok (One ctx, One request)) = Ok (One (graphql_execute N request root_node ctx))"
  by (simp_all add: executed_def)

lemma current_thread_ends:
  "future_ends (current_thread_poll N jp) (f, w) r \<longleftrightarrow>
     (\<exists>r0 t. ends_at jp (cf_inner f, w) r0 t \<and> r = executed N (cf_root_node f) r0)"
proof -
  let ?out = "\<lambda>r0 t. case t of (j', w') \<Rightarrow> Ret (map_ok Ready (executed N (cf_root_node f) r0), f\<lparr>cf_inner := j'\<rparr>, w')"
  have "future_ends (current_thread_poll N jp) ((\<lambda>(j, w). (f\<lparr>cf_inner := j\<rparr>, w)) (cf_inner f, w)) r \<longleftrightarrow>
      (\<exists>r0 t0. ends_at jp (cf_inner f, w) r0 t0 \<and> (\<exists>t. ends_from (current_thread_poll N jp) (?out r0 t0) r t))"
    by (rule future_ends_chain)
       (auto simp: current_thread_poll_def split: run.splits result.splits async.splits one.splits)
  then show ?thesis by (simp add: split_paired_Ex)
qed

lemma nonblocking_handle_ends:
  "future_ends (nonblocking_poll N S blocking as_root_node jp) (f\<lparr>nf_handle := Some handle\<rparr>, w) r \<longleftrightarrow>
     (\<exists>r0 t. ends_at (sp_poll S) (handle, w) r0 t \<and> r = map_ok One r0)"
proof -
  let ?out = "\<lambda>r0 t. case t of (h', w') \<Rightarrow> Ret (map_ok (\<lambda>v. Ready (One v)) r0, f\<lparr>nf_handle := Some h'\<rparr>, w')"
  have "future_ends (nonblocking_poll N S blocking as_root_node jp)
        ((\<lambda>(h, w). (f\<lparr>nf_handle := Some h\<rparr>, w)) (handle, w)) r \<longleftrightarrow>
      (\<exists>r0 t0. ends_at (sp_poll S) (handle, w) r0 t0 \<and>
         (\<exists>t. ends_from (nonblocking_poll N S blocking as_root_node jp) (?out r0 t0) r t))"
    by (rule future_ends_chain)
       (auto simp: nonblocking_poll_def nonblocking_poll_handle_def map_async_def
         split: run.splits result.splits async.splits)
  then show ?thesis by (simp add: split_paired_Ex)
qed

lemma with_spawner_handle_ends:
  "future_ends (with_spawner_poll N S jp) (f\<lparr>wf_handle := Some handle\<rparr>, w) r \<longleftrightarrow>
     (\<exists>x t. ends_at (sp_poll (S (ws_spawner (wf_endpoint f)))) (handle, w) (Ok x) t \<and> r = Ok (One x))"
proof -
  let ?out = "\<lambda>r0 t. case t of (h', w') \<Rightarrow>
      (case r0 of Err _ \<Rightarrow> Panic | Ok v \<Rightarrow> Ret (Ok (Ready (One v)), f\<lparr>wf_handle := Some h'\<rparr>, w'))"
  have "future_ends (with_spawner_poll N S jp) ((\<lambda>(h, w). (f\<lparr>wf_handle := Some h\<rparr>, w)) (handle, w)) r \<longleftrightarrow>
      (\<exists>r0 t0. ends_at (sp_poll (S (ws_spawner (wf_endpoint f)))) (handle, w) r0 t0 \<and>
         (\<exists>t. ends_from (with_spawner_poll N S jp) (?out r0 t0) r t))"
    by (rule future_ends_chain)
       (auto simp: with_spawner_poll_def with_spawner_poll_handle_def map_async_def
         split: run.splits result.splits async.splits)
  note chain = this
  have run: "(\<exists>t. ends_from (with_spawner_poll N S jp) (?out r0 t0) r t) \<longleftrightarrow> (\<exists>x. r0 = Ok x \<and> r = Ok (One x))" for r0 t0
    by (cases r0; cases t0) simp_all
  have "future_ends (with_spawner_poll N S jp) (f\<lparr>wf_handle := Some handle\<rparr>, w) r \<longleftrightarrow>
      (\<exists>r0 t. ends_at (sp_poll (S (ws_spawner (wf_endpoint f)))) (handle, w) r0 t \<and> (\<exists>x. r0 = Ok x \<and> r = Ok (One x)))"
    using chain unfolding run by simp
  then show ?thesis by blast
qed

lemma nonblocking_ends:
  assumes "spawn_laws S kp" and "\<And>f r. future_ends kp (blocking f) r \<longleftrightarrow> r = f ()"
    and "nf_handle f = None"
  shows "future_ends (nonblocking_poll N S blocking as_root_node jp) (f, w) r \<longleftrightarrow>
     (\<exists>r0 t. ends_at jp (nf_inner f, w) r0 t \<and> r = executed N (as_root_node (nb_schema (nf_endpoint f))) r0)"
proof -
  let ?root = "as_root_node (nb_schema (nf_endpoint f))"
  let ?fp = "nonblocking_poll N S blocking as_root_node jp"
  let ?out = "\<lambda>r0 t. case t of (j', w') \<Rightarrow>
      (case r0 of
         Err e \<Rightarrow> Ret (Err e, f\<lparr>nf_inner := j'\<rparr>, w')
       | Ok (One ctx, One request) \<Rightarrow>
           (case sp_spawn S (blocking (\<lambda>_. Ok (graphql_execute N request ?root ctx))) w' of
              (handle, w2) \<Rightarrow> ?fp (f\<lparr>nf_inner := j', nf_handle := Some handle\<rparr>, w2)))"
  have "future_ends ?fp ((\<lambda>(j, w). (f\<lparr>nf_inner := j\<rparr>, w)) (nf_inner f, w)) r \<longleftrightarrow>
      (\<exists>r0 t0. ends_at jp (nf_inner f, w) r0 t0 \<and> (\<exists>t. ends_from ?fp (?out r0 t0) r t))"
    by (rule future_ends_chain)
       (auto simp: nonblocking_poll_def assms(3) Let_def split: run.splits result.splits async.splits one.splits)
  note chain = this
  have run: "(\<exists>t. ends_from ?fp (?out r0 t0) r t) \<longleftrightarrow> r = executed N ?root r0" for r0 t0
  proof (cases r0)
    case (Ok v)
    obtain ctx request where v: "v = (One ctx, One request)" by (metis one.exhaust surj_pair)
    obtain j' w' where t0: "t0 = (j', w')" by (cases t0)
    let ?task = "blocking (\<lambda>_. Ok (graphql_execute N request ?root ctx))"
    obtain handle w2 where h: "sp_spawn S ?task w' = (handle, w2)" by (cases "sp_spawn S ?task w'")
    from assms(1,2) have "(\<exists>t. ends_at (sp_poll S) (handle, w2) r1 t) \<longleftrightarrow> r1 = Ok (graphql_execute N request ?root ctx)" for r1
      unfolding spawn_laws_def by (metis h)
    with nonblocking_handle_ends[where N = N and S = S and blocking = blocking and as_root_node = as_root_node and jp = jp
        and f = "f\<lparr>nf_inner := j'\<rparr>" and handle = handle and w = w2 and r = r] show ?thesis
      by (auto simp: Ok v t0 h ends_at_unfold[symmetric] ends_at_future_ends)
  qed (cases t0, simp)
  from chain show ?thesis unfolding run by simp
qed

lemma with_spawner_ends:
  assumes "spawn_laws (S (ws_spawner (wf_endpoint f))) (graphql_task_poll N as_root_node)" and "wf_handle f = None"
  shows "future_ends (with_spawner_poll N S jp) (f, w) r \<longleftrightarrow>
     (\<exists>r0 t. ends_at jp (wf_inner f, w) r0 t \<and> r = executed N (as_root_node (ws_schema (wf_endpoint f))) r0)"
proof -
  let ?root = "as_root_node (ws_schema (wf_endpoint f))"
  let ?S = "S (ws_spawner (wf_endpoint f))"
  let ?fp = "with_spawner_poll N S jp"
  let ?task = "\<lambda>request ctx. \<lparr>gt_request = request, gt_schema = ws_schema (wf_endpoint f), gt_context = ctx\<rparr>"
  let ?out = "\<lambda>r0 t. case t of (j', w') \<Rightarrow>
      (case r0 of
         Err e \<Rightarrow> Ret (Err e, f\<lparr>wf_inner := j'\<rparr>, w')
       | Ok (One ctx, One request) \<Rightarrow>
           (case sp_spawn ?S (?task request ctx) w' of
              (handle, w2) \<Rightarrow> ?fp (f\<lparr>wf_inner := j', wf_handle := Some handle\<rparr>, w2)))"
  have "future_ends ?fp ((\<lambda>(j, w). (f\<lparr>wf_inner := j\<rparr>, w)) (wf_inner f, w)) r \<longleftrightarrow>
      (\<exists>r0 t0. ends_at jp (wf_inner f, w) r0 t0 \<and> (\<exists>t. ends_from ?fp (?out r0 t0) r t))"
    by (rule future_ends_chain)
       (auto simp: with_spawner_poll_def assms(2) Let_def split: run.splits result.splits async.splits one.splits)
  note chain = this
  have run: "(\<exists>t. ends_from ?fp (?out r0 t0) r t) \<longleftrightarrow> r = executed N ?root r0" for r0 t0
  proof (cases r0)
    case (Ok v)
    obtain ctx request where v: "v = (One ctx, One request)" by (metis one.exhaust surj_pair)
    obtain j' w' where t0: "t0 = (j', w')" by (cases t0)
    obtain handle w2 where h: "sp_spawn ?S (?task request ctx) w' = (handle, w2)"
      by (cases "sp_spawn ?S (?task request ctx) w'")
    have "future_ends (graphql_task_poll N as_root_node) (?task request ctx) r1 \<longleftrightarrow>
        r1 = Ok (graphql_execute N request ?root ctx)" for r1
      by (subst future_ends_unfold) (simp add: graphql_task_poll_def)
    with assms(1) have "(\<exists>t. ends_at (sp_poll ?S) (handle, w2) r1 t) \<longleftrightarrow> r1 = Ok (graphql_execute N request ?root ctx)" for r1
      unfolding spawn_laws_def by (metis h)
    with with_spawner_handle_ends[where N = N and S = S and jp = jp and f = "f\<lparr>wf_inner := j'\<rparr>" and handle = handle
        and w = w2 and r = r] show ?thesis
      by (auto simp: Ok v t0 h ends_at_unfold[symmetric] ends_at_future_ends)
  qed (cases t0, simp)
  from chain show ?thesis unfolding run by simp
qed

section \<open>The executors agree\<close>

text \<open>A runtime that runs a task when its handle is polled.\<close>

definition inline_spawn :: "('k, 'a, 'e) future_fn \<Rightarrow> ('k, 'k, 'w, 'a, 'e) spawn_api" where
  "inline_spawn kp =
     \<lparr>sp_spawn = Pair,
      sp_poll = (\<lambda>(k, w). case kp k of Panic \<Rightarrow> Panic | Ret (p, k') \<Rightarrow> Ret (p, k', w))\<rparr>"

lemma inline_spawn_laws: "spawn_laws (inline_spawn kp :: ('k, 'k, 'w, 'a, 'e) spawn_api) kp"
  unfolding spawn_laws_def
proof (intro allI)
  fix k and w :: 'w and r
  let ?S = "inline_spawn kp :: ('k, 'k, 'w, 'a, 'e) spawn_api"
  have "future_ends (sp_poll ?S) ((\<lambda>k. (k, w)) k) r \<longleftrightarrow>
      (\<exists>r0 t0. ends_at kp k r0 t0 \<and> (\<exists>t. ends_from (sp_poll ?S) (Ret (map_ok Ready r0, t0, w)) r t))"
    by (rule future_ends_chain[where w = "\<lambda>k. (k, w)"])
       (auto simp: inline_spawn_def split: run.splits result.splits async.splits)
  then show "(\<exists>t. ends_at (sp_poll ?S) (sp_spawn ?S k w) r t) \<longleftrightarrow> future_ends kp k r"
    by (simp add: ends_at_future_ends inline_spawn_def)
qed

text \<open>
  C32: The three executors of GraphQL queries are the same from outside: wherever a query runs, its
  future ends with the same response or error, after the context and the request have ended, and
  the unreachable arm of the spawned variant is not reached.
\<close>

lemma executors_agree:
  assumes "spawn_laws S1 kp" and "\<And>f r. future_ends kp (blocking f) r \<longleftrightarrow> r = f ()"
    and "spawn_laws (S2 spawner) (graphql_task_poll N as_root_node)"
  shows "(future_ends (nonblocking_poll N S1 blocking as_root_node jp)
        (\<lparr>nf_inner = inner, nf_handle = None, nf_endpoint = nonblocking_wrap schema ep\<rparr>, w) r \<longleftrightarrow>
      future_ends (current_thread_poll N jp) (\<lparr>cf_inner = inner, cf_root_node = as_root_node schema\<rparr>, w) r) \<and>
    (future_ends (with_spawner_poll N S2 jp)
        (\<lparr>wf_inner = inner, wf_handle = None, wf_endpoint = with_spawner_wrap schema spawner ep\<rparr>, w) r \<longleftrightarrow>
      future_ends (current_thread_poll N jp) (\<lparr>cf_inner = inner, cf_root_node = as_root_node schema\<rparr>, w) r)"
  using assms
  by (simp add: current_thread_ends nonblocking_ends with_spawner_ends nonblocking_wrap_def with_spawner_wrap_def)

text \<open>The context and the request are ready at once.\<close>

definition ready_join :: "(('i, 'e) result \<times> unit, 'i, 'e) future_fn" where
  "ready_join t = Ret (map_ok Ready (fst t), t)"

lemma executors_agree_witness:
  "future_ends (nonblocking_poll demo_juniper (inline_spawn result_future) (\<lambda>f. f ()) (\<lambda>u. u) ready_join)
     (\<lparr>nf_inner = Ok (One (), One (GraphQLRequest (Single 3))), nf_handle = None,
       nf_endpoint = nonblocking_wrap () ()\<rparr>, ()) (Ok (One \<lparr>gr_is_ok = True, gr_body = Ok ''3''\<rparr>))"
proof -
  have "future_ends (current_thread_poll demo_juniper ready_join)
      (\<lparr>cf_inner = Ok (One (), One (GraphQLRequest (Single 3))), cf_root_node = ()\<rparr>, ())
      (Ok (One \<lparr>gr_is_ok = True, gr_body = Ok (show_nat 3)\<rparr>))"
    by (subst future_ends_unfold)
       (simp add: current_thread_poll_def ready_join_def graphql_execute_def demo_juniper_def)
  moreover have "show_nat 3 = ''3''" by code_simp
  ultimately show ?thesis
    using executors_agree[where ?S1.0 = "inline_spawn result_future" and kp = result_future and blocking = "\<lambda>f. f ()"
        and ?S2.0 = "\<lambda>sp. inline_spawn (graphql_task_poll demo_juniper (\<lambda>u. u))" and spawner = "()"
        and N = demo_juniper and as_root_node = "\<lambda>u. u" and jp = ready_join
        and inner = "Ok (One (), One (GraphQLRequest (Single 3)))" and schema = "()" and ep = "()" and w = "()",
        OF inline_spawn_laws _ inline_spawn_laws]
    by simp
qed

section \<open>Schemas\<close>

text \<open>
  The implementors of \<open>Schema\<close>: a root node itself, or a schema behind a pointer. The executors
  put the schema behind one more \<open>Arc\<close>.
\<close>

datatype 'n schema = RootNode 'n | BoxSchema "'n schema" | RcSchema "'n schema" | ArcSchema "'n schema"

fun schema_root_node :: "'n schema \<Rightarrow> 'n" where
  "schema_root_node (RootNode n) = n"
| "schema_root_node (BoxSchema s) = schema_root_node s"
| "schema_root_node (RcSchema s) = schema_root_node s"
| "schema_root_node (ArcSchema s) = schema_root_node s"

text \<open>\<open>SharedSchema\<close> delegates to \<open>Schema\<close>.\<close>

definition shared_root_node :: "'n schema \<Rightarrow> 'n" where
  "shared_root_node s = schema_root_node s"

end
