(* ===== verification/Finch_Websocket.thy ===== *)
theory Finch_Websocket
  imports Finch_Future
begin

text \<open>
  \<open>finchers-tungstenite\<close>: the check of a WebSocket handshake, the endpoint that answers it, and the
  task that serves the connection afterwards. SHA-1, base64, the upgrade of a connection and the
  default executor are parameters.
\<close>

section \<open>The handshake\<close>

datatype handshake_error_kind =
    MissingHeader string
  | InvalidHeader string
  | InvalidSecWebSocketKey
  | InvalidSecWebSocketVersion

definition handshake_kind_to_string :: "handshake_error_kind \<Rightarrow> string" where
  "handshake_kind_to_string k =
     (case k of
        MissingHeader name \<Rightarrow> ''missing header: `'' @ name @ [CHR 0x27]
      | InvalidHeader name \<Rightarrow> ''The header value is invalid: `'' @ name @ [CHR 0x27]
      | InvalidSecWebSocketKey \<Rightarrow> ''The value of `Sec-WebSocket-Key` is invalid''
      | InvalidSecWebSocketVersion \<Rightarrow>
          ''The value of `Sec-WebSocket-Version` must be equal to '' @ [CHR 0x27] @ ''13'' @ [CHR 0x27])"

text \<open>\<open>HandshakeError\<close> as an \<open>HttpError\<close>.\<close>

definition handshake_error :: "handshake_error_kind \<Rightarrow> http_error" where
  "handshake_error k = UserError ''HandshakeError'' BAD_REQUEST (''handshake error: '' @ handshake_kind_to_string k)"

record handshake_api =
  hs_sha1 :: "string \<Rightarrow> string"
  hs_b64_encode :: "string \<Rightarrow> string"
  hs_b64_decode :: "string \<Rightarrow> string option"

definition handshake ::
  "'h http_api \<Rightarrow> handshake_api \<Rightarrow> 'h request \<Rightarrow> (string, handshake_error_kind) result" where
  "handshake H C rq =
     (case hm_get H (rq_headers rq) ''connection'' of
        None \<Rightarrow> Err (MissingHeader ''Connection'')
      | Some h \<Rightarrow>
          if h \<noteq> ''Upgrade'' \<and> h \<noteq> ''upgrade'' then Err (InvalidHeader ''Connection'')
          else (case hm_get H (rq_headers rq) ''upgrade'' of
             None \<Rightarrow> Err (MissingHeader ''Upgrade'')
           | Some h \<Rightarrow>
               if h \<noteq> ''Websocket'' \<and> h \<noteq> ''websocket'' then Err (InvalidHeader ''Upgrade'')
               else (case hm_get H (rq_headers rq) ''sec-websocket-version'' of
                  None \<Rightarrow> Err (MissingHeader ''Sec-WebSocket-Version'')
                | Some h \<Rightarrow>
                    if h \<noteq> ''13'' then Err InvalidSecWebSocketVersion
                    else (case hm_get H (rq_headers rq) ''sec-websocket-key'' of
                       None \<Rightarrow> Err (MissingHeader ''Sec-WebSocket-Key'')
                     | Some h \<Rightarrow>
                         (case hs_b64_decode C h of
                            None \<Rightarrow> Err InvalidSecWebSocketKey
                          | Some decoded \<Rightarrow>
                              if length decoded \<noteq> 16 then Err InvalidSecWebSocketKey
                              else Ok (hs_b64_encode C
                                (hs_sha1 C (h @ ''258EAFA5-E914-47DA-95CA-C5AB0DC85B11''))))))))"

section \<open>The task that serves the connection\<close>

text \<open>
  \<open>Upgrade::on_upgrade\<close> of the body and its future, \<open>WebSocketStream::from_raw_socket\<close> in the role
  of the server, and the future the handler makes of the stream.
\<close>

record ('bd, 'uf, 'up, 'ws, 'f, 'rf) upgrade_api =
  up_on_upgrade :: "'bd \<Rightarrow> 'uf"
  up_poll :: "('uf, 'up, string) future_fn"
  up_from_raw_socket :: "'up \<Rightarrow> 'ws"
  up_handle :: "'f \<Rightarrow> 'ws \<Rightarrow> 'rf"
  up_poll_handler :: "('rf, unit, unit) future_fn"

datatype ('uf, 'f, 'rf) upgrade_task = Upgrading 'uf 'f | Serving 'rf

definition serving_poll ::
  "('bd, 'uf, 'up, 'ws, 'f, 'rf) upgrade_api \<Rightarrow> 'rf \<Rightarrow> ((unit, unit) poll \<times> ('uf, 'f, 'rf) upgrade_task) run" where
  "serving_poll U rf =
     (case up_poll_handler U rf of Panic \<Rightarrow> Panic | Ret (p, rf') \<Rightarrow> Ret (p, Serving rf'))"

definition upgrade_task_poll ::
  "('bd, 'uf, 'up, 'ws, 'f, 'rf) upgrade_api \<Rightarrow> (('uf, 'f, 'rf) upgrade_task, unit, unit) future_fn" where
  "upgrade_task_poll U t =
     (case t of
        Upgrading u on_upgrade \<Rightarrow>
          (case up_poll U u of
             Panic \<Rightarrow> Panic
           | Ret (Err e, u') \<Rightarrow> Ret (Err (), Upgrading u' on_upgrade)
           | Ret (Ok NotReady, u') \<Rightarrow> Ret (Ok NotReady, Upgrading u' on_upgrade)
           | Ret (Ok (Ready upgraded), _) \<Rightarrow>
               (let ws_stream = up_from_raw_socket U upgraded in serving_poll U (up_handle U on_upgrade ws_stream)))
      | Serving rf \<Rightarrow> serving_poll U rf)"

section \<open>The endpoint\<close>

text \<open>
  The action, next to the default executor \<open>'x\<close> its tasks are spawned on. The builder of the
  response cannot fail: base64 text is a valid header value.
\<close>

record 'f ws_action =
  wa_on_upgrade :: "'f option"

definition ws_response :: "'h http_api \<Rightarrow> string \<Rightarrow> ('h, string) response" where
  "ws_response H hash =
     (response_new H [])\<lparr>rs_status := SWITCHING_PROTOCOLS,
       rs_headers := hm_append H (hm_append H (hm_append H (hm_empty H)
         ''connection'' ''upgrade'') ''upgrade'' ''websocket'') ''sec-websocket-accept'' hash\<rparr>"

definition ws_poll ::
  "'h http_api \<Rightarrow> handshake_api \<Rightarrow> ('bd, 'uf, 'up, 'ws, 'f, 'rf) upgrade_api
    \<Rightarrow> (('uf, 'f, 'rf) upgrade_task \<Rightarrow> 'x \<Rightarrow> (unit, string) result \<times> 'x)
    \<Rightarrow> 'f ws_action \<times> 'x \<Rightarrow> ('h, 'j, 'bd) action_context
    \<Rightarrow> ((('h, string) response one, http_error) poll \<times> ('f ws_action \<times> 'x) \<times> ('h, 'j, 'bd) action_context) run" where
  "ws_poll H C U spawn st ac =
     (case st of (s, x) \<Rightarrow>
       (case handshake H C (cx_request (ac_context ac)) of
          Err k \<Rightarrow> Ret (Err (handshake_error k), (s, x), ac)
        | Ok hash \<Rightarrow>
            (case wa_on_upgrade s of
               None \<Rightarrow> Panic
             | Some on_upgrade \<Rightarrow>
                 let s = s\<lparr>wa_on_upgrade := None\<rparr> in
                 (case take_body ac of
                    (Err e, ac') \<Rightarrow> Ret (Err e, (s, x), ac')
                  | (Ok body, ac') \<Rightarrow>
                      (case spawn (Upgrading (up_on_upgrade U body) on_upgrade) x of
                         (Err e, x') \<Rightarrow> Ret (Err (internal_server_error e), (s, x'), ac')
                       | (Ok _, x') \<Rightarrow> Ret (Ok (Ready (One (ws_response H hash))), (s, x'), ac'))))))"

definition ws_endpoint ::
  "'h http_api \<Rightarrow> handshake_api \<Rightarrow> ('bd, 'uf, 'up, 'ws, 'f, 'rf) upgrade_api
    \<Rightarrow> (('uf, 'f, 'rf) upgrade_task \<Rightarrow> 'x \<Rightarrow> (unit, string) result \<times> 'x) \<Rightarrow> 'x \<Rightarrow> 'f
    \<Rightarrow> ('f ws_action \<times> 'x, 'h, 'j, 'bd, ('h, string) response one) endpoint" where
  "ws_endpoint H C U spawn executor on_upgrade =
     \<lparr>ep_action = (\<lparr>wa_on_upgrade = Some on_upgrade\<rparr>, executor),
      ep_impl = \<lparr>act_preflight = default_preflight, act_poll = ws_poll H C U spawn\<rparr>\<rparr>"

lemma ws_endpoint_sel [simp]:
  "ep_action (ws_endpoint H C U spawn executor f) = (\<lparr>wa_on_upgrade = Some f\<rparr>, executor)"
  "act_preflight (ep_impl (ws_endpoint H C U spawn executor f)) = default_preflight"
  "act_poll (ep_impl (ws_endpoint H C U spawn executor f)) = ws_poll H C U spawn"
  by (simp_all add: ws_endpoint_def)

section \<open>Which requests are handshakes\<close>

lemma handshake_ok:
  "handshake H C rq = Ok hash \<longleftrightarrow>
     (\<exists>key decoded.
        hm_get H (rq_headers rq) ''connection'' \<in> {Some ''Upgrade'', Some ''upgrade''} \<and>
        hm_get H (rq_headers rq) ''upgrade'' \<in> {Some ''Websocket'', Some ''websocket''} \<and>
        hm_get H (rq_headers rq) ''sec-websocket-version'' = Some ''13'' \<and>
        hm_get H (rq_headers rq) ''sec-websocket-key'' = Some key \<and>
        hs_b64_decode C key = Some decoded \<and> length decoded = 16 \<and>
        hash = hs_b64_encode C (hs_sha1 C (key @ ''258EAFA5-E914-47DA-95CA-C5AB0DC85B11'')))"
  unfolding handshake_def by (auto split: option.splits if_splits)

text \<open>A client that lists more options in \<open>Connection\<close> is turned away.\<close>

text \<open>
  A handshake whose Connection header lists more than one option, as browsers that send keep-
  alive with it do, is answered with status 400.
\<close>

lemma handshake_connection_list:
  assumes "hm_get H (rq_headers rq) ''connection'' = Some c" and "CHR '','' \<in> set c"
  shows "handshake H C rq = Err (InvalidHeader ''Connection'') \<and> status_code_of (handshake_error (InvalidHeader ''Connection'')) = BAD_REQUEST"
proof -
  have "c \<noteq> ''Upgrade''" "c \<noteq> ''upgrade''" using assms(2) by auto
  with assms(1) show ?thesis by (simp add: handshake_def handshake_error_def)
qed

section \<open>What the endpoint answers\<close>

text \<open>
  What is wrong with the headers of a request, in the order in which a server looks at them: each
  header has to be there and to have one of the values it may have.
\<close>

definition header_fault :: "string \<Rightarrow> (string \<Rightarrow> bool) \<Rightarrow> handshake_error_kind \<Rightarrow> string option \<Rightarrow> handshake_error_kind list" where
  "header_fault name valid invalid v =
     (case v of None \<Rightarrow> [MissingHeader name] | Some h \<Rightarrow> if valid h then [] else [invalid])"

definition sixteen_bytes :: "handshake_api \<Rightarrow> string \<Rightarrow> bool" where
  "sixteen_bytes C key = (case hs_b64_decode C key of None \<Rightarrow> False | Some decoded \<Rightarrow> length decoded = 16)"

definition handshake_faults :: "handshake_api \<Rightarrow> (string \<Rightarrow> string option) \<Rightarrow> handshake_error_kind list" where
  "handshake_faults C hdr =
     header_fault ''Connection'' (\<lambda>h. h = ''Upgrade'' \<or> h = ''upgrade'') (InvalidHeader ''Connection'') (hdr ''connection'') @
     header_fault ''Upgrade'' (\<lambda>h. h = ''Websocket'' \<or> h = ''websocket'') (InvalidHeader ''Upgrade'') (hdr ''upgrade'') @
     header_fault ''Sec-WebSocket-Version'' (\<lambda>h. h = ''13'') InvalidSecWebSocketVersion (hdr ''sec-websocket-version'') @
     header_fault ''Sec-WebSocket-Key'' (sixteen_bytes C) InvalidSecWebSocketKey (hdr ''sec-websocket-key'')"

lemma handshake_by_faults:
  "handshake H C rq =
     (case handshake_faults C (hm_get H (rq_headers rq)) of
        k # _ \<Rightarrow> Err k
      | [] \<Rightarrow> Ok (hs_b64_encode C (hs_sha1 C
          (the (hm_get H (rq_headers rq) ''sec-websocket-key'') @ ''258EAFA5-E914-47DA-95CA-C5AB0DC85B11''))))"
  unfolding handshake_def handshake_faults_def header_fault_def sixteen_bytes_def
  by (auto split: option.split)

text \<open>
  C35: The WebSocket endpoint answers 400 with the first fault of the headers (Connection, Upgrade,
  Sec-WebSocket-Version, a key of sixteen bytes) before it touches the body; without a fault it
  takes the body, spawns the task that serves the connection, and answers 101 with the base64 of
  the SHA-1 of the key and the fixed GUID, or an internal server error when the body is gone or
  the task cannot be spawned.
\<close>

lemma resolves_ws:
  "resolves (ep_impl (ws_endpoint H C U spawn x f)) (ep_action (ws_endpoint H C U spawn x f)) cur ac r cur' ac' \<longleftrightarrow>
     cur' = cur \<and>
     (let hdr = hm_get H (rq_headers (cx_request (ac_context ac))) in
      case handshake_faults C hdr of
        k # _ \<Rightarrow>
          r = Err (UserError ''HandshakeError'' 400 (''handshake error: '' @ handshake_kind_to_string k)) \<and> ac' = ac
      | [] \<Rightarrow>
          ac' = ac\<lparr>ac_body := None\<rparr> \<and>
          r = (case ac_body ac of
                 None \<Rightarrow> Err (internal_server_error ''the request body has already been stolen by someone'')
               | Some body \<Rightarrow>
                   (case fst (spawn (Upgrading (up_on_upgrade U body) f) x) of
                      Err e \<Rightarrow> Err (internal_server_error e)
                    | Ok _ \<Rightarrow> Ok (One \<lparr>rs_status = 101,
                        rs_headers = hm_append H (hm_append H (hm_append H (hm_empty H)
                          ''connection'' ''upgrade'') ''upgrade'' ''websocket'')
                          ''sec-websocket-accept'' (hs_b64_encode C (hs_sha1 C
                            (the (hdr ''sec-websocket-key'') @ ''258EAFA5-E914-47DA-95CA-C5AB0DC85B11''))),
                        rs_body = [], rs_error = None\<rparr>))))"
proof -
  have "resolves (ep_impl (ws_endpoint H C U spawn x f)) (ep_action (ws_endpoint H C U spawn x f)) cur ac r cur' ac' \<longleftrightarrow>
     cur' = cur \<and>
     (case handshake H C (cx_request (ac_context ac)) of
        Err k \<Rightarrow> r = Err (handshake_error k) \<and> ac' = ac
      | Ok hash \<Rightarrow>
          ac' = ac\<lparr>ac_body := None\<rparr> \<and>
          r = (case ac_body ac of
                 None \<Rightarrow> Err (internal_server_error ''the request body has already been stolen by someone'')
               | Some body \<Rightarrow>
                   map_err internal_server_error
                     (map_ok (\<lambda>_. One (ws_response H hash)) (fst (spawn (Upgrading (up_on_upgrade U body) f) x)))))"
    by (cases "handshake H C (cx_request (ac_context ac))"; cases "ac_body ac";
        cases "spawn (Upgrading (up_on_upgrade U (the (ac_body ac))) f) x")
       (auto simp: resolves_default polls_to_unfold ws_poll_def take_body_def ok_or_def Let_def split: result.splits)
  then show ?thesis
    unfolding handshake_by_faults Let_def
    by (auto simp: handshake_error_def ws_response_def response_new_def map_err_def map_ok_def
        split: list.split option.split result.split)
qed

lemma ws_endpoint_action:
  "endpoint_action (ep_impl (ws_endpoint H C U spawn x f)) (ep_action (ws_endpoint H C U spawn x f))
     (\<lambda>st. wa_on_upgrade (fst st) \<noteq> None)"
proof (rule endpoint_actionI, goal_cases)
  case (1 cx cur)
  then show ?case by (simp add: default_preflight_def)
next
  case (2 st ac)
  then show ?case
    by (cases st) (auto simp: ws_poll_def take_body_def Let_def split: option.splits result.splits prod.splits)
qed

interpretation ws_act: endpoint_action
  "ep_impl (ws_endpoint H C U spawn x f)" "ep_action (ws_endpoint H C U spawn x f)"
  "\<lambda>st. wa_on_upgrade (fst st) \<noteq> None" for H C U spawn x f
  by (rule ws_endpoint_action)

lemma ws_response_headers:
  assumes "http_laws H"
  shows "rs_status (ws_response H hash) = SWITCHING_PROTOCOLS \<and>
    hm_get_all H (rs_headers (ws_response H hash)) ''sec-websocket-accept'' = [hash]"
  by (simp add: ws_response_def http_lawsD[OF assms])

section \<open>The task after the handshake\<close>

lemma serving_ends: "future_ends (upgrade_task_poll U) (Serving rf) r \<longleftrightarrow> future_ends (up_poll_handler U) rf r"
proof -
  have "future_ends (upgrade_task_poll U) (Serving rf) r \<longleftrightarrow>
      (\<exists>r0 t0. ends_at (up_poll_handler U) rf r0 t0 \<and>
        (\<exists>t. ends_from (upgrade_task_poll U) (Ret (map_ok Ready r0, Serving t0)) r t))"
    by (rule future_ends_chain)
       (auto simp: upgrade_task_poll_def serving_poll_def split: run.splits result.splits async.splits)
  then show ?thesis by (simp add: ends_at_future_ends)
qed

lemma upgrade_task_ends:
  "future_ends (upgrade_task_poll U) (Upgrading u f) r \<longleftrightarrow>
     (\<exists>r0. future_ends (up_poll U) u r0 \<and>
        (case r0 of
           Err _ \<Rightarrow> r = Err ()
         | Ok upgraded \<Rightarrow> future_ends (up_poll_handler U) (up_handle U f (up_from_raw_socket U upgraded)) r))"
proof -
  let ?out = "\<lambda>r0 u'. case r0 of
      Err e \<Rightarrow> Ret (Err (), Upgrading u' f)
    | Ok upgraded \<Rightarrow> upgrade_task_poll U (Serving (up_handle U f (up_from_raw_socket U upgraded)))"
  have chain: "future_ends (upgrade_task_poll U) (Upgrading u f) r \<longleftrightarrow>
      (\<exists>r0 t0. ends_at (up_poll U) u r0 t0 \<and> (\<exists>t. ends_from (upgrade_task_poll U) (?out r0 t0) r t))"
    by (rule future_ends_chain[where w = "\<lambda>u. Upgrading u f"])
       (auto simp: upgrade_task_poll_def Let_def split: run.splits result.splits async.splits)
  have run: "(\<exists>t. ends_from (upgrade_task_poll U) (?out r0 t0) r t) \<longleftrightarrow>
      (case r0 of
         Err _ \<Rightarrow> r = Err ()
       | Ok upgraded \<Rightarrow> future_ends (up_poll_handler U) (up_handle U f (up_from_raw_socket U upgraded)) r)" for r0 t0
    by (cases r0) (simp_all add: ends_at_unfold[symmetric] ends_at_future_ends[symmetric] serving_ends)
  from chain show ?thesis unfolding run ends_at_future_ends by blast
qed

section \<open>A concrete handshake\<close>

text \<open>Stand-ins for base64 and SHA-1 that keep the lengths the check looks at.\<close>

definition demo_handshake :: handshake_api where
  "demo_handshake = \<lparr>hs_sha1 = (\<lambda>s. take 20 s), hs_b64_encode = (\<lambda>s. s), hs_b64_decode = Some\<rparr>"

lemma handshake_connection_list_witness:
  "handshake list_http demo_handshake
     \<lparr>rq_method = GET, rq_path = ''/'', rq_query = None,
      rq_headers = [(''connection'', ''keep-alive, Upgrade''), (''upgrade'', ''websocket''),
        (''sec-websocket-version'', ''13''), (''sec-websocket-key'', ''0123456789abcdef'')]\<rparr> =
   Err (InvalidHeader ''Connection'')"
  using handshake_connection_list[of list_http "\<lparr>rq_method = GET, rq_path = ''/'', rq_query = None,
      rq_headers = [(''connection'', ''keep-alive, Upgrade''), (''upgrade'', ''websocket''),
        (''sec-websocket-version'', ''13''), (''sec-websocket-key'', ''0123456789abcdef'')]\<rparr>"
      "''keep-alive, Upgrade''" demo_handshake]
  by simp

end
