(* ===== verification/Finch_Test_Runner.thy ===== *)
theory Finch_Test_Runner
  imports Finch_Service Finch_Future Finch_Body
begin

text \<open>
  \<open>src/test.rs\<close>: running an endpoint on a request without a server. The parser of URIs and the
  request builder of the \<open>http\<close> crate are parameters; the Tokio runtime polls the future until it
  ends, at most \<open>n\<close> times here.
\<close>

section \<open>Bodies\<close>

datatype req_body = ReqBody "string option"

definition req_body_poll_buf :: "req_body \<Rightarrow> (string option async, string) result \<times> req_body" where
  "req_body_poll_buf b = (case b of ReqBody chunk \<Rightarrow> (Ok (Ready chunk), ReqBody None))"

definition req_body_stream :: "(req_body, string) buf_stream" where
  "req_body_stream = \<lparr>bs_poll_buf = req_body_poll_buf, bs_bytes = (\<lambda>c. c)\<rparr>"

text \<open>The implementors of \<open>IntoReqBody\<close>.\<close>

datatype req_content = UnitBody | SliceBody string | VecBody string | StrBody string | StringBody string

definition body_content_type :: "req_content \<Rightarrow> string option" where
  "body_content_type c =
     (case c of
        StrBody _ \<Rightarrow> Some ''text/plain; charset=utf-8''
      | StringBody _ \<Rightarrow> Some ''text/plain; charset=utf-8''
      | _ \<Rightarrow> None)"

definition into_req_body :: "req_content \<Rightarrow> req_body" where
  "into_req_body c =
     (case c of
        UnitBody \<Rightarrow> ReqBody (Some [])
      | SliceBody b \<Rightarrow> ReqBody (Some b)
      | VecBody b \<Rightarrow> ReqBody (Some b)
      | StrBody s \<Rightarrow> ReqBody (Some s)
      | StringBody s \<Rightarrow> ReqBody (Some s))"

section \<open>Requests\<close>

text \<open>\<open>HeaderMap::entry(name).or_insert(v)\<close>.\<close>

definition or_insert :: "'h http_api \<Rightarrow> string \<Rightarrow> string \<Rightarrow> 'h \<Rightarrow> 'h" where
  "or_insert H name v m = (case hm_get H m name of None \<Rightarrow> hm_insert H m name v | Some _ \<Rightarrow> m)"

text \<open>
  \<open>str::parse::<Uri>\<close>, \<open>path_and_query\<close>, host and port of the authority, parsing a header value,
  and \<open>Request::get(path).body(..)\<close>.
\<close>

record ('u, 'h) uri_api =
  ur_parse :: "string \<Rightarrow> ('u, string) result"
  ur_path_and_query :: "'u \<Rightarrow> string option"
  ur_authority :: "'u \<Rightarrow> (string \<times> string option) option"
  ur_parse_header :: "string \<Rightarrow> (string, string) result"
  ur_get :: "string \<Rightarrow> ('h request, string) result"

definition uri_into_request ::
  "'h http_api \<Rightarrow> ('u, 'h) uri_api \<Rightarrow> 'u \<Rightarrow> ('h request \<times> req_body, string) result" where
  "uri_into_request H U uri =
     (let path = (case ur_path_and_query U uri of Some s \<Rightarrow> s | None \<Rightarrow> ''/'') in
      case ur_get U path of
        Err e \<Rightarrow> Err e
      | Ok rq \<Rightarrow>
          (case ur_authority U uri of
             None \<Rightarrow> Ok (rq, ReqBody (Some []))
           | Some (host, port) \<Rightarrow>
               (case ur_parse_header U (case port of Some p \<Rightarrow> host @ '':'' @ p | None \<Rightarrow> host) of
                  Err e \<Rightarrow> Err e
                | Ok v \<Rightarrow> Ok (rq\<lparr>rq_headers := or_insert H ''host'' v (rq_headers rq)\<rparr>, ReqBody (Some [])))))"

definition str_into_request ::
  "'h http_api \<Rightarrow> ('u, 'h) uri_api \<Rightarrow> string \<Rightarrow> ('h request \<times> req_body, string) result" where
  "str_into_request H U s = (case ur_parse U s of Err e \<Rightarrow> Err e | Ok uri \<Rightarrow> uri_into_request H U uri)"

definition request_into_request ::
  "'h http_api \<Rightarrow> ('u, 'h) uri_api \<Rightarrow> 'h request \<Rightarrow> req_content \<Rightarrow> ('h request \<times> req_body, string) result run" where
  "request_into_request H U rq body =
     (case body_content_type body of
        None \<Rightarrow> Ret (Ok (rq, into_req_body body))
      | Some mime \<Rightarrow>
          (case ur_parse_header U mime of
             Err _ \<Rightarrow> Panic
           | Ok v \<Rightarrow>
               Ret (Ok (rq\<lparr>rq_headers := or_insert H ''content-type'' v (rq_headers rq)\<rparr>, into_req_body body))))"

text \<open>An \<open>Uri\<close> that is given away goes the way of a borrowed one.\<close>

definition owned_uri_into_request ::
  "'h http_api \<Rightarrow> ('u, 'h) uri_api \<Rightarrow> 'u \<Rightarrow> ('h request \<times> req_body, string) result" where
  "owned_uri_into_request H U uri = uri_into_request H U uri"

text \<open>A builder finishes with an empty body; a failed one is an error.\<close>

definition builder_into_request ::
  "('h request, string) result \<Rightarrow> ('h request \<times> req_body, string) result" where
  "builder_into_request b = map_ok (\<lambda>rq. (rq, ReqBody (Some []))) b"

definition result_into_request ::
  "('a \<Rightarrow> ('h request \<times> req_body, string) result) \<Rightarrow> ('a, string) result \<Rightarrow> ('h request \<times> req_body, string) result" where
  "result_into_request into r = (case r of Err e \<Rightarrow> Err e | Ok x \<Rightarrow> into x)"

section \<open>The runner\<close>

record ('ep, 'h) test_runner =
  tr_endpoint :: 'ep
  tr_default_headers :: "'h option"

definition runner_with_runtime :: "'ep \<Rightarrow> ('ep, 'h) test_runner" where
  "runner_with_runtime endpoint = \<lparr>tr_endpoint = endpoint, tr_default_headers = None\<rparr>"

text \<open>\<open>TestRunner::new\<close> starts a runtime, which may fail; \<open>runner\<close> panics then.\<close>

definition test_runner_new :: "'ep \<Rightarrow> ('rt, 'e) result \<Rightarrow> (('ep, 'h) test_runner, 'e) result" where
  "test_runner_new endpoint started = map_ok (\<lambda>rt. runner_with_runtime endpoint) started"

definition runner :: "'ep \<Rightarrow> ('rt, 'e) result \<Rightarrow> ('ep, 'h) test_runner run" where
  "runner endpoint started =
     (case test_runner_new endpoint started of Ok r \<Rightarrow> Ret r | Err _ \<Rightarrow> Panic)"

text \<open>A change through the reference that \<open>default_headers\<close> returns.\<close>

definition runner_default_headers :: "'h http_api \<Rightarrow> ('h \<Rightarrow> 'h) \<Rightarrow> ('ep, 'h) test_runner \<Rightarrow> ('ep, 'h) test_runner" where
  "runner_default_headers H change r =
     r\<lparr>tr_default_headers := Some (change (case tr_default_headers r of Some m \<Rightarrow> m | None \<Rightarrow> hm_empty H))\<rparr>"

definition append_all :: "'h http_api \<Rightarrow> 'h \<Rightarrow> 'h \<Rightarrow> 'h" where
  "append_all H defaults m =
     fold (\<lambda>(k, vs) m. fold (\<lambda>v m. hm_append H m k v) vs m) (hm_drain H defaults) m"

definition prepare_request ::
  "'h http_api \<Rightarrow> ('ep, 'h) test_runner \<Rightarrow> ('h request \<times> req_body, string) result
    \<Rightarrow> ('h request \<times> req_body, string) result" where
  "prepare_request H r req =
     (case req of
        Err e \<Rightarrow> Err e
      | Ok (rq, body) \<Rightarrow>
          let hs = rq_headers rq;
              hs = (case tr_default_headers r of Some defaults \<Rightarrow> append_all H defaults hs | None \<Rightarrow> hs);
              hs = or_insert H ''host'' ''localhost'' hs;
              hs = or_insert H ''user-agent'' ''finchers/0.14.0-dev'' hs in
          Ok (rq\<lparr>rq_headers := hs\<rparr>, body))"

definition runner_apply_raw ::
  "'h http_api \<Rightarrow> nat \<Rightarrow> (('s, 'h, 'j, req_body, 'o) endpoint, 'h) test_runner
    \<Rightarrow> ('h request \<times> req_body, string) result \<Rightarrow> ('o, http_error) result option run" where
  "runner_apply_raw H n r req =
     (case prepare_request H r req of
        Err _ \<Rightarrow> Panic
      | Ok (rq, body) \<Rightarrow>
          Ret (map_option fst (drive (app_poll_apply (ep_impl (tr_endpoint r))) n (app_dispatch (tr_endpoint r) rq body))))"

definition runner_apply ::
  "'h http_api \<Rightarrow> nat \<Rightarrow> (('s, 'h, 'j, req_body, 'o one) endpoint, 'h) test_runner
    \<Rightarrow> ('h request \<times> req_body, string) result \<Rightarrow> ('o, http_error) result option run" where
  "runner_apply H n r req =
     map_run (map_option (map_ok (\<lambda>t. case t of One x \<Rightarrow> x))) (runner_apply_raw H n r req)"

section \<open>What a runner observes\<close>

lemma apply_in_flight:
  "(\<exists>t. ends_at (app_poll_apply A) (in_flight_app s ac) r t) \<longleftrightarrow> (\<exists>ac'. polls_to A s ac r ac')"
proof
  have poll: "app_poll_apply A (in_flight_app s ac) =
      (case act_poll A s ac of Panic \<Rightarrow> Panic | Ret (p, s', ac') \<Rightarrow> Ret (p, in_flight_app s' ac'))" for s ac
    by (auto simp: app_poll_apply_def app_poll_in_flight_def in_flight_app_def split: run.splits)
  have "ends_at (app_poll_apply A) fut r t \<Longrightarrow> fut = in_flight_app s ac \<Longrightarrow> \<exists>ac'. polls_to A s ac r ac'" for fut t
  proof (induction arbitrary: s ac rule: ends_at.induct)
    case (ends_at_ready fut x t)
    then show ?case by (auto simp: poll split: run.splits intro: polls_to.intros)
  next
    case (ends_at_err fut e t)
    then show ?case by (auto simp: poll split: run.splits intro: polls_to.intros)
  next
    case (ends_at_later fut fut1 r t)
    from ends_at_later(1,4) obtain s' ac1 where
      "act_poll A s ac = Ret (Ok NotReady, s', ac1)" "fut1 = in_flight_app s' ac1"
      by (auto simp: poll split: run.splits)
    with ends_at_later(3) show ?case by (blast intro: polls_to.intros)
  qed
  then show "\<exists>t. ends_at (app_poll_apply A) (in_flight_app s ac) r t \<Longrightarrow> \<exists>ac'. polls_to A s ac r ac'" by blast
  have "polls_to A s ac r ac' \<Longrightarrow> \<exists>t. ends_at (app_poll_apply A) (in_flight_app s ac) r t" for ac'
  proof (induction rule: polls_to.induct)
    case (polled_ready s ac x s' ac')
    then show ?case by (intro exI, intro ends_at_ready) (simp add: poll)
  next
    case (polled_err s ac e s' ac')
    then show ?case by (intro exI, intro ends_at_err) (simp add: poll)
  next
    case (polled_later s ac s' ac1 r ac2)
    from polled_later(3) obtain t where t: "ends_at (app_poll_apply A) (in_flight_app s' ac1) r t" by (elim exE)
    from polled_later(1) have "app_poll_apply A (in_flight_app s ac) = Ret (Ok NotReady, in_flight_app s' ac1)"
      by (simp add: poll)
    from ends_at_later[OF this t] show ?case by (rule exI)
  qed
  then show "\<exists>ac'. polls_to A s ac r ac' \<Longrightarrow> \<exists>t. ends_at (app_poll_apply A) (in_flight_app s ac) r t" by blast
qed

lemma apply_dispatched:
  "(\<exists>t. ends_at (app_poll_apply (ep_impl e)) (app_dispatch e rq body) r t) \<longleftrightarrow>
     (\<exists>cur ac. resolves (ep_impl e) (ep_action e) cursor_new
        \<lparr>ac_context = context_new rq, ac_body = Some body\<rparr> r cur ac)"
proof (cases "act_preflight (ep_impl e) (ep_action e) (context_new rq) cursor_new")
  case Panic
  then show ?thesis
    by (simp add: ends_at_unfold app_dispatch_def app_poll_apply_def resolves_def)
next
  case (Ret q)
  then obtain p s' c where q: "act_preflight (ep_impl e) (ep_action e) (context_new rq) cursor_new = Ret (p, s', c)"
    by (cases q) auto
  consider (err) er where "p = Err er" | (completed) x where "p = Ok (Completed x)" | (incomplete) "p = Ok Incomplete"
    by (metis preflight.exhaust result.exhaust)
  then show ?thesis
  proof cases
    case incomplete
    let ?ac = "\<lparr>ac_context = context_new rq, ac_body = Some body\<rparr>"
    have "app_poll_apply (ep_impl e) (app_dispatch e rq body) = app_poll_apply (ep_impl e) (in_flight_app s' ?ac)"
      using q incomplete
      by (simp add: app_poll_apply_def app_dispatch_def in_flight_app_def app_poll_in_flight_def split: run.split)
    then have "(\<exists>t. ends_at (app_poll_apply (ep_impl e)) (app_dispatch e rq body) r t) \<longleftrightarrow>
        (\<exists>t. ends_at (app_poll_apply (ep_impl e)) (in_flight_app s' ?ac) r t)"
      by (simp only: ends_at_unfold)
    with q incomplete show ?thesis by (simp add: apply_in_flight resolves_def)
  qed (use q in \<open>simp_all add: ends_at_unfold app_dispatch_def app_poll_apply_def resolves_def\<close>)
qed

text \<open>
  C20: The test runner observes the meaning of an endpoint: with enough polls it returns a result
  exactly when the action of the endpoint resolves to it on the prepared request, from a fresh
  cursor and context and the whole body.
\<close>

lemma runner_observes:
  assumes "prepare_request H r req = Ok (rq, body)"
  shows "(\<exists>n. runner_apply_raw H n r req = Ret (Some result)) \<longleftrightarrow>
    (\<exists>cur ac. resolves (ep_impl (tr_endpoint r)) (ep_action (tr_endpoint r)) cursor_new
       \<lparr>ac_context = context_new rq, ac_body = Some body\<rparr> result cur ac)"
  unfolding apply_dispatched[symmetric] ends_at_iff_drive
  by (auto simp: runner_apply_raw_def assms)

section \<open>The prepared request\<close>

lemma or_insert_get_all:
  assumes "http_laws H"
  shows "hm_get_all H (or_insert H name v m) n =
    (if n = name \<and> hm_get_all H m name = [] then [v] else hm_get_all H m n)"
  by (simp add: or_insert_def http_lawsD[OF assms] split: option.split list.split)

lemma append_values_get_all:
  "http_laws H \<Longrightarrow> hm_get_all H (fold (\<lambda>v m. hm_append H m k v) vs m) n =
     (if n = k then hm_get_all H m n @ vs else hm_get_all H m n)"
  by (induction vs arbitrary: m) (simp_all add: http_lawsD)

lemma append_all_get_all:
  assumes "http_laws H"
  shows "hm_get_all H (append_all H defaults m) n = hm_get_all H m n @ hm_get_all H defaults n"
proof -
  have "hm_get_all H (fold (\<lambda>(k, vs) m. fold (\<lambda>v m. hm_append H m k v) vs m) kvs m) n =
      hm_get_all H m n @ drained kvs n" for kvs
    by (induction kvs arbitrary: m) (auto simp: drained_def append_values_get_all[OF assms])
  then show ?thesis by (simp add: append_all_def http_lawsD[OF assms])
qed

lemma prepared_headers:
  assumes "http_laws H" and "prepare_request H r (Ok (rq, body)) = Ok (rq', body')"
  shows "body' = body \<and> rq_method rq' = rq_method rq \<and> rq_path rq' = rq_path rq \<and>
    (\<forall>n. hm_get_all H (rq_headers rq') n =
       (let given = hm_get_all H (rq_headers rq) n @
              (case tr_default_headers r of None \<Rightarrow> [] | Some defaults \<Rightarrow> hm_get_all H defaults n) in
        if given \<noteq> [] then given
        else if n = ''host'' then [''localhost'']
        else if n = ''user-agent'' then [''finchers/0.14.0-dev'']
        else []))"
  using assms(2)
  by (auto simp: prepare_request_def Let_def or_insert_get_all[OF assms(1)] append_all_get_all[OF assms(1)]
      split: option.splits)

text \<open>The body of a runner's request is read as one chunk.\<close>

lemma req_body_reads: "reads req_body_stream (into_req_body c) r \<longleftrightarrow>
    r = Ok (case c of UnitBody \<Rightarrow> [] | SliceBody b \<Rightarrow> b | VecBody b \<Rightarrow> b | StrBody s \<Rightarrow> s | StringBody s \<Rightarrow> s)"
proof -
  have poll: "bs_poll_buf req_body_stream (ReqBody x) = (Ok (Ready x), ReqBody None)"
    "bs_bytes req_body_stream y = y" for x y
    by (simp_all add: req_body_stream_def req_body_poll_buf_def)
  have empty: "reads req_body_stream (ReqBody None) r \<longleftrightarrow> r = Ok []" for r
    by (subst reads.simps) (simp add: poll)
  have "reads req_body_stream (ReqBody (Some b)) r \<longleftrightarrow> r = Ok b" for b
    by (subst reads.simps) (simp add: poll empty)
  then show ?thesis by (cases c) (simp_all add: into_req_body_def)
qed

section \<open>A concrete run\<close>

definition demo_request :: "(string \<times> string) list request" where
  "demo_request = \<lparr>rq_method = GET, rq_path = ''/'', rq_query = None, rq_headers = [(''user-agent'', ''custom'')]\<rparr>"

definition demo_runner ::
  "((nat value_action oneshot, (string \<times> string) list, unit, req_body, nat one) endpoint, (string \<times> string) list) test_runner" where
  "demo_runner = runner_default_headers list_http (\<lambda>m. hm_append list_http m ''origin'' ''o'')
     (runner_with_runtime (value_endpoint 5))"

lemma demo_prepared:
  "prepare_request list_http demo_runner (Ok (demo_request, ReqBody (Some []))) =
     Ok (demo_request\<lparr>rq_headers := [(''user-agent'', ''custom''), (''origin'', ''o''), (''host'', ''localhost'')]\<rparr>,
         ReqBody (Some []))"
  by (simp add: prepare_request_def demo_request_def demo_runner_def runner_default_headers_def
      runner_with_runtime_def append_all_def or_insert_def)

lemma runner_observes_witness:
  "\<exists>n. runner_apply_raw list_http n demo_runner (Ok (demo_request, ReqBody (Some []))) = Ret (Some (Ok (One 5)))"
  by (rule runner_observes[OF demo_prepared, THEN iffD2], intro exI)
     (simp add: demo_runner_def runner_default_headers_def runner_with_runtime_def value_endpoint_def
       apply_endpoint_def resolves_oneshot value_action_preflight_def)

lemma prepared_headers_witness:
  "hm_get_all list_http [(''user-agent'', ''custom''), (''origin'', ''o''), (''host'', ''localhost'')] ''host'' = [''localhost'']"
  using prepared_headers[OF list_http_laws demo_prepared] by (simp add: demo_request_def)

end
