(* ===== verification/Finch_Algebra.thy ===== *)
theory Finch_Algebra
  imports Finch_Syntax Finch_Ext_Map Finch_Ext_Or Finch_Service
begin

text \<open>
  A compositional account of endpoints: the meaning of an action on a request is what its
  preflight decides, and after a match the relation between the context before and after. The
  combinators are functions of the meanings of their parts, so their laws are equations.
\<close>

section \<open>Meanings\<close>

type_synonym ('h, 'j, 'bd, 'o) continuation =
  "('h, 'j, 'bd) action_context \<Rightarrow> ('o, http_error) result \<Rightarrow> ('h, 'j, 'bd) action_context \<Rightarrow> bool"

type_synonym ('h, 'j, 'bd, 'o) meaning =
  "('h, 'j) context_state \<Rightarrow> cursor \<Rightarrow> ((http_error + ('h, 'j, 'bd, 'o) continuation) \<times> cursor) option"

text \<open>A panic is no outcome.\<close>

definition meaning_of :: "('s, 'h, 'j, 'bd, 'o) action \<Rightarrow> 's \<Rightarrow> ('h, 'j, 'bd, 'o) meaning" where
  "meaning_of A s cx cur =
     (case act_preflight A s cx cur of
        Panic \<Rightarrow> None
      | Ret (Err e, _, c) \<Rightarrow> Some (Inl e, c)
      | Ret (Ok p, s', c) \<Rightarrow> Some (Inr (finishes A p s'), c))"

definition ep_meaning :: "('s, 'h, 'j, 'bd, 'o) endpoint \<Rightarrow> ('h, 'j, 'bd, 'o) meaning" where
  "ep_meaning e = meaning_of (ep_impl e) (ep_action e)"

lemma resolves_meaning:
  "resolves A s cur ac r cur' ac' \<longleftrightarrow>
     (case meaning_of A s (ac_context ac) cur of
        None \<Rightarrow> False
      | Some (Inl e, c) \<Rightarrow> cur' = c \<and> r = Err e \<and> ac' = ac
      | Some (Inr k, c) \<Rightarrow> cur' = c \<and> k ac r ac')"
  by (auto simp: resolves_def meaning_of_def split: run.splits result.splits)

lemma resolves_ep:
  "resolves (ep_impl e) (ep_action e) cur ac r cur' ac' \<longleftrightarrow>
     (case ep_meaning e (ac_context ac) cur of
        None \<Rightarrow> False
      | Some (Inl x, c) \<Rightarrow> cur' = c \<and> r = Err x \<and> ac' = ac
      | Some (Inr k, c) \<Rightarrow> cur' = c \<and> k ac r ac')"
  by (simp only: resolves_meaning ep_meaning_def)

text \<open>Endpoints with the same meaning resolve alike, and so a service answers alike.\<close>

lemma meaning_resolves:
  "ep_meaning e1 = ep_meaning e2 \<Longrightarrow>
     resolves (ep_impl e1) (ep_action e1) cur ac r cur' ac' \<longleftrightarrow> resolves (ep_impl e2) (ep_action e2) cur ac r cur' ac'"
  by (simp add: resolves_meaning ep_meaning_def)

section \<open>The combinators on meanings\<close>

definition m_and ::
  "('o1 \<Rightarrow> 'o2 \<Rightarrow> 'o) \<Rightarrow> ('h, 'j, 'bd, 'o1) meaning \<Rightarrow> ('h, 'j, 'bd, 'o2) meaning \<Rightarrow> ('h, 'j, 'bd, 'o) meaning" where
  "m_and comb M1 M2 cx cur =
     (case M1 cx cur of
        None \<Rightarrow> None
      | Some (Inl e, c) \<Rightarrow> Some (Inl e, c)
      | Some (Inr k1, c1) \<Rightarrow>
          (case M2 cx c1 of
             None \<Rightarrow> None
           | Some (Inl e, c) \<Rightarrow> Some (Inl e, c)
           | Some (Inr k2, c2) \<Rightarrow> Some (Inr (\<lambda>ac. and_sequence comb (k1 ac) k2), c2)))"

definition m_or_strict ::
  "('h, 'j, 'bd, 'o) meaning \<Rightarrow> ('h, 'j, 'bd, 'o) meaning \<Rightarrow> ('h, 'j, 'bd, 'o) meaning" where
  "m_or_strict M1 M2 cx cur =
     (case M1 cx cur of
        None \<Rightarrow> None
      | Some (Inr k, c) \<Rightarrow> Some (Inr k, c)
      | Some (Inl e1, _) \<Rightarrow>
          (case M2 cx cur of
             None \<Rightarrow> None
           | Some (Inr k, c) \<Rightarrow> Some (Inr k, c)
           | Some (Inl e2, c) \<Rightarrow> Some (Inl (NotMatched e1 e2), c)))"

definition m_map :: "('o \<Rightarrow> 'u) \<Rightarrow> ('h, 'j, 'bd, 'o) meaning \<Rightarrow> ('h, 'j, 'bd, 'u one) meaning" where
  "m_map f M cx cur =
     (case M cx cur of
        Some (Inr k, c) \<Rightarrow> Some (Inr (\<lambda>ac r ac'. \<exists>r0. k ac r0 ac' \<and> r = map_ok (\<lambda>x. One (f x)) r0), c)
      | Some (Inl e, c) \<Rightarrow> Some (Inl e, c)
      | None \<Rightarrow> None)"

lemma finishes_and:
  "finishes (and_action comb A1 A2) Incomplete (passed_state p1 s1, passed_state p2 s2) =
     (\<lambda>ac. and_sequence comb (finishes A1 p1 s1 ac) (finishes A2 p2 s2))"
  by (intro ext) (simp add: and_polls)

lemma meaning_and: "ep_meaning (ep_and comb e1 e2) = m_and comb (ep_meaning e1) (ep_meaning e2)"
  by (intro ext)
     (auto simp: ep_meaning_def ep_and_def meaning_of_def m_and_def and_preflight_start finishes_and
       split: run.splits result.splits)

lemma finishes_strict:
  "finishes (or_strict_action A1 A2) p (if p = Incomplete then StrictLeft t else StrictDone) = finishes A1 p t"
  "finishes (or_strict_action A1 A2) p (if p = Incomplete then StrictRight t' else StrictDone) = finishes A2 p t'"
  by (cases p; intro ext; simp add: or_strict_polls_left or_strict_polls_right)+

lemma meaning_or_strict: "ep_meaning (ep_or_strict e1 e2) = m_or_strict (ep_meaning e1) (ep_meaning e2)"
  by (intro ext)
     (auto simp: ep_meaning_def ep_or_strict_def meaning_of_def m_or_strict_def or_strict_preflight_start
       finishes_strict split: run.splits result.splits)

lemma finishes_wraps:
  assumes "wraps (map_ok f) g A B"
  shows "finishes B (preflight_map f p) (g s) ac r ac' \<longleftrightarrow> (\<exists>r0. finishes A p s ac r0 ac' \<and> r = map_ok f r0)"
  by (cases p) (auto simp: polls_to_wraps[OF assms])

lemma meaning_map: "ep_meaning (ep_map m) = m_map (mp_f m) (ep_meaning (mp_endpoint m))"
proof (intro ext)
  fix cx cur
  let ?f = "mp_f m" and ?A = "ep_impl (mp_endpoint m)" and ?s = "ep_action (mp_endpoint m)"
  note w = map_wraps[of ?f ?A]
  have pre: "preflight_result (map_ok f) p = map_ok (preflight_map f) p" for f and p :: "('x preflight, http_error) result"
    by (auto simp: preflight_result_def preflight_map_def split: result.splits preflight.splits)
  show "ep_meaning (ep_map m) cx cur = m_map ?f (ep_meaning (mp_endpoint m)) cx cur"
    by (auto simp: ep_meaning_def ep_map_def meaning_of_def m_map_def wraps_preflight[OF w] pre
        finishes_wraps[OF w] fun_eq_iff split: run.splits result.splits)
qed

section \<open>Laws\<close>

lemma result_ex: "(\<exists>r. P r) \<longleftrightarrow> (\<exists>x. P (Ok x)) \<or> (\<exists>e. P (Err e))"
  by (metis result.exhaust)

lemma and_sequence_Err:
  "and_sequence comb R1 R2 (Err e) ac' \<longleftrightarrow>
     R1 (Err e) ac' \<or> (\<exists>x ac1. R1 (Ok x) ac1 \<and> R2 ac1 (Err e) ac')"
  unfolding and_sequence_def by (subst result_ex) auto

lemma and_sequence_Ok:
  "and_sequence comb R1 R2 (Ok z) ac' \<longleftrightarrow>
     (\<exists>x y ac1. R1 (Ok x) ac1 \<and> R2 ac1 (Ok y) ac' \<and> z = comb x y)"
  unfolding and_sequence_def by (subst result_ex) auto

lemma and_sequence_assoc:
  assumes "\<And>x y z. comb (comb' x y) z = dcomb x (dcomb' y z)"
  shows "and_sequence comb (and_sequence comb' R1 R2) R3 r ac' \<longleftrightarrow>
    and_sequence dcomb R1 (\<lambda>ac. and_sequence dcomb' (R2 ac) R3) r ac'"
proof (cases r)
  case (Ok z)
  then show ?thesis by (simp add: and_sequence_Ok) (metis assms)
next
  case (Err e)
  then show ?thesis by (simp add: and_sequence_Err and_sequence_Ok) blast
qed

text \<open>\<open>and\<close> is associative when the way the values are combined is.\<close>

lemma ep_and_assoc:
  assumes "\<And>x y z. comb (comb' x y) z = dcomb x (dcomb' y z)"
  shows "ep_meaning (ep_and comb (ep_and comb' e1 e2) e3) = ep_meaning (ep_and dcomb e1 (ep_and dcomb' e2 e3))"
proof -
  have seq: "(\<lambda>ac. and_sequence comb (and_sequence comb' (k1 ac) k2) k3) =
      (\<lambda>ac. and_sequence dcomb (k1 ac) (\<lambda>ac. and_sequence dcomb' (k2 ac) k3))" for k1 k2 k3
    by (intro ext) (rule and_sequence_assoc, rule assms)
  show ?thesis
    unfolding meaning_and
    by (intro ext) (simp add: m_and_def seq split: prod.split option.split sum.split)
qed

text \<open>A common prefix can be taken out of a strict choice, except that a request the prefix rejects is
  rejected with the cause alone instead of twice.\<close>

lemma ep_and_or_strict:
  assumes "ep_meaning e (ac_context ac) cur = Some (Inr k, c)"
  shows "resolves (ep_impl (ep_and comb e (ep_or_strict e1 e2))) (ep_action (ep_and comb e (ep_or_strict e1 e2))) cur ac r cur' ac' \<longleftrightarrow>
    resolves (ep_impl (ep_or_strict (ep_and comb e e1) (ep_and comb e e2)))
      (ep_action (ep_or_strict (ep_and comb e e1) (ep_and comb e e2))) cur ac r cur' ac'"
proof -
  show ?thesis
    using assms
    unfolding resolves_ep meaning_and meaning_or_strict
    by (simp add: m_and_def m_or_strict_def split: prod.split option.split sum.split)
qed

text \<open>Mapping after mapping, and mapping the parts of a choice.\<close>

lemma ep_map_or_strict:
  "ep_meaning (ep_map \<lparr>mp_endpoint = ep_or_strict e1 e2, mp_f = f\<rparr>) =
     ep_meaning (ep_or_strict (ep_map \<lparr>mp_endpoint = e1, mp_f = f\<rparr>) (ep_map \<lparr>mp_endpoint = e2, mp_f = f\<rparr>))"
  unfolding meaning_map meaning_or_strict
  by (intro ext) (simp add: m_map_def m_or_strict_def meaning_map meaning_or_strict split: prod.split option.split sum.split)

text \<open>The endpoint without a condition is neutral on both sides.\<close>

lemma meaning_unit: "ep_meaning unit_endpoint = (\<lambda>cx cur. Some (Inr (\<lambda>ac r ac'. r = Ok () \<and> ac' = ac), cur))"
  by (intro ext)
     (simp add: ep_meaning_def meaning_of_def unit_endpoint_def apply_endpoint_def unit_action_preflight_def fun_eq_iff)

lemma map_ok_same [simp]: "map_ok (\<lambda>y. y) r = r"
  by (cases r) simp_all

lemma ep_and_unit:
  "ep_meaning (ep_and (\<lambda>_ y. y) unit_endpoint e) = ep_meaning e"
  "ep_meaning (ep_and (\<lambda>x _. x) e unit_endpoint) = ep_meaning e"
proof -
  have left: "(\<lambda>ac. and_sequence (\<lambda>_ y. y) (\<lambda>r ac'. r = Ok () \<and> ac' = ac) k) = k" for k
    by (intro ext) (simp add: and_sequence_def)
  have right: "(\<lambda>ac. and_sequence (\<lambda>x _. x) (k ac) (\<lambda>ac r ac'. r = Ok () \<and> ac' = ac)) = k" for k
  proof (intro ext)
    fix ac r ac'
    show "and_sequence (\<lambda>x _. x) (k ac) (\<lambda>ac r ac'. r = Ok () \<and> ac' = ac) r ac' = k ac r ac'"
      by (cases r) (simp_all add: and_sequence_Ok and_sequence_Err)
  qed
  show "ep_meaning (ep_and (\<lambda>_ y. y) unit_endpoint e) = ep_meaning e"
    unfolding meaning_and meaning_unit by (intro ext) (auto simp: m_and_def left split: prod.split option.split sum.split)
  show "ep_meaning (ep_and (\<lambda>x _. x) e unit_endpoint) = ep_meaning e"
    unfolding meaning_and meaning_unit by (intro ext) (auto simp: m_and_def right split: prod.split option.split sum.split)
qed

section \<open>What a client sees\<close>

lemma meaning_answers:
  assumes "ep_meaning e1 = ep_meaning e2"
  shows "app_answers H K into (ep_impl e1) (app_dispatch e1 rq body) resp \<longleftrightarrow>
    app_answers H K into (ep_impl e2) (app_dispatch e2 rq body) resp"
  unfolding app_answers_iff meaning_resolves[OF assms] by (rule refl)

text \<open>
  C11: Regrouping a conjunction of three endpoints changes nothing a client can see: when the two
  ways to combine the values agree, a request is answered alike by the left and by the right
  nesting.
\<close>

lemma and_regrouped_answers:
  assumes "\<And>x y z. comb (comb' x y) z = dcomb x (dcomb' y z)"
  shows "app_answers H K into (ep_impl (ep_and comb (ep_and comb' e1 e2) e3))
      (app_dispatch (ep_and comb (ep_and comb' e1 e2) e3) rq body) resp \<longleftrightarrow>
    app_answers H K into (ep_impl (ep_and dcomb e1 (ep_and dcomb' e2 e3)))
      (app_dispatch (ep_and dcomb e1 (ep_and dcomb' e2 e3)) rq body) resp"
  by (rule meaning_answers, rule ep_and_assoc, rule assms)

lemma strict_unmatched_answer:
  assumes "ep_meaning e1 (context_new rq) cursor_new = Some (Inl x1, c1)"
    and "ep_meaning e2 (context_new rq) cursor_new = Some (Inl x2, c2)"
  shows "app_answers H K into (ep_impl (ep_or_strict e1 e2)) (app_dispatch (ep_or_strict e1 e2) rq body) resp \<longleftrightarrow>
    resp = app_finish H K into (Err (NotMatched x1 x2)) (context_new rq)"
proof -
  have "meaning_of (ep_impl (ep_or_strict e1 e2)) (ep_action (ep_or_strict e1 e2)) (context_new rq) cursor_new =
      Some (Inl (NotMatched x1 x2), c2)"
    using assms unfolding ep_meaning_def[symmetric] meaning_or_strict by (simp add: m_or_strict_def)
  then show ?thesis by (simp add: app_answers_iff resolves_meaning)
qed

text \<open>
  C12: When the preflights of both sides of a strict choice fail on a request, the service answers
  it, the answer is the same however it is polled, and it has status 404 and the body not matched,
  whatever the causes of the two sides were.
\<close>

lemma unmatched_not_found:
  assumes "act_preflight (ep_impl e1) (ep_action e1) (context_new rq) cursor_new = Ret (Err x1, s1, c1)"
    and "act_preflight (ep_impl e2) (ep_action e2) (context_new rq) cursor_new = Ret (Err x2, s2, c2)"
  shows "\<exists>resp. app_answers H K into (ep_impl (ep_or_strict e1 e2)) (app_dispatch (ep_or_strict e1 e2) rq body) resp \<and>
    rs_status resp = NOT_FOUND \<and> rs_body resp = Inl ''not matched'' \<and>
    (\<forall>resp'. app_answers H K into (ep_impl (ep_or_strict e1 e2)) (app_dispatch (ep_or_strict e1 e2) rq body) resp' \<longrightarrow>
       resp' = resp)"
proof -
  have "ep_meaning e1 (context_new rq) cursor_new = Some (Inl x1, c1)"
    "ep_meaning e2 (context_new rq) cursor_new = Some (Inl x2, c2)"
    using assms by (simp_all add: ep_meaning_def meaning_of_def)
  note answer = strict_unmatched_answer[OF this, of H K into body]
  show ?thesis unfolding answer
    by (intro exI[of _ "app_finish H K into (Err (NotMatched x1 x2)) (context_new rq)"])
       (simp add: app_finish_def app_response_def)
qed

section \<open>Concrete endpoints\<close>

lemma meaning_value: "ep_meaning (value_endpoint x) = (\<lambda>cx cur. Some (Inr (\<lambda>ac r ac'. r = Ok (One x) \<and> ac' = ac), cur))"
  by (intro ext)
     (simp add: ep_meaning_def meaning_of_def value_endpoint_def apply_endpoint_def value_action_preflight_def fun_eq_iff)

definition add_ones :: "nat one \<Rightarrow> nat one \<Rightarrow> nat one" where
  "add_ones x y = (case x of One a \<Rightarrow> (case y of One b \<Rightarrow> One (a + b)))"

definition x_request :: "(string \<times> string) list request" where
  "x_request = \<lparr>rq_method = GET, rq_path = ''/x'', rq_query = None, rq_headers = []\<rparr>"

definition ones_response :: "nat one \<Rightarrow> (string \<times> string) list request \<Rightarrow> ((string \<times> string) list, nat) response" where
  "ones_response x rq = response_new list_http (case x of One n \<Rightarrow> n)"

definition one_endpoint :: "nat \<Rightarrow> (nat value_action oneshot, (string \<times> string) list, string list, unit, nat one) endpoint" where
  "one_endpoint n = value_endpoint n"

lemma and_regrouped_answers_witness:
  "app_answers list_http rejecting_cookies ones_response
     (ep_impl (ep_and add_ones (one_endpoint 1) (ep_and add_ones (one_endpoint 2) (one_endpoint 3))))
     (app_dispatch (ep_and add_ones (one_endpoint 1) (ep_and add_ones (one_endpoint 2) (one_endpoint 3)))
        x_request ())
     (app_finish list_http rejecting_cookies ones_response (Ok (One 6)) (context_new x_request))"
proof -
  let ?e = "ep_and add_ones (ep_and add_ones (one_endpoint 1) (one_endpoint 2)) (one_endpoint 3)"
  let ?ac = "\<lparr>ac_context = context_new x_request, ac_body = Some ()\<rparr>"
  have run: "resolves (ep_impl ?e) (ep_action ?e) cursor_new ?ac (Ok (One 6)) cursor_new ?ac"
    unfolding resolves_ep meaning_and one_endpoint_def
    by (simp add: m_and_def meaning_value and_sequence_Ok add_ones_def)
  have "app_answers list_http rejecting_cookies ones_response (ep_impl ?e) (app_dispatch ?e x_request ())
      (app_finish list_http rejecting_cookies ones_response (Ok (One 6)) (context_new x_request))"
    unfolding app_answers_iff by (rule exI, rule exI, rule exI, rule conjI, rule run) simp
  moreover have "add_ones (add_ones x y) z = add_ones x (add_ones y z)" for x y z
    by (cases x; cases y; cases z) (simp add: add_ones_def)
  ultimately show ?thesis
    by (subst (asm) and_regrouped_answers[where comb = add_ones and comb' = add_ones and dcomb = add_ones and dcomb' = add_ones])
qed

lemma preflight_eos_x:
  "act_preflight (ep_impl eos_endpoint) (ep_action eos_endpoint) (context_new x_request) cursor_new =
     Ret (Err (not_found ''not matched''), Oneshot None, \<lparr>cur_pos = 2, cur_popped = 1\<rparr>)"
  by (simp add: eos_endpoint_def match_eos_preflight_def next_segment_def x_request_def context_new_def cursor_new_def)

lemma unmatched_not_found_witness:
  "\<exists>resp. app_answers list_http rejecting_cookies (\<lambda>(u :: unit) rq. response_new list_http u)
      (ep_impl (ep_or_strict eos_endpoint eos_endpoint)) (app_dispatch (ep_or_strict eos_endpoint eos_endpoint) x_request ()) resp \<and>
    rs_status resp = NOT_FOUND"
  using unmatched_not_found[OF preflight_eos_x preflight_eos_x, of list_http rejecting_cookies
      "\<lambda>(u :: unit) rq. response_new list_http u" "()"]
  by blast

end
