(* ===== verification/Finch_Endpoint_Ext.thy ===== *)
theory Finch_Endpoint_Ext
  imports Finch_Ext_And Finch_Ext_Map Finch_Ext_Then Finch_Ext_Or Finch_Verbs Finch_Syntax
begin

text \<open>
  The methods of \<open>EndpointExt\<close> (\<open>src/endpoint/ext.rs\<close>) and the methods that box an endpoint
  (\<open>src/endpoint.rs\<close>). Routes are written with them. The combination of the two outputs of a
  conjunction, and the class of futures of a closure, are determined by types in the code and
  arguments here.
\<close>

definition ext_and where
  "ext_and comb self other = ep_and comb self other"

definition ext_or where
  "ext_or self other = ep_or self other"

definition ext_or_strict where
  "ext_or_strict self other = ep_or_strict self other"

definition ext_map where
  "ext_map self f = ep_map \<lparr>mp_endpoint = self, mp_f = f\<rparr>"

definition ext_and_then where
  "ext_and_then fp into self f = ep_and_then fp into \<lparr>ate_endpoint = self, ate_f = f\<rparr>"

definition ext_map_err where
  "ext_map_err into self f = ep_map_err into \<lparr>mep_endpoint = self, mep_f = f\<rparr>"

definition ext_recover where
  "ext_recover fp into self f = ep_recover fp into \<lparr>re_endpoint = self, re_f = f\<rparr>"

definition ext_boxed where
  "ext_boxed self = ep_boxed (EndpointObj self)"

definition ext_boxed_local where
  "ext_boxed_local self = ep_boxed_local (LocalEndpointObj self)"

lemmas ext_defs = ext_and_def ext_or_def ext_or_strict_def ext_map_def ext_and_then_def ext_map_err_def
  ext_recover_def ext_boxed_def ext_boxed_local_def

text \<open>Boxing changes nothing: a boxed endpoint resolves as the endpoint it holds does.\<close>

lemma ext_boxed_resolves:
  "resolves (ep_impl (ext_boxed e)) (ep_action (ext_boxed e)) cur ac r cur' ac' \<longleftrightarrow>
     resolves (ep_impl e) (ep_action e) cur ac r cur' ac'"
  by (simp add: ext_boxed_def ep_boxed_def resolves_obj)

lemma ext_boxed_local_resolves:
  "resolves (ep_impl (ext_boxed_local e)) (ep_action (ext_boxed_local e)) cur ac r cur' ac' \<longleftrightarrow>
     resolves (ep_impl e) (ep_action e) cur ac r cur' ac'"
  by (simp add: ext_boxed_local_def ep_boxed_local_def resolves_local_obj)

section \<open>Pairs of endpoints\<close>

text \<open>
  Two endpoints that keep the contract: so do their conjunction and their choices, whatever they
  are made of.
\<close>

locale endpoint_pair = left: endpoint_action A1 s1 L1 + right: endpoint_action A2 s2 L2
  for A1 :: "('f1, 'h, 'j, 'bd, 'o1) action" and s1 and L1
    and A2 :: "('f2, 'h, 'j, 'bd, 'o2) action" and s2 and L2

sublocale endpoint_pair \<subseteq> both: endpoint_action "and_action comb A1 A2" "and_start s1 s2" "and_live L1 L2" for comb
  by (rule and_keeps_contract[OF left.endpoint_action_axioms right.endpoint_action_axioms])

locale endpoint_choice = endpoint_pair A1 s1 L1 A2 s2 L2
  for A1 :: "('f1, 'h, 'j, 'bd, 'o) action" and s1 and L1
    and A2 :: "('f2, 'h, 'j, 'bd, 'o) action" and s2 and L2

sublocale endpoint_choice \<subseteq> strict: endpoint_action "or_strict_action A1 A2" "StrictInit s1 s2" "or_strict_live L1 L2"
  by (rule or_strict_endpoint_action[OF left.endpoint_action_axioms right.endpoint_action_axioms])

text \<open>A method in front of a path, and two methods in turn.\<close>

interpretation verb_and_verb: endpoint_choice
  "ep_impl (verb_endpoint m)" "ep_action (verb_endpoint m)" "\<lambda>_. False"
  "ep_impl (verb_endpoint n)" "ep_action (verb_endpoint n)" "\<lambda>_. False" for m n
  by unfold_locales

interpretation verb_path: endpoint_pair
  "ep_impl (verb_endpoint m)" "ep_action (verb_endpoint m)" "\<lambda>_. False"
  "ep_impl (path_endpoint conv cs)" "ep_action (path_endpoint conv cs)" "\<lambda>_. False" for m conv cs
  by unfold_locales

text \<open>The endpoint of \<open>path!(@verb "\<dots>")\<close> keeps the contract.\<close>

lemma verb_path_endpoint_action:
  "endpoint_action (ep_impl (verb_path_endpoint m conv cs)) (ep_action (verb_path_endpoint m conv cs))
     (and_live (\<lambda>_. False) (\<lambda>_. False))"
  unfolding verb_path_endpoint_def ep_and_def endpoint.select_convs by (rule verb_path.both.endpoint_action_axioms)

end
