(* ===== verification/Finch_Macro.thy ===== *)
theory Finch_Macro
  imports Finch_Syntax
begin

text \<open>
  The derive macro \<open>ExtractPath\<close> of \<open>finchers-macros/src/lib.rs\<close> around \<open>parse_path\<close>: it looks up the
  path attribute, and generates the bounds, the output type and the body of \<open>extract\<close>. The parser
  of Rust syntax is a parameter.
\<close>

section \<open>The attribute\<close>

text \<open>What \<open>parse_meta\<close> makes of an attribute: a name with a string, with another literal, another
  kind of meta item, or a syntax error.\<close>

datatype attr_meta = NameValueStr string | NameValueOther | OtherMeta | MetaError string

record attribute =
  at_ident :: string
  at_meta :: attr_meta

datatype derive_error =
    NotStringLiteral | NotPathAttribute | AttributeSyntax string | MissingAttribute | PathError path_error

text \<open>The loop over the attributes; a later path attribute replaces an earlier one.\<close>

fun path_attribute :: "attribute list \<Rightarrow> string option \<Rightarrow> (string option, derive_error) result" where
  "path_attribute [] path = Ok path"
| "path_attribute (attr # attrs) path =
     (if at_ident attr = ''path'' then
        (case at_meta attr of
           NameValueStr lit \<Rightarrow> path_attribute attrs (Some lit)
         | NameValueOther \<Rightarrow> Err NotStringLiteral
         | OtherMeta \<Rightarrow> Err NotPathAttribute
         | MetaError err \<Rightarrow> Err (AttributeSyntax err))
      else path_attribute attrs path)"

section \<open>The generated implementation\<close>

fun output_types :: "'ty component list \<Rightarrow> 'ty list" where
  "output_types [] = []"
| "output_types (c # cs) =
     (case c of
        Static _ \<Rightarrow> output_types cs
      | SingleParam ty \<Rightarrow> ty # output_types cs
      | CatchAllParam ty \<Rightarrow> ty # output_types cs)"

text \<open>Every type of a parameter is bound by \<open>FromEncodedStr\<close> in the where clause.\<close>

definition where_predicates :: "'ty component list \<Rightarrow> 'ty list" where
  "where_predicates cs =
     concat (map (\<lambda>c. case c of Static _ \<Rightarrow> [] | SingleParam ty \<Rightarrow> [ty] | CatchAllParam ty \<Rightarrow> [ty]) cs)"

text \<open>\<open>dv_where\<close> are the predicates the macro adds; those of the item itself, which are copied, are left
  out. \<open>dv_extracts\<close> are the components the body of \<open>extract\<close> goes through, as \<open>extract_path\<close> does.\<close>

record 'ty derived =
  dv_where :: "'ty list"
  dv_output :: "'ty list"
  dv_extracts :: "'ty component list"

definition derive_extract_path ::
  "(string \<Rightarrow> ('ty, string) result) \<Rightarrow> attribute list \<Rightarrow> ('ty derived, derive_error) result" where
  "derive_extract_path parse_type attrs =
     (case path_attribute attrs None of
        Err e \<Rightarrow> Err e
      | Ok None \<Rightarrow> Err MissingAttribute
      | Ok (Some path) \<Rightarrow>
          (case parse_path parse_type path of
             Err e \<Rightarrow> Err (PathError e)
           | Ok components \<Rightarrow>
               Ok \<lparr>dv_where = where_predicates components, dv_output = output_types components,
                   dv_extracts = components\<rparr>))"

section \<open>The last attribute counts\<close>

lemma path_attribute_literals:
  assumes "\<And>a. a \<in> set attrs \<Longrightarrow> at_ident a = ''path'' \<Longrightarrow> \<exists>lit. at_meta a = NameValueStr lit"
  shows "path_attribute attrs path =
    Ok (case filter (\<lambda>a. at_ident a = ''path'') attrs of
          [] \<Rightarrow> path
        | as \<Rightarrow> (case at_meta (last as) of NameValueStr lit \<Rightarrow> Some lit | _ \<Rightarrow> None))"
  using assms
proof (induction attrs arbitrary: path)
  case (Cons a attrs)
  show ?case
  proof (cases "at_ident a = ''path''")
    case True
    with Cons.prems obtain lit where "at_meta a = NameValueStr lit" by auto
    with True Cons show ?thesis by (auto split: list.split)
  qed (use Cons in simp)
qed simp

lemma path_attribute_Err:
  "path_attribute attrs path = Err e \<Longrightarrow>
     \<exists>a \<in> set attrs. at_ident a = ''path'' \<and> (\<forall>lit. at_meta a \<noteq> NameValueStr lit)"
  by (induction attrs path rule: path_attribute.induct) (auto split: if_splits attr_meta.splits)

section \<open>The generated function has the generated type\<close>

lemma where_output: "where_predicates cs = output_types cs"
  by (induction cs) (auto simp: where_predicates_def split: component.split)

definition extracted :: "('ty \<Rightarrow> 'v from_encoded_str) \<Rightarrow> 'ty \<Rightarrow> 'v \<Rightarrow> bool" where
  "extracted conv ty v \<longleftrightarrow> (\<exists>s. conv ty (EncodedStr s) = Ok v)"

lemma extractedI: "conv ty (EncodedStr s) = Ok v \<Longrightarrow> extracted conv ty v"
  by (auto simp: extracted_def)

lemma extract_component_typed:
  assumes "extract_component conv c path cur = Ret (Ok vs, cur')"
  shows "list_all2 (extracted conv) (output_types [c]) vs"
  using assms
  by (cases c)
     (auto simp: extract_component_def Let_def map_ok_def map_err_def intro: extractedI
       split: run.splits option.splits if_splits result.splits)

lemma extract_path_typed:
  "extract_path conv cs path cur = Ret (Ok vs, cur') \<Longrightarrow> list_all2 (extracted conv) (output_types cs) vs"
proof (induction cs arbitrary: cur vs)
  case (Cons c cs)
  then obtain us cur1 ws where
    c: "extract_component conv c path cur = Ret (Ok us, cur1)" and
    cs: "extract_path conv cs path cur1 = Ret (Ok ws, cur')" and vs: "vs = us @ ws"
    by (auto simp: map_ok_def map_run_def split: run.splits prod.splits result.splits)
  have "output_types (c # cs) = output_types [c] @ output_types cs" by (cases c) simp_all
  with extract_component_typed[OF c] Cons.IH[OF cs] vs show ?case by (simp add: list_all2_appendI)
qed simp

text \<open>
  C16: What the derive macro generates is well typed: whenever the generated function succeeds, its
  values are as many as the types of the output it declares, each of them was read by the
  conversion of its type, and each of these types is bound in the where clause.
\<close>

lemma derived_extract_typed:
  assumes "derive_extract_path parse_type attrs = Ok d"
    and "extract_path conv (dv_extracts d) path cur = Ret (Ok vs, cur')"
  shows "list_all2 (extracted conv) (dv_output d) vs \<and> dv_where d = dv_output d"
proof -
  from assms(1) have "dv_output d = output_types (dv_extracts d)" "dv_where d = where_predicates (dv_extracts d)"
    by (auto simp: derive_extract_path_def split: result.splits option.splits)
  with extract_path_typed[OF assms(2)] show ?thesis by (simp add: where_output)
qed

lemma derived_extract_typed_witness:
  "\<exists>d. derive_extract_path number_type [\<lparr>at_ident = ''path'', at_meta = NameValueStr ''/api/<u32>''\<rparr>] = Ok d \<and>
     list_all2 (extracted (\<lambda>_. from_encoded_unsigned percent_ref 32)) (dv_output d) [7]"
proof -
  let ?d = "\<lparr>dv_where = [()], dv_output = [()], dv_extracts = [Static ''api'', SingleParam ()]\<rparr>"
  have d: "derive_extract_path number_type [\<lparr>at_ident = ''path'', at_meta = NameValueStr ''/api/<u32>''\<rparr>] = Ok ?d"
    by code_simp
  have run: "extract_path (\<lambda>_. from_encoded_unsigned percent_ref 32) (dv_extracts ?d) ''/api/7'' cursor_new =
      Ret (Ok [7], \<lparr>cur_pos = 6, cur_popped = 2\<rparr>)"
    by code_simp
  from derived_extract_typed[OF d run] d show ?thesis by blast
qed

end
