(* ===== verification/Finch_Routes.thy ===== *)
theory Finch_Routes
  imports Finch_Algebra Finch_Endpoint_Ext Finch_Macro
begin

text \<open>
  A route from end to end: a verb and a path literal, the closure of \<open>map\<close>, and the service. The
  path of a request is printed from the components of the route and the values of its parameters.
\<close>

section \<open>Links\<close>

fun link_segments :: "('ty \<Rightarrow> 'v \<Rightarrow> string) \<Rightarrow> 'ty component list \<Rightarrow> 'v list \<Rightarrow> string list" where
  "link_segments sh (Static t # cs) vs = t # link_segments sh cs vs"
| "link_segments sh (SingleParam ty # cs) (v # vs) = sh ty v # link_segments sh cs vs"
| "link_segments sh cs vs = []"

definition link_path :: "('ty \<Rightarrow> 'v \<Rightarrow> string) \<Rightarrow> 'ty component list \<Rightarrow> 'v list \<Rightarrow> string" where
  "link_path sh cs vs =
     (case link_segments sh cs vs of
        [] \<Rightarrow> ''/''
      | segs \<Rightarrow> concat (map (\<lambda>s. CHR ''/'' # s) segs))"

text \<open>A segment that the cursor returns whole.\<close>

definition plain_segment :: "string \<Rightarrow> bool" where
  "plain_segment s \<longleftrightarrow> s \<noteq> [] \<and> CHR ''/'' \<notin> set s"

text \<open>The values fit the route: printed, each is read back from its segment.\<close>

fun link_ok :: "('ty \<Rightarrow> 'v from_encoded_str) \<Rightarrow> ('ty \<Rightarrow> 'v \<Rightarrow> string) \<Rightarrow> 'ty component list \<Rightarrow> 'v list \<Rightarrow> bool" where
  "link_ok conv sh [] [] \<longleftrightarrow> True"
| "link_ok conv sh (Static t # cs) vs \<longleftrightarrow> plain_segment t \<and> link_ok conv sh cs vs"
| "link_ok conv sh (SingleParam ty # cs) (v # vs) \<longleftrightarrow>
     plain_segment (sh ty v) \<and> conv ty (EncodedStr (sh ty v)) = Ok v \<and> link_ok conv sh cs vs"
| "link_ok conv sh cs vs \<longleftrightarrow> False"

lemma link_ok_segments:
  "link_ok conv sh cs vs \<Longrightarrow> list_all plain_segment (link_segments sh cs vs)"
  by (induction conv sh cs vs rule: link_ok.induct) simp_all

lemma link_ok_single: "link_ok conv sh cs vs \<Longrightarrow> list_all (\<lambda>c. \<not> is_catch_all c) cs"
  by (induction conv sh cs vs rule: link_ok.induct) simp_all

lemma link_ok_match: "link_ok conv sh cs vs \<Longrightarrow> match_segments conv cs (link_segments sh cs vs) = Some (vs, [])"
  by (induction conv sh cs vs rule: link_ok.induct) simp_all

lemma segments_of_joined:
  "list_all plain_segment (s # ss) \<Longrightarrow> segments_of (s @ concat (map (\<lambda>s. CHR ''/'' # s) ss)) = s # ss"
proof (induction ss arbitrary: s)
  case Nil
  then show ?case by (simp add: plain_segment_def segments_of_last)
next
  case (Cons t ts)
  then show ?case by (simp add: plain_segment_def segments_of_Cons)
qed

lemma link_path_segments:
  assumes "link_ok conv sh cs vs"
  shows "link_path sh cs vs \<noteq> []" and "pending (link_path sh cs vs) cursor_new = link_segments sh cs vs"
proof -
  show "link_path sh cs vs \<noteq> []" by (simp add: link_path_def split: list.split)
  show "pending (link_path sh cs vs) cursor_new = link_segments sh cs vs"
  proof (cases "link_segments sh cs vs")
    case (Cons s ss)
    with link_ok_segments[OF assms] segments_of_joined[of s ss] show ?thesis
      by (simp add: pending_def cursor_new_def link_path_def)
  qed (simp add: pending_def cursor_new_def link_path_def)
qed

text \<open>A link leads to its route: the generated code returns the values it was made of.\<close>

lemma link_extracted:
  assumes "link_ok conv sh cs vs"
  shows "\<exists>cur. extract_path conv cs (link_path sh cs vs) cursor_new = Ret (Ok vs, cur)"
proof -
  from extract_path_agrees[OF cursor_new_balanced link_ok_single[OF assms], of "link_path sh cs vs" conv]
    link_path_segments[OF assms] link_ok_match[OF assms] show ?thesis by auto
qed

section \<open>What the service answers on a link\<close>

lemma meaning_verb:
  "ep_meaning (verb_endpoint m) cx cur =
     Some (if rq_method (cx_request cx) = m then Inr (\<lambda>ac r ac'. r = Ok () \<and> ac' = ac)
           else Inl (method_not_allowed ''invalid method''), cur)"
  by (simp add: ep_meaning_def meaning_of_def verb_endpoint_def match_verb_preflight_def fun_eq_iff)

lemma meaning_path:
  assumes "extract_path conv cs (cx_path cx) cur = Ret (Ok vs, cur')"
  shows "ep_meaning (path_endpoint conv cs) cx cur = Some (Inr (\<lambda>ac r ac'. r = Ok vs \<and> ac' = ac), cur')"
  using assms by (simp add: ep_meaning_def meaning_of_def path_endpoint_def path_preflight_def fun_eq_iff)

text \<open>\<open>path!(@verb "\<dots>").map(f)\<close>.\<close>

definition route where
  "route m conv cs f = ext_map (verb_path_endpoint m conv cs) f"

lemma meaning_route:
  assumes "extract_path conv cs (cx_path cx) cur = Ret (Ok vs, cur')"
  shows "ep_meaning (route m conv cs f) cx cur =
    (if rq_method (cx_request cx) = m then Some (Inr (\<lambda>ac r ac'. r = Ok (One (f vs)) \<and> ac' = ac), cur')
     else Some (Inl (method_not_allowed ''invalid method''), cur))"
  by (simp add: route_def ext_map_def meaning_map verb_path_endpoint_def meaning_and m_map_def m_and_def
      meaning_verb meaning_path[OF assms] and_sequence_def fun_eq_iff conj_commute)

text \<open>
  C3: A route answers its links: when the path of a request is printed from the components of the
  route and from values that fit it, the service answers with the result of the closure on exactly
  these values, and with status 405 when the method is another one.
\<close>

lemma route_answers_link:
  assumes "link_ok conv sh cs vs" and "rq_path rq = link_path sh cs vs"
  shows "app_answers H K into (ep_impl (route m conv cs f)) (app_dispatch (route m conv cs f) rq body) resp \<longleftrightarrow>
    resp = app_finish H K into
      (if rq_method rq = m then Ok (One (f vs)) else Err (method_not_allowed ''invalid method'')) (context_new rq)"
proof -
  from link_extracted[OF assms(1)] obtain cur where
    "extract_path conv cs (rq_path rq) cursor_new = Ret (Ok vs, cur)" unfolding assms(2) ..
  then have extracted: "extract_path conv cs (cx_path (context_new rq)) cursor_new = Ret (Ok vs, cur)"
    by (simp add: context_new_def)
  show ?thesis
    by (simp add: app_answers_iff resolves_ep meaning_route[OF extracted]) (simp add: context_new_def)
qed

text \<open>\<open>GET /posts/<u32>\<close>.\<close>

definition posts_route ::
  "(((match_verb_action oneshot, unit, unit path_action oneshot, int list) and_state, int list \<Rightarrow> nat) map_act,
    (string \<times> string) list, string list, unit, nat one) endpoint" where
  "posts_route = route GET (\<lambda>_. from_encoded_unsigned percent_ref 32) [Static ''posts'', SingleParam ()] (\<lambda>vs. nat (sum_list vs))"

definition posts_request :: "(string \<times> string) list request" where
  "posts_request = \<lparr>rq_method = GET, rq_path = ''/posts/42'', rq_query = None, rq_headers = []\<rparr>"

lemma route_answers_link_witness:
  "app_answers list_http rejecting_cookies ones_response (ep_impl posts_route) (app_dispatch posts_route posts_request ())
     (app_finish list_http rejecting_cookies ones_response (Ok (One 42)) (context_new posts_request))"
proof -
  let ?conv = "\<lambda>_ :: unit. from_encoded_unsigned percent_ref 32"
  let ?sh = "\<lambda>(_ :: unit) v. show_nat (nat v)"
  have ok: "link_ok ?conv ?sh [Static ''posts'', SingleParam ()] [42]" by code_simp
  have path: "rq_path posts_request = link_path ?sh [Static ''posts'', SingleParam ()] [42]" by code_simp
  show ?thesis
    unfolding posts_route_def
    by (subst route_answers_link[OF ok path]) (simp add: posts_request_def)
qed

end
