(* ===== verification/Finch_Conformance.thy ===== *)
theory Finch_Conformance
  imports Finch_Test_Runner Finch_Header Finch_Verbs Finch_Syntax Finch_Endpoint_Ext
begin

text \<open>
  The repository's own tests, run on the model by the kernel: \<open>tests/endpoint/\<close>,
  \<open>tests/endpoints/\<close>, and the unit tests of \<open>src/action.rs\<close> and \<open>src/endpoint/syntax/verb.rs\<close>.
  Every fact has the name of a test function and states what the test asserts. The
  third-party crates are the instances the library theories define for them.
\<close>

section \<open>The runner of the tests\<close>

text \<open>A poll is enough: the endpoints of the tests are ready or fail at their first poll.\<close>

definition run_request ::
  "('s, (string \<times> string) list, string list, req_body, 'o) endpoint \<Rightarrow> (string \<times> string) list request \<Rightarrow> req_content
    \<Rightarrow> ('o, http_error) result option run" where
  "run_request e rq body =
     runner_apply_raw list_http 1 (runner_with_runtime e) (Ok (rq, into_req_body body))"

definition run_get ::
  "('s, (string \<times> string) list, string list, req_body, 'o) endpoint \<Rightarrow> string
    \<Rightarrow> ('o, http_error) result option run" where
  "run_get e path =
     run_request e \<lparr>rq_method = GET, rq_path = path, rq_query = None, rq_headers = []\<rparr> UnitBody"

definition run_query ::
  "('s, (string \<times> string) list, string list, req_body, 'o) endpoint \<Rightarrow> string option
    \<Rightarrow> ('o, http_error) result option run" where
  "run_query e q =
     run_request e \<lparr>rq_method = GET, rq_path = ''/'', rq_query = q, rq_headers = []\<rparr> UnitBody"

definition is_error :: "('o, http_error) result option run \<Rightarrow> bool" where
  "is_error r = (case r of Ret (Some (Err _)) \<Rightarrow> True | _ \<Rightarrow> False)"

section \<open>Combinators\<close>

text \<open>The combination of tuples that the type of a conjunction determines.\<close>

definition both :: "'a one \<Rightarrow> 'b one \<Rightarrow> 'a \<times> 'b" where
  "both = combine hlist1 hlist1 (combine_hcons combine_hnil) tuple2"

definition unit_right :: "'a one \<Rightarrow> unit \<Rightarrow> 'a one" where
  "unit_right = combine hlist1 hlist0 (combine_hcons combine_hnil) tuple1"

definition unit_left :: "unit \<Rightarrow> 'a \<Rightarrow> 'a" where
  "unit_left u x = x"

definition one_and_two :: "'a one \<Rightarrow> 'b \<times> 'c \<Rightarrow> 'a \<times> 'b \<times> 'c" where
  "one_and_two = combine hlist1 hlist2 (combine_hcons combine_hnil) tuple3"

lemma test_and_all_ok:
  "run_get (ext_and both (value_endpoint ''Hello'') (value_endpoint ''world'')) ''/'' =
     Ret (Some (Ok (''Hello'', ''world'')))"
  by code_simp

lemma test_and_flatten:
  "run_get
     (ext_and one_and_two (ext_and unit_right (value_endpoint ''Hello'') unit_endpoint)
        (ext_and both (value_endpoint ''world'') (value_endpoint '':)''))) ''/'' =
     Ret (Some (Ok (''Hello'', ''world'', '':)'')))"
  by code_simp

lemma test_map:
  "run_get (ext_map (value_endpoint ''Foo'') (func_call1 (\<lambda>_. ''Bar''))) ''/'' =
     Ret (Some (Ok (One ''Bar'')))"
  by code_simp

lemma test_and_then_1:
  "run_get (ext_and_then result_future (\<lambda>e. e)
     (value_endpoint ''Foo'') (func_call1 (\<lambda>_. Ok ''Bar''))) ''/'' =
     Ret (Some (Ok (One ''Bar'')))"
  by code_simp

lemma test_and_then_2:
  "is_error (run_get (ext_and_then result_future (\<lambda>e. e)
     (value_endpoint ''Foo'') (func_call1 (\<lambda>_. Err (bad_request ''Bar'') :: (unit, http_error) result))) ''/'')"
  by code_simp

section \<open>Segments and parameters\<close>

text \<open>\<open>syntax::segment(s)\<close> for a string that is not empty.\<close>

definition seg :: "string \<Rightarrow> (match_segment_action oneshot, (string \<times> string) list, string list, req_body, unit) endpoint" where
  "seg s = (case segment percent_ref s of Ret m \<Rightarrow> segment_endpoint m | Panic \<Rightarrow> segment_endpoint (MatchSegment []))"

lemma test_match_single_segment:
  "(run_get (seg ''foo'') ''/foo'' = Ret (Some (Ok ()))) \<and>
   is_error (run_get (seg ''foo'') ''/bar'')"
  by code_simp

definition foo_bar ::
  "((match_segment_action oneshot, unit, match_segment_action oneshot, unit) and_state,
    (string \<times> string) list, string list, req_body, unit) endpoint" where
  "foo_bar = ext_and unit_left (seg ''foo'') (seg ''bar'')"

lemma test_match_multi_segments:
  "(run_get foo_bar ''/foo/bar'' = Ret (Some (Ok ()))) \<and>
   (run_get foo_bar ''/foo/bar/'' = Ret (Some (Ok ()))) \<and>
   (run_get foo_bar ''/foo/bar/baz'' = Ret (Some (Ok ()))) \<and>
   is_error (run_get foo_bar ''/foo'') \<and>
   is_error (run_get foo_bar ''/foo/baz'')"
  by code_simp

lemma test_match_encoded_path:
  "(run_get (seg ''foo/bar'') ''/foo%2Fbar'' = Ret (Some (Ok ()))) \<and>
   is_error (run_get (seg ''foo/bar'') ''/foo/bar'')"
  by code_simp

lemma test_extract_integer:
  "(run_get (param_endpoint (from_encoded_signed percent_ref 32)) ''/42'' = Ret (Some (Ok (One 42)))) \<and>
   is_error (run_get (param_endpoint (from_encoded_signed percent_ref 32)) ''/foo'')"
  by code_simp

lemma test_extract_strings:
  "run_get (ext_and unit_left (seg ''foo'') (remains_endpoint (from_encoded_string percent_ref))) ''/foo/bar/baz/'' =
     Ret (Some (Ok (One ''bar/baz/'')))"
  by code_simp

lemma test_boxed:
  "run_get (ext_boxed ((ext_and unit_left (verb_endpoint GET) (seg ''foo'')))) ''/foo'' = Ret (Some (Ok ()))"
  by code_simp

lemma test_boxed_local:
  "run_get (ext_boxed_local ((ext_and unit_left (verb_endpoint GET) (seg ''foo'')))) ''/foo'' =
     Ret (Some (Ok ()))"
  by code_simp

section \<open>The path macro\<close>

text \<open>The types of the tests; the values of a path are the union of theirs.\<close>

datatype path_ty = I32 | U32 | Str | PathBuf_ty
datatype path_val = IntVal int | StrVal string

definition parse_ty :: "string \<Rightarrow> (path_ty, string) result" where
  "parse_ty s =
     (if s = ''i32'' then Ok I32 else if s = ''u32'' then Ok U32 else if s = ''String'' then Ok Str
      else if s = ''std::path::PathBuf'' then Ok PathBuf_ty else Err ''unknown type'')"

definition conv_ty :: "path_ty \<Rightarrow> path_val from_encoded_str" where
  "conv_ty t s =
     (case t of
        I32 \<Rightarrow> map_ok IntVal (from_encoded_signed percent_ref 32 s)
      | U32 \<Rightarrow> map_ok IntVal (from_encoded_unsigned percent_ref 32 s)
      | Str \<Rightarrow> map_ok StrVal (from_encoded_string percent_ref s)
      | PathBuf_ty \<Rightarrow> map_ok (\<lambda>b. case b of PathBuf p \<Rightarrow> StrVal p) (from_encoded_path_buf percent_ref s))"

lemma compile_test_path_1: "parse_path parse_ty ''/'' = Ok []"
  by code_simp

lemma compile_test_path_2: "parse_path parse_ty ''/foo'' = Ok [Static ''foo'']"
  by code_simp

lemma compile_test_path_3: "parse_path parse_ty ''/foo/'' = Ok [Static ''foo'']"
  by code_simp

lemma compile_test_path_4: "parse_path parse_ty ''/foo/<i32>'' = Ok [Static ''foo'', SingleParam I32]"
  by code_simp

lemma compile_test_path_5: "parse_path parse_ty ''/foo/<..std::path::PathBuf>'' = Ok [Static ''foo'', CatchAllParam PathBuf_ty]"
  by code_simp

lemma compile_test_path_6: "parse_path parse_ty ''/foo/<String>/bar'' = Ok [Static ''foo'', SingleParam Str, Static ''bar'']"
  by code_simp

lemma compile_test_path_7: "parse_path parse_ty ''/foo/<String>/<i32>/bar/'' = Ok [Static ''foo'', SingleParam Str, SingleParam I32, Static ''bar'']"
  by code_simp

lemma compile_test_path_8: "parse_path parse_ty ''/<i32>/'' = Ok [SingleParam I32]"
  by code_simp

lemma compile_test_path_9: "parse_path parse_ty ''/posts/<i32>/repo/<..String>'' = Ok [Static ''posts'', SingleParam I32, Static ''repo'', CatchAllParam Str]"
  by code_simp

lemma test_extract_path_statics:
  "(run_get (path_endpoint conv_ty [Static ''foo'', Static ''bar'']) ''/foo/bar'' = Ret (Some (Ok []))) \<and>
   is_error (run_get (path_endpoint conv_ty [Static ''foo'', Static ''bar'']) ''/'')"
  by code_simp

lemma test_extract_path_single_param:
  "(run_get (path_endpoint conv_ty [Static ''foo'', SingleParam I32]) ''/foo/42'' = Ret (Some (Ok [IntVal 42]))) \<and>
   is_error (run_get (path_endpoint conv_ty [Static ''foo'', SingleParam I32]) ''/'') \<and>
   is_error (run_get (path_endpoint conv_ty [Static ''foo'', SingleParam I32]) ''/foo/bar'')"
  by code_simp

lemma test_extract_path_catch_all_param:
  "(run_get (path_endpoint conv_ty [Static ''foo'', CatchAllParam Str]) ''/foo/'' = Ret (Some (Ok [StrVal []]))) \<and>
   (run_get (path_endpoint conv_ty [Static ''foo'', CatchAllParam Str]) ''/foo/bar/baz'' = Ret (Some (Ok [StrVal ''bar/baz'']))) \<and>
   is_error (run_get (path_endpoint conv_ty [Static ''foo'', CatchAllParam Str]) ''/'')"
  by code_simp

definition recover_test ::
  "(((((match_verb_action oneshot, unit, path_ty path_action oneshot, path_val list) and_state, path_val list \<Rightarrow> path_val option) map_act),
     http_error \<Rightarrow> (path_val option, http_error) result, (path_val option, http_error) result) recover_act,
    (string \<times> string) list, string list, req_body, path_val option one) endpoint" where
  "recover_test =
     ext_recover result_future (\<lambda>e. e)
       (ext_map (verb_path_endpoint GET conv_ty [Static ''foo'', Static ''bar'', SingleParam U32])
          (\<lambda>vs. case vs of [v] \<Rightarrow> Some v | _ \<Rightarrow> None))
       (\<lambda>_. Ok None)"

lemma test_recover:
  "(run_get recover_test ''/foo/bar/42'' = Ret (Some (Ok (One (Some (IntVal 42)))))) \<and>
   (run_get recover_test ''/foo/bar'' = Ret (Some (Ok (One None))))"
  by code_simp

text \<open>The example of \<open>README.md\<close>.\<close>

definition greeting_route where
  "greeting_route =
     ext_map (verb_path_endpoint GET conv_ty [Static ''greeting'', SingleParam Str])
       (\<lambda>vs. case vs of [StrVal name] \<Rightarrow> ''Hello, '' @ name @ [CHR ''!'', CHR 0x0A] | _ \<Rightarrow> [])"

lemma readme_greeting:
  "parse_path parse_ty ''/greeting/<String>'' = Ok [Static ''greeting'', SingleParam Str]"
  "run_get greeting_route ''/greeting/Bob%20B'' = Ret (Some (Ok (One (''Hello, Bob B!'' @ [CHR 0x0A]))))"
  by code_simp+

section \<open>Choices\<close>

definition valued :: "string \<Rightarrow> string \<Rightarrow>
    ((match_segment_action oneshot, unit, string value_action oneshot, string one) and_state,
     (string \<times> string) list, string list, req_body, string one) endpoint" where
  "valued s v = ext_and unit_left (seg s) (value_endpoint v)"

lemma test_or_1:
  "(run_get (ext_or (valued ''foo'' ''foo'') (valued ''bar'' ''bar'')) ''/foo'' = Ret (Some (Ok (One (Inl ''foo''))))) \<and>
   (run_get (ext_or (valued ''foo'' ''foo'') (valued ''bar'' ''bar'')) ''/bar'' = Ret (Some (Ok (One (Inr ''bar'')))))"
  by code_simp

lemma test_or_choose_longer_segments:
  "run_get (ext_or (valued ''foo'' ''foo'') (ext_and unit_left foo_bar (value_endpoint ''foobar''))) ''/foo'' =
     Ret (Some (Ok (One (Inl ''foo'')))) \<and>
   run_get (ext_or (valued ''foo'' ''foo'') (ext_and unit_left foo_bar (value_endpoint ''foobar''))) ''/foo/bar'' =
     Ret (Some (Ok (One (Inr ''foobar''))))"
  by code_simp

section \<open>Headers, queries and bodies\<close>

definition with_content_type :: "http_method \<Rightarrow> string option \<Rightarrow> (string \<times> string) list request" where
  "with_content_type m v =
     \<lparr>rq_method = m, rq_path = ''/'', rq_query = None,
      rq_headers = (case v of None \<Rightarrow> [] | Some t \<Rightarrow> [(''content-type'', t)])\<rparr>"

lemma test_header_raw:
  "run_request (header_raw_endpoint list_http (HeaderRaw ''content-type'')) (with_content_type GET (Some ''application/json'')) UnitBody =
     Ret (Some (Ok (One (Some ''application/json'')))) \<and>
   run_request (header_raw_endpoint list_http (HeaderRaw ''content-type'')) (with_content_type GET None) UnitBody =
     Ret (Some (Ok (One None)))"
  by code_simp

text \<open>A parser of media types: the type itself, with its parameter kept in the string.\<close>

definition test_mime :: "(string, string) mime_api" where
  "test_mime =
     \<lparr>mm_parse = Ok,
      mm_get_param = (\<lambda>m n. case str_find (CHR ''='') m of
         Some i \<Rightarrow> if n = ''charset'' then Some (drop (Suc i) m) else None | None \<Rightarrow> None),
      mm_name_eq = (=), mm_eq = (=), mm_application_json = ''application/json'',
      mm_www_form_urlencoded = ''application/x-www-form-urlencoded''\<rparr>"

lemma test_header_parse:
  "(run_request (header_parse_endpoint list_http (from_header_mime list_http (mm_parse test_mime)) (HeaderParse ''content-type''))
     (with_content_type POST (Some ''application/json'')) UnitBody = Ret (Some (Ok (One ''application/json'')))) \<and>
   is_error (run_request (header_parse_endpoint list_http (from_header_mime list_http (mm_parse test_mime)) (HeaderParse ''content-type''))
     (with_content_type GET None) UnitBody)"
  by code_simp

lemma test_header_optional:
  "(run_request (header_optional_endpoint list_http (from_header_mime list_http (mm_parse test_mime)) (HeaderOptional ''content-type''))
     (with_content_type POST (Some ''application/json'')) UnitBody = Ret (Some (Ok (One (Some ''application/json''))))) \<and>
   (run_request (header_optional_endpoint list_http (from_header_mime list_http (mm_parse test_mime)) (HeaderOptional ''content-type''))
     (with_content_type GET None) UnitBody = Ret (Some (Ok (One None))))"
  by code_simp

lemma test_query_raw:
  "(run_query query_raw_endpoint (Some ''foo=bar'') = Ret (Some (Ok (One (Some ''foo=bar''))))) \<and>
   (run_query query_raw_endpoint None = Ret (Some (Ok (One None))))"
  by code_simp

lemma test_query_missing:
  "is_error (run_query (query_required_endpoint (Ok :: string \<Rightarrow> (string, string) result)) None) \<and>
   (run_query (query_optional_endpoint (Ok :: string \<Rightarrow> (string, string) result)) None = Ret (Some (Ok (One None))))"
  by code_simp

declare receive_loop.simps [code]

lemma test_body_text:
  "run_request (text_endpoint list_http test_mime req_body_stream)
     (with_content_type POST (Some ''text/plain; charset=utf-8'')) (StrBody ''The quick brown fox'') =
     Ret (Some (Ok (One ''The quick brown fox'')))"
  by code_simp

text \<open>The rejections of \<open>test_body_json\<close>, with a deserializer that accepts objects only.\<close>

definition object_json :: "string \<Rightarrow> (string, string) result" where
  "object_json s = (if starts_with s ''{'' then Ok s else Err ''expected value'')"

definition json_test :: "(req_body receive_state, (string \<times> string) list, string list, req_body, string one) endpoint" where
  "json_test = json_endpoint list_http test_mime object_json req_body_stream"

lemma test_body_json:
  "(run_request json_test (with_content_type POST (Some ''application/json'')) (StrBody ''{}'') = Ret (Some (Ok (One ''{}'')))) \<and>
   is_error (run_request json_test (with_content_type POST None) (StrBody ''{}'')) \<and>
   is_error (run_request json_test (with_content_type POST (Some ''text/plain'')) (StrBody ''{}'')) \<and>
   is_error (run_request json_test (with_content_type POST (Some ''application/json'')) (StrBody ''invalid JSON data''))"
  by code_simp

section \<open>Unit tests\<close>

lemma test_methods_iterator:
  "(map_option (\<lambda>v. verbs_collect 2 (verbs_into_iter v)) (verbs_single GET) = Some (Some [GET])) \<and>
   (verbs_collect 3 (verbs_into_iter (verbs_bitor (Verbs 0x001) (Verbs 0x002))) = Some [GET, POST])"
  by code_simp

text \<open>\<open>test_segments\<close> and \<open>test_segments_from_root_path\<close> of \<open>src/action.rs\<close>.\<close>

lemma test_segments:
  "(remaining_path ''/foo/bar.txt'' cursor_new = Ret ''foo/bar.txt'') \<and>
   (next_segment ''/foo/bar.txt'' cursor_new = Ret (Some ''foo'', \<lparr>cur_pos = 5, cur_popped = 1\<rparr>)) \<and>
   (remaining_path ''/foo/bar.txt'' \<lparr>cur_pos = 5, cur_popped = 1\<rparr> = Ret ''bar.txt'') \<and>
   (next_segment ''/foo/bar.txt'' \<lparr>cur_pos = 5, cur_popped = 1\<rparr> = Ret (Some ''bar.txt'', \<lparr>cur_pos = 12, cur_popped = 2\<rparr>)) \<and>
   (remaining_path ''/foo/bar.txt'' \<lparr>cur_pos = 12, cur_popped = 2\<rparr> = Ret []) \<and>
   (next_segment ''/foo/bar.txt'' \<lparr>cur_pos = 12, cur_popped = 2\<rparr> = Ret (None, \<lparr>cur_pos = 12, cur_popped = 2\<rparr>))"
  by code_simp

lemma test_segments_from_root_path:
  "(remaining_path ''/'' cursor_new = Ret []) \<and>
   (next_segment ''/'' cursor_new = Ret (None, cursor_new))"
  by code_simp

end
