(* ===== verification/Finch_Session_Apps.thy ===== *)
theory Finch_Session_Apps
  imports Finch_Redis
begin

text \<open>
  The programs that show how sessions are used: \<open>finchers-session/examples/simple.rs\<close>, which
  counts visits, and \<open>examples/session-redis/src/main.rs\<close>, a login. Their handlers are
  written against the interface of sessions, and the facts about whole conversations of a client
  are proved once from the contract of a backend. JSON is a parameter.
\<close>

section \<open>A request with a session\<close>

text \<open>
  Opening the session at the start of a request leaves a state the session belongs to, so that
  writing it back stores what the next request loads.
\<close>

locale session_endpoint = session_backend get set_val remove put_back reload belongs
  for get :: "'s \<Rightarrow> string option" and set_val and remove
    and put_back :: "'s \<Rightarrow> 'w \<Rightarrow> (unit, http_error) result \<times> 'w" and reload and belongs +
  fixes open_session :: "'w \<Rightarrow> ('s session one, http_error) result \<times> 'w"
  assumes open_load:
    "open_session w = (Ok (One (Session s)), w') \<Longrightarrow> reload w = Ok s \<and> belongs s w'"

text \<open>\<open>path.and(session).and_then(|session| session.with(f))\<close>, once the path has matched.\<close>

definition session_request ::
  "('w \<Rightarrow> ('s session one, http_error) result \<times> 'w) \<Rightarrow> ('s \<Rightarrow> 'w \<Rightarrow> (unit, http_error) result \<times> 'w)
    \<Rightarrow> ('s session \<Rightarrow> ('a, http_error) result \<times> 's session) \<Rightarrow> 'w \<Rightarrow> ('a, http_error) result \<times> 'w" where
  "session_request open_session put_back f w =
     (case open_session w of
        (Err e, w') \<Rightarrow> (Err e, w')
      | (Ok (One s), w') \<Rightarrow> session_with put_back f s w')"

lemma session_with_Ok:
  assumes "session_with put_back f s w = (Ok x, w')"
  shows "\<exists>s1. f s = (Ok x, Session s1) \<and> put_back s1 w = (Ok (), w')"
proof (cases "f s")
  case (Pair r t)
  then obtain s1 where "t = Session s1" by (cases t) auto
  with Pair assms show ?thesis
    by (cases r; cases "put_back s1 w") (auto simp: session_with_def split: result.splits)
qed

lemma session_request_Ok:
  assumes "session_request open_session put_back f w = (Ok x, w')"
  shows "\<exists>s w1 s1. open_session w = (Ok (One (Session s)), w1) \<and> f (Session s) = (Ok x, Session s1) \<and>
    put_back s1 w1 = (Ok (), w')"
proof -
  from assms obtain s w1 where opened: "open_session w = (Ok (One s), w1)"
    and run: "session_with put_back f s w1 = (Ok x, w')"
    by (auto simp: session_request_def split: prod.splits result.splits one.splits)
  obtain raw where "s = Session raw" by (cases s) auto
  with opened session_with_Ok[OF run] show ?thesis by blast
qed

text \<open>
  A handler that changes the session by setting and removing only. When a request with such a
  handler succeeds, the next one loads the value the handler left.
\<close>

definition edits :: "('s \<Rightarrow> 'w \<Rightarrow> bool) \<Rightarrow> ('s session \<Rightarrow> 'r \<times> 's session) \<Rightarrow> bool" where
  "edits belongs f \<longleftrightarrow> (\<forall>s w r s1. belongs s w \<longrightarrow> f (Session s) = (r, Session s1) \<longrightarrow> belongs s1 w)"

lemma editsI:
  assumes "\<And>s w r s1. belongs s w \<Longrightarrow> f (Session s) = (r, Session s1) \<Longrightarrow> belongs s1 w"
  shows "edits belongs f"
  using assms unfolding edits_def by blast

context session_endpoint begin

lemma request_stores:
  assumes "edits belongs f" and "session_request open_session put_back f w = (Ok x, w')"
  shows "\<exists>s s1 s'. reload w = Ok s \<and> f (Session s) = (Ok x, Session s1) \<and> reload w' = Ok s' \<and> get s' = get s1"
proof -
  from session_request_Ok[OF assms(2)] obtain s w1 s1 where
    opened: "open_session w = (Ok (One (Session s)), w1)" and f: "f (Session s) = (Ok x, Session s1)"
    and put: "put_back s1 w1 = (Ok (), w')" by blast
  from open_load[OF opened] have s: "reload w = Ok s" "belongs s w1" by simp_all
  with assms(1) f have "belongs s1 w1" unfolding edits_def by blast
  from write_load[OF this put] s(1) f show ?thesis by blast
qed

end

section \<open>Counting visits\<close>

datatype session_value = SessionValue (sv_text: string)

text \<open>\<open>serde_json::to_string\<close> and \<open>from_str\<close>, and \<open>Debug\<close> of the value and of a string.\<close>

record 'v json_api =
  js_to_string :: "'v \<Rightarrow> (string, string) result"
  js_from_str :: "string \<Rightarrow> ('v, string) result"

definition json_laws :: "'v json_api \<Rightarrow> bool" where
  "json_laws J \<longleftrightarrow> (\<forall>v s. js_to_string J v = Ok s \<longrightarrow> js_from_str J s = Ok v)"

text \<open>\<open>Response::builder().header(\<open>\<dots>\<close>).body(b).unwrap()\<close> with a valid value.\<close>

definition html :: "'h http_api \<Rightarrow> 'b \<Rightarrow> ('h, 'b) response" where
  "html H body =
     (response_new H body)\<lparr>rs_headers := hm_append H (hm_empty H) ''content-type'' ''text/html; charset=utf-8''\<rparr>"

text \<open>The string the program parses for a new client.\<close>

definition default_text_json :: string where
  "default_text_json = ''{ '' @ [CHR 0x22] @ ''text'' @ [CHR 0x22] @ '': '' @ [CHR 0x22, CHR 0x22] @ '' }''"

definition count_visit ::
  "'h http_api \<Rightarrow> session_value json_api \<Rightarrow> (session_value \<Rightarrow> string) \<Rightarrow> (string \<Rightarrow> string) \<Rightarrow> (string \<Rightarrow> http_error)
    \<Rightarrow> ('s \<Rightarrow> string option) \<Rightarrow> (string \<Rightarrow> 's \<Rightarrow> 's) \<Rightarrow> 's session
    \<Rightarrow> (('h, string) response, http_error) result \<times> 's session" where
  "count_visit H J debug_value debug_str fail get set_val session =
     (case session of Session raw \<Rightarrow>
        let s = (case get raw of Some v \<Rightarrow> v | None \<Rightarrow> default_text_json) in
        case js_from_str J s of
          Err err \<Rightarrow>
            (Err (bad_request (''failed to parse session value (input = '' @ debug_str s @ ''): '' @ err)), Session raw)
        | Ok session_value \<Rightarrow>
            let response = html H (debug_value session_value) in
            case js_to_string J (SessionValue (sv_text session_value @ ''a'')) of
              Err e \<Rightarrow> (Err (fail e), Session raw)
            | Ok s' \<Rightarrow> (Ok response, Session (set_val s' raw)))"

text \<open>What the state of a client says about its visits.\<close>

definition visit_text :: "session_value json_api \<Rightarrow> ('s \<Rightarrow> string option) \<Rightarrow> 's \<Rightarrow> string option" where
  "visit_text J get s =
     (case js_from_str J (case get s of Some v \<Rightarrow> v | None \<Rightarrow> default_text_json) of
        Ok v \<Rightarrow> Some (sv_text v) | Err _ \<Rightarrow> None)"

context session_endpoint begin

lemma count_visit_edits: "edits belongs (count_visit H J dv ds fail get set_val)"
  by (rule editsI) (auto simp: count_visit_def Let_def split: result.splits dest: set_belongs)

lemma count_visit_request:
  assumes J: "json_laws J"
    and run: "session_request open_session put_back (count_visit H J dv ds fail get set_val) w = (Ok page, w')"
  shows "\<exists>s s' t. reload w = Ok s \<and> reload w' = Ok s' \<and> visit_text J get s = Some t \<and>
    page = html H (dv (SessionValue t)) \<and> visit_text J get s' = Some (t @ ''a'')"
proof -
  from request_stores[OF count_visit_edits run] obtain s s1 s' where s: "reload w = Ok s" "reload w' = Ok s'"
    "get s' = get s1" and f: "count_visit H J dv ds fail get set_val (Session s) = (Ok page, Session s1)" by blast
  from f obtain v j where v: "js_from_str J (case get s of Some v \<Rightarrow> v | None \<Rightarrow> default_text_json) = Ok v"
    "page = html H (dv v)" and j: "js_to_string J (SessionValue (sv_text v @ ''a'')) = Ok j" "s1 = set_val j s"
    by (auto simp: count_visit_def Let_def split: result.splits)
  from j s(3) J have "visit_text J get s' = Some (sv_text v @ ''a'')"
    by (simp add: visit_text_def get_set json_laws_def)
  with s(1,2) v show ?thesis by (intro exI[of _ s] exI[of _ s'] exI[of _ "sv_text v"]) (simp add: visit_text_def)
qed

end

text \<open>
  C31: The counting example counts: over any session backend that keeps its contract, the page of
  the k-th successful request of a client shows the text it started with and k more letters, for
  every number of requests.
\<close>

lemma visits_counted:
  assumes backend: "\<And>id. session_endpoint get set_val remove (put id) reload belongs open_session"
    and J: "json_laws J" and start: "reload w = Ok s" "visit_text J get s = Some t"
    and run: "serve (map (\<lambda>id. session_request open_session (put id) (count_visit H J dv ds fail get set_val)) ids) w =
      (map Ok pages, w')"
  shows "pages = map (\<lambda>k. html H (dv (SessionValue (t @ replicate k (CHR ''a''))))) [0..<length ids]"
  using start run
proof (induction ids arbitrary: w s t pages)
  case (Cons id ids)
  let ?rq = "\<lambda>id. session_request open_session (put id) (count_visit H J dv ds fail get set_val)"
  from serve_Cons_Ok[OF Cons.prems(3)[simplified list.map]] obtain page pages' w1 where
    pages: "pages = page # pages'" and first: "?rq id w = (Ok page, w1)"
    and rest: "serve (map ?rq ids) w1 = (map Ok pages', w')" by blast
  from session_endpoint.count_visit_request[OF backend J first] Cons.prems(1,2) obtain s' where
    "reload w1 = Ok s'" "page = html H (dv (SessionValue t))" "visit_text J get s' = Some (t @ ''a'')" by auto
  with Cons.IH[OF _ _ rest] pages show ?case
    by (simp add: upt_conv_Cons map_Suc_upt[symmetric] del: upt_Suc)
qed simp

section \<open>A login\<close>

datatype login = Login (lg_username: string)

definition greeting :: "string \<Rightarrow> string" where
  "greeting username =
     ''Hello, '' @ username @ ''! <br />'' @ [CHR 0x0A] @
     ''<form method='' @ [CHR 0x22] @ ''post'' @ [CHR 0x22] @ '' action='' @ [CHR 0x22] @ ''/logout'' @ [CHR 0x22] @ ''>'' @ [CHR 0x0A] @
     ''<input type='' @ [CHR 0x22] @ ''submit'' @ [CHR 0x22] @ '' value='' @ [CHR 0x22] @ ''Log out'' @ [CHR 0x22] @ '' />'' @ [CHR 0x0A] @
     ''</form>''"

definition login_link :: string where
  "login_link = ''<a href='' @ [CHR 0x22] @ ''/login'' @ [CHR 0x22] @ ''>Log in</a>''"

definition login_form :: string where
  "login_form =
     ''login form'' @ [CHR 0x0A] @
     ''<form method='' @ [CHR 0x22] @ ''post'' @ [CHR 0x22] @ ''>'' @ [CHR 0x0A] @
     ''<input type='' @ [CHR 0x22] @ ''text'' @ [CHR 0x22] @ '' name='' @ [CHR 0x22] @ ''username'' @ [CHR 0x22] @ ''>'' @ [CHR 0x0A] @
     ''<input type='' @ [CHR 0x22] @ ''submit'' @ [CHR 0x22] @ ''>'' @ [CHR 0x0A] @
     ''</form>''"

definition found_response :: "'h http_api \<Rightarrow> string \<Rightarrow> ('h, unit) response" where
  "found_response H location =
     (response_new H ())\<lparr>rs_status := FOUND, rs_headers := hm_append H (hm_empty H) ''location'' location\<rparr>"

definition unauthorized_page :: "'h http_api \<Rightarrow> ('h, string) response" where
  "unauthorized_page H =
     (response_new H login_link)\<lparr>rs_status := UNAUTHORIZED,
       rs_headers := hm_append H (hm_empty H) ''content-type'' ''text/html; charset=utf-8''\<rparr>"

text \<open>The four routes; a response has a body of text or an empty one.\<close>

datatype route = Greet | LoginPage | LoginPost string | Logout

type_synonym 'h page = "('h, string) response + ('h, unit) response"

definition greet ::
  "'h http_api \<Rightarrow> login json_api \<Rightarrow> ('s \<Rightarrow> string option) \<Rightarrow> 's session \<Rightarrow> ('h page, http_error) result \<times> 's session" where
  "greet H J get session =
     (case session of Session raw \<Rightarrow>
        (case map_option (js_from_str J) (get raw) of
           Some (Ok login) \<Rightarrow> (Ok (Inl (html H (greeting (lg_username login)))), session)
         | _ \<Rightarrow> (Ok (Inl (unauthorized_page H)), session)))"

definition login_page ::
  "'h http_api \<Rightarrow> login json_api \<Rightarrow> ('s \<Rightarrow> string option) \<Rightarrow> 's session \<Rightarrow> ('h page, http_error) result \<times> 's session" where
  "login_page H J get session =
     (case session of Session raw \<Rightarrow>
        (case map_option (js_from_str J) (get raw) of
           Some (Ok _) \<Rightarrow> (Ok (Inl (response_map (\<lambda>_. []) (found_response H ''/''))), session)
         | _ \<Rightarrow> (Ok (Inl (html H login_form)), session)))"

definition login_post ::
  "'h http_api \<Rightarrow> login json_api \<Rightarrow> (string \<Rightarrow> http_error) \<Rightarrow> (string \<Rightarrow> 's \<Rightarrow> 's) \<Rightarrow> string \<Rightarrow> 's session
    \<Rightarrow> ('h page, http_error) result \<times> 's session" where
  "login_post H J fail set_val username session =
     (case session of Session raw \<Rightarrow>
        (case js_to_string J (Login username) of
           Err e \<Rightarrow> (Err (fail e), session)
         | Ok v \<Rightarrow> (Ok (Inr (found_response H ''/'')), Session (set_val v raw))))"

definition logout ::
  "'h http_api \<Rightarrow> ('s \<Rightarrow> 's) \<Rightarrow> 's session \<Rightarrow> ('h page, http_error) result \<times> 's session" where
  "logout H remove session =
     (case session of Session raw \<Rightarrow> (Ok (Inr (found_response H ''/'')), Session (remove raw)))"

definition route_handler ::
  "'h http_api \<Rightarrow> login json_api \<Rightarrow> (string \<Rightarrow> http_error) \<Rightarrow> ('s \<Rightarrow> string option) \<Rightarrow> (string \<Rightarrow> 's \<Rightarrow> 's) \<Rightarrow> ('s \<Rightarrow> 's)
    \<Rightarrow> route \<Rightarrow> 's session \<Rightarrow> ('h page, http_error) result \<times> 's session" where
  "route_handler H J fail get set_val remove rt =
     (case rt of
        Greet \<Rightarrow> greet H J get
      | LoginPage \<Rightarrow> login_page H J get
      | LoginPost username \<Rightarrow> login_post H J fail set_val username
      | Logout \<Rightarrow> logout H remove)"

text \<open>The abstract program: all a client can see depends on who is logged in.\<close>

definition login_step :: "'h http_api \<Rightarrow> route \<Rightarrow> string option \<Rightarrow> 'h page \<times> string option" where
  "login_step H rt user =
     (case rt of
        Greet \<Rightarrow> (Inl (case user of Some u \<Rightarrow> html H (greeting u) | None \<Rightarrow> unauthorized_page H), user)
      | LoginPage \<Rightarrow>
          (Inl (case user of Some _ \<Rightarrow> response_map (\<lambda>_. []) (found_response H ''/'') | None \<Rightarrow> html H login_form), user)
      | LoginPost username \<Rightarrow> (Inr (found_response H ''/''), Some username)
      | Logout \<Rightarrow> (Inr (found_response H ''/''), None))"

fun login_run :: "'h http_api \<Rightarrow> route list \<Rightarrow> string option \<Rightarrow> 'h page list" where
  "login_run H [] user = []"
| "login_run H (rt # rts) user = (case login_step H rt user of (page, user') \<Rightarrow> page # login_run H rts user')"

definition logged_in :: "login json_api \<Rightarrow> ('s \<Rightarrow> string option) \<Rightarrow> 's \<Rightarrow> string option" where
  "logged_in J get s =
     (case map_option (js_from_str J) (get s) of Some (Ok login) \<Rightarrow> Some (lg_username login) | _ \<Rightarrow> None)"

context session_endpoint begin

lemma route_handler_edits: "edits belongs (route_handler H J fail get set_val remove rt)"
  by (rule editsI)
     (auto simp: route_handler_def greet_def login_page_def login_post_def logout_def
       split: route.splits result.splits option.splits dest: set_belongs remove_belongs)

lemma route_handler_step:
  assumes "json_laws J" and "route_handler H J fail get set_val remove rt (Session s) = (Ok page, Session s1)"
  shows "login_step H rt (logged_in J get s) = (page, logged_in J get s1)"
  using assms
  by (auto simp: route_handler_def greet_def login_page_def login_post_def logout_def login_step_def
      logged_in_def get_set get_remove json_laws_def split: route.splits result.splits option.splits)

lemma route_request:
  assumes J: "json_laws J"
    and run: "session_request open_session put_back (route_handler H J fail get set_val remove rt) w = (Ok page, w')"
  shows "\<exists>s s'. reload w = Ok s \<and> reload w' = Ok s' \<and>
    login_step H rt (logged_in J get s) = (page, logged_in J get s')"
proof -
  from request_stores[OF route_handler_edits run] obtain s s1 s' where
    "reload w = Ok s" "reload w' = Ok s'" "get s' = get s1"
    "route_handler H J fail get set_val remove rt (Session s) = (Ok page, Session s1)" by blast
  with route_handler_step[OF J] show ?thesis by (intro exI[of _ s] exI[of _ s']) (simp add: logged_in_def)
qed

end

text \<open>
  C30: The login example refines a program whose only state is the name of the user who is logged
  in: over any session backend that keeps its contract, the pages a client gets for a sequence of
  successful requests are those of that program.
\<close>

lemma login_refines:
  assumes backend: "\<And>id. session_endpoint get set_val remove (put id) reload belongs open_session"
    and J: "json_laws J" and start: "reload w = Ok s"
    and run: "serve (map (\<lambda>(id, rt). session_request open_session (put id) (route_handler H J fail get set_val remove rt)) rqs) w =
      (map Ok pages, w')"
  shows "pages = login_run H (map snd rqs) (logged_in J get s)"
  using start run
proof (induction rqs arbitrary: w s pages)
  case (Cons p rqs)
  obtain id rt where p: "p = (id, rt)" by (cases p)
  let ?rq = "\<lambda>(id, rt). session_request open_session (put id) (route_handler H J fail get set_val remove rt)"
  from serve_Cons_Ok[OF Cons.prems(2)[simplified list.map]] obtain page pages' w1 where
    pages: "pages = page # pages'" and first: "?rq p w = (Ok page, w1)"
    and rest: "serve (map ?rq rqs) w1 = (map Ok pages', w')" by blast
  from session_endpoint.route_request[OF backend J first[unfolded p prod.case]] Cons.prems(1) obtain s' where
    "reload w1 = Ok s'" "login_step H rt (logged_in J get s) = (page, logged_in J get s')" by auto
  with Cons.IH[OF _ rest] pages p show ?case by simp
qed simp

section \<open>The backends keep the contract\<close>

text \<open>A jar that was parsed once is kept in the input.\<close>

definition input_stable :: "('i, 'j) input_api \<Rightarrow> bool" where
  "input_stable I \<longleftrightarrow> (\<forall>i jar i'. in_cookies I i = (Ok jar, i') \<longrightarrow> fst (in_cookies I i') = Ok jar)"

lemma jar_input_stable: "input_stable jar_input"
  by (simp add: input_stable_def jar_input_def)

definition in_memory_open ::
  "('i, 'j) input_api \<Rightarrow> ('j, 'k) cookie_api \<Rightarrow> 'u uuid_api \<Rightarrow> 'u storage \<times> 'i
    \<Rightarrow> ('u in_memory_session session one, http_error) result \<times> 'u storage \<times> 'i" where
  "in_memory_open I K U w =
     (case w of (st, i) \<Rightarrow> (case in_memory_apply I K U st i of (r, i') \<Rightarrow> (r, st, i')))"

lemma in_memory_session_endpoint:
  assumes laws: "input_laws I" "jar_laws K" "uuid_laws U" and stable: "input_stable I"
  shows "session_endpoint in_memory_get in_memory_set in_memory_remove (in_memory_write I K U new_v4)
    (in_memory_load I K U) (in_memory_belongs I K U) (in_memory_open I K U)"
proof (rule session_endpoint.intro[OF in_memory_session_backend[OF laws]], unfold_locales)
  fix w s w'
  assume "in_memory_open I K U w = (Ok (One (Session s)), w')"
  then obtain st i i' jar where w: "w = (st, i)" "w' = (st, i')" "in_cookies I i = (Ok jar, i')"
    and s: "in_memory_load I K U w = Ok s"
    "im_session_id s = None \<longrightarrow> jar_get K jar ''session-id'' = None"
    by (cases w)
       (auto simp: in_memory_open_def in_memory_apply_def in_memory_load_def in_memory_read_value_def storage_get_def
         split: prod.splits result.splits option.splits if_splits)
  with stable show "in_memory_load I K U w = Ok s \<and> in_memory_belongs I K U s w'"
    by (auto simp: in_memory_belongs_def input_stable_def)
qed

interpretation in_memory_requests: session_endpoint in_memory_get in_memory_set in_memory_remove
  "in_memory_write jar_input list_cookies nat_uuid new_v4"
  "in_memory_load jar_input list_cookies nat_uuid"
  "in_memory_belongs jar_input list_cookies nat_uuid"
  "in_memory_open jar_input list_cookies nat_uuid" for new_v4
  by (rule in_memory_session_endpoint[OF jar_input_laws list_cookies_laws nat_uuid_laws jar_input_stable])

lemma cookie_session_endpoint:
  assumes "input_laws I" "jar_laws K" "signed_laws K S"
  shows "session_endpoint cookie_session_get cookie_session_set cookie_session_remove
    (cookie_session_write I K S) (cookie_session_load I K S c) (\<lambda>s _. cs_config s = c) (cookie_apply I K S c)"
  by (rule session_endpoint.intro[OF cookie_session_backend[OF assms]], unfold_locales)
     (auto simp: cookie_apply_def cookie_session_load_def split: prod.splits result.splits)

interpretation cookie_requests: session_endpoint cookie_session_get cookie_session_set cookie_session_remove
  "cookie_session_write jar_input list_cookies list_signed"
  "cookie_session_load jar_input list_cookies list_signed c" "\<lambda>s _. cs_config s = c"
  "cookie_apply jar_input list_cookies list_signed c" for c
  by (rule cookie_session_endpoint[OF jar_input_laws list_cookies_laws list_signed_laws])

text \<open>The Redis backend on the server of the library, with its futures driven to their ends.\<close>

definition map_redis_open ::
  "('i, 'j) input_api \<Rightarrow> ('j, 'k) cookie_api \<Rightarrow> 'u uuid_api \<Rightarrow> nat redis_backend \<Rightarrow> (string \<Rightarrow> string option) \<times> 'i
    \<Rightarrow> ((unit, 'u) redis_session session one, http_error) result \<times> (string \<Rightarrow> string option) \<times> 'i" where
  "map_redis_open I K U b w =
     (case redis_apply map_redis I K U b (snd w) of
        (st, i') \<Rightarrow>
          (case drive (redis_read_poll map_redis U) (Suc (rb_client b)) (st, fst w) of
             Some (r, _, sv') \<Rightarrow> (r, sv', i')
           | None \<Rightarrow> (Err (internal_server_error ''timeout''), fst w, i')))"

lemma map_redis_open_load:
  assumes "map_redis_open jar_input K U b w = (Ok (One (Session s)), w')"
  shows "map_redis_reload jar_input K U b w = Ok s \<and> w' = w"
proof -
  obtain sv i where w: "w = (sv, i)" by (cases w)
  obtain r0 i' where id: "get_session_id jar_input K U (rb_config b) i = (r0, i')"
    by (cases "get_session_id jar_input K U (rb_config b) i")
  have i': "i' = i"
    using id by (auto simp: get_session_id_def jar_input_def split: option.splits)
  show ?thesis
  proof (cases r0)
    case (Ok sid)
    with id have "redis_apply map_redis jar_input K U b i = (RdConnecting (rb_client b) (rb_config b) sid, i)"
      by (simp add: redis_apply_def map_redis_def i')
    with assms show ?thesis
      unfolding map_redis_open_def map_redis_reload_def w
      by (simp only: fst_conv snd_conv prod.case map_redis_drive option.case) simp
  next
    case (Err e)
    with id assms show ?thesis
      by (simp add: map_redis_open_def redis_apply_def redis_read_poll_def w)
  qed
qed

lemma map_redis_session_endpoint:
  assumes "jar_laws K" "uuid_laws U"
  shows "session_endpoint redis_get redis_set redis_remove (map_redis_put_back jar_input K U new_v4)
    (map_redis_reload jar_input K U b) (redis_belongs jar_input K U (\<lambda>sv. sv) (rb_config b)) (map_redis_open jar_input K U b)"
proof -
  note backend = map_redis_session_backend[OF jar_input_laws assms, of new_v4 b]
  show ?thesis
    by (rule session_endpoint.intro[OF backend], unfold_locales)
       (use map_redis_open_load session_backend.load_belongs[OF backend] in blast)
qed

interpretation redis_requests: session_endpoint redis_get redis_set redis_remove
  "map_redis_put_back jar_input list_cookies nat_uuid new_v4"
  "map_redis_reload jar_input list_cookies nat_uuid b"
  "redis_belongs jar_input list_cookies nat_uuid (\<lambda>sv. sv) (rb_config b)"
  "map_redis_open jar_input list_cookies nat_uuid b" for new_v4 b
  by (rule map_redis_session_endpoint[OF list_cookies_laws nat_uuid_laws])

section \<open>Two conversations\<close>

text \<open>A format that marks the values it has written, and reads the text a new client starts with.\<close>

definition marked_json :: "(string \<Rightarrow> 'v) \<Rightarrow> ('v \<Rightarrow> string) \<Rightarrow> 'v json_api" where
  "marked_json mk tx =
     \<lparr>js_to_string = (\<lambda>v. Ok (CHR ''*'' # tx v)),
      js_from_str = (\<lambda>s. if s = default_text_json then Ok (mk [])
         else (case s of [] \<Rightarrow> Err ''expected value'' | _ # t \<Rightarrow> Ok (mk t)))\<rparr>"

lemma marked_json_laws:
  assumes "\<And>v. mk (tx v) = v"
  shows "json_laws (marked_json mk tx)"
  using assms by (simp add: json_laws_def marked_json_def default_text_json_def)

text \<open>A new client of the in-memory backend.\<close>

definition new_client :: "nat storage \<times> (string \<times> string) list" where
  "new_client = (\<lparr>sg_map = Map.empty, sg_poisoned = False\<rparr>, [])"

abbreviation visit_json :: "session_value json_api" where
  "visit_json \<equiv> marked_json SessionValue sv_text"

abbreviation login_json :: "login json_api" where
  "login_json \<equiv> marked_json Login lg_username"

lemma new_client_loads:
  "in_memory_load jar_input list_cookies nat_uuid new_client = Ok \<lparr>im_session_id = None, im_value = None\<rparr>"
  by (simp add: new_client_def in_memory_load_def in_memory_read_value_def jar_input_def list_cookies_def)

lemma visits_run:
  "fst (serve (map (\<lambda>id. session_request (in_memory_open jar_input list_cookies nat_uuid)
       (in_memory_write jar_input list_cookies nat_uuid id)
       (count_visit list_http visit_json sv_text (\<lambda>s. s) bad_request in_memory_get in_memory_set)) [3, 4, 5])
     new_client) = map Ok [html list_http [], html list_http ''a'', html list_http ''aa'']"
  by code_simp

lemma login_run_demo:
  "fst (serve (map (\<lambda>(id, rt). session_request (in_memory_open jar_input list_cookies nat_uuid)
       (in_memory_write jar_input list_cookies nat_uuid id)
       (route_handler list_http login_json bad_request in_memory_get in_memory_set in_memory_remove rt))
       [(1, Greet), (2, LoginPost ''ann''), (3, Greet), (4, Logout), (5, Greet)])
     new_client) = map Ok (login_run list_http [Greet, LoginPost ''ann'', Greet, Logout, Greet] None)"
  by code_simp

lemma visits_counted_witness:
  "\<exists>w'. serve (map (\<lambda>id. session_request (in_memory_open jar_input list_cookies nat_uuid)
       (in_memory_write jar_input list_cookies nat_uuid id)
       (count_visit list_http visit_json sv_text (\<lambda>s. s) bad_request in_memory_get in_memory_set)) [3, 4, 5])
     new_client = (map Ok (map (\<lambda>k. html list_http (replicate k (CHR ''a''))) [0..<3]), w')"
proof -
  note backend = in_memory_session_endpoint[OF jar_input_laws list_cookies_laws nat_uuid_laws jar_input_stable]
  have J: "json_laws visit_json" by (rule marked_json_laws) simp
  have start: "visit_text visit_json in_memory_get \<lparr>im_session_id = None, im_value = None\<rparr> = Some []"
    by (simp add: visit_text_def in_memory_get_def marked_json_def)
  from visits_run obtain w' where run: "serve (map (\<lambda>id. session_request (in_memory_open jar_input list_cookies nat_uuid)
       (in_memory_write jar_input list_cookies nat_uuid id)
       (count_visit list_http visit_json sv_text (\<lambda>s. s) bad_request in_memory_get in_memory_set)) [3, 4, 5]) new_client =
     (map Ok [html list_http [], html list_http ''a'', html list_http ''aa''], w')"
    by (metis prod.collapse)
  from visits_counted[OF backend J new_client_loads start run] show ?thesis
    by (simp only: run) (simp add: upt_rec)
qed

lemma login_refines_witness:
  "\<exists>w'. serve (map (\<lambda>(id, rt). session_request (in_memory_open jar_input list_cookies nat_uuid)
       (in_memory_write jar_input list_cookies nat_uuid id)
       (route_handler list_http login_json bad_request in_memory_get in_memory_set in_memory_remove rt))
       [(1, Greet), (2, LoginPost ''ann''), (3, Greet), (4, Logout), (5, Greet)]) new_client =
     (map Ok [Inl (unauthorized_page list_http), Inr (found_response list_http ''/''), Inl (html list_http (greeting ''ann'')),
        Inr (found_response list_http ''/''), Inl (unauthorized_page list_http)], w')"
proof -
  note backend = in_memory_session_endpoint[OF jar_input_laws list_cookies_laws nat_uuid_laws jar_input_stable]
  have J: "json_laws login_json" by (rule marked_json_laws) simp
  let ?rqs = "[(1, Greet), (2, LoginPost ''ann''), (3, Greet), (4, Logout), (5, Greet)] :: (nat \<times> route) list"
  from login_run_demo obtain w' where run: "serve (map (\<lambda>(id, rt). session_request (in_memory_open jar_input list_cookies nat_uuid)
       (in_memory_write jar_input list_cookies nat_uuid id)
       (route_handler list_http login_json bad_request in_memory_get in_memory_set in_memory_remove rt)) ?rqs) new_client =
     (map Ok (login_run list_http [Greet, LoginPost ''ann'', Greet, Logout, Greet] None), w')"
    by (metis prod.collapse)
  from login_refines[OF backend J new_client_loads run] show ?thesis
    by (simp only: run) (simp add: login_step_def)
qed

end
