(* ===== verification/Finch_Jwt.thy ===== *)
theory Finch_Jwt
  imports Finch_Session_Apps Finch_Output
begin

text \<open>
  \<open>examples/jwt-auth/src/main.rs\<close>: a login that keeps a signed token with a time limit in a cookie.
  The program is written against an older release of \<open>finchers\<close>, whose \<open>Cookies\<close> are the jar of
  the \<open>Input\<close>. The \<open>jsonwebtoken\<close> crate is a parameter.
\<close>

section \<open>Tokens\<close>

text \<open>Times are seconds, \<open>i64\<close> in the code.\<close>

record claims =
  cl_user_id :: int
  cl_iat :: int
  cl_exp :: int
  cl_nbf :: int

definition secret_key :: string where
  "secret_key = ''this-is-a-very-very-secret-key''"

text \<open>
  \<open>jsonwebtoken::encode\<close> with a key, and \<open>decode\<close> with a key and the default validation, which
  compares the time limit of the claims with the time at which it runs.
\<close>

record jwt_api =
  jw_encode :: "string \<Rightarrow> claims \<Rightarrow> (string, string) result"
  jw_decode :: "string \<Rightarrow> int \<Rightarrow> string \<Rightarrow> (claims, string) result"

definition jwt_laws :: "jwt_api \<Rightarrow> string \<Rightarrow> bool" where
  "jwt_laws J expired \<longleftrightarrow>
     (\<forall>key c. is_ok (jw_encode J key c)) \<and>
     (\<forall>key c s now. jw_encode J key c = Ok s \<longrightarrow>
        jw_decode J key now s = (if now \<le> cl_exp c then Ok c else Err expired))"

definition parse_token :: "jwt_api \<Rightarrow> int \<Rightarrow> string \<Rightarrow> (claims, string) result" where
  "parse_token J now token_str = jw_decode J secret_key now token_str"

definition generate_token :: "jwt_api \<Rightarrow> int \<Rightarrow> (string, string) result" where
  "generate_token J now =
     jw_encode J secret_key
       \<lparr>cl_user_id = 0, cl_iat = now, cl_exp = now + 24 * 60 * 60, cl_nbf = now\<rparr>"

lemma jwt_lawsD:
  assumes "jwt_laws J expired"
  shows "\<exists>s. jw_encode J key c = Ok s"
    and "jw_encode J key c = Ok s \<Longrightarrow> jw_decode J key now s = (if now \<le> cl_exp c then Ok c else Err expired)"
  using assms unfolding jwt_laws_def is_ok_def by (metis result.exhaust result.simps(6), blast)

section \<open>The handlers\<close>

text \<open>The formatting of an \<open>i32\<close>.\<close>

definition show_int :: "int \<Rightarrow> string" where
  "show_int i = (if i < 0 then CHR ''-'' # show_nat (nat (- i)) else show_nat (nat i))"

definition user_page :: "int \<Rightarrow> string" where
  "user_page user_id = ''<p>logged in (used_id = '' @ show_int user_id @ '')</p>''"

definition jwt_form :: string where
  "jwt_form =
     ''<form method=post>'' @ [CHR 0x0A, CHR 0x0A] @
     ''            <input type=text name=username />'' @ [CHR 0x0A, CHR 0x0A] @
     ''            <input type=password name=password />'' @ [CHR 0x0A, CHR 0x0A] @
     ''            <input type=submit value='' @ [CHR 0x22] @ ''Log in '' @ [CHR 0x22] @ '' />'' @ [CHR 0x0A, CHR 0x0A] @
     ''        </form>''"

text \<open>\<open>Redirect::found\<close> and \<open>Redirect::see_other\<close> with locations that are valid header values.\<close>

abbreviation redirect_found :: "string \<Rightarrow> redirect" where
  "redirect_found location \<equiv> \<lparr>rd_status = FOUND, rd_location = Some location\<rparr>"

abbreviation redirect_see_other :: "string \<Rightarrow> redirect" where
  "redirect_see_other location \<equiv> \<lparr>rd_status = SEE_OTHER, rd_location = Some location\<rparr>"

lemma redirect_constructors_valid:
  "redirect_to Ret FOUND l = Ret (redirect_found l)" "redirect_to Ret SEE_OTHER l = Ret (redirect_see_other l)"
  by (simp_all add: redirect_to_def map_run_def)

text \<open>Every handler takes the jar of the request and returns the changed one.\<close>

type_synonym 'h jwt_page = "('h, string) response + redirect"

definition jwt_login ::
  "jwt_api \<Rightarrow> ('j, 'k) cookie_api \<Rightarrow> (string \<Rightarrow> http_error) \<Rightarrow> int \<Rightarrow> string \<Rightarrow> string \<Rightarrow> 'j
    \<Rightarrow> ('h jwt_page, http_error) result \<times> 'j" where
  "jwt_login J K fail now username password jar =
     (if username = ''user1'' \<and> password = ''user1'' then
        (case generate_token J now of
           Err e \<Rightarrow> (Err (fail e), jar)
         | Ok token \<Rightarrow> (Ok (Inr (redirect_found ''/'')), jar_add K jar (cookie_new K ''token'' token)))
      else (Err (err_msg ''invalid user'' UNAUTHORIZED), jar))"

definition jwt_logout ::
  "('j, 'k) cookie_api \<Rightarrow> 'j \<Rightarrow> ('h jwt_page, http_error) result \<times> 'j" where
  "jwt_logout K jar =
     (Ok (Inr (redirect_see_other ''/login'')), jar_remove K jar (cookie_named K ''token''))"

definition jwt_index ::
  "'h http_api \<Rightarrow> jwt_api \<Rightarrow> ('j, 'k) cookie_api \<Rightarrow> int \<Rightarrow> 'j \<Rightarrow> ('h jwt_page, http_error) result \<times> 'j" where
  "jwt_index H J K now jar =
     (case jar_get K jar ''token'' of
        Some cookie \<Rightarrow>
          (case parse_token J now (cookie_val K cookie) of
             Err e \<Rightarrow> (Err (bad_request e), jar)
           | Ok token \<Rightarrow> (Ok (Inl (html H (user_page (cl_user_id token)))), jar))
      | None \<Rightarrow> (Ok (Inr (redirect_see_other ''/login'')), jar))"

text \<open>
  The routes, with the form a login has sent. The page with the form does not ask for the cookies;
  the others do, and answer with an error when they cannot be parsed.
\<close>

datatype jwt_route = JwtIndex | JwtLoginPage | JwtLogin string string | JwtLogout

definition with_cookies ::
  "('i, 'j) input_api \<Rightarrow> ('j \<Rightarrow> ('a, http_error) result \<times> 'j) \<Rightarrow> 'i \<Rightarrow> ('a, http_error) result \<times> 'i" where
  "with_cookies I handler i =
     (case in_cookies I i of
        (Err e, i') \<Rightarrow> (Err e, i')
      | (Ok jar, i') \<Rightarrow> (case handler jar of (r, jar') \<Rightarrow> (r, in_put I i' jar')))"

definition jwt_request ::
  "'h http_api \<Rightarrow> jwt_api \<Rightarrow> ('i, 'j) input_api \<Rightarrow> ('j, 'k) cookie_api \<Rightarrow> (string \<Rightarrow> http_error)
    \<Rightarrow> int \<times> jwt_route \<Rightarrow> 'i \<Rightarrow> ('h jwt_page, http_error) result \<times> 'i" where
  "jwt_request H J I K fail rq i =
     (case rq of (now, rt) \<Rightarrow>
       (case rt of
          JwtIndex \<Rightarrow> with_cookies I (jwt_index H J K now) i
        | JwtLoginPage \<Rightarrow> (Ok (Inl (html H jwt_form)), i)
        | JwtLogin username password \<Rightarrow> with_cookies I (jwt_login J K fail now username password) i
        | JwtLogout \<Rightarrow> with_cookies I (jwt_logout K) i))"

section \<open>What a client sees\<close>

text \<open>All a client can see depends on the time limit of the token it was given last.\<close>

definition jwt_step ::
  "'h http_api \<Rightarrow> string \<Rightarrow> int \<times> jwt_route \<Rightarrow> int option \<Rightarrow> ('h jwt_page, http_error) result \<times> int option" where
  "jwt_step H expired rq limit =
     (case rq of (now, rt) \<Rightarrow>
       (case rt of
          JwtIndex \<Rightarrow>
            (case limit of
               None \<Rightarrow> Ok (Inr (redirect_see_other ''/login''))
             | Some t \<Rightarrow> if now \<le> t then Ok (Inl (html H (user_page 0))) else Err (bad_request expired), limit)
        | JwtLoginPage \<Rightarrow> (Ok (Inl (html H jwt_form)), limit)
        | JwtLogin username password \<Rightarrow>
            if username = ''user1'' \<and> password = ''user1''
            then (Ok (Inr (redirect_found ''/'')), Some (now + 86400))
            else (Err (err_msg ''invalid user'' UNAUTHORIZED), limit)
        | JwtLogout \<Rightarrow> (Ok (Inr (redirect_see_other ''/login'')), None)))"

text \<open>The token of a jar, which the program has signed for its only user.\<close>

definition token_limit :: "jwt_api \<Rightarrow> ('j, 'k) cookie_api \<Rightarrow> 'j \<Rightarrow> int option \<Rightarrow> bool" where
  "token_limit J K jar limit \<longleftrightarrow>
     (case jar_get K jar ''token'' of
        None \<Rightarrow> limit = None
      | Some k \<Rightarrow> \<exists>c. jw_encode J secret_key c = Ok (cookie_val K k) \<and> cl_user_id c = 0 \<and> limit = Some (cl_exp c))"

definition input_limit :: "jwt_api \<Rightarrow> ('i, 'j) input_api \<Rightarrow> ('j, 'k) cookie_api \<Rightarrow> 'i \<Rightarrow> int option \<Rightarrow> bool" where
  "input_limit J I K i limit \<longleftrightarrow> (\<exists>jar i'. in_cookies I i = (Ok jar, i') \<and> token_limit J K jar limit)"

lemma jwt_index_step:
  assumes "jwt_laws J expired" "token_limit J K jar limit"
  shows "jwt_index H J K now jar = (fst (jwt_step H expired (now, JwtIndex) limit), jar)"
proof (cases "jar_get K jar ''token''")
  case (Some k)
  with assms(2) obtain c where c: "jw_encode J secret_key c = Ok (cookie_val K k)" "cl_user_id c = 0"
      "limit = Some (cl_exp c)"
    by (auto simp: token_limit_def)
  with Some show ?thesis
    by (simp add: jwt_index_def jwt_step_def parse_token_def jwt_lawsD(2)[OF assms(1) c(1)])
qed (use assms(2) in \<open>simp add: jwt_index_def jwt_step_def token_limit_def\<close>)

lemma jwt_login_step:
  assumes J: "jwt_laws J expired" and K: "jar_laws K" and t: "token_limit J K jar limit"
  shows "\<exists>jar'. jwt_login J K fail now u p jar = (fst (jwt_step H expired (now, JwtLogin u p) limit), jar') \<and>
    token_limit J K jar' (snd (jwt_step H expired (now, JwtLogin u p) limit))"
proof (cases "u = ''user1'' \<and> p = ''user1''")
  case True
  let ?c = "\<lparr>cl_user_id = 0, cl_iat = now, cl_exp = now + 86400, cl_nbf = now\<rparr>"
  obtain s where "jw_encode J secret_key ?c = Ok s" using jwt_lawsD(1)[OF J] by blast
  with True K show ?thesis
    by (auto simp: jwt_login_def jwt_step_def generate_token_def token_limit_def jar_get_added jar_lawsD(4)
        intro!: exI[of _ ?c])
next
  case False
  with t show ?thesis by (auto simp: jwt_login_def jwt_step_def)
qed

lemma jwt_logout_step:
  assumes "jar_laws K"
  shows "\<exists>jar'. jwt_logout K jar = (fst (jwt_step H expired (now, JwtLogout) limit), jar') \<and> token_limit J K jar' None"
  using assms by (simp add: jwt_logout_def jwt_step_def token_limit_def jar_get_removed)

lemma with_cookies_step:
  assumes "input_laws I" "in_cookies I i = (Ok jar, i1)"
    and "handler jar = (r, jar')" "token_limit J K jar' limit'"
  shows "\<exists>i'. with_cookies I handler i = (r, i') \<and> input_limit J I K i' limit'"
  using assms by (auto simp: with_cookies_def input_limit_def input_laws_def)

lemma jwt_request_step:
  assumes J: "jwt_laws J expired" and K: "jar_laws K" and I: "input_laws I"
    and start: "input_limit J I K i limit"
  shows "\<exists>i'. jwt_request H J I K fail rq i = (fst (jwt_step H expired rq limit), i') \<and>
    input_limit J I K i' (snd (jwt_step H expired rq limit))"
proof -
  obtain now rt where rq: "rq = (now, rt)" by (cases rq)
  from start obtain jar i1 where i: "in_cookies I i = (Ok jar, i1)" and t: "token_limit J K jar limit"
    by (auto simp: input_limit_def)
  show ?thesis
  proof (cases rt)
    case JwtIndex
    with with_cookies_step[where handler = "jwt_index H J K now", OF I i jwt_index_step[OF J t] t] show ?thesis
      by (simp add: rq jwt_request_def jwt_step_def)
  next
    case JwtLoginPage
    with start show ?thesis by (simp add: rq jwt_request_def jwt_step_def)
  next
    case (JwtLogin u p)
    obtain jar' where l: "jwt_login J K fail now u p jar = (fst (jwt_step H expired (now, JwtLogin u p) limit), jar')"
      "token_limit J K jar' (snd (jwt_step H expired (now, JwtLogin u p) limit))"
      using jwt_login_step[OF J K t] by blast
    from with_cookies_step[where handler = "jwt_login J K fail now u p", OF I i l] JwtLogin show ?thesis
      by (simp add: rq jwt_request_def)
  next
    case JwtLogout
    obtain jar' where l: "jwt_logout K jar = (fst (jwt_step H expired (now, JwtLogout) limit), jar')"
      "token_limit J K jar' None"
      using jwt_logout_step[OF K] by blast
    from with_cookies_step[where handler = "jwt_logout K", OF I i l] JwtLogout show ?thesis
      by (simp add: rq jwt_request_def jwt_step_def)
  qed
qed

text \<open>
  C36: The token example refines a program whose only state is the time limit of the token a client
  was given last: whatever the requests and their times are, the client gets the pages and the
  errors of that program, so the index is shown from a login with the right password until the
  token expires or the client logs out.
\<close>

lemma jwt_refines:
  assumes J: "jwt_laws J expired" and K: "jar_laws K" and I: "input_laws I"
    and start: "in_cookies I i = (Ok jar, i')" "jar_get K jar ''token'' = None"
  shows "fst (serve (map (jwt_request H J I K fail) rqs) i) = fst (serve (map (jwt_step H expired) rqs) None)"
proof -
  have "input_limit J I K i None" using start by (simp add: input_limit_def token_limit_def)
  from serve_simulates[of "input_limit J I K" "jwt_request H J I K fail" "jwt_step H expired",
      OF jwt_request_step[OF J K I] this]
  show ?thesis by (metis fst_conv)
qed

text \<open>A client whose token has expired gets an error from the index until it logs in again or out.\<close>

lemma jwt_expired_rejected:
  assumes "jwt_laws J expired" "token_limit J K jar (Some t)" "t < now"
  shows "jwt_index H J K now jar = (Err (bad_request expired), jar)"
  using jwt_index_step[OF assms(1,2), of H now] assms(3) by (simp add: jwt_step_def)

section \<open>An instance of the laws\<close>

text \<open>A token that is its key followed by the claims in unary notation.\<close>

definition unary :: "int \<Rightarrow> string" where
  "unary i = (if i < 0 then CHR ''-'' else CHR ''+'') # replicate (nat \<bar>i\<bar>) (CHR ''1'')"

definition read_unary :: "string \<Rightarrow> int \<times> string" where
  "read_unary s =
     (let ds = takeWhile (\<lambda>c. c = CHR ''1'') (tl s) in
      (if hd s = CHR ''-'' then - int (length ds) else int (length ds), drop (length ds) (tl s)))"

lemma read_unary: "rest = [] \<or> hd rest \<noteq> CHR ''1'' \<Longrightarrow> read_unary (unary i @ rest) = (i, rest)"
proof -
  assume "rest = [] \<or> hd rest \<noteq> CHR ''1''"
  then have "takeWhile (\<lambda>c. c = CHR ''1'') (replicate n (CHR ''1'') @ rest) = replicate n (CHR ''1'')" for n
    by (induction n) (cases rest; auto)+
  then show ?thesis by (auto simp: read_unary_def unary_def Let_def)
qed

definition demo_jwt :: jwt_api where
  "demo_jwt =
     \<lparr>jw_encode = (\<lambda>key c. Ok (key @ unary (cl_user_id c) @ unary (cl_iat c) @ unary (cl_exp c) @ unary (cl_nbf c))),
      jw_decode = (\<lambda>key now s.
        if take (length key) s = key then
          (let (u, s) = read_unary (drop (length key) s); (a, s) = read_unary s; (e, s) = read_unary s;
               (n, s) = read_unary s
           in if now \<le> e then Ok \<lparr>cl_user_id = u, cl_iat = a, cl_exp = e, cl_nbf = n\<rparr>
              else Err ''ExpiredSignature'')
        else Err ''InvalidSignature'')\<rparr>"

lemma hd_unary: "hd (unary i @ rest) \<noteq> CHR ''1''" "hd (unary i) \<noteq> CHR ''1''"
  by (simp_all add: unary_def)

lemma demo_jwt_laws: "jwt_laws demo_jwt ''ExpiredSignature''"
proof -
  have "read_unary (unary i) = (i, [])" for i using read_unary[of "[]" i] by simp
  then show ?thesis
    unfolding jwt_laws_def demo_jwt_def by (auto simp: is_ok_def read_unary hd_unary)
qed

lemma user_page_demo: "user_page 0 = ''<p>logged in (used_id = 0)</p>''"
  by code_simp

lemma jwt_refines_witness:
  "fst (serve (map (jwt_request list_http demo_jwt jar_input list_cookies bad_request)
      [(1000, JwtIndex), (1010, JwtLogin ''user1'' ''secret''), (1020, JwtLogin ''user1'' ''user1''),
       (87420, JwtIndex), (87421, JwtIndex), (87422, JwtLogout), (87423, JwtIndex)]) []) =
     [Ok (Inr (redirect_see_other ''/login'')), Err (err_msg ''invalid user'' UNAUTHORIZED),
      Ok (Inr (redirect_found ''/'')), Ok (Inl (html list_http ''<p>logged in (used_id = 0)</p>'')),
      Err (bad_request ''ExpiredSignature''), Ok (Inr (redirect_see_other ''/login'')),
      Ok (Inr (redirect_see_other ''/login''))]"
proof -
  have start: "in_cookies jar_input [] = (Ok [], [])" "jar_get list_cookies [] ''token'' = None"
    by (simp_all add: jar_input_def list_cookies_def)
  show ?thesis
    unfolding jwt_refines[OF demo_jwt_laws list_cookies_laws jar_input_laws start]
    by (simp add: jwt_step_def user_page_demo)
qed

end
