(* ===== verification/Finch_Todos.thy ===== *)
theory Finch_Todos
  imports Finch_Prelude "HOL-Library.Word"
begin

text \<open>
  \<open>finchers-juniper/examples/todos.rs\<close>: the repository behind the resolvers of the GraphQL
  example. Identifiers are signed 32-bit numbers that a counter hands out.
\<close>

section \<open>The repository\<close>

record todo =
  td_id :: "32 word"
  td_title :: string
  td_text :: string
  td_published :: bool

text \<open>The inner state behind its \<open>RwLock\<close>, which is poisoned when a writer panicked.\<close>

record repository =
  rp_todos :: "32 word \<Rightarrow> todo option"
  rp_counter :: "32 word"
  rp_poisoned :: bool

definition repository_init :: repository where
  "repository_init = \<lparr>rp_todos = Map.empty, rp_counter = 0, rp_poisoned = False\<rparr>"

definition poison_text :: string where
  "poison_text = ''poisoned lock: another task failed inside''"

text \<open>\<open>i32::checked_add\<close>.\<close>

definition checked_add :: "32 word \<Rightarrow> 32 word \<Rightarrow> 32 word option" where
  "checked_add x y =
     (let s = sint x + sint y in if - (2 ^ 31) \<le> s \<and> s < 2 ^ 31 then Some (x + y) else None)"

text \<open>\<open>HashMap::values\<close> enumerates the values in an order of its own.\<close>

definition all_todos ::
  "((32 word \<Rightarrow> todo option) \<Rightarrow> todo list) \<Rightarrow> repository \<Rightarrow> (todo list, string) result" where
  "all_todos map_values r = (if rp_poisoned r then Err poison_text else Ok (map_values (rp_todos r)))"

definition find_todo_by_id :: "32 word \<Rightarrow> repository \<Rightarrow> (todo option, string) result" where
  "find_todo_by_id i r = (if rp_poisoned r then Err poison_text else Ok (rp_todos r i))"

definition create_todo :: "string \<Rightarrow> string \<Rightarrow> repository \<Rightarrow> (todo, string) result \<times> repository" where
  "create_todo title tx r =
     (if rp_poisoned r then (Err poison_text, r)
      else
        let new_todo = \<lparr>td_id = rp_counter r, td_title = title, td_text = tx, td_published = False\<rparr> in
        case checked_add (rp_counter r) 1 of
          None \<Rightarrow> (Err ''overflow detected'', r)
        | Some counter \<Rightarrow>
            (Ok new_todo,
             r\<lparr>rp_counter := counter, rp_todos := (rp_todos r)(td_id new_todo \<mapsto> new_todo)\<rparr>))"

section \<open>The resolvers\<close>

datatype todo_query = ApiVersion | Todos | TodoById "32 word" | CreateTodo string string

text \<open>The object type of the schema wraps a todo; its fields are those of the todo.\<close>

datatype gql_todo = GqlTodo todo

datatype gql_todo_value = IntValue "32 word" | TextValue string | BoolValue bool

definition gql_todo_fields :: "gql_todo \<Rightarrow> (string \<times> gql_todo_value) list" where
  "gql_todo_fields t =
     (case t of GqlTodo x \<Rightarrow>
        [(''id'', IntValue (td_id x)), (''title'', TextValue (td_title x)),
         (''text'', TextValue (td_text x)), (''published'', BoolValue (td_published x))])"

datatype field_value =
  VersionField string | TodosField "gql_todo list" | TodoField "gql_todo option" | CreatedField gql_todo

definition resolve ::
  "((32 word \<Rightarrow> todo option) \<Rightarrow> todo list) \<Rightarrow> todo_query \<Rightarrow> repository \<Rightarrow> (field_value, string) result \<times> repository" where
  "resolve map_values q r =
     (case q of
        ApiVersion \<Rightarrow> (Ok (VersionField ''1.0''), r)
      | Todos \<Rightarrow> (map_ok (\<lambda>ts. TodosField (map GqlTodo ts)) (all_todos map_values r), r)
      | TodoById i \<Rightarrow> (map_ok (\<lambda>t. TodoField (map_option GqlTodo t)) (find_todo_by_id i r), r)
      | CreateTodo title tx \<Rightarrow> (case create_todo title tx r of (res, r') \<Rightarrow> (map_ok (\<lambda>t. CreatedField (GqlTodo t)) res, r')))"

section \<open>A repository is a list of todos\<close>

text \<open>
  The specification: the todos in the order of their creation, numbered from zero. The last
  number is never handed out: creating it would need a counter beyond the range of the type.
\<close>

definition numbered :: "todo list \<Rightarrow> bool" where
  "numbered ts \<longleftrightarrow> length ts < 2 ^ 31 \<and> (\<forall>k < length ts. td_id (ts ! k) = of_nat k)"

definition repo_list :: "repository \<Rightarrow> todo list \<Rightarrow> bool" where
  "repo_list r ts \<longleftrightarrow>
     numbered ts \<and> \<not> rp_poisoned r \<and> rp_counter r = of_nat (length ts) \<and>
     (\<forall>i. rp_todos r i = (if unat i < length ts then Some (ts ! unat i) else None))"

definition spec_create :: "string \<Rightarrow> string \<Rightarrow> todo list \<Rightarrow> (todo, string) result \<times> todo list" where
  "spec_create title tx ts =
     (if length ts < 2 ^ 31 - 1
      then let t = \<lparr>td_id = of_nat (length ts), td_title = title, td_text = tx, td_published = False\<rparr> in (Ok t, ts @ [t])
      else (Err ''overflow detected'', ts))"

lemma sint_of_nat: "n < 2 ^ 31 \<Longrightarrow> sint (of_nat n :: 32 word) = int n"
  by (subst signed_of_nat) (simp add: signed_take_bit_int_eq_self)

lemma unat_of_nat_small: "n < 2 ^ 31 \<Longrightarrow> unat (of_nat n :: 32 word) = n"
  by (simp add: unat_of_nat)

lemma checked_add_counter:
  assumes "n < 2 ^ 31"
  shows "checked_add (of_nat n) 1 = (if n < 2 ^ 31 - 1 then Some (of_nat (Suc n)) else None)"
proof -
  have "sint (1 :: 32 word) = 1" by simp
  with assms show ?thesis by (auto simp: checked_add_def sint_of_nat Let_def add.commute)
qed

lemma repo_list_init: "repo_list repository_init []"
  by (simp add: repo_list_def numbered_def repository_init_def)

lemma create_refines:
  assumes "repo_list r ts"
  shows "\<exists>r'. create_todo title tx r = (fst (spec_create title tx ts), r') \<and>
    repo_list r' (snd (spec_create title tx ts))"
proof (cases "length ts < 2 ^ 31 - 1")
  case True
  let ?t = "\<lparr>td_id = of_nat (length ts), td_title = title, td_text = tx, td_published = False\<rparr>"
  let ?r = "r\<lparr>rp_counter := of_nat (Suc (length ts)), rp_todos := (rp_todos r)(of_nat (length ts) \<mapsto> ?t)\<rparr>"
  have n: "length ts < 2 ^ 31" using True by simp
  have "create_todo title tx r = (Ok ?t, ?r)"
    using assms True checked_add_counter[OF n] by (simp add: create_todo_def repo_list_def Let_def)
  moreover have "numbered (ts @ [?t])"
    using assms True by (auto simp: repo_list_def numbered_def nth_append less_Suc_eq)
  moreover have "i = of_nat (length ts) \<longleftrightarrow> unat i = length ts" for i :: "32 word"
    using unat_of_nat_small[OF n] by (simp add: word_eq_iff_unsigned[where ?'a = nat])
  ultimately show ?thesis
    using assms True by (auto simp: repo_list_def spec_create_def Let_def nth_append)
next
  case False
  with assms have "checked_add (rp_counter r) 1 = None"
    using checked_add_counter[of "length ts"] by (simp add: repo_list_def numbered_def)
  with assms False show ?thesis by (simp add: create_todo_def spec_create_def repo_list_def)
qed

lemma find_refines:
  assumes "repo_list r ts"
  shows "find_todo_by_id i r = Ok (if unat i < length ts then Some (ts ! unat i) else None)"
  using assms by (simp add: find_todo_by_id_def repo_list_def)

lemma all_refines:
  assumes "repo_list r ts" and "\<And>m. set (map_values m) = ran m"
  shows "\<exists>xs. all_todos map_values r = Ok xs \<and> set xs = set ts"
proof -
  have "ran (rp_todos r) = set ts"
  proof (intro equalityI subsetI)
    fix t assume "t \<in> ran (rp_todos r)"
    then obtain i where "rp_todos r i = Some t" by (auto simp: ran_def)
    with assms(1) show "t \<in> set ts" by (auto simp: repo_list_def split: if_splits)
  next
    fix t assume "t \<in> set ts"
    then obtain k where k: "k < length ts" "ts ! k = t" by (auto simp: in_set_conv_nth)
    with assms(1) have "rp_todos r (of_nat k) = Some t"
      by (simp add: repo_list_def numbered_def unat_of_nat_small)
    then show "t \<in> ran (rp_todos r)" by (auto simp: ran_def)
  qed
  with assms show ?thesis by (simp add: all_todos_def repo_list_def)
qed

text \<open>The resolvers on the list, and on the repository.\<close>

definition by_number :: "todo list \<Rightarrow> 32 word \<Rightarrow> todo option" where
  "by_number ts i = (if unat i < length ts then Some (ts ! unat i) else None)"

definition spec_resolve ::
  "((32 word \<Rightarrow> todo option) \<Rightarrow> todo list) \<Rightarrow> todo_query \<Rightarrow> todo list \<Rightarrow> (field_value, string) result \<times> todo list" where
  "spec_resolve map_values q ts =
     (case q of
        ApiVersion \<Rightarrow> (Ok (VersionField ''1.0''), ts)
      | Todos \<Rightarrow> (Ok (TodosField (map GqlTodo (map_values (by_number ts)))), ts)
      | TodoById i \<Rightarrow> (Ok (TodoField (map_option GqlTodo (by_number ts i))), ts)
      | CreateTodo title tx \<Rightarrow> (case spec_create title tx ts of (res, ts') \<Rightarrow> (map_ok (\<lambda>t. CreatedField (GqlTodo t)) res, ts')))"

lemma repo_list_todos: "repo_list r ts \<Longrightarrow> rp_todos r = by_number ts"
  by (auto simp: repo_list_def by_number_def)

lemma resolve_refines:
  assumes "repo_list r ts"
  shows "\<exists>r'. resolve map_values q r = (fst (spec_resolve map_values q ts), r') \<and>
    repo_list r' (snd (spec_resolve map_values q ts))"
proof (cases q)
  case (CreateTodo title tx)
  with create_refines[OF assms, of title tx] show ?thesis
    by (auto simp: resolve_def spec_resolve_def split: prod.splits)
qed (use assms repo_list_todos[OF assms] in
     \<open>auto simp: resolve_def spec_resolve_def all_todos_def find_todo_by_id_def repo_list_def\<close>)

text \<open>
  C33: The repository of the GraphQL example refines a list of todos numbered in the order of their
  creation: every sequence of queries and mutations gives the results of the list, and once the
  32-bit counter is exhausted creating a todo fails and changes nothing.
\<close>

lemma todos_refine:
  "\<exists>r. serve (map (resolve map_values) qs) repository_init =
     (fst (serve (map (spec_resolve map_values) qs) []), r) \<and>
   repo_list r (snd (serve (map (spec_resolve map_values) qs) []))"
  by (rule serve_simulates[where R = repo_list, OF resolve_refines repo_list_init])

text \<open>What is created is found under its number and never changed by later requests.\<close>

lemma spec_keeps: "\<exists>us. snd (serve (map (spec_resolve map_values) qs) ts) = ts @ us"
proof (induction qs arbitrary: ts)
  case (Cons q qs)
  have "\<exists>us. snd (spec_resolve map_values q ts) = ts @ us"
    by (auto simp: spec_resolve_def spec_create_def Let_def split: todo_query.split prod.splits if_splits)
  then obtain us where "snd (spec_resolve map_values q ts) = ts @ us" ..
  with Cons.IH[of "ts @ us"] show ?case by (auto simp: split_beta)
qed simp

lemma gql_todo_fields_inject: "gql_todo_fields s = gql_todo_fields t \<longleftrightarrow> s = t"
  by (cases s; cases t) (auto simp: gql_todo_fields_def intro: todo.equality)

lemma created_todo_found:
  assumes "repo_list r ts" and "create_todo title tx r = (Ok t, r1)"
    and "serve (map (resolve map_values) qs) r1 = (rs, r2)"
  shows "find_todo_by_id (td_id t) r2 = Ok (Some t)"
proof -
  from create_refines[OF assms(1), of title tx] assms(2) have
    t: "fst (spec_create title tx ts) = Ok t" and r1: "repo_list r1 (snd (spec_create title tx ts))" by auto
  then have ts: "snd (spec_create title tx ts) = ts @ [t]" "td_id t = of_nat (length ts)" "length ts < 2 ^ 31"
    by (auto simp: spec_create_def Let_def split: if_splits)
  from serve_simulates[where R = repo_list and f = "resolve map_values" and g = "spec_resolve map_values",
      OF resolve_refines r1, of qs] assms(3) have
    "repo_list r2 (snd (serve (map (spec_resolve map_values) qs) (ts @ [t])))"
    by (simp add: ts)
  moreover obtain us where "snd (serve (map (spec_resolve map_values) qs) (ts @ [t])) = (ts @ [t]) @ us"
    using spec_keeps by blast
  ultimately show ?thesis
    using ts(2,3) by (simp add: find_refines unat_of_nat_small nth_append)
qed

lemma created_todo_found_witness:
  "find_todo_by_id 0 (snd (create_todo ''b'' ''y'' (snd (create_todo ''a'' ''x'' repository_init)))) =
     Ok (Some \<lparr>td_id = 0, td_title = ''a'', td_text = ''x'', td_published = False\<rparr>)"
proof -
  let ?t = "\<lparr>td_id = 0, td_title = ''a'', td_text = ''x'', td_published = False\<rparr>"
  have "fst (create_todo ''a'' ''x'' repository_init) = Ok ?t" by code_simp
  then have first: "create_todo ''a'' ''x'' repository_init = (Ok ?t, snd (create_todo ''a'' ''x'' repository_init))"
    by (metis prod.collapse)
  have "snd (serve (map (resolve (\<lambda>_. [])) [CreateTodo ''b'' ''y'']) r1) = snd (create_todo ''b'' ''y'' r1)" for r1
    by (simp add: resolve_def split_beta)
  then have "serve (map (resolve (\<lambda>_. [])) [CreateTodo ''b'' ''y'']) r1 =
      (fst (serve (map (resolve (\<lambda>_. [])) [CreateTodo ''b'' ''y'']) r1), snd (create_todo ''b'' ''y'' r1))" for r1
    by (metis prod.collapse)
  from created_todo_found[OF repo_list_init first this] show ?thesis by simp
qed

text \<open>The counter overflows before the todo is stored, so a failed request changes nothing.\<close>

lemma create_todo_overflow:
  assumes "\<not> rp_poisoned r" and "rp_counter r = 0x7FFFFFFF"
  shows "create_todo title tx r = (Err ''overflow detected'', r)"
  using assms by (simp add: create_todo_def checked_add_def Let_def)

end
