(* ===== verification/Spec2Isabelle.thy ===== *)
theory Spec2Isabelle
  imports Finch_Ext_And Finch_Ext_Map Finch_Ext_Then Finch_Ext_Or Finch_Verbs Finch_Syntax Finch_Service Finch_Header Finch_Body Finch_Output Finch_Fs Finch_Session_Cookie Finch_Client Finch_Redis Finch_Template Finch_Graphql_Exec Finch_Websocket Finch_Test_Runner Finch_Algebra Finch_Routes Finch_Conformance Finch_Session_Apps Finch_Jwt Finch_Todos
begin

text \<open>
  A verification development for \<open>finchers\<close>, a combinator library for asynchronous HTTP services,
  and its companion crates for sessions, templates, GraphQL and WebSocket. Paths of sources are
  relative to the root of the repository.

  \<^bold>\<open>The program.\<close> An endpoint describes how a request is handled. For every request it spawns an
  action, which works in two phases. The preflight sees the request and a cursor on its path; it
  rejects the request, completes with a value, or asks to be polled. Polling has the context of the
  request and its body, and ends with a value or an error. Combinators build endpoints from
  endpoints, \<open>AppService\<close> runs the action of an endpoint for each request and makes the response of
  its result, of the cookies that changed and of the headers the handlers added.

  \<^bold>\<open>Conventions.\<close> A Rust struct is a record, an enum a datatype, \<open>Result\<close> the datatype \<open>result\<close>
  (constructors \<open>Ok\<close> and \<open>Err\<close>), \<open>Poll\<close> a result of \<open>Ready\<close> or \<open>NotReady\<close>, a 1-tuple the datatype
  \<open>one\<close>. Whatever can panic (an index out of range, an \<open>unwrap\<close>, an assertion, a state that is
  used after its end) has the type \<open>run\<close>, whose value \<open>Panic\<close> is that outcome. Methods that take
  \<open>&mut self\<close> return the new state. Strings are byte strings. Sets of verbs and the identifiers
  of the GraphQL example are 32-bit words; positions in a path are natural numbers, with slicing
  past the end a panic. A future is the function that polls its state (\<open>future_fn\<close>).

  \<^bold>\<open>Third-party code\<close> is an argument: a record of the operations the sources call (\<open>http_api\<close>,
  \<open>cookie_api\<close>, \<open>percent_api\<close>, \<open>mime_api\<close>, \<open>buf_stream\<close>, \<open>input_api\<close>, \<open>uuid_api\<close>, \<open>redis_api\<close>,
  \<open>engine_impl\<close>, \<open>uri_api\<close>, \<open>jwt_api\<close> and others) and, where a proof relies on it, a predicate that states its
  documented behaviour (\<open>http_laws\<close>, \<open>jar_laws\<close>, \<open>wire_laws\<close>, \<open>percent_laws\<close>,
  \<open>redis_laws\<close>, \<open>jwt_laws\<close>). For each of
  these the library has an instance (\<open>list_http\<close>, \<open>list_cookies\<close>, \<open>demo_wire\<close>, \<open>percent_ref\<close>, \<open>map_redis\<close>, \<open>demo_jwt\<close>) that
  satisfies the predicate, which the witnesses use.

  \<^bold>\<open>Theories.\<close>

  \<^item> Foundations. \<open>Finch_Prelude\<close>: results, polling, panics, strings and UTF-8. \<open>Finch_Http\<close>: header
    maps and requests. \<open>Finch_Errors\<close> (\<open>src/error.rs\<close>): the error types with their status codes and
    texts. \<open>Finch_Tuples\<close> (\<open>src/common/\<close>): tuples, heterogeneous lists, \<open>Combine\<close> and \<open>Func\<close>.
    \<open>Finch_Context\<close> (\<open>src/service.rs\<close>): the context of a request, its cookie jar and the thread-local
    pointer to it.
  \<^item> Actions. \<open>Finch_Cursor\<close> and \<open>Finch_Action\<close> (\<open>src/action.rs\<close>, \<open>src/endpoint.rs\<close>): the cursor, the
    two-phase protocol, oneshot actions. \<open>Finch_Protocol\<close> states the contract of an action as the
    locale \<open>endpoint_action\<close>: the preflight does not panic and moves the cursor forward only, and no
    poll panics before the value is ready. \<open>Finch_Resolve\<close> defines what an action comes to
    (\<open>resolves\<close>), independent of how often it is polled, and relates it to a caller with a bound
    on the polls.
  \<^item> Combinators (\<open>src/endpoint/ext/\<close>, \<open>src/endpoint/boxed.rs\<close>). \<open>Finch_Ext_And\<close>, \<open>Finch_Ext_Map\<close>,
    \<open>Finch_Ext_Then\<close>, \<open>Finch_Ext_Or\<close>: state machines as the code has them. For each the theory
    shows what it resolves to in terms of its parts, and that it keeps the contract.
    \<open>Finch_Endpoint_Ext\<close> has the methods that build them, and pairs of endpoints as locales with
    the combinators as sublocales; the primitive endpoints are interpretations of the contract.
    \<open>Finch_Algebra\<close> gives endpoints a compositional meaning, so that laws of combinators are
    equations: conjunction is associative, unit is neutral, a common prefix can be factored out of
    a strict choice.
  \<^item> Endpoints. \<open>Finch_Verbs\<close>, \<open>Finch_Encoded\<close>, \<open>Finch_Syntax\<close>, \<open>Finch_Macro\<close> (\<open>src/endpoint/syntax/\<close>,
    \<open>finchers-macros/\<close>): methods, path segments, and the path macro with its parser and the code
    it generates, compared with a matcher on lists of segments. \<open>Finch_Header\<close>, \<open>Finch_Body\<close>,
    \<open>Finch_Fs\<close> with \<open>Finch_File\<close> (\<open>src/endpoints/\<close>, \<open>src/output/fs.rs\<close>). \<open>Finch_Output\<close>
    (\<open>src/output/\<close>): the responders.
  \<^item> The service. \<open>Finch_Service\<close> (\<open>src/service.rs\<close>): the future of a request refines the meaning of
    the endpoint, does not panic, and loses no header. \<open>Finch_Routes\<close> follows a request through verb,
    path, closure and service. \<open>Finch_Test_Runner\<close> (\<open>src/test.rs\<close>) observes the meaning of an
    endpoint, and \<open>Finch_Conformance\<close> runs the tests of the repository through it.
  \<^item> Companion crates. \<open>Finch_Future\<close>: futures that are polled without a context, chains of them.
    \<open>Finch_Session\<close>, \<open>Finch_Session_Cookie\<close>, \<open>Finch_Redis\<close> (\<open>finchers-session/\<close>): the three backends
    as interpretations of the locale \<open>session_backend\<close>, whose state is the cookie jar of the request and
    what the server stores. \<open>Finch_Client\<close> follows the cookie of the cookie backend through a client that
    stores cookies as RFC 6265 says, over several paths and domains. \<open>Finch_Session_Apps\<close>: the example programs
    over any backend (locale \<open>session_endpoint\<close>), refined to a counter and to the name of a user.
    \<open>Finch_Jwt\<close> (\<open>examples/jwt-auth/\<close>): a login with a token in a cookie, refined to a time limit.
    \<open>Finch_Template\<close> (\<open>finchers-template/\<close>), \<open>Finch_Graphql\<close>, \<open>Finch_Graphql_Exec\<close>
    (\<open>finchers-juniper/\<close>), \<open>Finch_Todos\<close> (its example), \<open>Finch_Websocket\<close> (\<open>finchers-tungstenite/\<close>).

  \<^bold>\<open>Bounds.\<close> Loops of the code are recursive functions with a termination proof (the cursor by the
  rest of the path, the iterator of verbs by the bits above its cursor), except the loop that
  receives a body, which is a \<open>partial_function\<close>: a stream that always has another item keeps it
  running. Callers that poll a bounded number of times (\<open>poll_times\<close>, \<open>drive\<close>) are shown to
  observe exactly the relations \<open>polls_to\<close>, \<open>resolves\<close> and \<open>ends_at\<close>: a result that the relation
  gives is reached with some bound, and a bounded run that ends gives a result of the relation.

  \<^bold>\<open>Not modelled.\<close>

  \<^item> \<open>src/server/\<close> is not a module of the crate (\<open>src/lib.rs\<close> does not declare it, and it uses modules
    that no longer exist), so there is no program to model.
  \<^item> The tuples are written out up to four components; the macros of \<open>src/common/\<close> generate the
    others, up to sixteen, by the same pattern. Of the implementations of \<open>FromEncodedStr\<close> those of
    floating-point numbers and network addresses differ in the parser of the standard library only.
  \<^item> \<open>Debug\<close> implementations and accessors of a single field have no definition of their own.
  \<^item> In the client of \<open>Finch_Client\<close>: the clock (a cookie with a positive lifetime does not expire between two
    requests), requests from other sites, and hosts other than one.
  \<^item> The runtime, the routing of the older releases of finchers the companion crates are written
    against, and the remaining programs under \<open>examples/\<close>, which start a server on a few endpoints.
\<close>

end
